(* ===== verification/Go_Time.thy ===== *)
theory Go_Time
  imports Op_Prelude
begin

text \<open>
  The part of Go's \<open>time\<close> package that the operator uses: an instant is a number of
  nanoseconds since the Unix epoch, a \<open>Duration\<close> a number of nanoseconds; subtraction saturates
  at 64 bits; \<open>RFC3339_Parse\<close> and \<open>RFC3339_Format\<close> are \<open>time.Parse(time.RFC3339, _)\<close> and
  \<open>t.UTC().Format(time.RFC3339)\<close>, with the error texts of the parser. The process runs with
  \<open>time.Local\<close> equal to UTC, as in the operator's container image.
\<close>

type_synonym time = int
type_synonym duration = int

definition Second :: duration where "Second = 1000000000"
definition Minute :: duration where "Minute = 60 * Second"
definition Hour :: duration where "Hour = 60 * Minute"

lemmas duration_units = Second_def Minute_def Hour_def

text \<open>The zero \<open>time.Time\<close>: January 1, year 1, 00:00:00 UTC.\<close>

definition zero_time :: time where
  "zero_time = - 62135596800 * Second"

definition time_Sub :: "time \<Rightarrow> time \<Rightarrow> duration" where
  "time_Sub t u = max (- (2 ^ 63)) (min (2 ^ 63 - 1) (t - u))"

text \<open>\<open>Truncate(time.Second)\<close> and \<open>String\<close> of a duration of whole seconds.\<close>

definition trunc_sec :: "duration \<Rightarrow> duration" where
  "trunc_sec d = sgn d * (\<bar>d\<bar> div Second)"

definition fmt_secs :: "int \<Rightarrow> string" where
  "fmt_secs n =
     (let a = \<bar>n\<bar>; h = a div 3600; m = (a div 60) mod 60; s = a mod 60 in
      (if n < 0 then ''-'' else '''') @
      (if h \<noteq> 0 then fmt_int h @ ''h'' @ fmt_int m @ ''m''
       else if m \<noteq> 0 then fmt_int m @ ''m'' else '''') @
      fmt_int s @ ''s'')"

section \<open>The calendar\<close>

definition is_leap :: "int \<Rightarrow> bool" where
  "is_leap y \<longleftrightarrow> y mod 4 = 0 \<and> (y mod 100 \<noteq> 0 \<or> y mod 400 = 0)"

definition month_days :: "int \<Rightarrow> int list" where
  "month_days y = [31, if is_leap y then 29 else 28, 31, 30, 31, 30, 31, 31, 30, 31, 30, 31]"

definition daysIn :: "int \<Rightarrow> int \<Rightarrow> int" where
  "daysIn m y = month_days y ! nat (m - 1)"

text \<open>Days from 0001-01-01 to January 1 of year \<open>y\<close>, and to a date.\<close>

definition days_before_year :: "int \<Rightarrow> int" where
  "days_before_year y = 365 * (y - 1) + (y - 1) div 4 - (y - 1) div 100 + (y - 1) div 400"

definition days_of_date :: "int \<Rightarrow> int \<Rightarrow> int \<Rightarrow> int" where
  "days_of_date y m d = days_before_year y + sum_list (take (nat (m - 1)) (month_days y)) + (d - 1)"

definition year_of_days :: "int \<Rightarrow> int" where
  "year_of_days n =
     (let y = (400 * n) div 146097 + 1 in
      if days_before_year (y + 1) \<le> n then y + 1
      else if n < days_before_year y then y - 1 else y)"

fun month_of_yday :: "int list \<Rightarrow> int \<Rightarrow> int \<Rightarrow> int \<times> int" where
  "month_of_yday [] m n = (m, n + 1)"
| "month_of_yday (l # ls) m n = (if n < l then (m, n + 1) else month_of_yday ls (m + 1) (n - l))"

definition date_of_days :: "int \<Rightarrow> int \<times> int \<times> int" where
  "date_of_days n =
     (let y = year_of_days n;
          (m, d) = month_of_yday (month_days y) 1 (n - days_before_year y)
      in (y, m, d))"

text \<open>Days from 0001-01-01 to the Unix epoch.\<close>

definition epoch_days :: int where "epoch_days = 719162"

definition time_Date :: "int \<Rightarrow> int \<Rightarrow> int \<Rightarrow> int \<Rightarrow> int \<Rightarrow> int \<Rightarrow> int \<Rightarrow> time" where
  "time_Date y mo d h mi s ns =
     ((days_of_date y mo d - epoch_days) * 86400 + h * 3600 + mi * 60 + s) * Second + ns"

text \<open>\<open>t.AddDate(0, 0, -days)\<close> of a UTC time: whole days of 24 hours.\<close>

definition time_SubDays :: "time \<Rightarrow> int \<Rightarrow> time" where
  "time_SubDays t days = t - days * 86400 * Second"

section \<open>Format(time.RFC3339)\<close>

definition pad :: "nat \<Rightarrow> string \<Rightarrow> string" where
  "pad w s = replicate (w - length s) (CHR ''0'') @ s"

definition fmt_pad :: "nat \<Rightarrow> int \<Rightarrow> string" where
  "fmt_pad w i = (if i < 0 then CHR ''-'' # pad w (fmt_nat (nat (- i))) else pad w (fmt_nat (nat i)))"

text \<open>
  A time with the zone it carries, as the offset from UTC in seconds; Go prints the offset in
  whole minutes, and \<open>Z\<close> for the offset 0.
\<close>

type_synonym ztime = "time \<times> int"

definition fmt_zone :: "int \<Rightarrow> string" where
  "fmt_zone off =
     (if off = 0 then ''Z''
      else (let zone = sgn off * (\<bar>off\<bar> div 60); a = \<bar>zone\<bar> in
        (if zone < 0 then ''-'' else ''+'') @ fmt_pad 2 (a div 60) @ '':'' @ fmt_pad 2 (a mod 60)))"

definition RFC3339_FormatZ :: "ztime \<Rightarrow> string" where
  "RFC3339_FormatZ z =
     (let secs = fst z div Second + snd z; n = secs div 86400 + epoch_days; sod = secs mod 86400;
          (y, m, d) = date_of_days n
      in fmt_pad 4 y @ ''-'' @ fmt_pad 2 m @ ''-'' @ fmt_pad 2 d @ ''T'' @
         fmt_pad 2 (sod div 3600) @ '':'' @ fmt_pad 2 ((sod div 60) mod 60) @ '':'' @
         fmt_pad 2 (sod mod 60) @ fmt_zone (snd z))"

definition RFC3339_Format :: "time \<Rightarrow> string" where
  "RFC3339_Format t = RFC3339_FormatZ (t, 0)"

section \<open>Parse(time.RFC3339, _)\<close>

definition is_digit :: "char \<Rightarrow> bool" where
  "is_digit c \<longleftrightarrow> 48 \<le> (of_char c :: nat) \<and> (of_char c :: nat) \<le> 57"

definition digit_val :: "char \<Rightarrow> int" where
  "digit_val c = int (of_char c) - 48"

definition atoi :: "string \<Rightarrow> int" where
  "atoi s = foldl (\<lambda>a c. 10 * a + digit_val c) 0 s"

text \<open>The texts of \<open>time.ParseError\<close>; \<open>time_quote\<close> is the package's own quoting.\<close>

definition time_quote :: "string \<Rightarrow> string" where
  "time_quote s = [CHR 0x22] @ concat (map (\<lambda>c. let n = of_char c :: nat in
       if 128 \<le> n \<or> n < 32 then [CHR 0x5C, CHR ''x'', hex_char (n div 16), hex_char (n mod 16)]
       else if c = CHR 0x22 \<or> c = CHR 0x5C then [CHR 0x5C, c] else [c]) s) @ [CHR 0x22]"

definition rfc3339_layout :: string where
  "rfc3339_layout = ''2006-01-02T15:04:05Z07:00''"

definition cannot_parse :: "string \<Rightarrow> string \<Rightarrow> string \<Rightarrow> string" where
  "cannot_parse value elem layoutElem =
     ''parsing time '' @ time_quote value @ '' as '' @ time_quote rfc3339_layout @
     '': cannot parse '' @ time_quote elem @ '' as '' @ time_quote layoutElem"

definition parse_message :: "string \<Rightarrow> string \<Rightarrow> string" where
  "parse_message value msg = ''parsing time '' @ time_quote value @ msg"

text \<open>\<open>getnum\<close>: one or two digits, exactly two when \<open>fixed\<close>; \<open>None\<close> is \<open>errBad\<close>.\<close>

fun getnum :: "string \<Rightarrow> bool \<Rightarrow> (int \<times> string) option" where
  "getnum [] fixed = None"
| "getnum [a] fixed = (if is_digit a \<and> \<not> fixed then Some (digit_val a, []) else None)"
| "getnum (a # b # r) fixed =
     (if \<not> is_digit a then None
      else if \<not> is_digit b then (if fixed then None else Some (digit_val a, b # r))
      else Some (10 * digit_val a + digit_val b, r))"

text \<open>One literal byte of the layout, and one numeric field checked against its range.\<close>

fun skip_lit :: "string \<Rightarrow> char \<Rightarrow> string \<Rightarrow> string + string" where
  "skip_lit v c [] = Inl (cannot_parse v [] [c])"
| "skip_lit v c (x # xs) = (if x = c then Inr xs else Inl (cannot_parse v (x # xs) [c]))"

definition get_field :: "string \<Rightarrow> string \<Rightarrow> bool \<Rightarrow> (int \<Rightarrow> bool) \<Rightarrow> string \<Rightarrow> string \<Rightarrow> string + (int \<times> string)" where
  "get_field v std fixed ok what s =
     (case getnum s fixed of
        None \<Rightarrow> Inl (cannot_parse v s std)
      | Some (n, r) \<Rightarrow> if ok n then Inr (n, r) else Inl (parse_message v ('': '' @ what @ '' out of range'')))"

definition get_year :: "string \<Rightarrow> string \<Rightarrow> string + (int \<times> string)" where
  "get_year v s = (if length s < 4 \<or> \<not> list_all is_digit (take 4 s)
     then Inl (cannot_parse v s ''2006'') else Inr (atoi (take 4 s), drop 4 s))"

text \<open>A fraction after the seconds that the layout does not name: at most nine digits count.\<close>

definition get_fraction :: "string \<Rightarrow> int \<times> string" where
  "get_fraction s =
     (case s of
        c # d # r \<Rightarrow>
          if (c = CHR ''.'' \<or> c = CHR '','') \<and> is_digit d then
            (let ds = takeWhile is_digit (d # r); used = take 9 ds
             in (atoi used * 10 ^ (9 - length used), dropWhile is_digit (d # r)))
          else (0, s)
      | _ \<Rightarrow> (0, s))"

definition get_zone :: "string \<Rightarrow> string \<Rightarrow> string + (int \<times> string)" where
  "get_zone v s =
     (let bad = Inl (cannot_parse v s ''Z07:00'') in
      if s \<noteq> [] \<and> hd s = CHR ''Z'' then Inr (0, tl s)
      else if length s < 6 \<or> s ! 3 \<noteq> CHR '':'' then bad
      else (case getnum (take 2 (drop 1 s)) True of
              None \<Rightarrow> bad
            | Some (hr, _) \<Rightarrow>
                (case getnum (take 2 (drop 4 s)) True of
                   None \<Rightarrow>
                     if hr > 24 then Inl (parse_message v '': time zone offset hour out of range'') else bad
                 | Some (mm, _) \<Rightarrow>
                     if mm > 60 then Inl (parse_message v '': time zone offset minute out of range'')
                     else if hr > 24 then Inl (parse_message v '': time zone offset hour out of range'')
                     else if hd s = CHR ''+'' then Inr ((hr * 60 + mm) * 60, drop 6 s)
                     else if hd s = CHR ''-'' then Inr (- ((hr * 60 + mm) * 60), drop 6 s)
                     else bad)))"

definition RFC3339_Parse :: "string \<Rightarrow> string + time" where
  "RFC3339_Parse v =
     sbind (get_year v v) (\<lambda>(y, s).
     sbind (skip_lit v (CHR ''-'') s) (\<lambda>s.
     sbind (get_field v ''01'' True (\<lambda>n. 1 \<le> n \<and> n \<le> 12) ''month'' s) (\<lambda>(mo, s).
     sbind (skip_lit v (CHR ''-'') s) (\<lambda>s.
     sbind (get_field v ''02'' True (\<lambda>n. True) ''day'' s) (\<lambda>(d, s).
     sbind (skip_lit v (CHR ''T'') s) (\<lambda>s.
     sbind (get_field v ''15'' False (\<lambda>n. 0 \<le> n \<and> n < 24) ''hour'' s) (\<lambda>(h, s).
     sbind (skip_lit v (CHR '':'') s) (\<lambda>s.
     sbind (get_field v ''04'' True (\<lambda>n. 0 \<le> n \<and> n < 60) ''minute'' s) (\<lambda>(mi, s).
     sbind (skip_lit v (CHR '':'') s) (\<lambda>s.
     sbind (get_field v ''05'' True (\<lambda>n. 0 \<le> n \<and> n < 60) ''second'' s) (\<lambda>(sec, s).
     (case get_fraction s of (ns, s) \<Rightarrow>
     sbind (get_zone v s) (\<lambda>(off, s).
       if s \<noteq> [] then Inl (parse_message v ('': extra text: '' @ time_quote s))
       else if d < 1 \<or> daysIn mo y < d then Inl (parse_message v '': day out of range'')
       else Inr (time_Date y mo d h mi sec ns - off * Second))))))))))))))"

end
