(* ===== verification/Crd_Types.thy ===== *)
theory Crd_Types
  imports Op_Prelude Go_Time
begin

text \<open>
  The custom resource \<open>BasetenModel\<close> (\<open>api/v1alpha1/basetenmodel_types.go\<close>): one record per Go
  struct with the fields in the order of the source. A record's fields carry a prefix, because
  Isabelle's field names are global; a pointer is an option, \<open>int32\<close> is a 32-bit word, the
  empty string of an optional string field is kept as the empty string, and a \<open>metav1.Time\<close>
  is an instant.
\<close>

definition FinalizerName :: string where
  "FinalizerName = ''models.baseten.com/finalizer''"

type_synonym DeletionPolicy = string
type_synonym ReconcileMode = string

definition DeletionPolicyRetain :: DeletionPolicy where
  "DeletionPolicyRetain = ''Retain''"

definition DeletionPolicyDelete :: DeletionPolicy where
  "DeletionPolicyDelete = ''Delete''"

definition DeletionPolicyDeleteWithGuardrails :: DeletionPolicy where
  "DeletionPolicyDeleteWithGuardrails = ''DeleteWithGuardrails''"

definition ModeReconcile :: ReconcileMode where
  "ModeReconcile = ''Reconcile''"

definition ModeObserve :: ReconcileMode where
  "ModeObserve = ''Observe''"

definition ModePause :: ReconcileMode where
  "ModePause = ''Pause''"

lemmas mode_defs = ModeReconcile_def ModeObserve_def ModePause_def

lemmas policy_defs = DeletionPolicyRetain_def DeletionPolicyDelete_def
  DeletionPolicyDeleteWithGuardrails_def

lemma mode_distinct [simp]:
  "ModeReconcile \<noteq> ModeObserve" "ModeObserve \<noteq> ModeReconcile"
  "ModeReconcile \<noteq> ModePause" "ModePause \<noteq> ModeReconcile"
  "ModeObserve \<noteq> ModePause" "ModePause \<noteq> ModeObserve"
  by (simp_all add: mode_defs)

lemma policy_distinct [simp]:
  "DeletionPolicyRetain \<noteq> DeletionPolicyDelete"
  "DeletionPolicyDelete \<noteq> DeletionPolicyRetain"
  "DeletionPolicyRetain \<noteq> DeletionPolicyDeleteWithGuardrails"
  "DeletionPolicyDeleteWithGuardrails \<noteq> DeletionPolicyRetain"
  "DeletionPolicyDelete \<noteq> DeletionPolicyDeleteWithGuardrails"
  "DeletionPolicyDeleteWithGuardrails \<noteq> DeletionPolicyDelete"
  by (simp_all add: policy_defs)

section \<open>The truss configuration\<close>

record TrussWeightAuth =
  wa_AuthMethod :: string
  wa_AuthSecretName :: string

record TrussWeightSource =
  ws_Source :: string
  ws_MountLocation :: string
  ws_Auth :: "TrussWeightAuth option"
  ws_AllowPatterns :: "string list"
  ws_IgnorePatterns :: "string list"

record TrussResources =
  tr_Accelerator :: string
  tr_UseGpu :: "bool option"
  tr_CPU :: string
  tr_Memory :: string

record TrussDockerAuth =
  da_AuthMethod :: string
  da_SecretName :: string
  da_Registry :: string

record TrussBaseImage =
  bi_Image :: string
  bi_DockerAuth :: "TrussDockerAuth option"

record TrussDockerServer =
  ds_NoBuild :: "bool option"
  ds_StartCommand :: string
  ds_ReadinessEndpoint :: string
  ds_LivenessEndpoint :: string
  ds_PredictEndpoint :: string
  ds_ServerPort :: "int32 option"

record TrussRuntime =
  rt_PredictConcurrency :: "int32 option"

text \<open>\<open>ExampleModelInput\<close> is a \<open>runtime.RawExtension\<close>: the raw JSON bytes, nil or present.\<close>

record TrussModelMetadata =
  mm_ExampleModelInput :: "string option option"
  mm_Tags :: "string list"

record ConfigMapKeyRef =
  cr_Name :: string
  cr_Key :: string

record SetupScriptSource =
  ss_ConfigMapRef :: "ConfigMapKeyRef option"
  ss_Inline :: "string option"

text \<open>A Go map is an association list with distinct keys.\<close>

record TrussConfig =
  tc_Weights :: "TrussWeightSource list"
  tc_PythonVersion :: string
  tc_Resources :: TrussResources
  tc_Secrets :: "(string \<times> string) list"
  tc_EnvironmentVariables :: "(string \<times> string) list"
  tc_BaseImage :: TrussBaseImage
  tc_DockerServer :: "TrussDockerServer option"
  tc_Runtime :: "TrussRuntime option"
  tc_ModelMetadata :: "TrussModelMetadata option"
  tc_SetupScript :: "SetupScriptSource option"

section \<open>The environment configuration\<close>

record OrphanDeploymentCleanupConfig =
  oc_ScaleToZero :: "bool option"
  oc_Delete :: "bool option"
  oc_DeleteAfterDays :: "int32 option"
  oc_MinToKeep :: "int32 option"
  oc_IntervalMinutes :: "int32 option"

record ScheduleAutoscalingConfig =
  sa_MinReplicas :: int32
  sa_MaxReplicas :: int32
  sa_ConcurrencyTarget :: "int32 option"
  sa_AutoscalingWindow :: "int32 option"
  sa_ScaleDownDelay :: "int32 option"
  sa_TargetUtilizationPercentage :: "int32 option"
  sa_TargetInFlightTokens :: "int32 option"
  sa_MaxScaleDownRate :: "int32 option"

record SpecSchedule =
  sp_Name :: string
  sp_Enabled :: "bool option"
  sp_Cadence :: string
  sp_Weekdays :: "string list"
  sp_StartHour :: "int32 option"
  sp_StartMinute :: int32
  sp_EndHour :: "int32 option"
  sp_EndMinute :: int32
  sp_StartAt :: string
  sp_EndAt :: string
  sp_Autoscaling :: ScheduleAutoscalingConfig

record AutoscalingScheduleConfig =
  asc_Timezone :: "string option"
  asc_Schedules :: "SpecSchedule list"

record AutoscalingConfig =
  ac_MinReplicas :: "int32 option"
  ac_MaxReplicas :: "int32 option"
  ac_ConcurrencyTarget :: "int32 option"
  ac_AutoscalingWindow :: "int32 option"
  ac_ScaleDownDelay :: "int32 option"
  ac_TargetUtilizationPercentage :: "int32 option"
  ac_MaxScaleDownRate :: "int32 option"

record RollingDeployConfig =
  rd_Strategy :: "string option"
  rd_MaxSurgePercent :: "int32 option"
  rd_MaxUnavailablePercent :: "int32 option"
  rd_StabilizationTimeSeconds :: "int32 option"

record PromotionSettingsConfig =
  pc_ScaleDownPreviousDeployment :: "bool option"
  pc_PreserveInstanceType :: "bool option"
  pc_RedeployOnPromotion :: "bool option"
  pc_RollingDeploy :: "bool option"
  pc_PromotionCleanupStrategy :: "string option"
  pc_RampUpWhilePromoting :: "bool option"
  pc_RampUpDurationSeconds :: "int32 option"
  pc_RollingDeployConfig :: "RollingDeployConfig option"

record EnvironmentConfig =
  ec_Name :: string
  ec_Autoscaling :: "AutoscalingConfig option"
  ec_PromotionSettings :: "PromotionSettingsConfig option"
  ec_AutoscalingSchedule :: "AutoscalingScheduleConfig option"

section \<open>The resource\<close>

record BasetenModelSpec =
  spec_ModelName :: string
  spec_Team :: string
  spec_SourceDeploymentName :: string
  spec_TrussConfig :: "TrussConfig option"
  spec_Environment :: EnvironmentConfig
  spec_OrphanDeploymentCleanup :: "OrphanDeploymentCleanupConfig option"
  spec_Mode :: ReconcileMode
  spec_Paused :: bool
  spec_DeletionPolicy :: DeletionPolicy

record Condition =
  c_Type :: string
  c_Status :: string
  c_ObservedGeneration :: int
  c_LastTransitionTime :: time
  c_Reason :: string
  c_Message :: string

record BasetenModelStatus =
  ModelID :: string
  ModelIDResolvedTime :: "time option"
  SourceDeploymentID :: string
  SourceDeploymentName :: string
  ActiveDeploymentName :: string
  CandidateDeploymentID :: string
  CandidateDeploymentName :: string
  DeploymentStatus :: string
  ActiveReplicaCount :: int32
  Message :: string
  TrussConfigHash :: string
  TrussPushStatus :: string
  TrussPushFailureCount :: int32
  TrussPushNextRetryTime :: "time option"
  TrussPushLastError :: string
  TrussPushTime :: "time option"
  LastCleanupTime :: "time option"
  FirstDeploymentFailureTime :: "time option"
  DeploymentRetryCount :: int32
  NextRetryTime :: "time option"
  Conditions :: "Condition list"

text \<open>Of the object metadata, the fields the controller reads and the version the API server checks.\<close>

record BasetenModel =
  bm_Name :: string
  bm_Namespace :: string
  bm_Generation :: int
  bm_ResourceVersion :: string
  bm_DeletionTimestamp :: "time option"
  bm_Finalizers :: "string list"
  Spec :: BasetenModelSpec
  Status :: BasetenModelStatus

text \<open>The zero values of the structs that the code allocates empty.\<close>

definition zero_BasetenModelStatus :: BasetenModelStatus where
  "zero_BasetenModelStatus = \<lparr>ModelID = '''', ModelIDResolvedTime = None, SourceDeploymentID = '''',
     SourceDeploymentName = '''', ActiveDeploymentName = '''', CandidateDeploymentID = '''',
     CandidateDeploymentName = '''', DeploymentStatus = '''', ActiveReplicaCount = 0, Message = '''',
     TrussConfigHash = '''', TrussPushStatus = '''', TrussPushFailureCount = 0,
     TrussPushNextRetryTime = None, TrussPushLastError = '''', TrussPushTime = None,
     LastCleanupTime = None, FirstDeploymentFailureTime = None, DeploymentRetryCount = 0,
     NextRetryTime = None, Conditions = []\<rparr>"

definition zero_EnvironmentConfig :: EnvironmentConfig where
  "zero_EnvironmentConfig = \<lparr>ec_Name = '''', ec_Autoscaling = None, ec_PromotionSettings = None,
     ec_AutoscalingSchedule = None\<rparr>"

definition zero_BasetenModelSpec :: BasetenModelSpec where
  "zero_BasetenModelSpec = \<lparr>spec_ModelName = '''', spec_Team = '''', spec_SourceDeploymentName = '''',
     spec_TrussConfig = None, spec_Environment = zero_EnvironmentConfig,
     spec_OrphanDeploymentCleanup = None, spec_Mode = '''', spec_Paused = False,
     spec_DeletionPolicy = ''''\<rparr>"

definition zero_BasetenModel :: BasetenModel where
  "zero_BasetenModel = \<lparr>bm_Name = '''', bm_Namespace = '''', bm_Generation = 0,
     bm_ResourceVersion = '''', bm_DeletionTimestamp = None, bm_Finalizers = [],
     Spec = zero_BasetenModelSpec, Status = zero_BasetenModelStatus\<rparr>"

lemmas zero_defs = zero_BasetenModelStatus_def zero_EnvironmentConfig_def zero_BasetenModelSpec_def
  zero_BasetenModel_def

end
