(* ===== verification/Go_Error.thy ===== *)
theory Go_Error
  imports Op_Prelude
begin

text \<open>
  Go errors as values (\<open>internal/baseten/client.go\<close>): the operator's \<open>APIError\<close>, the failure
  type of the generated Baseten client, the Kubernetes API status errors, \<open>fmt.Errorf\<close> with
  \<open>%w\<close> and \<open>reconcile.TerminalError\<close> as wrappers, and a recovered panic. \<open>IsNotFoundError\<close> and
  \<open>toAPIError\<close> walk the chain of wrapped errors as \<open>errors.As\<close> does. A Go error that may be
  nil is a \<open>go_error option\<close>.
\<close>

datatype k8s_reason = KNotFound | KConflict | KOther string

datatype go_error =
    ErrorString string
  | APIError int string
  | ResponseError int string string
  | StatusError k8s_reason string
  | WrapError string go_error
  | TerminalError go_error
  | PanicError string

text \<open>
  \<open>err.Error()\<close>. \<open>ResponseError code body txt\<close> carries the text of the generated client's own
  rendering, \<open>WrapError p e\<close> is \<open>fmt.Errorf("p: %w", e)\<close>.
\<close>

fun error_text :: "go_error \<Rightarrow> string" where
  "error_text (ErrorString s) = s"
| "error_text (APIError c m) = ''API request failed with status '' @ fmt_int c @ '': '' @ m"
| "error_text (ResponseError c b t) = t"
| "error_text (StatusError r m) = m"
| "error_text (WrapError p e) = p @ '': '' @ error_text e"
| "error_text (TerminalError e) = ''terminal error: '' @ error_text e"
| "error_text (PanicError m) = m"

text \<open>\<open>errors.As(err, &apiErr)\<close> and \<open>errors.As(err, &respErr)\<close>.\<close>

fun as_APIError :: "go_error \<Rightarrow> (int \<times> string) option" where
  "as_APIError (APIError c m) = Some (c, m)"
| "as_APIError (WrapError p e) = as_APIError e"
| "as_APIError (TerminalError e) = as_APIError e"
| "as_APIError _ = None"

fun as_ResponseError :: "go_error \<Rightarrow> (int \<times> string) option" where
  "as_ResponseError (ResponseError c b t) = Some (c, b)"
| "as_ResponseError (WrapError p e) = as_ResponseError e"
| "as_ResponseError (TerminalError e) = as_ResponseError e"
| "as_ResponseError _ = None"

fun as_StatusError :: "go_error \<Rightarrow> k8s_reason option" where
  "as_StatusError (StatusError r m) = Some r"
| "as_StatusError (WrapError p e) = as_StatusError e"
| "as_StatusError (TerminalError e) = as_StatusError e"
| "as_StatusError _ = None"

definition IsNotFoundError :: "go_error option \<Rightarrow> bool" where
  "IsNotFoundError err = (case err of
     None \<Rightarrow> False
   | Some e \<Rightarrow> (case as_APIError e of None \<Rightarrow> False | Some (c, m) \<Rightarrow> c = 404))"

definition toAPIError :: "go_error option \<Rightarrow> go_error option" where
  "toAPIError err = (case err of
     None \<Rightarrow> None
   | Some e \<Rightarrow> (case as_ResponseError e of
       Some (c, b) \<Rightarrow> Some (APIError c b)
     | None \<Rightarrow> Some e))"

text \<open>\<open>errors.IsNotFound\<close> and \<open>errors.IsConflict\<close> of the Kubernetes API machinery.\<close>

definition k8s_IsNotFound :: "go_error \<Rightarrow> bool" where
  "k8s_IsNotFound e \<longleftrightarrow> as_StatusError e = Some KNotFound"

definition k8s_IsConflict :: "go_error \<Rightarrow> bool" where
  "k8s_IsConflict e \<longleftrightarrow> as_StatusError e = Some KConflict"

text \<open>\<open>client.IgnoreNotFound\<close>.\<close>

definition IgnoreNotFound :: "go_error option \<Rightarrow> go_error option" where
  "IgnoreNotFound err = (case err of
     None \<Rightarrow> None | Some e \<Rightarrow> if k8s_IsNotFound e then None else Some e)"

lemma IsNotFoundError_simps [simp]:
  "IsNotFoundError None = False"
  "IsNotFoundError (Some (ErrorString s)) = False"
  "IsNotFoundError (Some (APIError c m)) = (c = 404)"
  "IsNotFoundError (Some (WrapError p e)) = IsNotFoundError (Some e)"
  by (simp_all add: IsNotFoundError_def)

lemma toAPIError_None [simp]: "toAPIError err = None \<longleftrightarrow> err = None"
  by (auto simp: toAPIError_def split: option.splits)

lemma as_APIError_ResponseError: "as_ResponseError e = Some r \<Longrightarrow> as_APIError e = None"
  by (induction e) auto

end
