(* ===== verification/Baseten_Types.thy ===== *)
theory Baseten_Types
  imports Crd_Types Go_Error
begin

text \<open>
  The domain types of the Baseten client (\<open>internal/baseten/client.go\<close>,
  \<open>internal/baseten/schedules.go\<close>), the deployment status constants and the predicates over
  status and names; then the request and response types of the generated SDK
  (\<open>managementapi\<close>, not part of the repository), of which only the fields that the client reads
  or writes are listed. A Go \<open>int\<close> is a 64-bit word.
\<close>

definition DeploymentStatusActive :: string where "DeploymentStatusActive = ''ACTIVE''"
definition DeploymentStatusFailed :: string where "DeploymentStatusFailed = ''FAILED''"
definition DeploymentStatusScaledToZero :: string where "DeploymentStatusScaledToZero = ''SCALED_TO_ZERO''"
definition DeploymentStatusInactive :: string where "DeploymentStatusInactive = ''INACTIVE''"
definition DeploymentStatusDeploying :: string where "DeploymentStatusDeploying = ''DEPLOYING''"
definition DeploymentStatusBuilding :: string where "DeploymentStatusBuilding = ''BUILDING''"
definition DeploymentStatusWakingUp :: string where "DeploymentStatusWakingUp = ''WAKING_UP''"
definition DeploymentStatusActivating :: string where "DeploymentStatusActivating = ''ACTIVATING''"
definition DeploymentStatusUpdating :: string where "DeploymentStatusUpdating = ''UPDATING''"
definition DeploymentStatusDeployFailed :: string where "DeploymentStatusDeployFailed = ''DEPLOY_FAILED''"
definition DeploymentStatusLoadingModel :: string where "DeploymentStatusLoadingModel = ''LOADING_MODEL''"
definition DeploymentStatusBuildFailed :: string where "DeploymentStatusBuildFailed = ''BUILD_FAILED''"
definition DeploymentStatusBuildStopped :: string where "DeploymentStatusBuildStopped = ''BUILD_STOPPED''"

lemmas deployment_status_defs = DeploymentStatusActive_def DeploymentStatusFailed_def
  DeploymentStatusScaledToZero_def DeploymentStatusInactive_def DeploymentStatusDeploying_def
  DeploymentStatusBuilding_def DeploymentStatusWakingUp_def DeploymentStatusActivating_def
  DeploymentStatusUpdating_def DeploymentStatusDeployFailed_def DeploymentStatusLoadingModel_def
  DeploymentStatusBuildFailed_def DeploymentStatusBuildStopped_def

section \<open>Domain types\<close>

record Deployment =
  dep_ID :: string
  dep_Name :: string
  dep_Status :: string
  dep_ActiveReplicaCount :: int32

record AutoscalingSettings =
  as_MinReplica :: int32
  as_MaxReplica :: int32
  as_ConcurrencyTarget :: int32
  as_AutoscalingWindow :: "int32 option"
  as_ScaleDownDelay :: "int32 option"
  as_TargetUtilizationPercentage :: "int32 option"
  as_MaxScaleDownRate :: "int32 option"

record DeploymentDetail =
  dd_ID :: string
  dd_Name :: string
  dd_Status :: string
  dd_ActiveReplicaCount :: int32
  dd_CreatedAt :: string
  dd_IsProduction :: bool
  dd_IsDevelopment :: bool
  dd_Environment :: "string option"
  dd_AutoscalingSettings :: "AutoscalingSettings option"

record RollingDeploySettings =
  rs_Strategy :: "string option"
  rs_MaxSurgePercent :: "int32 option"
  rs_MaxUnavailablePercent :: "int32 option"
  rs_StabilizationTimeSeconds :: "int32 option"

record PromotionSettings =
  ps_RedeployOnPromotion :: "bool option"
  ps_RollingDeploy :: "bool option"
  ps_PromotionCleanupStrategy :: "string option"
  ps_RampUpWhilePromoting :: "bool option"
  ps_RampUpDurationSeconds :: "int32 option"
  ps_RollingDeployConfig :: "RollingDeploySettings option"

record ScheduleAutoscalingSettings =
  ss_MinReplica :: int32
  ss_MaxReplica :: int32
  ss_AutoscalingWindow :: "int32 option"
  ss_ScaleDownDelay :: "int32 option"
  ss_ConcurrencyTarget :: "int32 option"
  ss_TargetUtilizationPercentage :: "int32 option"
  ss_TargetInFlightTokens :: "int32 option"
  ss_MaxScaleDownRate :: "int32 option"

text \<open>\<open>Weekdays\<close> is an option: \<open>reflect.DeepEqual\<close> tells a nil slice from an empty one.\<close>

record AutoscalingSchedule =
  sch_ID :: string
  sch_Name :: string
  sch_Enabled :: bool
  sch_Cadence :: string
  sch_Weekdays :: "string list option"
  sch_StartHour :: "int32 option"
  sch_StartMinute :: int32
  sch_EndHour :: "int32 option"
  sch_EndMinute :: int32
  sch_StartAt :: string
  sch_EndAt :: string
  sch_AutoscalingSettings :: ScheduleAutoscalingSettings

record AutoscalingScheduleState =
  st_ScheduleID :: "string option"
  st_AutoscalingSettings :: "AutoscalingSettings option"

record AutoscalingSchedules =
  scs_Timezone :: "string option"
  scs_Schedules :: "AutoscalingSchedule list"
  scs_AppliedState :: "AutoscalingScheduleState option"

record Environment =
  env_Name :: string
  env_CurrentDeployment :: "Deployment option"
  env_CandidateDeployment :: "Deployment option"
  env_AutoscalingSettings :: "AutoscalingSettings option"
  env_PromotionSettings :: "PromotionSettings option"
  env_AutoscalingSchedules :: "AutoscalingSchedules option"
  env_ScheduleDecodeErr :: "go_error option"

record RetryResponse =
  rr_Retried :: bool
  rr_Reason :: string
  rr_Deployment :: "Deployment option"

section \<open>Names and statuses\<close>

definition DeploymentNameMatchesPrefix :: "string \<Rightarrow> string \<Rightarrow> bool" where
  "DeploymentNameMatchesPrefix deploymentName pre \<longleftrightarrow>
     deploymentName = pre \<or> HasPrefix deploymentName (pre @ ''.'')"

definition IsTerminalFailure :: "string \<Rightarrow> bool" where
  "IsTerminalFailure status \<longleftrightarrow> status = DeploymentStatusFailed \<or> status = DeploymentStatusDeployFailed \<or>
     status = DeploymentStatusBuildFailed \<or> status = DeploymentStatusBuildStopped"

definition IsRetryableFailure :: "string \<Rightarrow> bool" where
  "IsRetryableFailure status \<longleftrightarrow> status = DeploymentStatusFailed \<or> status = DeploymentStatusDeployFailed \<or>
     status = DeploymentStatusBuildFailed"

lemma retryable_is_terminal: "IsRetryableFailure st \<Longrightarrow> IsTerminalFailure st"
  by (auto simp: IsRetryableFailure_def IsTerminalFailure_def)

lemma terminal_retryable_iff:
  "IsTerminalFailure st \<longleftrightarrow> IsRetryableFailure st \<or> st = DeploymentStatusBuildStopped"
  by (auto simp: IsRetryableFailure_def IsTerminalFailure_def)

lemma build_stopped_not_retryable [simp]: "\<not> IsRetryableFailure DeploymentStatusBuildStopped"
  by (simp add: IsRetryableFailure_def deployment_status_defs)

section \<open>Request and response types of the SDK\<close>

record sdk_AutoscalingSettings =
  xa_MinReplica :: goint
  xa_MaxReplica :: goint
  xa_ConcurrencyTarget :: goint
  xa_AutoscalingWindow :: "goint option"
  xa_ScaleDownDelay :: "goint option"
  xa_TargetUtilizationPercentage :: "goint option"
  xa_MaxScaleDownRate :: "goint option"

record sdk_Deployment =
  xd_Id :: string
  xd_Name :: string
  xd_Status :: string
  xd_ActiveReplicaCount :: goint
  xd_CreatedAt :: ztime
  xd_IsProduction :: bool
  xd_IsDevelopment :: bool
  xd_Environment :: "string option"
  xd_AutoscalingSettings :: "sdk_AutoscalingSettings option"

record sdk_RollingDeployConfig =
  xr_RollingDeployStrategy :: "string option"
  xr_MaxSurgePercent :: "goint option"
  xr_MaxUnavailablePercent :: "goint option"
  xr_StabilizationTimeSeconds :: "goint option"

record sdk_PromotionSettings =
  xp_RedeployOnPromotion :: "bool option"
  xp_RollingDeploy :: "bool option"
  xp_PromotionCleanupStrategy :: "string option"
  xp_RampUpWhilePromoting :: "bool option"
  xp_RampUpDurationSeconds :: "goint option"
  xp_RollingDeployConfig :: "sdk_RollingDeployConfig option"

record sdk_ScheduleSettings =
  xs_MinReplica :: goint
  xs_MaxReplica :: goint
  xs_AutoscalingWindow :: "goint option"
  xs_ScaleDownDelay :: "goint option"
  xs_ConcurrencyTarget :: "goint option"
  xs_TargetUtilizationPercentage :: "goint option"
  xs_TargetInFlightTokens :: "goint option"
  xs_MaxScaleDownRate :: "goint option"

record sdk_OneTimeSchedule =
  xo_Id :: string
  xo_Name :: string
  xo_Enabled :: bool
  xo_StartAt :: ztime
  xo_EndAt :: ztime
  xo_AutoscalingSettings :: sdk_ScheduleSettings

record sdk_Schedule =
  xc_Id :: string
  xc_Name :: string
  xc_Enabled :: bool
  xc_Cadence :: string
  xc_Weekdays :: "string list"
  xc_StartHour :: "goint option"
  xc_StartMinute :: goint
  xc_EndHour :: "goint option"
  xc_EndMinute :: goint
  xc_AutoscalingSettings :: sdk_ScheduleSettings

text \<open>A schedule item is a union; its three accessors may each fail.\<close>

record sdk_ScheduleItem =
  xi_Discriminator :: "go_error + string"
  xi_AsOneTimeAutoscalingSchedule :: "go_error + sdk_OneTimeSchedule"
  xi_AsAutoscalingSchedule :: "go_error + sdk_Schedule"

record sdk_AppliedState =
  xy_ScheduleId :: "string option"
  xy_AutoscalingSettings :: sdk_AutoscalingSettings

record sdk_EnvironmentSchedules =
  xz_Timezone :: "string option"
  xz_AppliedState :: "sdk_AppliedState option"
  xz_Schedules :: "sdk_ScheduleItem list"

record sdk_Environment =
  xe_Name :: string
  xe_CurrentDeployment :: "sdk_Deployment option"
  xe_CandidateDeployment :: "sdk_Deployment option"
  xe_AutoscalingSettings :: sdk_AutoscalingSettings
  xe_PromotionSettings :: sdk_PromotionSettings
  xe_AutoscalingSchedules :: "sdk_EnvironmentSchedules option"

record sdk_UpdateAutoscalingSettings =
  ua_MinReplica :: "goint option"
  ua_MaxReplica :: "goint option"
  ua_ConcurrencyTarget :: "goint option"
  ua_AutoscalingWindow :: "goint option"
  ua_ScaleDownDelay :: "goint option"
  ua_TargetUtilizationPercentage :: "goint option"
  ua_MaxScaleDownRate :: "goint option"

record sdk_UpdateRollingDeployConfig =
  ur_RollingDeployStrategy :: "string option"
  ur_MaxSurgePercent :: "goint option"
  ur_MaxUnavailablePercent :: "goint option"
  ur_StabilizationTimeSeconds :: "goint option"

record sdk_UpdatePromotionSettings =
  up_RedeployOnPromotion :: "bool option"
  up_RollingDeploy :: "bool option"
  up_PromotionCleanupStrategy :: "string option"
  up_RampUpWhilePromoting :: "bool option"
  up_RampUpDurationSeconds :: "goint option"
  up_RollingDeployConfig :: "sdk_UpdateRollingDeployConfig option"

record sdk_OneTimeUpsert =
  uo_Id :: "string option"
  uo_Name :: string
  uo_Enabled :: bool
  uo_StartAt :: time
  uo_EndAt :: time
  uo_AutoscalingSettings :: sdk_ScheduleSettings

record sdk_ScheduleUpsert =
  us_Id :: "string option"
  us_Name :: string
  us_Enabled :: bool
  us_Cadence :: string
  us_Weekdays :: "string list"
  us_StartHour :: "goint option"
  us_StartMinute :: goint
  us_EndHour :: "goint option"
  us_EndMinute :: goint
  us_AutoscalingSettings :: sdk_ScheduleSettings

datatype sdk_UpsertItem = OneTimeItem sdk_OneTimeUpsert | RecurringItem sdk_ScheduleUpsert

text \<open>\<open>Timezone\<close> is a \<open>managementapi.Optional\<close> that is set only when the spec names a zone.\<close>

record sdk_UpdateScheduleSettings =
  uz_Timezone :: "string option"
  uz_Schedules :: "sdk_UpsertItem list option"
  uz_DeleteSchedules :: "string list option"

record sdk_CreateEnvironmentRequest =
  ce_Name :: string
  ce_AutoscalingSettings :: "sdk_UpdateAutoscalingSettings option"
  ce_PromotionSettings :: "sdk_UpdatePromotionSettings option"

record sdk_UpdateEnvironmentRequest =
  ue_AutoscalingSettings :: "sdk_UpdateAutoscalingSettings option"
  ue_PromotionSettings :: "sdk_UpdatePromotionSettings option"
  ue_AutoscalingScheduleSettings :: "sdk_UpdateScheduleSettings option"

record sdk_PromoteRequest =
  pr_DeploymentId :: string
  pr_ScaleDownPreviousDeployment :: "bool option"
  pr_PreserveEnvInstanceType :: "bool option"

record sdk_RetryResponse =
  rx_Retried :: bool
  rx_Reason :: "string option"
  rx_Deployment :: sdk_Deployment

section \<open>Width conversions of optional integers\<close>

definition intPtrToInt32Ptr :: "goint option \<Rightarrow> int32 option" where
  "intPtrToInt32Ptr p = (case p of None \<Rightarrow> None | Some v \<Rightarrow> Some (scast v))"

definition int32PtrToIntPtr :: "int32 option \<Rightarrow> goint option" where
  "int32PtrToIntPtr p = (case p of None \<Rightarrow> None | Some v \<Rightarrow> Some (scast v))"

lemma scast_int32_goint [simp]: "scast (scast (v :: int32) :: goint) = v"
  by (rule scast_down_scast_id) (simp add: is_down)

lemma intPtr_roundtrip [simp]: "intPtrToInt32Ptr (int32PtrToIntPtr p) = p"
  by (cases p) (simp_all add: intPtrToInt32Ptr_def int32PtrToIntPtr_def)

end
