(* ===== verification/Baseten_Drift.thy ===== *)
theory Baseten_Drift
  imports Baseten_Types
begin

text \<open>
  Drift detection and the update requests of \<open>internal/baseten/client.go\<close>: what differs between
  the settings of the spec and those of the environment, and the request bodies that carry the
  spec's fields. The locale \<open>drift_check\<close> is the contract every comparison obeys, with its
  consequences; both comparisons of this file are interpretations of it, and so is the one over
  schedules in theory \<open>Schedule_Props\<close>.
\<close>

section \<open>One compared field\<close>

text \<open>
  \<open>if spec.F != nil && *spec.F != cur { drifts = append(drifts, ...) }\<close> for a field printed
  with \<open>%d\<close>, \<open>%v\<close> or \<open>%s\<close>.
\<close>

definition drift_field :: "('a \<Rightarrow> string) \<Rightarrow> string \<Rightarrow> 'a option \<Rightarrow> 'a \<Rightarrow> string list" where
  "drift_field show name spec cur = (case spec of
     None \<Rightarrow> []
   | Some v \<Rightarrow> if v \<noteq> cur then [name @ '' '' @ show cur @ arrow @ show v] else [])"

definition derefInt32 :: "int32 option \<Rightarrow> int32" where
  "derefInt32 p = (case p of None \<Rightarrow> 0 | Some v \<Rightarrow> v)"

definition derefBool :: "bool option \<Rightarrow> bool" where
  "derefBool p = (case p of None \<Rightarrow> False | Some v \<Rightarrow> v)"

definition derefString :: "string option \<Rightarrow> string" where
  "derefString p = (case p of None \<Rightarrow> '''' | Some v \<Rightarrow> v)"

lemma drift_field_empty [simp]:
  "drift_field sh name spec cur = [] \<longleftrightarrow> (case spec of None \<Rightarrow> True | Some v \<Rightarrow> v = cur)"
  by (simp add: drift_field_def split: option.splits)

lemma deref_value_simps [simp]:
  "derefInt32 None = 0" "derefInt32 (Some v) = v"
  "derefBool None = False" "derefBool (Some b) = b"
  "derefString None = ''''" "derefString (Some s) = s"
  by (simp_all add: derefInt32_def derefBool_def derefString_def)

section \<open>Autoscaling\<close>

definition autoscaling_drifts :: "AutoscalingConfig \<Rightarrow> AutoscalingSettings \<Rightarrow> string list" where
  "autoscaling_drifts spec env =
     drift_field fmt_d ''minReplicas'' (ac_MinReplicas spec) (as_MinReplica env) @
     drift_field fmt_d ''maxReplicas'' (ac_MaxReplicas spec) (as_MaxReplica env) @
     drift_field fmt_d ''concurrencyTarget'' (ac_ConcurrencyTarget spec) (as_ConcurrencyTarget env) @
     drift_field fmt_d ''autoscalingWindow'' (ac_AutoscalingWindow spec) (derefInt32 (as_AutoscalingWindow env)) @
     drift_field fmt_d ''scaleDownDelay'' (ac_ScaleDownDelay spec) (derefInt32 (as_ScaleDownDelay env)) @
     drift_field fmt_d ''targetUtilization'' (ac_TargetUtilizationPercentage spec)
       (derefInt32 (as_TargetUtilizationPercentage env)) @
     drift_field fmt_d ''maxScaleDownRate'' (ac_MaxScaleDownRate spec) (derefInt32 (as_MaxScaleDownRate env))"

definition HasAutoscalingDrift ::
  "AutoscalingConfig option \<Rightarrow> AutoscalingSettings option \<Rightarrow> bool \<times> string list" where
  "HasAutoscalingDrift spec env = (case (spec, env) of
     (Some s, Some e) \<Rightarrow> (autoscaling_drifts s e \<noteq> [], autoscaling_drifts s e)
   | _ \<Rightarrow> (False, []))"

section \<open>Promotion settings\<close>

definition empty_PromotionSettings :: PromotionSettings where
  "empty_PromotionSettings = \<lparr>ps_RedeployOnPromotion = None, ps_RollingDeploy = None,
     ps_PromotionCleanupStrategy = None, ps_RampUpWhilePromoting = None,
     ps_RampUpDurationSeconds = None, ps_RollingDeployConfig = None\<rparr>"

text \<open>A field of the nested rolling-deploy configuration when the environment has none.\<close>

definition drift_new :: "('a \<Rightarrow> string) \<Rightarrow> string \<Rightarrow> 'a option \<Rightarrow> string list" where
  "drift_new show name spec = (case spec of
     None \<Rightarrow> [] | Some v \<Rightarrow> [name @ '' '' @ arrow @ show v])"

definition rolling_drifts :: "RollingDeployConfig option \<Rightarrow> RollingDeploySettings option \<Rightarrow> string list" where
  "rolling_drifts spec env = (case spec of
     None \<Rightarrow> []
   | Some rc \<Rightarrow> (case env of
       Some erc \<Rightarrow>
         drift_field id ''rollingDeployStrategy'' (rd_Strategy rc) (derefString (rs_Strategy erc)) @
         drift_field fmt_d ''maxSurgePercent'' (rd_MaxSurgePercent rc) (derefInt32 (rs_MaxSurgePercent erc)) @
         drift_field fmt_d ''maxUnavailablePercent'' (rd_MaxUnavailablePercent rc)
           (derefInt32 (rs_MaxUnavailablePercent erc)) @
         drift_field fmt_d ''stabilizationTimeSeconds'' (rd_StabilizationTimeSeconds rc)
           (derefInt32 (rs_StabilizationTimeSeconds erc))
     | None \<Rightarrow>
         drift_new id ''rollingDeployStrategy'' (rd_Strategy rc) @
         drift_new fmt_d ''maxSurgePercent'' (rd_MaxSurgePercent rc) @
         drift_new fmt_d ''maxUnavailablePercent'' (rd_MaxUnavailablePercent rc) @
         drift_new fmt_d ''stabilizationTimeSeconds'' (rd_StabilizationTimeSeconds rc)))"

definition promotion_drifts :: "PromotionSettingsConfig \<Rightarrow> PromotionSettings \<Rightarrow> string list" where
  "promotion_drifts spec env =
     drift_field fmt_bool ''redeployOnPromotion'' (pc_RedeployOnPromotion spec) (derefBool (ps_RedeployOnPromotion env)) @
     drift_field fmt_bool ''rollingDeploy'' (pc_RollingDeploy spec) (derefBool (ps_RollingDeploy env)) @
     drift_field fmt_bool ''rampUpWhilePromoting'' (pc_RampUpWhilePromoting spec)
       (derefBool (ps_RampUpWhilePromoting env)) @
     drift_field fmt_d ''rampUpDurationSeconds'' (pc_RampUpDurationSeconds spec)
       (derefInt32 (ps_RampUpDurationSeconds env)) @
     drift_field id ''promotionCleanupStrategy'' (pc_PromotionCleanupStrategy spec)
       (derefString (ps_PromotionCleanupStrategy env)) @
     rolling_drifts (pc_RollingDeployConfig spec) (ps_RollingDeployConfig env)"

definition HasPromotionSettingsDrift ::
  "PromotionSettingsConfig option \<Rightarrow> PromotionSettings option \<Rightarrow> bool \<times> string list" where
  "HasPromotionSettingsDrift spec env = (case spec of
     None \<Rightarrow> (False, [])
   | Some s \<Rightarrow>
       (let e = (case env of None \<Rightarrow> empty_PromotionSettings | Some e \<Rightarrow> e);
            drifts = promotion_drifts s e
        in (drifts \<noteq> [], drifts)))"

section \<open>Reading the SDK's responses\<close>

definition toAutoscalingSettings :: "sdk_AutoscalingSettings \<Rightarrow> AutoscalingSettings" where
  "toAutoscalingSettings a = \<lparr>as_MinReplica = scast (xa_MinReplica a),
     as_MaxReplica = scast (xa_MaxReplica a),
     as_ConcurrencyTarget = scast (xa_ConcurrencyTarget a),
     as_AutoscalingWindow = intPtrToInt32Ptr (xa_AutoscalingWindow a),
     as_ScaleDownDelay = intPtrToInt32Ptr (xa_ScaleDownDelay a),
     as_TargetUtilizationPercentage = intPtrToInt32Ptr (xa_TargetUtilizationPercentage a),
     as_MaxScaleDownRate = intPtrToInt32Ptr (xa_MaxScaleDownRate a)\<rparr>"

definition toAutoscalingSettingsPtr :: "sdk_AutoscalingSettings option \<Rightarrow> AutoscalingSettings option" where
  "toAutoscalingSettingsPtr a = (case a of None \<Rightarrow> None | Some v \<Rightarrow> Some (toAutoscalingSettings v))"

definition toRollingDeploySettings :: "sdk_RollingDeployConfig \<Rightarrow> RollingDeploySettings" where
  "toRollingDeploySettings rc = \<lparr>rs_Strategy = xr_RollingDeployStrategy rc,
     rs_MaxSurgePercent = intPtrToInt32Ptr (xr_MaxSurgePercent rc),
     rs_MaxUnavailablePercent = intPtrToInt32Ptr (xr_MaxUnavailablePercent rc),
     rs_StabilizationTimeSeconds = intPtrToInt32Ptr (xr_StabilizationTimeSeconds rc)\<rparr>"

definition toPromotionSettings :: "sdk_PromotionSettings \<Rightarrow> PromotionSettings" where
  "toPromotionSettings p = \<lparr>ps_RedeployOnPromotion = xp_RedeployOnPromotion p,
     ps_RollingDeploy = xp_RollingDeploy p,
     ps_PromotionCleanupStrategy = xp_PromotionCleanupStrategy p,
     ps_RampUpWhilePromoting = xp_RampUpWhilePromoting p,
     ps_RampUpDurationSeconds = intPtrToInt32Ptr (xp_RampUpDurationSeconds p),
     ps_RollingDeployConfig = map_option toRollingDeploySettings (xp_RollingDeployConfig p)\<rparr>"

section \<open>Building the SDK's requests\<close>

text \<open>Each builder returns nil when it sets no field, so that the object is left out of the body.\<close>

definition toUpdateAutoscalingSettings :: "AutoscalingConfig option \<Rightarrow> sdk_UpdateAutoscalingSettings option" where
  "toUpdateAutoscalingSettings c = (case c of
     None \<Rightarrow> None
   | Some c \<Rightarrow>
       if ac_MinReplicas c = None \<and> ac_MaxReplicas c = None \<and> ac_ConcurrencyTarget c = None \<and>
          ac_AutoscalingWindow c = None \<and> ac_ScaleDownDelay c = None \<and>
          ac_TargetUtilizationPercentage c = None \<and> ac_MaxScaleDownRate c = None
       then None
       else Some \<lparr>ua_MinReplica = int32PtrToIntPtr (ac_MinReplicas c),
              ua_MaxReplica = int32PtrToIntPtr (ac_MaxReplicas c),
              ua_ConcurrencyTarget = int32PtrToIntPtr (ac_ConcurrencyTarget c),
              ua_AutoscalingWindow = int32PtrToIntPtr (ac_AutoscalingWindow c),
              ua_ScaleDownDelay = int32PtrToIntPtr (ac_ScaleDownDelay c),
              ua_TargetUtilizationPercentage = int32PtrToIntPtr (ac_TargetUtilizationPercentage c),
              ua_MaxScaleDownRate = int32PtrToIntPtr (ac_MaxScaleDownRate c)\<rparr>)"

definition toUpdateRollingDeployConfig :: "RollingDeployConfig option \<Rightarrow> sdk_UpdateRollingDeployConfig option" where
  "toUpdateRollingDeployConfig c = (case c of
     None \<Rightarrow> None
   | Some c \<Rightarrow>
       if rd_Strategy c = None \<and> rd_MaxSurgePercent c = None \<and> rd_MaxUnavailablePercent c = None \<and>
          rd_StabilizationTimeSeconds c = None
       then None
       else Some \<lparr>ur_RollingDeployStrategy = rd_Strategy c,
              ur_MaxSurgePercent = int32PtrToIntPtr (rd_MaxSurgePercent c),
              ur_MaxUnavailablePercent = int32PtrToIntPtr (rd_MaxUnavailablePercent c),
              ur_StabilizationTimeSeconds = int32PtrToIntPtr (rd_StabilizationTimeSeconds c)\<rparr>)"

definition toUpdatePromotionSettings ::
  "PromotionSettingsConfig option \<Rightarrow> sdk_UpdatePromotionSettings option" where
  "toUpdatePromotionSettings c = (case c of
     None \<Rightarrow> None
   | Some c \<Rightarrow>
       (let rc = toUpdateRollingDeployConfig (pc_RollingDeployConfig c) in
        if pc_RedeployOnPromotion c = None \<and> pc_RollingDeploy c = None \<and>
           pc_RampUpWhilePromoting c = None \<and> pc_RampUpDurationSeconds c = None \<and>
           pc_PromotionCleanupStrategy c = None \<and> rc = None
        then None
        else Some \<lparr>up_RedeployOnPromotion = pc_RedeployOnPromotion c,
               up_RollingDeploy = pc_RollingDeploy c,
               up_PromotionCleanupStrategy = pc_PromotionCleanupStrategy c,
               up_RampUpWhilePromoting = pc_RampUpWhilePromoting c,
               up_RampUpDurationSeconds = int32PtrToIntPtr (pc_RampUpDurationSeconds c),
               up_RollingDeployConfig = rc\<rparr>))"

section \<open>The contract of a comparison\<close>

locale drift_check =
  fixes check :: "'spec option \<Rightarrow> 'obs \<Rightarrow> bool \<times> string list"
    and agrees :: "'spec \<Rightarrow> 'obs \<Rightarrow> bool"
  assumes unmanaged: "check None obs = (False, [])"
    and flag: "fst (check s obs) \<longleftrightarrow> snd (check s obs) \<noteq> []"
    and complete: "snd (check (Some spec) obs) = [] \<longleftrightarrow> agrees spec obs"
begin

lemma drift_iff: "fst (check s obs) \<longleftrightarrow> (\<exists>spec. s = Some spec \<and> \<not> agrees spec obs)"
  using flag [of s obs] complete [of _ obs] unmanaged [of obs] by (cases s) auto

lemma settled: "(\<And>spec. s = Some spec \<Longrightarrow> agrees spec obs) \<Longrightarrow> check s obs = (False, [])"
  using drift_iff [of s obs] flag [of s obs] by (cases "check s obs") auto

text \<open>A reported drift names a first change, so that \<open>changes[0]\<close> is in range.\<close>

lemma first_change: "fst (check s obs) \<Longrightarrow> \<exists>c cs. snd (check s obs) = c # cs"
  using flag [of s obs] by (cases "snd (check s obs)") auto

end

text \<open>An optional field of the spec is met by a value when it is unset or equal.\<close>

definition meets :: "'a option \<Rightarrow> 'a \<Rightarrow> bool" where
  "meets spec cur = (case spec of None \<Rightarrow> True | Some v \<Rightarrow> v = cur)"

lemma drift_field_meets: "drift_field sh name spec cur = [] \<longleftrightarrow> meets spec cur"
  by (simp add: meets_def)

lemma drift_new_empty [simp]: "drift_new sh name spec = [] \<longleftrightarrow> spec = None"
  by (simp add: drift_new_def split: option.splits)

definition autoscaling_agrees :: "AutoscalingConfig \<Rightarrow> AutoscalingSettings option \<Rightarrow> bool" where
  "autoscaling_agrees spec env = (case env of
     None \<Rightarrow> True
   | Some e \<Rightarrow>
       meets (ac_MinReplicas spec) (as_MinReplica e) \<and>
       meets (ac_MaxReplicas spec) (as_MaxReplica e) \<and>
       meets (ac_ConcurrencyTarget spec) (as_ConcurrencyTarget e) \<and>
       meets (ac_AutoscalingWindow spec) (derefInt32 (as_AutoscalingWindow e)) \<and>
       meets (ac_ScaleDownDelay spec) (derefInt32 (as_ScaleDownDelay e)) \<and>
       meets (ac_TargetUtilizationPercentage spec) (derefInt32 (as_TargetUtilizationPercentage e)) \<and>
       meets (ac_MaxScaleDownRate spec) (derefInt32 (as_MaxScaleDownRate e)))"

definition rolling_agrees :: "RollingDeployConfig \<Rightarrow> RollingDeploySettings option \<Rightarrow> bool" where
  "rolling_agrees rc env = (case env of
     None \<Rightarrow> rd_Strategy rc = None \<and> rd_MaxSurgePercent rc = None \<and>
       rd_MaxUnavailablePercent rc = None \<and> rd_StabilizationTimeSeconds rc = None
   | Some erc \<Rightarrow>
       meets (rd_Strategy rc) (derefString (rs_Strategy erc)) \<and>
       meets (rd_MaxSurgePercent rc) (derefInt32 (rs_MaxSurgePercent erc)) \<and>
       meets (rd_MaxUnavailablePercent rc) (derefInt32 (rs_MaxUnavailablePercent erc)) \<and>
       meets (rd_StabilizationTimeSeconds rc) (derefInt32 (rs_StabilizationTimeSeconds erc)))"

definition promotion_agrees :: "PromotionSettingsConfig \<Rightarrow> PromotionSettings option \<Rightarrow> bool" where
  "promotion_agrees spec env =
     (let e = deref empty_PromotionSettings env in
      meets (pc_RedeployOnPromotion spec) (derefBool (ps_RedeployOnPromotion e)) \<and>
      meets (pc_RollingDeploy spec) (derefBool (ps_RollingDeploy e)) \<and>
      meets (pc_RampUpWhilePromoting spec) (derefBool (ps_RampUpWhilePromoting e)) \<and>
      meets (pc_RampUpDurationSeconds spec) (derefInt32 (ps_RampUpDurationSeconds e)) \<and>
      meets (pc_PromotionCleanupStrategy spec) (derefString (ps_PromotionCleanupStrategy e)) \<and>
      (\<forall>rc. pc_RollingDeployConfig spec = Some rc \<longrightarrow> rolling_agrees rc (ps_RollingDeployConfig e)))"

lemma autoscaling_drifts_empty:
  "autoscaling_drifts spec e = [] \<longleftrightarrow> autoscaling_agrees spec (Some e)"
  by (simp add: autoscaling_drifts_def autoscaling_agrees_def meets_def)

lemma rolling_drifts_empty:
  "rolling_drifts rc e = [] \<longleftrightarrow> (\<forall>c. rc = Some c \<longrightarrow> rolling_agrees c e)"
  by (auto simp: rolling_drifts_def rolling_agrees_def meets_def split: option.splits)

lemma promotion_drifts_empty:
  "promotion_drifts spec (deref empty_PromotionSettings env) = [] \<longleftrightarrow> promotion_agrees spec env"
  by (simp add: promotion_drifts_def promotion_agrees_def Let_def rolling_drifts_empty meets_def)

lemma HasPromotionSettingsDrift_Some:
  "HasPromotionSettingsDrift (Some s) env =
     (promotion_drifts s (deref empty_PromotionSettings env) \<noteq> [],
      promotion_drifts s (deref empty_PromotionSettings env))"
  by (simp add: HasPromotionSettingsDrift_def deref_def Let_def)

interpretation autoscaling: drift_check HasAutoscalingDrift autoscaling_agrees
proof
  show "HasAutoscalingDrift None obs = (False, [])" for obs
    by (simp add: HasAutoscalingDrift_def)
  show "fst (HasAutoscalingDrift s obs) \<longleftrightarrow> snd (HasAutoscalingDrift s obs) \<noteq> []" for s obs
    by (simp add: HasAutoscalingDrift_def split: option.splits)
  show "snd (HasAutoscalingDrift (Some spec) obs) = [] \<longleftrightarrow> autoscaling_agrees spec obs" for spec obs
    by (cases obs)
      (simp_all add: HasAutoscalingDrift_def autoscaling_drifts_empty, simp add: autoscaling_agrees_def)
qed

interpretation promotion: drift_check HasPromotionSettingsDrift promotion_agrees
proof
  show "HasPromotionSettingsDrift None obs = (False, [])" for obs
    by (simp add: HasPromotionSettingsDrift_def)
  show "fst (HasPromotionSettingsDrift s obs) \<longleftrightarrow> snd (HasPromotionSettingsDrift s obs) \<noteq> []" for s obs
    by (simp add: HasPromotionSettingsDrift_def Let_def split: option.splits)
  show "snd (HasPromotionSettingsDrift (Some spec) obs) = [] \<longleftrightarrow> promotion_agrees spec obs" for spec obs
    by (simp add: HasPromotionSettingsDrift_Some promotion_drifts_empty)
qed

section \<open>What a PATCH that took effect looks like\<close>

text \<open>
  The documented effect of a PATCH: a field present in the request has the requested value in the
  environment afterwards. Absent fields are unconstrained. (Each clause speaks of the SDK's own
  request and response types; no code of the service is modelled.)
\<close>

definition took_opt :: "'a option \<Rightarrow> 'a option \<Rightarrow> bool" where
  "took_opt req cur = (case req of None \<Rightarrow> True | Some v \<Rightarrow> cur = Some v)"

definition autoscaling_patch_took ::
  "sdk_UpdateAutoscalingSettings option \<Rightarrow> sdk_AutoscalingSettings \<Rightarrow> bool" where
  "autoscaling_patch_took req x = (case req of
     None \<Rightarrow> True
   | Some u \<Rightarrow>
       took_opt (ua_MinReplica u) (Some (xa_MinReplica x)) \<and>
       took_opt (ua_MaxReplica u) (Some (xa_MaxReplica x)) \<and>
       took_opt (ua_ConcurrencyTarget u) (Some (xa_ConcurrencyTarget x)) \<and>
       took_opt (ua_AutoscalingWindow u) (xa_AutoscalingWindow x) \<and>
       took_opt (ua_ScaleDownDelay u) (xa_ScaleDownDelay x) \<and>
       took_opt (ua_TargetUtilizationPercentage u) (xa_TargetUtilizationPercentage x) \<and>
       took_opt (ua_MaxScaleDownRate u) (xa_MaxScaleDownRate x))"

definition rolling_patch_took ::
  "sdk_UpdateRollingDeployConfig option \<Rightarrow> sdk_RollingDeployConfig option \<Rightarrow> bool" where
  "rolling_patch_took req cur = (case req of
     None \<Rightarrow> True
   | Some u \<Rightarrow> (case cur of
       None \<Rightarrow> False
     | Some x \<Rightarrow>
         took_opt (ur_RollingDeployStrategy u) (xr_RollingDeployStrategy x) \<and>
         took_opt (ur_MaxSurgePercent u) (xr_MaxSurgePercent x) \<and>
         took_opt (ur_MaxUnavailablePercent u) (xr_MaxUnavailablePercent x) \<and>
         took_opt (ur_StabilizationTimeSeconds u) (xr_StabilizationTimeSeconds x)))"

definition promotion_patch_took ::
  "sdk_UpdatePromotionSettings option \<Rightarrow> sdk_PromotionSettings \<Rightarrow> bool" where
  "promotion_patch_took req x = (case req of
     None \<Rightarrow> True
   | Some u \<Rightarrow>
       took_opt (up_RedeployOnPromotion u) (xp_RedeployOnPromotion x) \<and>
       took_opt (up_RollingDeploy u) (xp_RollingDeploy x) \<and>
       took_opt (up_PromotionCleanupStrategy u) (xp_PromotionCleanupStrategy x) \<and>
       took_opt (up_RampUpWhilePromoting u) (xp_RampUpWhilePromoting x) \<and>
       took_opt (up_RampUpDurationSeconds u) (xp_RampUpDurationSeconds x) \<and>
       rolling_patch_took (up_RollingDeployConfig u) (xp_RollingDeployConfig x))"

lemma took_int32_value:
  "took_opt (int32PtrToIntPtr c) (Some x) \<Longrightarrow> meets c (scast x)"
  by (auto simp: took_opt_def meets_def int32PtrToIntPtr_def split: option.splits)

lemma took_int32_opt:
  "took_opt (int32PtrToIntPtr c) x \<Longrightarrow> meets c (derefInt32 (intPtrToInt32Ptr x))"
  by (auto simp: took_opt_def meets_def int32PtrToIntPtr_def intPtrToInt32Ptr_def split: option.splits)

lemma took_bool: "took_opt c x \<Longrightarrow> meets c (derefBool x)"
  by (auto simp: took_opt_def meets_def split: option.splits)

lemma took_string: "took_opt c x \<Longrightarrow> meets c (derefString x)"
  by (auto simp: took_opt_def meets_def split: option.splits)

lemmas took_meets = took_int32_value took_int32_opt took_bool took_string

lemma meets_None [simp]: "meets None v"
  by (simp add: meets_def)

lemma took_opt_None [simp]: "took_opt None v"
  by (simp add: took_opt_def)

lemma int32PtrToIntPtr_None [simp]: "int32PtrToIntPtr None = None"
  by (simp add: int32PtrToIntPtr_def)

lemma autoscaling_patch_agrees:
  assumes "autoscaling_patch_took (toUpdateAutoscalingSettings (Some spec)) x"
  shows "autoscaling_agrees spec (Some (toAutoscalingSettings x))"
proof -
  have "took_opt (int32PtrToIntPtr (ac_MinReplicas spec)) (Some (xa_MinReplica x)) \<and>
    took_opt (int32PtrToIntPtr (ac_MaxReplicas spec)) (Some (xa_MaxReplica x)) \<and>
    took_opt (int32PtrToIntPtr (ac_ConcurrencyTarget spec)) (Some (xa_ConcurrencyTarget x)) \<and>
    took_opt (int32PtrToIntPtr (ac_AutoscalingWindow spec)) (xa_AutoscalingWindow x) \<and>
    took_opt (int32PtrToIntPtr (ac_ScaleDownDelay spec)) (xa_ScaleDownDelay x) \<and>
    took_opt (int32PtrToIntPtr (ac_TargetUtilizationPercentage spec)) (xa_TargetUtilizationPercentage x) \<and>
    took_opt (int32PtrToIntPtr (ac_MaxScaleDownRate spec)) (xa_MaxScaleDownRate x)"
    using assms by (simp add: autoscaling_patch_took_def toUpdateAutoscalingSettings_def split: if_splits)
  then show ?thesis
    by (simp add: autoscaling_agrees_def toAutoscalingSettings_def took_meets)
qed

lemma rolling_patch_agrees:
  assumes "rolling_patch_took (toUpdateRollingDeployConfig (Some rc)) cur"
  shows "rolling_agrees rc (map_option toRollingDeploySettings cur)"
proof (cases "toUpdateRollingDeployConfig (Some rc)")
  case None
  then show ?thesis
    by (auto simp: toUpdateRollingDeployConfig_def rolling_agrees_def split: if_splits option.splits)
next
  case (Some u)
  with assms obtain x where x: "cur = Some x" and
    "took_opt (rd_Strategy rc) (xr_RollingDeployStrategy x) \<and>
     took_opt (int32PtrToIntPtr (rd_MaxSurgePercent rc)) (xr_MaxSurgePercent x) \<and>
     took_opt (int32PtrToIntPtr (rd_MaxUnavailablePercent rc)) (xr_MaxUnavailablePercent x) \<and>
     took_opt (int32PtrToIntPtr (rd_StabilizationTimeSeconds rc)) (xr_StabilizationTimeSeconds x)"
    by (auto simp: rolling_patch_took_def toUpdateRollingDeployConfig_def split: if_splits option.splits)
  then show ?thesis
    by (simp add: rolling_agrees_def toRollingDeploySettings_def took_meets)
qed

lemma promotion_patch_agrees:
  assumes "promotion_patch_took (toUpdatePromotionSettings (Some spec)) x"
  shows "promotion_agrees spec (Some (toPromotionSettings x))"
proof -
  have a: "took_opt (pc_RedeployOnPromotion spec) (xp_RedeployOnPromotion x) \<and>
    took_opt (pc_RollingDeploy spec) (xp_RollingDeploy x) \<and>
    took_opt (pc_PromotionCleanupStrategy spec) (xp_PromotionCleanupStrategy x) \<and>
    took_opt (pc_RampUpWhilePromoting spec) (xp_RampUpWhilePromoting x) \<and>
    took_opt (int32PtrToIntPtr (pc_RampUpDurationSeconds spec)) (xp_RampUpDurationSeconds x) \<and>
    rolling_patch_took (toUpdateRollingDeployConfig (pc_RollingDeployConfig spec)) (xp_RollingDeployConfig x)"
    using assms
    by (simp add: promotion_patch_took_def toUpdatePromotionSettings_def Let_def rolling_patch_took_def
        split: if_splits)
  then have "rolling_agrees rc (map_option toRollingDeploySettings (xp_RollingDeployConfig x))"
    if "pc_RollingDeployConfig spec = Some rc" for rc
    using that rolling_patch_agrees by simp
  with a show ?thesis
    by (simp add: promotion_agrees_def toPromotionSettings_def took_meets)
qed

end
