(* ===== verification/Schedules.thy ===== *)
theory Schedules
  imports Baseten_Drift Go_Time
begin

text \<open>
  Autoscaling schedules (\<open>internal/baseten/schedules.go\<close>): the comparison of the schedules of the
  spec with those of the environment (\<open>diffSchedules\<close>), the request that makes them equal and
  the decoding of the service's answer. \<open>expired\<close> reads the clock once per schedule of the spec;
  \<open>clk i\<close> is that reading for the schedule at index \<open>i\<close>.
\<close>

definition CadenceOneTime :: string where
  "CadenceOneTime = ''ONE_TIME''"

definition ScheduleActive :: "Environment option \<Rightarrow> bool" where
  "ScheduleActive env = (case env of
     None \<Rightarrow> False
   | Some e \<Rightarrow> (case env_AutoscalingSchedules e of
       None \<Rightarrow> False
     | Some s \<Rightarrow> (case scs_AppliedState s of
         None \<Rightarrow> False
       | Some a \<Rightarrow> st_ScheduleID a \<noteq> None)))"

section \<open>Comparing schedules\<close>

definition canonicalTime :: "string \<Rightarrow> string" where
  "canonicalTime v = (case RFC3339_Parse v of Inl e \<Rightarrow> v | Inr t \<Rightarrow> RFC3339_Format t)"

definition expired :: "time \<Rightarrow> SpecSchedule \<Rightarrow> bool" where
  "expired now s =
     (if sp_Cadence s \<noteq> CadenceOneTime then False
      else (case RFC3339_Parse (sp_EndAt s) of Inl e \<Rightarrow> False | Inr end \<Rightarrow> end < now))"

definition scheduleFromSpec :: "SpecSchedule \<Rightarrow> AutoscalingSchedule" where
  "scheduleFromSpec s =
     (let a = sp_Autoscaling s in
      \<lparr>sch_ID = '''',
       sch_Name = sp_Name s,
       sch_Enabled = (case sp_Enabled s of None \<Rightarrow> True | Some b \<Rightarrow> b),
       sch_Cadence = sp_Cadence s,
       sch_Weekdays = Some (sp_Weekdays s),
       sch_StartHour = sp_StartHour s,
       sch_StartMinute = sp_StartMinute s,
       sch_EndHour = sp_EndHour s,
       sch_EndMinute = sp_EndMinute s,
       sch_StartAt = sp_StartAt s,
       sch_EndAt = sp_EndAt s,
       sch_AutoscalingSettings =
         \<lparr>ss_MinReplica = sa_MinReplicas a,
          ss_MaxReplica = sa_MaxReplicas a,
          ss_AutoscalingWindow = sa_AutoscalingWindow a,
          ss_ScaleDownDelay = sa_ScaleDownDelay a,
          ss_ConcurrencyTarget = sa_ConcurrencyTarget a,
          ss_TargetUtilizationPercentage = sa_TargetUtilizationPercentage a,
          ss_TargetInFlightTokens = sa_TargetInFlightTokens a,
          ss_MaxScaleDownRate = sa_MaxScaleDownRate a\<rparr>\<rparr>)"

definition normalizeSchedule :: "AutoscalingSchedule \<Rightarrow> AutoscalingSchedule" where
  "normalizeSchedule s0 =
     (let s = s0\<lparr>sch_ID := ''''\<rparr> in
      if sch_Cadence s = CadenceOneTime then
        s\<lparr>sch_Weekdays := None, sch_StartHour := None, sch_StartMinute := 0, sch_EndHour := None,
          sch_EndMinute := 0, sch_StartAt := canonicalTime (sch_StartAt s),
          sch_EndAt := canonicalTime (sch_EndAt s)\<rparr>
      else
        (let s = s\<lparr>sch_StartAt := '''', sch_EndAt := ''''\<rparr>;
             s = (if sch_Cadence s = ''HOURLY'' then s\<lparr>sch_StartHour := None, sch_EndHour := None\<rparr> else s)
         in s\<lparr>sch_Weekdays := (case sch_Weekdays s of
                None \<Rightarrow> None
              | Some ws \<Rightarrow> if ws = [] then None else Some (sort ws))\<rparr>))"

record scheduleDiff =
  upserts :: "AutoscalingSchedule list"
  deletes :: "string list"
  changes :: "string list"

text \<open>The closure \<open>remove\<close>; its set \<open>deleted\<close> holds exactly the ids in \<open>deletes\<close>.\<close>

definition sd_remove :: "AutoscalingSchedule \<Rightarrow> string \<Rightarrow> scheduleDiff \<Rightarrow> scheduleDiff" where
  "sd_remove ob change d =
     (if sch_ID ob \<in> set (deletes d) then d
      else d\<lparr>deletes := deletes d @ [sch_ID ob], changes := changes d @ [change]\<rparr>)"

text \<open>The loop that indexes the observed schedules by name and removes duplicates.\<close>

fun index_observed ::
  "AutoscalingSchedule list \<Rightarrow> (string \<rightharpoonup> AutoscalingSchedule) \<Rightarrow> scheduleDiff \<Rightarrow>
   (string \<rightharpoonup> AutoscalingSchedule) \<times> scheduleDiff" where
  "index_observed [] byName d = (byName, d)"
| "index_observed (ob # obs) byName d =
     (if byName (sch_Name ob) \<noteq> None
      then index_observed obs byName
             (sd_remove ob (''schedule '' @ sch_Name ob @ '' duplicate removed'') d)
      else index_observed obs (byName(sch_Name ob \<mapsto> ob)) d)"

text \<open>The loop over the schedules of the spec.\<close>

definition diff_one :: "time \<Rightarrow> (string \<rightharpoonup> AutoscalingSchedule) \<Rightarrow> SpecSchedule \<Rightarrow> scheduleDiff \<Rightarrow> scheduleDiff" where
  "diff_one now byName s d =
     (if expired now s then d
      else
        (let want = scheduleFromSpec s in
         case byName (sp_Name s) of
           None \<Rightarrow> d\<lparr>upserts := upserts d @ [want],
                     changes := changes d @ [''schedule '' @ sp_Name s @ '' added'']\<rparr>
         | Some ob \<Rightarrow>
             if normalizeSchedule want \<noteq> normalizeSchedule ob
             then d\<lparr>upserts := upserts d @ [want\<lparr>sch_ID := sch_ID ob\<rparr>],
                    changes := changes d @ [''schedule '' @ sp_Name s @ '' changed'']\<rparr>
             else d))"

fun diff_spec ::
  "(nat \<Rightarrow> time) \<Rightarrow> nat \<Rightarrow> (string \<rightharpoonup> AutoscalingSchedule) \<Rightarrow> SpecSchedule list \<Rightarrow> scheduleDiff \<Rightarrow> scheduleDiff" where
  "diff_spec clk i byName [] d = d"
| "diff_spec clk i byName (s # ss) d = diff_spec clk (Suc i) byName ss (diff_one (clk i) byName s d)"

text \<open>The loop that removes the observed schedules that the spec does not name.\<close>

fun remove_unlisted :: "string set \<Rightarrow> AutoscalingSchedule list \<Rightarrow> scheduleDiff \<Rightarrow> scheduleDiff" where
  "remove_unlisted inSpec [] d = d"
| "remove_unlisted inSpec (ob # obs) d =
     remove_unlisted inSpec obs
       (if sch_Name ob \<in> inSpec then d
        else sd_remove ob (''schedule '' @ sch_Name ob @ '' removed'') d)"

definition empty_AutoscalingSchedules :: AutoscalingSchedules where
  "empty_AutoscalingSchedules = \<lparr>scs_Timezone = None, scs_Schedules = [], scs_AppliedState = None\<rparr>"

definition diffSchedules ::
  "(nat \<Rightarrow> time) \<Rightarrow> AutoscalingScheduleConfig option \<Rightarrow> AutoscalingSchedules option \<Rightarrow> scheduleDiff" where
  "diffSchedules clk spec observed =
     (let d = \<lparr>upserts = [], deletes = [], changes = []\<rparr> in
      case spec of
        None \<Rightarrow> d
      | Some sp \<Rightarrow>
          (let ob = deref empty_AutoscalingSchedules observed;
               d = (case asc_Timezone sp of
                      None \<Rightarrow> d
                    | Some tz \<Rightarrow> if tz \<noteq> derefString (scs_Timezone ob)
                        then d\<lparr>changes := changes d @
                          [''scheduleTimezone '' @ derefString (scs_Timezone ob) @ arrow @ tz]\<rparr>
                        else d);
               (byName, d) = index_observed (scs_Schedules ob) Map.empty d;
               d = diff_spec clk 0 byName (asc_Schedules sp) d
           in remove_unlisted (set (map sp_Name (asc_Schedules sp))) (scs_Schedules ob) d))"

definition HasScheduleDrift ::
  "(nat \<Rightarrow> time) \<Rightarrow> AutoscalingScheduleConfig option \<Rightarrow> AutoscalingSchedules option \<Rightarrow> bool \<times> string list" where
  "HasScheduleDrift clk spec observed =
     (let d = diffSchedules clk spec observed in (0 < length (changes d), changes d))"

section \<open>The update request\<close>

definition toScheduleSettingsRequest :: "ScheduleAutoscalingSettings \<Rightarrow> sdk_ScheduleSettings" where
  "toScheduleSettingsRequest a = \<lparr>xs_MinReplica = scast (ss_MinReplica a),
     xs_MaxReplica = scast (ss_MaxReplica a),
     xs_AutoscalingWindow = int32PtrToIntPtr (ss_AutoscalingWindow a),
     xs_ScaleDownDelay = int32PtrToIntPtr (ss_ScaleDownDelay a),
     xs_ConcurrencyTarget = int32PtrToIntPtr (ss_ConcurrencyTarget a),
     xs_TargetUtilizationPercentage = int32PtrToIntPtr (ss_TargetUtilizationPercentage a),
     xs_TargetInFlightTokens = int32PtrToIntPtr (ss_TargetInFlightTokens a),
     xs_MaxScaleDownRate = int32PtrToIntPtr (ss_MaxScaleDownRate a)\<rparr>"

text \<open>
  The SDK's union constructors \<open>FromOneTimeAutoscalingScheduleUpsert\<close> and
  \<open>FromAutoscalingScheduleUpsert\<close> are the parameter \<open>from\<close>: the error they answer, or nil.
\<close>

definition toScheduleUpsert ::
  "(sdk_UpsertItem \<Rightarrow> go_error option) \<Rightarrow> AutoscalingSchedule \<Rightarrow> go_error + sdk_UpsertItem" where
  "toScheduleUpsert from s =
     (let id = (if sch_ID s \<noteq> '''' then Some (sch_ID s) else None);
          settings = toScheduleSettingsRequest (sch_AutoscalingSettings s);
          made = (\<lambda>item. case from item of None \<Rightarrow> Inr item | Some e \<Rightarrow> Inl e)
      in
      if sch_Cadence s = CadenceOneTime then
        (case RFC3339_Parse (sch_StartAt s) of
           Inl e \<Rightarrow> Inl (WrapError ''invalid startAt'' (ErrorString e))
         | Inr startAt \<Rightarrow>
             (case RFC3339_Parse (sch_EndAt s) of
                Inl e \<Rightarrow> Inl (WrapError ''invalid endAt'' (ErrorString e))
              | Inr endAt \<Rightarrow>
                  made (OneTimeItem \<lparr>uo_Id = id, uo_Name = sch_Name s, uo_Enabled = sch_Enabled s,
                    uo_StartAt = startAt, uo_EndAt = endAt, uo_AutoscalingSettings = settings\<rparr>)))
      else
        made (RecurringItem \<lparr>us_Id = id, us_Name = sch_Name s, us_Enabled = sch_Enabled s,
          us_Cadence = sch_Cadence s, us_Weekdays = deref [] (sch_Weekdays s),
          us_StartHour = int32PtrToIntPtr (sch_StartHour s), us_StartMinute = scast (sch_StartMinute s),
          us_EndHour = int32PtrToIntPtr (sch_EndHour s), us_EndMinute = scast (sch_EndMinute s),
          us_AutoscalingSettings = settings\<rparr>))"

fun toScheduleUpserts ::
  "(sdk_UpsertItem \<Rightarrow> go_error option) \<Rightarrow> AutoscalingSchedule list \<Rightarrow> go_error + sdk_UpsertItem list" where
  "toScheduleUpserts from [] = Inr []"
| "toScheduleUpserts from (s # ss) =
     (case toScheduleUpsert from s of
        Inl e \<Rightarrow> Inl (WrapError (''schedule '' @ sch_Name s) e)
      | Inr item \<Rightarrow> sbind (toScheduleUpserts from ss) (\<lambda>items. Inr (item # items)))"

definition toUpdateAutoscalingScheduleSettings ::
  "(sdk_UpsertItem \<Rightarrow> go_error option) \<Rightarrow> (nat \<Rightarrow> time) \<Rightarrow> AutoscalingScheduleConfig option \<Rightarrow>
   AutoscalingSchedules option \<Rightarrow> go_error + sdk_UpdateScheduleSettings option" where
  "toUpdateAutoscalingScheduleSettings from clk spec observed =
     (let d = diffSchedules clk spec observed in
      if changes d = [] then Inr None
      else
        sbind (if upserts d = [] then Inr None
               else sbind (toScheduleUpserts from (upserts d)) (\<lambda>items. Inr (Some items)))
          (\<lambda>schedules. Inr (Some
             \<lparr>uz_Timezone = (case spec of None \<Rightarrow> None | Some sp \<Rightarrow> asc_Timezone sp),
              uz_Schedules = schedules,
              uz_DeleteSchedules = (if deletes d = [] then None else Some (deletes d))\<rparr>)))"

section \<open>Decoding the service's schedules\<close>

definition toScheduleAutoscalingSettings :: "sdk_ScheduleSettings \<Rightarrow> ScheduleAutoscalingSettings" where
  "toScheduleAutoscalingSettings a = \<lparr>ss_MinReplica = scast (xs_MinReplica a),
     ss_MaxReplica = scast (xs_MaxReplica a),
     ss_AutoscalingWindow = intPtrToInt32Ptr (xs_AutoscalingWindow a),
     ss_ScaleDownDelay = intPtrToInt32Ptr (xs_ScaleDownDelay a),
     ss_ConcurrencyTarget = intPtrToInt32Ptr (xs_ConcurrencyTarget a),
     ss_TargetUtilizationPercentage = intPtrToInt32Ptr (xs_TargetUtilizationPercentage a),
     ss_TargetInFlightTokens = intPtrToInt32Ptr (xs_TargetInFlightTokens a),
     ss_MaxScaleDownRate = intPtrToInt32Ptr (xs_MaxScaleDownRate a)\<rparr>"

definition toAutoscalingSchedule :: "sdk_ScheduleItem \<Rightarrow> go_error + AutoscalingSchedule" where
  "toAutoscalingSchedule item =
     sbind (xi_Discriminator item) (\<lambda>cadence.
       if cadence = CadenceOneTime then
         sbind (xi_AsOneTimeAutoscalingSchedule item) (\<lambda>ot. Inr
           \<lparr>sch_ID = xo_Id ot, sch_Name = xo_Name ot, sch_Enabled = xo_Enabled ot,
            sch_Cadence = CadenceOneTime, sch_Weekdays = None, sch_StartHour = None,
            sch_StartMinute = 0, sch_EndHour = None, sch_EndMinute = 0,
            sch_StartAt = RFC3339_FormatZ (xo_StartAt ot), sch_EndAt = RFC3339_FormatZ (xo_EndAt ot),
            sch_AutoscalingSettings = toScheduleAutoscalingSettings (xo_AutoscalingSettings ot)\<rparr>)
       else
         sbind (xi_AsAutoscalingSchedule item) (\<lambda>r. Inr
           \<lparr>sch_ID = xc_Id r, sch_Name = xc_Name r, sch_Enabled = xc_Enabled r,
            sch_Cadence = xc_Cadence r, sch_Weekdays = Some (xc_Weekdays r),
            sch_StartHour = intPtrToInt32Ptr (xc_StartHour r), sch_StartMinute = scast (xc_StartMinute r),
            sch_EndHour = intPtrToInt32Ptr (xc_EndHour r), sch_EndMinute = scast (xc_EndMinute r),
            sch_StartAt = '''', sch_EndAt = '''',
            sch_AutoscalingSettings = toScheduleAutoscalingSettings (xc_AutoscalingSettings r)\<rparr>))"

fun toAutoscalingScheduleList :: "sdk_ScheduleItem list \<Rightarrow> go_error + AutoscalingSchedule list" where
  "toAutoscalingScheduleList [] = Inr []"
| "toAutoscalingScheduleList (item # items) =
     (case toAutoscalingSchedule item of
        Inl e \<Rightarrow> Inl (WrapError ''failed to decode autoscaling schedule'' e)
      | Inr s \<Rightarrow> sbind (toAutoscalingScheduleList items) (\<lambda>ss. Inr (s # ss)))"

definition toAutoscalingSchedules ::
  "sdk_EnvironmentSchedules option \<Rightarrow> go_error + AutoscalingSchedules option" where
  "toAutoscalingSchedules e = (case e of
     None \<Rightarrow> Inr None
   | Some e \<Rightarrow> sbind (toAutoscalingScheduleList (xz_Schedules e)) (\<lambda>ss. Inr (Some
       \<lparr>scs_Timezone = xz_Timezone e,
        scs_Schedules = ss,
        scs_AppliedState = (case xz_AppliedState e of
          None \<Rightarrow> None
        | Some a \<Rightarrow> Some \<lparr>st_ScheduleID = xy_ScheduleId a,
            st_AutoscalingSettings = Some (toAutoscalingSettings (xy_AutoscalingSettings a))\<rparr>)\<rparr>)))"

end
