(* ===== verification/Baseten_Client.thy ===== *)
theory Baseten_Client
  imports Schedules
begin

text \<open>
  The Baseten client (\<open>internal/baseten/client.go\<close>): the methods of \<open>Client\<close> over the generated
  SDK. The SDK is not part of the repository: the record \<open>'w sdk\<close> holds its calls as functions
  of the request and of an opaque world \<open>'w\<close> (the service). \<open>ClientInterface\<close> is the interface the
  reconciler uses, a record of functions in the same style, and \<open>Client\<close> is its implementation.
\<close>

record sdk_Model =
  xm_Id :: string
  xm_Name :: string

record 'w sdk =
  x_GetModels :: "'w \<Rightarrow> (go_error + sdk_Model list) \<times> 'w"
  x_GetTeams :: "string \<Rightarrow> 'w \<Rightarrow> (go_error + sdk_Model list) \<times> 'w"
  x_GetTeamsModels :: "string \<Rightarrow> string \<Rightarrow> 'w \<Rightarrow> (go_error + sdk_Model list) \<times> 'w"
  x_DeleteModels :: "string \<Rightarrow> 'w \<Rightarrow> go_error option \<times> 'w"
  x_GetModelsDeployments :: "string \<Rightarrow> 'w \<Rightarrow> (go_error + sdk_Deployment list) \<times> 'w"
  x_PostModelsDeploymentsActivate :: "string \<Rightarrow> string \<Rightarrow> 'w \<Rightarrow> go_error option \<times> 'w"
  x_GetModelsEnvironmentsEnvName :: "string \<Rightarrow> string \<Rightarrow> 'w \<Rightarrow> (go_error + sdk_Environment) \<times> 'w"
  x_GetModelsEnvironments :: "string \<Rightarrow> 'w \<Rightarrow> (go_error + sdk_Environment list) \<times> 'w"
  x_PostModelsEnvironments :: "string \<Rightarrow> sdk_CreateEnvironmentRequest \<Rightarrow> 'w \<Rightarrow> go_error option \<times> 'w"
  x_PatchModelsEnvironments ::
    "string \<Rightarrow> string \<Rightarrow> sdk_UpdateEnvironmentRequest \<Rightarrow> 'w \<Rightarrow> go_error option \<times> 'w"
  x_PostModelsEnvironmentsPromote ::
    "string \<Rightarrow> string \<Rightarrow> sdk_PromoteRequest \<Rightarrow> 'w \<Rightarrow> (go_error + sdk_Deployment option) \<times> 'w"
  x_PatchModelsDeploymentsAutoscalingSettings ::
    "string \<Rightarrow> string \<Rightarrow> sdk_UpdateAutoscalingSettings \<Rightarrow> 'w \<Rightarrow> go_error option \<times> 'w"
  x_DeleteModelsDeployments :: "string \<Rightarrow> string \<Rightarrow> 'w \<Rightarrow> go_error option \<times> 'w"
  x_PostModelsDeploymentsRetry :: "string \<Rightarrow> string \<Rightarrow> 'w \<Rightarrow> (go_error + sdk_RetryResponse) \<times> 'w"
  x_FromUpsert :: "sdk_UpsertItem \<Rightarrow> go_error option"
  x_Now :: "'w \<Rightarrow> time \<times> 'w"

text \<open>The interface the reconciler is written against.\<close>

record 'w ClientInterface =
  ci_FindModelIDByName :: "string \<Rightarrow> string \<Rightarrow> 'w \<Rightarrow> (go_error + string) \<times> 'w"
  ci_DeleteModel :: "string \<Rightarrow> 'w \<Rightarrow> go_error option \<times> 'w"
  ci_GetEnvironment :: "string \<Rightarrow> string \<Rightarrow> 'w \<Rightarrow> (go_error + Environment) \<times> 'w"
  ci_ListEnvironments :: "string \<Rightarrow> 'w \<Rightarrow> (go_error + Environment list) \<times> 'w"
  ci_CreateEnvironment :: "string \<Rightarrow> EnvironmentConfig \<Rightarrow> 'w \<Rightarrow> go_error option \<times> 'w"
  ci_UpdateEnvironmentSettings :: "string \<Rightarrow> string \<Rightarrow> AutoscalingConfig option \<Rightarrow>
    PromotionSettingsConfig option \<Rightarrow> 'w \<Rightarrow> go_error option \<times> 'w"
  ci_UpdateAutoscalingSchedules :: "string \<Rightarrow> string \<Rightarrow> AutoscalingScheduleConfig option \<Rightarrow>
    AutoscalingSchedules option \<Rightarrow> 'w \<Rightarrow> go_error option \<times> 'w"
  ci_FindDeploymentIDByName :: "string \<Rightarrow> string \<Rightarrow> 'w \<Rightarrow> (go_error + (string \<times> string)) \<times> 'w"
  ci_ActivateDeployment :: "string \<Rightarrow> string \<Rightarrow> 'w \<Rightarrow> go_error option \<times> 'w"
  ci_Promote :: "string \<Rightarrow> string \<Rightarrow> string \<Rightarrow> PromotionSettingsConfig option \<Rightarrow> 'w \<Rightarrow>
    (go_error + Deployment option) \<times> 'w"
  ci_ListDeployments :: "string \<Rightarrow> 'w \<Rightarrow> (go_error + DeploymentDetail list) \<times> 'w"
  ci_UpdateDeploymentAutoscaling :: "string \<Rightarrow> string \<Rightarrow> int32 \<Rightarrow> 'w \<Rightarrow> go_error option \<times> 'w"
  ci_DeleteDeployment :: "string \<Rightarrow> string \<Rightarrow> 'w \<Rightarrow> go_error option \<times> 'w"
  ci_RetryDeployment :: "string \<Rightarrow> string \<Rightarrow> 'w \<Rightarrow> (go_error + RetryResponse) \<times> 'w"

section \<open>Results of a call\<close>

text \<open>\<open>if err != nil { return nil, toAPIError(err) }\<close> around a call that yields a value.\<close>

definition api_value :: "('a \<Rightarrow> 'b) \<Rightarrow> (go_error + 'a) \<times> 'w \<Rightarrow> (go_error + 'b) \<times> 'w" where
  "api_value f r = (case r of
     (Inl e, w) \<Rightarrow> (Inl (the (toAPIError (Some e))), w)
   | (Inr a, w) \<Rightarrow> (Inr (f a), w))"

definition api_error :: "go_error option \<times> 'w \<Rightarrow> go_error option \<times> 'w" where
  "api_error r = (case r of (e, w) \<Rightarrow> (toAPIError e, w))"

section \<open>Converting answers\<close>

definition toDeployment :: "sdk_Deployment option \<Rightarrow> Deployment option" where
  "toDeployment d = (case d of
     None \<Rightarrow> None
   | Some d \<Rightarrow> Some \<lparr>dep_ID = xd_Id d, dep_Name = xd_Name d, dep_Status = xd_Status d,
       dep_ActiveReplicaCount = scast (xd_ActiveReplicaCount d)\<rparr>)"

definition toDeploymentPtr :: "sdk_Deployment \<Rightarrow> Deployment option" where
  "toDeploymentPtr d = (if xd_Id d = '''' then None else toDeployment (Some d))"

definition toDeploymentDetail :: "sdk_Deployment \<Rightarrow> DeploymentDetail" where
  "toDeploymentDetail d = \<lparr>dd_ID = xd_Id d, dd_Name = xd_Name d, dd_Status = xd_Status d,
     dd_ActiveReplicaCount = scast (xd_ActiveReplicaCount d),
     dd_CreatedAt = RFC3339_FormatZ (xd_CreatedAt d),
     dd_IsProduction = xd_IsProduction d, dd_IsDevelopment = xd_IsDevelopment d,
     dd_Environment = xd_Environment d,
     dd_AutoscalingSettings = toAutoscalingSettingsPtr (xd_AutoscalingSettings d)\<rparr>"

definition toEnvironment :: "sdk_Environment \<Rightarrow> Environment" where
  "toEnvironment e =
     (let schedules = toAutoscalingSchedules (xe_AutoscalingSchedules e) in
      \<lparr>env_Name = xe_Name e,
       env_CurrentDeployment = toDeployment (xe_CurrentDeployment e),
       env_CandidateDeployment = toDeployment (xe_CandidateDeployment e),
       env_AutoscalingSettings = Some (toAutoscalingSettings (xe_AutoscalingSettings e)),
       env_PromotionSettings = Some (toPromotionSettings (xe_PromotionSettings e)),
       env_AutoscalingSchedules = (case schedules of Inl err \<Rightarrow> None | Inr s \<Rightarrow> s),
       env_ScheduleDecodeErr = (case schedules of Inl err \<Rightarrow> Some err | Inr s \<Rightarrow> None)\<rparr>)"

section \<open>The methods of Client\<close>

text \<open>The loop that returns the id of the first entry with the given name.\<close>

fun find_id_by_name :: "sdk_Model list \<Rightarrow> string \<Rightarrow> string option" where
  "find_id_by_name [] n = None"
| "find_id_by_name (m # ms) n = (if xm_Name m = n then Some (xm_Id m) else find_id_by_name ms n)"

definition findTeamID :: "'w sdk \<Rightarrow> string \<Rightarrow> 'w \<Rightarrow> (go_error + string) \<times> 'w" where
  "findTeamID api team w = (case x_GetTeams api team w of
     (Inl e, w) \<Rightarrow> (Inl (the (toAPIError (Some e))), w)
   | (Inr teams, w) \<Rightarrow> (case find_id_by_name teams team of
       Some i \<Rightarrow> (Inr i, w)
     | None \<Rightarrow> (Inl (ErrorString (''baseten team '' @ fmt_q team @
         '' not found or not accessible with this API key'')), w)))"

definition FindModelIDByName :: "'w sdk \<Rightarrow> string \<Rightarrow> string \<Rightarrow> 'w \<Rightarrow> (go_error + string) \<times> 'w" where
  "FindModelIDByName api modelName team w =
     (let pick = (\<lambda>ms. deref '''' (find_id_by_name ms modelName)) in
      if team = '''' then api_value pick (x_GetModels api w)
      else (case findTeamID api team w of
          (Inl e, w) \<Rightarrow> (Inl e, w)
        | (Inr teamID, w) \<Rightarrow> api_value pick (x_GetTeamsModels api teamID modelName w)))"

definition DeleteModel :: "'w sdk \<Rightarrow> string \<Rightarrow> 'w \<Rightarrow> go_error option \<times> 'w" where
  "DeleteModel api modelID w = api_error (x_DeleteModels api modelID w)"

fun find_deployment :: "sdk_Deployment list \<Rightarrow> string \<Rightarrow> string \<times> string" where
  "find_deployment [] n = ('''', '''')"
| "find_deployment (d # ds) n = (if xd_Name d = n then (xd_Id d, xd_Status d) else find_deployment ds n)"

definition FindDeploymentIDByName ::
  "'w sdk \<Rightarrow> string \<Rightarrow> string \<Rightarrow> 'w \<Rightarrow> (go_error + (string \<times> string)) \<times> 'w" where
  "FindDeploymentIDByName api modelID deploymentName w =
     api_value (\<lambda>ds. find_deployment ds deploymentName) (x_GetModelsDeployments api modelID w)"

definition ActivateDeployment :: "'w sdk \<Rightarrow> string \<Rightarrow> string \<Rightarrow> 'w \<Rightarrow> go_error option \<times> 'w" where
  "ActivateDeployment api modelID deploymentID w =
     api_error (x_PostModelsDeploymentsActivate api modelID deploymentID w)"

definition GetEnvironment :: "'w sdk \<Rightarrow> string \<Rightarrow> string \<Rightarrow> 'w \<Rightarrow> (go_error + Environment) \<times> 'w" where
  "GetEnvironment api modelID envName w =
     api_value toEnvironment (x_GetModelsEnvironmentsEnvName api modelID envName w)"

definition ListEnvironments :: "'w sdk \<Rightarrow> string \<Rightarrow> 'w \<Rightarrow> (go_error + Environment list) \<times> 'w" where
  "ListEnvironments api modelID w = api_value (map toEnvironment) (x_GetModelsEnvironments api modelID w)"

definition CreateEnvironment :: "'w sdk \<Rightarrow> string \<Rightarrow> EnvironmentConfig \<Rightarrow> 'w \<Rightarrow> go_error option \<times> 'w" where
  "CreateEnvironment api modelID envConfig w =
     api_error (x_PostModelsEnvironments api modelID
       \<lparr>ce_Name = ec_Name envConfig,
        ce_AutoscalingSettings = toUpdateAutoscalingSettings (ec_Autoscaling envConfig),
        ce_PromotionSettings = toUpdatePromotionSettings (ec_PromotionSettings envConfig)\<rparr> w)"

definition UpdateEnvironmentSettings :: "'w sdk \<Rightarrow> string \<Rightarrow> string \<Rightarrow> AutoscalingConfig option \<Rightarrow>
    PromotionSettingsConfig option \<Rightarrow> 'w \<Rightarrow> go_error option \<times> 'w" where
  "UpdateEnvironmentSettings api modelID envName autoscalingConfig promotionConfig w =
     api_error (x_PatchModelsEnvironments api modelID envName
       \<lparr>ue_AutoscalingSettings = toUpdateAutoscalingSettings autoscalingConfig,
        ue_PromotionSettings = toUpdatePromotionSettings promotionConfig,
        ue_AutoscalingScheduleSettings = None\<rparr> w)"

text \<open>The clock readings of one comparison of schedules, one for each schedule of the spec.\<close>

fun read_clock :: "('w \<Rightarrow> time \<times> 'w) \<Rightarrow> nat \<Rightarrow> 'w \<Rightarrow> time list \<times> 'w" where
  "read_clock now 0 w = ([], w)"
| "read_clock now (Suc n) w =
     (case now w of (t, w) \<Rightarrow> (case read_clock now n w of (ts, w) \<Rightarrow> (t # ts, w)))"

definition schedule_count :: "AutoscalingScheduleConfig option \<Rightarrow> nat" where
  "schedule_count spec = (case spec of None \<Rightarrow> 0 | Some s \<Rightarrow> length (asc_Schedules s))"

definition UpdateAutoscalingSchedules :: "'w sdk \<Rightarrow> string \<Rightarrow> string \<Rightarrow> AutoscalingScheduleConfig option \<Rightarrow>
    AutoscalingSchedules option \<Rightarrow> 'w \<Rightarrow> go_error option \<times> 'w" where
  "UpdateAutoscalingSchedules api modelID envName spec observed w =
     (case read_clock (x_Now api) (schedule_count spec) w of (ts, w) \<Rightarrow>
      (case toUpdateAutoscalingScheduleSettings (x_FromUpsert api) (nth ts) spec observed of
         Inl e \<Rightarrow> (Some e, w)
       | Inr None \<Rightarrow> (None, w)
       | Inr (Some settings) \<Rightarrow>
           api_error (x_PatchModelsEnvironments api modelID envName
             \<lparr>ue_AutoscalingSettings = None, ue_PromotionSettings = None,
              ue_AutoscalingScheduleSettings = Some settings\<rparr> w)))"

definition Promote :: "'w sdk \<Rightarrow> string \<Rightarrow> string \<Rightarrow> string \<Rightarrow> PromotionSettingsConfig option \<Rightarrow> 'w \<Rightarrow>
    (go_error + Deployment option) \<times> 'w" where
  "Promote api modelID deploymentID targetEnv promotionSettings w =
     (let scaleDownPrevious = (case promotionSettings of
            None \<Rightarrow> True | Some p \<Rightarrow> deref True (pc_ScaleDownPreviousDeployment p));
          preserveInstanceType = (case promotionSettings of
            None \<Rightarrow> True | Some p \<Rightarrow> deref True (pc_PreserveInstanceType p))
      in api_value toDeployment (x_PostModelsEnvironmentsPromote api modelID targetEnv
           \<lparr>pr_DeploymentId = deploymentID,
            pr_ScaleDownPreviousDeployment = Some scaleDownPrevious,
            pr_PreserveEnvInstanceType = Some preserveInstanceType\<rparr> w))"

definition ListDeployments :: "'w sdk \<Rightarrow> string \<Rightarrow> 'w \<Rightarrow> (go_error + DeploymentDetail list) \<times> 'w" where
  "ListDeployments api modelID w = api_value (map toDeploymentDetail) (x_GetModelsDeployments api modelID w)"

definition UpdateDeploymentAutoscaling :: "'w sdk \<Rightarrow> string \<Rightarrow> string \<Rightarrow> int32 \<Rightarrow> 'w \<Rightarrow> go_error option \<times> 'w" where
  "UpdateDeploymentAutoscaling api modelID deploymentID minReplica w =
     api_error (x_PatchModelsDeploymentsAutoscalingSettings api modelID deploymentID
       \<lparr>ua_MinReplica = Some (scast minReplica), ua_MaxReplica = None, ua_ConcurrencyTarget = None,
        ua_AutoscalingWindow = None, ua_ScaleDownDelay = None,
        ua_TargetUtilizationPercentage = None, ua_MaxScaleDownRate = None\<rparr> w)"

definition DeleteDeployment :: "'w sdk \<Rightarrow> string \<Rightarrow> string \<Rightarrow> 'w \<Rightarrow> go_error option \<times> 'w" where
  "DeleteDeployment api modelID deploymentID w =
     api_error (x_DeleteModelsDeployments api modelID deploymentID w)"

definition RetryDeployment :: "'w sdk \<Rightarrow> string \<Rightarrow> string \<Rightarrow> 'w \<Rightarrow> (go_error + RetryResponse) \<times> 'w" where
  "RetryDeployment api modelID deploymentID w =
     api_value (\<lambda>resp. \<lparr>rr_Retried = rx_Retried resp, rr_Reason = deref '''' (rx_Reason resp),
         rr_Deployment = toDeploymentPtr (rx_Deployment resp)\<rparr>)
       (x_PostModelsDeploymentsRetry api modelID deploymentID w)"

definition Client :: "'w sdk \<Rightarrow> 'w ClientInterface" where
  "Client api = \<lparr>ci_FindModelIDByName = FindModelIDByName api,
     ci_DeleteModel = DeleteModel api,
     ci_GetEnvironment = GetEnvironment api,
     ci_ListEnvironments = ListEnvironments api,
     ci_CreateEnvironment = CreateEnvironment api,
     ci_UpdateEnvironmentSettings = UpdateEnvironmentSettings api,
     ci_UpdateAutoscalingSchedules = UpdateAutoscalingSchedules api,
     ci_FindDeploymentIDByName = FindDeploymentIDByName api,
     ci_ActivateDeployment = ActivateDeployment api,
     ci_Promote = Promote api,
     ci_ListDeployments = ListDeployments api,
     ci_UpdateDeploymentAutoscaling = UpdateDeploymentAutoscaling api,
     ci_DeleteDeployment = DeleteDeployment api,
     ci_RetryDeployment = RetryDeployment api\<rparr>"

end
