(* ===== verification/Truss_Config.thy ===== *)
theory Truss_Config
  imports Crd_Types Go_Error Sha256
begin

text \<open>
  \<open>internal/truss/config.go\<close> and \<open>internal/truss/pusher.go\<close>: the content of \<open>config.yaml\<close> as a tree
  of values, the hash of a truss configuration (its JSON text followed by the setup script, through
  SHA-256) and the deployment name that carries it, and the push through a temporary directory.
  The YAML printer (\<open>gopkg.in/yaml.v3\<close>) and the truss SDK are parameters.
\<close>

section \<open>The value tree of config.yaml\<close>

datatype yaml =
    YStr string
  | YBool bool
  | YInt int
  | YList "yaml list"
  | YMap "(string \<times> yaml) list"
  | YAny string

text \<open>\<open>YAny raw\<close> is the value that \<open>json.Unmarshal\<close> reads from the JSON text \<open>raw\<close>.\<close>

definition opt_str :: "string \<Rightarrow> string \<Rightarrow> (string \<times> yaml) list" where
  "opt_str k v = (if v \<noteq> '''' then [(k, YStr v)] else [])"

definition opt_val :: "string \<Rightarrow> ('a \<Rightarrow> yaml) \<Rightarrow> 'a option \<Rightarrow> (string \<times> yaml) list" where
  "opt_val k f v = (case v of None \<Rightarrow> [] | Some x \<Rightarrow> [(k, f x)])"

definition opt_list :: "string \<Rightarrow> string list \<Rightarrow> (string \<times> yaml) list" where
  "opt_list k xs = (if xs \<noteq> [] then [(k, YList (map YStr xs))] else [])"

definition opt_map :: "string \<Rightarrow> (string \<times> string) list \<Rightarrow> (string \<times> yaml) list" where
  "opt_map k m = (if m \<noteq> [] then [(k, YMap (map (\<lambda>(a, b). (a, YStr b)) m))] else [])"

definition yaml_weight :: "TrussWeightSource \<Rightarrow> yaml" where
  "yaml_weight s = YMap (
     [(''source'', YStr (ws_Source s)), (''mount_location'', YStr (ws_MountLocation s))] @
     opt_val ''auth'' (\<lambda>a. YMap [(''auth_method'', YStr (wa_AuthMethod a)),
       (''auth_secret_name'', YStr (wa_AuthSecretName a))]) (ws_Auth s) @
     opt_list ''allow_patterns'' (ws_AllowPatterns s) @
     opt_list ''ignore_patterns'' (ws_IgnorePatterns s))"

definition yaml_resources :: "TrussResources \<Rightarrow> yaml" where
  "yaml_resources r = YMap (
     opt_str ''accelerator'' (tr_Accelerator r) @
     opt_val ''use_gpu'' YBool (tr_UseGpu r) @
     opt_str ''cpu'' (tr_CPU r) @
     opt_str ''memory'' (tr_Memory r))"

definition yaml_base_image :: "TrussBaseImage \<Rightarrow> yaml" where
  "yaml_base_image b = YMap (
     [(''image'', YStr (bi_Image b))] @
     opt_val ''docker_auth'' (\<lambda>a. YMap [(''auth_method'', YStr (da_AuthMethod a)),
       (''secret_name'', YStr (da_SecretName a)), (''registry'', YStr (da_Registry a))]) (bi_DockerAuth b))"

definition yaml_docker_server :: "TrussDockerServer \<Rightarrow> yaml" where
  "yaml_docker_server s = YMap (
     opt_val ''no_build'' YBool (ds_NoBuild s) @
     opt_str ''start_command'' (ds_StartCommand s) @
     opt_str ''readiness_endpoint'' (ds_ReadinessEndpoint s) @
     opt_str ''liveness_endpoint'' (ds_LivenessEndpoint s) @
     opt_str ''predict_endpoint'' (ds_PredictEndpoint s) @
     opt_val ''server_port'' (\<lambda>w. YInt (sint w)) (ds_ServerPort s))"

text \<open>\<open>json_ok raw\<close> is the success of \<open>json.Unmarshal\<close> on the example input.\<close>

definition yaml_metadata :: "(string \<Rightarrow> bool) \<Rightarrow> TrussModelMetadata \<Rightarrow> yaml" where
  "yaml_metadata json_ok m = YMap (
     (case mm_ExampleModelInput m of
        Some (Some raw) \<Rightarrow> if json_ok raw then [(''example_model_input'', YAny raw)] else []
      | _ \<Rightarrow> []) @
     opt_list ''tags'' (mm_Tags m))"

definition config_tree :: "(string \<Rightarrow> bool) \<Rightarrow> TrussConfig \<Rightarrow> string \<Rightarrow> yaml" where
  "config_tree json_ok tc modelName = YMap (
     [(''model_name'', YStr modelName)] @
     opt_str ''python_version'' (tc_PythonVersion tc) @
     (if tc_Weights tc \<noteq> [] then [(''weights'', YList (map yaml_weight (tc_Weights tc)))] else []) @
     [(''resources'', yaml_resources (tc_Resources tc))] @
     opt_map ''secrets'' (tc_Secrets tc) @
     opt_map ''environment_variables'' (tc_EnvironmentVariables tc) @
     [(''base_image'', yaml_base_image (tc_BaseImage tc))] @
     opt_val ''docker_server'' yaml_docker_server (tc_DockerServer tc) @
     opt_val ''runtime'' (\<lambda>r. YMap (opt_val ''predict_concurrency'' (\<lambda>w. YInt (sint w)) (rt_PredictConcurrency r)))
       (tc_Runtime tc) @
     opt_val ''model_metadata'' (yaml_metadata json_ok) (tc_ModelMetadata tc))"

definition GenerateConfigYAML ::
  "(string \<Rightarrow> bool) \<Rightarrow> (yaml \<Rightarrow> go_error + string) \<Rightarrow> TrussConfig \<Rightarrow> string \<Rightarrow> go_error + string" where
  "GenerateConfigYAML json_ok yaml_Marshal tc modelName = yaml_Marshal (config_tree json_ok tc modelName)"

section \<open>The JSON text of a truss configuration\<close>

text \<open>
  \<open>encoding/json\<close>: object members in the order of the struct fields, \<open>omitempty\<close> members left
  out, map keys sorted, and strings escaped with HTML escaping on (valid UTF-8, as the API server
  delivers it; the line separators U+2028 and U+2029 are escaped too).
\<close>

definition json_escape_byte :: "char \<Rightarrow> string" where
  "json_escape_byte c = (let n = of_char c :: nat in
     if c = CHR 0x22 \<or> c = CHR 0x5C then [CHR 0x5C, c]
     else if n = 8 then [CHR 0x5C, CHR ''b'']
     else if n = 12 then [CHR 0x5C, CHR ''f'']
     else if n = 10 then [CHR 0x5C, CHR ''n'']
     else if n = 13 then [CHR 0x5C, CHR ''r'']
     else if n = 9 then [CHR 0x5C, CHR ''t'']
     else if n < 32 \<or> c = CHR ''<'' \<or> c = CHR ''>'' \<or> c = CHR 0x26
       then [CHR 0x5C, CHR ''u'', CHR ''0'', CHR ''0'', hex_char (n div 16), hex_char (n mod 16)]
     else [c])"

fun json_escape :: "string \<Rightarrow> string" where
  "json_escape [] = []"
| "json_escape (a # r) =
     (if a = CHR 0xE2 \<and> take 1 r = [CHR 0x80] \<and> (take 1 (drop 1 r) = [CHR 0xA8] \<or> take 1 (drop 1 r) = [CHR 0xA9])
      then [CHR 0x5C] @ ''u202'' @ (if take 1 (drop 1 r) = [CHR 0xA8] then ''8'' else ''9'') @ json_escape (drop 2 r)
      else json_escape_byte a @ json_escape r)"

definition json_str :: "string \<Rightarrow> string" where
  "json_str s = [CHR 0x22] @ json_escape s @ [CHR 0x22]"

definition json_obj :: "(string \<times> string) list \<Rightarrow> string" where
  "json_obj ms = ''{'' @ strings_Join (map (\<lambda>(k, v). json_str k @ '':'' @ v) ms) '','' @ ''}''"

definition json_list :: "string list \<Rightarrow> string" where
  "json_list vs = ''['' @ strings_Join vs '','' @ '']''"

definition j_str :: "string \<Rightarrow> string \<Rightarrow> (string \<times> string) list" where
  "j_str k v = (if v \<noteq> '''' then [(k, json_str v)] else [])"

definition j_val :: "string \<Rightarrow> ('a \<Rightarrow> string) \<Rightarrow> 'a option \<Rightarrow> (string \<times> string) list" where
  "j_val k f v = (case v of None \<Rightarrow> [] | Some x \<Rightarrow> [(k, f x)])"

definition j_list :: "string \<Rightarrow> string list \<Rightarrow> (string \<times> string) list" where
  "j_list k xs = (if xs \<noteq> [] then [(k, json_list (map json_str xs))] else [])"

definition j_map :: "string \<Rightarrow> (string \<times> string) list \<Rightarrow> (string \<times> string) list" where
  "j_map k m = (if m \<noteq> [] then [(k, json_obj (map (\<lambda>(a, b). (a, json_str b)) (sort_key fst m)))] else [])"

text \<open>
  \<open>json.Compact\<close> with HTML escaping, on the raw JSON text that \<open>RawExtension\<close> answers: blanks
  outside strings are dropped. The flags say whether the position is inside a string and
  whether the byte before was a backslash that escapes.
\<close>

fun json_compact :: "bool \<Rightarrow> bool \<Rightarrow> string \<Rightarrow> string" where
  "json_compact inStr esc [] = []"
| "json_compact inStr esc (c # cs) =
     (let out = (if c = CHR ''<'' \<or> c = CHR ''>'' \<or> c = CHR 0x26 then json_escape_byte c else [c]) in
      if inStr then
        (if esc then out @ json_compact True False cs
         else if c = CHR 0x5C then c # json_compact True True cs
         else if c = CHR 0x22 then c # json_compact False False cs
         else out @ json_compact True False cs)
      else if c = CHR 0x20 \<or> c = CHR 0x09 \<or> c = CHR 0x0A \<or> c = CHR 0x0D then json_compact False False cs
      else if c = CHR 0x22 then c # json_compact True False cs
      else out @ json_compact False False cs)"

definition json_raw :: "string option \<Rightarrow> string" where
  "json_raw raw = (case raw of None \<Rightarrow> ''null'' | Some r \<Rightarrow> json_compact False False r)"

definition json_int32 :: "int32 \<Rightarrow> string" where
  "json_int32 w = fmt_int (sint w)"

definition json_TrussConfig :: "TrussConfig \<Rightarrow> string" where
  "json_TrussConfig tc = json_obj (
     (if tc_Weights tc \<noteq> [] then [(''weights'', json_list (map (\<lambda>w. json_obj (
        [(''source'', json_str (ws_Source w)), (''mountLocation'', json_str (ws_MountLocation w))] @
        j_val ''auth'' (\<lambda>a. json_obj [(''authMethod'', json_str (wa_AuthMethod a)),
          (''authSecretName'', json_str (wa_AuthSecretName a))]) (ws_Auth w) @
        j_list ''allowPatterns'' (ws_AllowPatterns w) @
        j_list ''ignorePatterns'' (ws_IgnorePatterns w))) (tc_Weights tc)))] else []) @
     j_str ''pythonVersion'' (tc_PythonVersion tc) @
     [(''resources'', (let r = tc_Resources tc in json_obj (
        j_str ''accelerator'' (tr_Accelerator r) @ j_val ''useGpu'' fmt_bool (tr_UseGpu r) @
        j_str ''cpu'' (tr_CPU r) @ j_str ''memory'' (tr_Memory r))))] @
     j_map ''secrets'' (tc_Secrets tc) @
     j_map ''environmentVariables'' (tc_EnvironmentVariables tc) @
     [(''baseImage'', (let b = tc_BaseImage tc in json_obj (
        [(''image'', json_str (bi_Image b))] @
        j_val ''dockerAuth'' (\<lambda>a. json_obj [(''authMethod'', json_str (da_AuthMethod a)),
          (''secretName'', json_str (da_SecretName a)), (''registry'', json_str (da_Registry a))])
          (bi_DockerAuth b))))] @
     j_val ''dockerServer'' (\<lambda>s. json_obj (
        j_val ''noBuild'' fmt_bool (ds_NoBuild s) @ j_str ''startCommand'' (ds_StartCommand s) @
        j_str ''readinessEndpoint'' (ds_ReadinessEndpoint s) @
        j_str ''livenessEndpoint'' (ds_LivenessEndpoint s) @
        j_str ''predictEndpoint'' (ds_PredictEndpoint s) @
        j_val ''serverPort'' json_int32 (ds_ServerPort s))) (tc_DockerServer tc) @
     j_val ''runtime'' (\<lambda>r. json_obj (j_val ''predictConcurrency'' json_int32 (rt_PredictConcurrency r)))
        (tc_Runtime tc) @
     j_val ''modelMetadata'' (\<lambda>m. json_obj (
        j_val ''exampleModelInput'' json_raw (mm_ExampleModelInput m) @ j_list ''tags'' (mm_Tags m)))
        (tc_ModelMetadata tc) @
     j_val ''setupScript'' (\<lambda>s. json_obj (
        j_val ''configMapRef'' (\<lambda>r. json_obj [(''name'', json_str (cr_Name r)), (''key'', json_str (cr_Key r))])
          (ss_ConfigMapRef s) @
        j_val ''inline'' json_str (ss_Inline s))) (tc_SetupScript tc))"

section \<open>Hash and deployment name\<close>

definition HashTrussConfig :: "TrussConfig \<Rightarrow> string \<Rightarrow> string" where
  "HashTrussConfig tc setupScript =
     (let data = json_TrussConfig tc;
          combined = data @ setupScript;
          hash = Sum256 combined
      in hex_text (take 4 hash))"

definition parseImage :: "string \<Rightarrow> string \<times> string" where
  "parseImage uri =
     (if uri = '''' then ('''', '''')
      else
        (let ref = (case index_byte uri (CHR 0x40) of Some i \<Rightarrow> take i uri | None \<Rightarrow> uri);
             (tag, ref) = (case last_index_byte ref (CHR '':'') of
                Some i \<Rightarrow> (drop (i + 1) ref, take i ref)
              | None \<Rightarrow> (''latest'', ref));
             name = (case last_index_byte ref (CHR ''/'') of
                Some i \<Rightarrow> drop (i + 1) ref
              | None \<Rightarrow> ref)
         in (name, tag)))"

definition DeploymentName :: "string \<Rightarrow> string \<Rightarrow> string" where
  "DeploymentName configHash imageURI =
     (case parseImage imageURI of (name, tag) \<Rightarrow>
        if name \<noteq> '''' then ''depl-'' @ name @ ''-'' @ tag @ ''-'' @ configHash
        else ''depl-'' @ configHash)"

section \<open>Pushing a truss\<close>

record PushResult =
  pu_ModelID :: string
  pu_DeploymentID :: string

text \<open>
  The calls of \<open>os\<close> and of the truss SDK: functions of their arguments and of the world.
  \<open>t_Push apiKey dir modelName deploymentName team\<close> has the team option only when it is set.
\<close>

record 'w truss_sys =
  t_MkdirTemp :: "'w \<Rightarrow> (go_error + string) \<times> 'w"
  t_MkdirAll :: "string \<Rightarrow> 'w \<Rightarrow> go_error option \<times> 'w"
  t_WriteFile :: "string \<Rightarrow> string \<Rightarrow> 'w \<Rightarrow> go_error option \<times> 'w"
  t_RemoveAll :: "string \<Rightarrow> 'w \<Rightarrow> 'w"
  t_Push :: "string \<Rightarrow> string \<Rightarrow> string \<Rightarrow> string \<Rightarrow> string option \<Rightarrow> 'w \<Rightarrow>
    (go_error + (string \<times> string)) \<times> 'w"

text \<open>\<open>filepath.Join\<close> of a directory and a plain file name.\<close>

definition path_Join :: "string \<Rightarrow> string \<Rightarrow> string" where
  "path_Join dir name = dir @ ''/'' @ name"

definition WriteTrussDirectory ::
  "'w truss_sys \<Rightarrow> string \<Rightarrow> string \<Rightarrow> string \<Rightarrow> 'w \<Rightarrow> go_error option \<times> 'w" where
  "WriteTrussDirectory sys dir configYAML setupScript w =
     (case t_MkdirAll sys dir w of
        (Some e, w) \<Rightarrow> (Some (WrapError ''creating truss directory'' e), w)
      | (None, w) \<Rightarrow>
          (case t_WriteFile sys (path_Join dir ''config.yaml'') configYAML w of
             (Some e, w) \<Rightarrow> (Some (WrapError ''writing config.yaml'' e), w)
           | (None, w) \<Rightarrow>
               if 0 < length setupScript then
                 (let dataDir = path_Join dir ''data'' in
                  case t_MkdirAll sys dataDir w of
                    (Some e, w) \<Rightarrow> (Some (WrapError ''creating data directory'' e), w)
                  | (None, w) \<Rightarrow>
                      (case t_WriteFile sys (path_Join dataDir ''setup.sh'') setupScript w of
                         (Some e, w) \<Rightarrow> (Some (WrapError ''writing setup.sh'' e), w)
                       | (None, w) \<Rightarrow> (None, w)))
               else (None, w)))"

definition Pusher_Push ::
  "'w truss_sys \<Rightarrow> string \<Rightarrow> string \<Rightarrow> string \<Rightarrow> string \<Rightarrow> string \<Rightarrow> 'w \<Rightarrow> (go_error + PushResult) \<times> 'w" where
  "Pusher_Push sys apiKey trussDir modelName team deploymentName w =
     (case t_Push sys apiKey trussDir modelName deploymentName (if team \<noteq> '''' then Some team else None) w of
        (Inl e, w) \<Rightarrow> (Inl (WrapError ''truss push failed'' e), w)
      | (Inr (mid, vid), w) \<Rightarrow> (Inr \<lparr>pu_ModelID = mid, pu_DeploymentID = vid\<rparr>, w))"

definition PushFromConfig ::
  "'w truss_sys \<Rightarrow> string \<Rightarrow> string \<Rightarrow> string \<Rightarrow> string \<Rightarrow> string \<Rightarrow> string \<Rightarrow> 'w \<Rightarrow>
   (go_error + PushResult) \<times> 'w" where
  "PushFromConfig sys apiKey configYAML setupScript modelName team deploymentName w =
     (case t_MkdirTemp sys w of
        (Inl e, w) \<Rightarrow> (Inl (WrapError ''creating temp directory'' e), w)
      | (Inr tmpDir, w) \<Rightarrow>
          (case (case WriteTrussDirectory sys tmpDir configYAML setupScript w of
                   (Some e, w) \<Rightarrow> (Inl (WrapError ''writing truss directory'' e), w)
                 | (None, w) \<Rightarrow> Pusher_Push sys apiKey tmpDir modelName team deploymentName w) of
             (res, w) \<Rightarrow> (res, t_RemoveAll sys tmpDir w)))"

end
