(* ===== verification/Recon_Base.thy ===== *)
theory Recon_Base
  imports Baseten_Client Truss_Config
begin

text \<open>
  The state and the effects of the reconciler (\<open>internal/controller/basetenmodel_controller.go\<close>).
  A handler is a state-monad value over \<open>'w rstate\<close>: the opaque outside world \<open>'w\<close> (Baseten,
  the Kubernetes API server, the clock, the random source), the in-memory object \<open>model\<close> that
  the handlers share through a pointer, the number of push slots taken and the trace of all
  effects, each with its answer. The record \<open>'w BasetenModelReconciler\<close> holds what the code
  calls: the Baseten client and the pusher through their interfaces, and the operations of
  libraries that are not part of the repository as functions.
\<close>

section \<open>Effects\<close>

datatype api_call =
    CFindModelIDByName string string "go_error + string"
  | CDeleteModel string "go_error option"
  | CGetEnvironment string string "go_error + Environment"
  | CListEnvironments string "go_error + Environment list"
  | CCreateEnvironment string EnvironmentConfig "go_error option"
  | CUpdateEnvironmentSettings string string "AutoscalingConfig option"
      "PromotionSettingsConfig option" "go_error option"
  | CUpdateAutoscalingSchedules string string "AutoscalingScheduleConfig option"
      "AutoscalingSchedules option" "go_error option"
  | CFindDeploymentIDByName string string "go_error + (string \<times> string)"
  | CActivateDeployment string string "go_error option"
  | CPromote string string string "PromotionSettingsConfig option" "go_error + Deployment option"
  | CListDeployments string "go_error + DeploymentDetail list"
  | CUpdateDeploymentAutoscaling string string int32 "go_error option"
  | CDeleteDeployment string string "go_error option"
  | CRetryDeployment string string "go_error + RetryResponse"

record push_job =
  pj_ModelName :: string
  pj_Namespace :: string
  pj_ConfigYAML :: string
  pj_SetupScript :: string
  pj_BasetenModelName :: string
  pj_Team :: string
  pj_DeploymentName :: string

datatype effect =
    Api api_call
  | KGet string string "go_error + BasetenModel"
  | KGetConfigMap string string "go_error + string option"
  | KUpdate BasetenModel "go_error option"
  | KStatusUpdate BasetenModel "go_error option"
  | Event string string string
  | SpawnPush push_job
  | PushCall push_job "go_error + PushResult"

text \<open>The calls of the Baseten API that change something there.\<close>

fun mutating_call :: "api_call \<Rightarrow> bool" where
  "mutating_call (CFindModelIDByName _ _ _) = False"
| "mutating_call (CGetEnvironment _ _ _) = False"
| "mutating_call (CListEnvironments _ _) = False"
| "mutating_call (CFindDeploymentIDByName _ _ _) = False"
| "mutating_call (CListDeployments _ _) = False"
| "mutating_call (CDeleteModel _ _) = True"
| "mutating_call (CCreateEnvironment _ _ _) = True"
| "mutating_call (CUpdateEnvironmentSettings _ _ _ _ _) = True"
| "mutating_call (CUpdateAutoscalingSchedules _ _ _ _ _) = True"
| "mutating_call (CActivateDeployment _ _ _) = True"
| "mutating_call (CPromote _ _ _ _ _) = True"
| "mutating_call (CUpdateDeploymentAutoscaling _ _ _ _) = True"
| "mutating_call (CDeleteDeployment _ _ _) = True"
| "mutating_call (CRetryDeployment _ _ _) = True"

text \<open>The effects through which the operator changes Baseten: mutating calls and pushes.\<close>

fun mutates_baseten :: "effect \<Rightarrow> bool" where
  "mutates_baseten (Api c) = mutating_call c"
| "mutates_baseten (SpawnPush j) = True"
| "mutates_baseten (PushCall j res) = True"
| "mutates_baseten _ = False"

fun is_api :: "effect \<Rightarrow> bool" where
  "is_api (Api c) = True"
| "is_api _ = False"

text \<open>
  The kinds of effects: status writes, events, writes of the object, reads of Kubernetes, reads of
  Baseten, and the groups of changes that a handler may make in Baseten.
\<close>

datatype effect_kind = EkStatus | EkEvent | EkObject | EkGet | EkLookup | EkEnvironment | EkActivate
  | EkPromote | EkRetry | EkScaleIn | EkDeleteDeployment | EkDeleteModel | EkSpawn | EkPush

fun call_kind :: "api_call \<Rightarrow> effect_kind" where
  "call_kind (CFindModelIDByName _ _ _) = EkLookup"
| "call_kind (CGetEnvironment _ _ _) = EkLookup"
| "call_kind (CListEnvironments _ _) = EkLookup"
| "call_kind (CFindDeploymentIDByName _ _ _) = EkLookup"
| "call_kind (CListDeployments _ _) = EkLookup"
| "call_kind (CDeleteModel _ _) = EkDeleteModel"
| "call_kind (CCreateEnvironment _ _ _) = EkEnvironment"
| "call_kind (CUpdateEnvironmentSettings _ _ _ _ _) = EkEnvironment"
| "call_kind (CUpdateAutoscalingSchedules _ _ _ _ _) = EkEnvironment"
| "call_kind (CActivateDeployment _ _ _) = EkActivate"
| "call_kind (CPromote _ _ _ _ _) = EkPromote"
| "call_kind (CUpdateDeploymentAutoscaling _ _ _ _) = EkScaleIn"
| "call_kind (CDeleteDeployment _ _ _) = EkDeleteDeployment"
| "call_kind (CRetryDeployment _ _ _) = EkRetry"

fun kind :: "effect \<Rightarrow> effect_kind" where
  "kind (Api c) = call_kind c"
| "kind (KGet _ _ _) = EkGet"
| "kind (KGetConfigMap _ _ _) = EkGet"
| "kind (KUpdate _ _) = EkObject"
| "kind (KStatusUpdate _ _) = EkStatus"
| "kind (Event _ _ _) = EkEvent"
| "kind (SpawnPush _) = EkSpawn"
| "kind (PushCall _ _) = EkPush"

definition quiet :: "effect_kind set" where
  "quiet = {EkStatus, EkEvent, EkObject, EkGet, EkLookup}"

lemma mutates_iff_kind: "mutates_baseten e \<longleftrightarrow> kind e \<notin> quiet"
proof (cases e)
  case (Api c)
  then show ?thesis by (cases c) (simp_all add: quiet_def)
qed (simp_all add: quiet_def)

lemma is_api_kind: "kind e \<in> {EkStatus, EkEvent, EkObject, EkGet} \<Longrightarrow> \<not> is_api e \<and> \<not> mutates_baseten e"
proof (cases e)
  case (Api c)
  then show "kind e \<in> {EkStatus, EkEvent, EkObject, EkGet} \<Longrightarrow> ?thesis" by (cases c) simp_all
qed simp_all

section \<open>The reconciler and its state\<close>

record 'w PusherInterface =
  pi_PushFromConfig :: "string \<Rightarrow> string \<Rightarrow> string \<Rightarrow> string \<Rightarrow> string \<Rightarrow> 'w \<Rightarrow>
    (go_error + PushResult) \<times> 'w"

record 'w rstate =
  world :: 'w
  trace :: "effect list"
  obj :: BasetenModel
  semUsed :: nat

type_synonym ('w, 'a) handler = "('w rstate, 'a) state"

text \<open>
  \<open>k_Update\<close> and \<open>k_StatusUpdate\<close> answer the error and the object as the client leaves it (the
  client decodes the server's answer into it). \<open>RandFloat64\<close> answers the numerator \<open>k\<close> of
  \<open>rand.Float64() = k / 2 ^ 53\<close>. \<open>SortSlice\<close> is \<open>sort.Slice\<close>, which promises a sorted permutation
  and no stability. \<open>k_RetryOnConflict\<close> is \<open>retry.RetryOnConflict\<close>; its argument is the closure, a function of the
  variable that the closure assigns. \<open>PushSemaphore\<close> is the capacity of the channel, or nil. The finalizer helpers
  of controller-runtime act on the object's list of finalizers and answer whether they changed it.
\<close>

record 'w BasetenModelReconciler =
  k_Get :: "string \<Rightarrow> string \<Rightarrow> 'w \<Rightarrow> (go_error + BasetenModel) \<times> 'w"
  k_GetConfigMap :: "string \<Rightarrow> string \<Rightarrow> 'w \<Rightarrow> (go_error + (string \<rightharpoonup> string)) \<times> 'w"
  k_Update :: "BasetenModel \<Rightarrow> 'w \<Rightarrow> (go_error option \<times> BasetenModel) \<times> 'w"
  k_StatusUpdate :: "BasetenModel \<Rightarrow> 'w \<Rightarrow> (go_error option \<times> BasetenModel) \<times> 'w"
  k_RetryOnConflict :: "(duration \<Rightarrow> ('w, go_error option \<times> duration) handler) \<Rightarrow> duration \<Rightarrow>
    ('w, go_error option \<times> duration) handler"
  u_ContainsFinalizer :: "string list \<Rightarrow> string \<Rightarrow> bool"
  u_AddFinalizer :: "string list \<Rightarrow> string \<Rightarrow> string list \<times> bool"
  u_RemoveFinalizer :: "string list \<Rightarrow> string \<Rightarrow> string list \<times> bool"
  BasetenClient :: "'w ClientInterface"
  TrussPusher :: "'w PusherInterface"
  MaxConcurrentReconciles :: int
  PushSemaphore :: "nat option"
  Now :: "'w \<Rightarrow> time \<times> 'w"
  RandFloat64 :: "'w \<Rightarrow> nat \<times> 'w"
  SortSlice :: "(DeploymentDetail \<Rightarrow> DeploymentDetail \<Rightarrow> bool) \<Rightarrow> DeploymentDetail list \<Rightarrow> DeploymentDetail list"
  JsonValid :: "string \<Rightarrow> bool"
  YamlMarshal :: "yaml \<Rightarrow> go_error + string"

text \<open>\<open>ctrl.Result\<close>.\<close>

record Result =
  RequeueAfter :: duration

definition no_requeue :: Result where
  "no_requeue = \<lparr>RequeueAfter = 0\<rparr>"

definition requeue :: "duration \<Rightarrow> Result" where
  "requeue d = \<lparr>RequeueAfter = d\<rparr>"

lemma requeue_simps [simp]: "RequeueAfter (requeue d) = d" "RequeueAfter no_requeue = 0"
  by (simp_all add: requeue_def no_requeue_def)

section \<open>Primitive actions\<close>

definition ext_call :: "('w \<Rightarrow> 'a \<times> 'w) \<Rightarrow> ('a \<Rightarrow> effect) \<Rightarrow> ('w, 'a) handler" where
  "ext_call f eff = State (\<lambda>s. case f (world s) of
     (a, w) \<Rightarrow> (a, s\<lparr>world := w, trace := trace s @ [eff a]\<rparr>))"

text \<open>A read of the clock or of the random source leaves no effect in the trace.\<close>

definition ext_read :: "('w \<Rightarrow> 'a \<times> 'w) \<Rightarrow> ('w, 'a) handler" where
  "ext_read f = State (\<lambda>s. case f (world s) of (a, w) \<Rightarrow> (a, s\<lparr>world := w\<rparr>))"

definition log_effect :: "effect \<Rightarrow> ('w, unit) handler" where
  "log_effect e = State (\<lambda>s. ((), s\<lparr>trace := trace s @ [e]\<rparr>))"

definition model :: "('w, BasetenModel) handler" where
  "model = gets obj"

definition modify_obj :: "(BasetenModel \<Rightarrow> BasetenModel) \<Rightarrow> ('w, unit) handler" where
  "modify_obj f = modify (\<lambda>s. s\<lparr>obj := f (obj s)\<rparr>)"

definition modify_status :: "(BasetenModelStatus \<Rightarrow> BasetenModelStatus) \<Rightarrow> ('w, unit) handler" where
  "modify_status f = modify_obj (\<lambda>m. m\<lparr>Status := f (Status m)\<rparr>)"

text \<open>\<open>r.Recorder.Eventf\<close>: type, reason, message.\<close>

definition Eventf :: "string \<Rightarrow> string \<Rightarrow> string \<Rightarrow> ('w, unit) handler" where
  "Eventf typ reason msg = log_effect (Event typ reason msg)"

definition EventTypeNormal :: string where "EventTypeNormal = ''Normal''"
definition EventTypeWarning :: string where "EventTypeWarning = ''Warning''"

definition time_Now :: "'w BasetenModelReconciler \<Rightarrow> ('w, time) handler" where
  "time_Now r = ext_read (Now r)"

definition K_Update :: "'w BasetenModelReconciler \<Rightarrow> ('w, go_error option) handler" where
  "K_Update r = State (\<lambda>s. case k_Update r (obj s) (world s) of
     ((e, m), w) \<Rightarrow> (e, s\<lparr>world := w, obj := m, trace := trace s @ [KUpdate (obj s) e]\<rparr>))"

definition Status_Update :: "'w BasetenModelReconciler \<Rightarrow> ('w, go_error option) handler" where
  "Status_Update r = State (\<lambda>s. case k_StatusUpdate r (obj s) (world s) of
     ((e, m), w) \<Rightarrow> (e, s\<lparr>world := w, obj := m, trace := trace s @ [KStatusUpdate (obj s) e]\<rparr>))"

text \<open>\<open>r.Get(ctx, key, model)\<close>: on success the object is filled in.\<close>

definition K_Get :: "'w BasetenModelReconciler \<Rightarrow> string \<Rightarrow> string \<Rightarrow> ('w, go_error option) handler" where
  "K_Get r name ns = State_Monad.bind (ext_call (k_Get r name ns) (KGet name ns)) (\<lambda>res.
     case res of
       Inl e \<Rightarrow> ret (Some e)
     | Inr m \<Rightarrow> State_Monad.bind (modify_obj (\<lambda>_. m)) (\<lambda>_. ret None))"

subsection \<open>The calls of the client interface\<close>

definition api_FindModelIDByName where
  "api_FindModelIDByName r n t = ext_call (ci_FindModelIDByName (BasetenClient r) n t)
     (\<lambda>a. Api (CFindModelIDByName n t a))"

definition api_DeleteModel where
  "api_DeleteModel r m = ext_call (ci_DeleteModel (BasetenClient r) m) (\<lambda>a. Api (CDeleteModel m a))"

definition api_GetEnvironment where
  "api_GetEnvironment r m e = ext_call (ci_GetEnvironment (BasetenClient r) m e)
     (\<lambda>a. Api (CGetEnvironment m e a))"

definition api_ListEnvironments where
  "api_ListEnvironments r m = ext_call (ci_ListEnvironments (BasetenClient r) m)
     (\<lambda>a. Api (CListEnvironments m a))"

definition api_CreateEnvironment where
  "api_CreateEnvironment r m c = ext_call (ci_CreateEnvironment (BasetenClient r) m c)
     (\<lambda>a. Api (CCreateEnvironment m c a))"

definition api_UpdateEnvironmentSettings where
  "api_UpdateEnvironmentSettings r m e ac pc =
     ext_call (ci_UpdateEnvironmentSettings (BasetenClient r) m e ac pc)
       (\<lambda>a. Api (CUpdateEnvironmentSettings m e ac pc a))"

definition api_UpdateAutoscalingSchedules where
  "api_UpdateAutoscalingSchedules r m e sp ob =
     ext_call (ci_UpdateAutoscalingSchedules (BasetenClient r) m e sp ob)
       (\<lambda>a. Api (CUpdateAutoscalingSchedules m e sp ob a))"

definition api_FindDeploymentIDByName where
  "api_FindDeploymentIDByName r m n = ext_call (ci_FindDeploymentIDByName (BasetenClient r) m n)
     (\<lambda>a. Api (CFindDeploymentIDByName m n a))"

definition api_ActivateDeployment where
  "api_ActivateDeployment r m d = ext_call (ci_ActivateDeployment (BasetenClient r) m d)
     (\<lambda>a. Api (CActivateDeployment m d a))"

definition api_Promote where
  "api_Promote r m d e p = ext_call (ci_Promote (BasetenClient r) m d e p)
     (\<lambda>a. Api (CPromote m d e p a))"

definition api_ListDeployments where
  "api_ListDeployments r m = ext_call (ci_ListDeployments (BasetenClient r) m)
     (\<lambda>a. Api (CListDeployments m a))"

definition api_UpdateDeploymentAutoscaling where
  "api_UpdateDeploymentAutoscaling r m d n =
     ext_call (ci_UpdateDeploymentAutoscaling (BasetenClient r) m d n)
       (\<lambda>a. Api (CUpdateDeploymentAutoscaling m d n a))"

definition api_DeleteDeployment where
  "api_DeleteDeployment r m d = ext_call (ci_DeleteDeployment (BasetenClient r) m d)
     (\<lambda>a. Api (CDeleteDeployment m d a))"

definition api_RetryDeployment where
  "api_RetryDeployment r m d = ext_call (ci_RetryDeployment (BasetenClient r) m d)
     (\<lambda>a. Api (CRetryDeployment m d a))"

lemmas api_defs = api_FindModelIDByName_def api_DeleteModel_def api_GetEnvironment_def
  api_ListEnvironments_def api_CreateEnvironment_def api_UpdateEnvironmentSettings_def
  api_UpdateAutoscalingSchedules_def api_FindDeploymentIDByName_def api_ActivateDeployment_def
  api_Promote_def api_ListDeployments_def api_UpdateDeploymentAutoscaling_def
  api_DeleteDeployment_def api_RetryDeployment_def

section \<open>Weakest preconditions of the primitives\<close>

lemma wp_ext_call [wp_simps]:
  "wp (ext_call f eff) Q s = (case f (world s) of
     (a, w) \<Rightarrow> Q a (s\<lparr>world := w, trace := trace s @ [eff a]\<rparr>))"
  by (simp add: wp_def ext_call_def split: prod.splits)

lemma wp_ext_read [wp_simps]:
  "wp (ext_read f) Q s = (case f (world s) of (a, w) \<Rightarrow> Q a (s\<lparr>world := w\<rparr>))"
  by (simp add: wp_def ext_read_def split: prod.splits)

lemma wp_log_effect [wp_simps]: "wp (log_effect e) Q s = Q () (s\<lparr>trace := trace s @ [e]\<rparr>)"
  by (simp add: wp_def log_effect_def)

lemma wp_model [wp_simps]: "wp model Q s = Q (obj s) s"
  by (simp add: model_def wp_simps)

lemma wp_modify_obj [wp_simps]: "wp (modify_obj f) Q s = Q () (s\<lparr>obj := f (obj s)\<rparr>)"
  by (simp add: modify_obj_def wp_simps)

lemma wp_modify_status [wp_simps]:
  "wp (modify_status f) Q s = Q () (s\<lparr>obj := (obj s)\<lparr>Status := f (Status (obj s))\<rparr>\<rparr>)"
  by (simp add: modify_status_def wp_simps)

lemma wp_Eventf [wp_simps]: "wp (Eventf t rs m) Q s = Q () (s\<lparr>trace := trace s @ [Event t rs m]\<rparr>)"
  by (simp add: Eventf_def wp_simps)

lemma wp_time_Now [wp_simps]:
  "wp (time_Now r) Q s = (case Now r (world s) of (t, w) \<Rightarrow> Q t (s\<lparr>world := w\<rparr>))"
  by (simp add: time_Now_def wp_simps)

lemma wp_K_Update [wp_simps]:
  "wp (K_Update r) Q s = (case k_Update r (obj s) (world s) of
     ((e, m), w) \<Rightarrow> Q e (s\<lparr>world := w, obj := m, trace := trace s @ [KUpdate (obj s) e]\<rparr>))"
  by (simp add: wp_def K_Update_def split: prod.splits)

lemma wp_Status_Update [wp_simps]:
  "wp (Status_Update r) Q s = (case k_StatusUpdate r (obj s) (world s) of
     ((e, m), w) \<Rightarrow> Q e (s\<lparr>world := w, obj := m, trace := trace s @ [KStatusUpdate (obj s) e]\<rparr>))"
  by (simp add: wp_def Status_Update_def split: prod.splits)

section \<open>What a handler may emit\<close>

named_theorems emits_intro "introduction rules for emits"

text \<open>Every effect a handler adds to the trace satisfies \<open>P\<close>.\<close>

definition emits :: "(effect \<Rightarrow> bool) \<Rightarrow> ('w, 'a) handler \<Rightarrow> bool" where
  "emits P m \<longleftrightarrow> (\<forall>s. \<exists>es. trace (snd (run_state m s)) = trace s @ es \<and> (\<forall>e \<in> set es. P e))"

lemma emitsD:
  assumes "emits P m" and "run_state m s = (a, s')"
  obtains es where "trace s' = trace s @ es" and "\<forall>e \<in> set es. P e"
  using assms unfolding emits_def by (metis snd_conv)

lemma emits_mono: "emits P m \<Longrightarrow> (\<And>e. P e \<Longrightarrow> Q e) \<Longrightarrow> emits Q m"
  unfolding emits_def by blast

lemma emits_return [emits_intro]: "emits P (State_Monad.return a)"
  by (simp add: emits_def)

lemma emits_bind [emits_intro]:
  assumes "emits P m" and "\<And>a. emits P (f a)"
  shows "emits P (State_Monad.bind m f)"
  unfolding emits_def
proof
  fix s
  obtain a s1 where m: "run_state m s = (a, s1)" by (cases "run_state m s")
  obtain b s2 where f: "run_state (f a) s1 = (b, s2)" by (cases "run_state (f a) s1")
  obtain es1 where "trace s1 = trace s @ es1" "\<forall>e \<in> set es1. P e"
    using emitsD [OF assms(1) m] by blast
  moreover obtain es2 where "trace s2 = trace s1 @ es2" "\<forall>e \<in> set es2. P e"
    using emitsD [OF assms(2) f] by blast
  ultimately show "\<exists>es. trace (snd (run_state (State_Monad.bind m f) s)) = trace s @ es \<and> (\<forall>e \<in> set es. P e)"
    using m f by (intro exI [of _ "es1 @ es2"]) auto
qed

lemma emits_if [emits_intro]:
  "(b \<Longrightarrow> emits P m) \<Longrightarrow> (\<not> b \<Longrightarrow> emits P n) \<Longrightarrow> emits P (if b then m else n)"
  by simp

lemma emits_option [emits_intro]:
  "(x = None \<Longrightarrow> emits P m) \<Longrightarrow> (\<And>y. x = Some y \<Longrightarrow> emits P (n y)) \<Longrightarrow>
   emits P (case x of None \<Rightarrow> m | Some y \<Rightarrow> n y)"
  by (simp split: option.splits)

lemma emits_sum [emits_intro]:
  "(\<And>e. x = Inl e \<Longrightarrow> emits P (m e)) \<Longrightarrow> (\<And>y. x = Inr y \<Longrightarrow> emits P (n y)) \<Longrightarrow>
   emits P (case x of Inl e \<Rightarrow> m e | Inr y \<Rightarrow> n y)"
  by (simp split: sum.splits)

lemma emits_prod [emits_intro]:
  "(\<And>a b. x = (a, b) \<Longrightarrow> emits P (m a b)) \<Longrightarrow> emits P (case x of (a, b) \<Rightarrow> m a b)"
  by (simp split: prod.splits)

lemma emits_bool [emits_intro]:
  "(b \<Longrightarrow> emits P m) \<Longrightarrow> (\<not> b \<Longrightarrow> emits P n) \<Longrightarrow> emits P (case b of True \<Rightarrow> m | False \<Rightarrow> n)"
  by (cases b) simp_all

lemma emits_let [emits_intro]: "(\<And>x. x = t \<Longrightarrow> emits P (f x)) \<Longrightarrow> emits P (let x = t in f x)"
  by simp

lemma emits_mfold [emits_intro]:
  "(\<And>x a. x \<in> set xs \<Longrightarrow> emits P (f x a)) \<Longrightarrow> emits P (mfold f xs a)"
  by (induction xs arbitrary: a) (simp_all add: emits_return emits_bind)

lemma emits_gets [emits_intro]: "emits P (gets f)"
  by (simp add: emits_def gets_def)

lemma emits_model [emits_intro]: "emits P model"
  by (simp add: model_def emits_gets)

lemma emits_modify_obj [emits_intro]: "emits P (modify_obj f)"
  by (simp add: emits_def modify_obj_def modify_def)

lemma emits_modify_status [emits_intro]: "emits P (modify_status f)"
  by (simp add: modify_status_def emits_modify_obj)

lemma emits_ext_call [emits_intro]: "(\<And>a. P (eff a)) \<Longrightarrow> emits P (ext_call f eff)"
  by (simp add: emits_def ext_call_def split: prod.splits)

lemma emits_ext_read [emits_intro]: "emits P (ext_read f)"
  by (simp add: emits_def ext_read_def split: prod.splits)

lemma emits_time_Now [emits_intro]: "emits P (time_Now r)"
  by (simp add: time_Now_def emits_ext_read)

lemma emits_log_effect [emits_intro]: "P e \<Longrightarrow> emits P (log_effect e)"
  by (simp add: emits_def log_effect_def)

lemma emits_Eventf [emits_intro]: "P (Event t rs m) \<Longrightarrow> emits P (Eventf t rs m)"
  by (simp add: Eventf_def emits_log_effect)

lemma emits_K_Update [emits_intro]: "(\<And>m e. P (KUpdate m e)) \<Longrightarrow> emits P (K_Update r)"
  by (simp add: emits_def K_Update_def split: prod.splits)

lemma emits_Status_Update [emits_intro]: "(\<And>m e. P (KStatusUpdate m e)) \<Longrightarrow> emits P (Status_Update r)"
  by (simp add: emits_def Status_Update_def split: prod.splits)

lemma emits_K_Get [emits_intro]: "(\<And>x. P (KGet n ns x)) \<Longrightarrow> emits P (K_Get r n ns)"
  unfolding K_Get_def by (intro emits_intro) auto

text \<open>A handler whose effects are all of the kinds \<open>K\<close>.\<close>

abbreviation stays :: "effect_kind set \<Rightarrow> ('w, 'a) handler \<Rightarrow> bool" where
  "stays K m \<equiv> emits (\<lambda>e. kind e \<in> K) m"

lemma stays_weaken: "stays K m \<Longrightarrow> K \<subseteq> L \<Longrightarrow> stays L m"
  by (erule emits_mono) auto

text \<open>
  The contract between the status-writing helpers and the classes of effects: a class that
  contains status writes and events. The helpers are proved against it once, for every class.
\<close>

locale effect_class =
  fixes allowed :: "effect \<Rightarrow> bool"
  assumes allows_status: "allowed (KStatusUpdate m e)"
    and allows_event: "allowed (Event t rs msg)"

interpretation read_only: effect_class "\<lambda>e. \<not> mutates_baseten e"
  by unfold_locales simp_all

interpretation offline: effect_class "\<lambda>e. \<not> is_api e \<and> \<not> mutates_baseten e"
  by unfold_locales simp_all

lemma effect_class_kinds: "{EkStatus, EkEvent} \<subseteq> K \<Longrightarrow> effect_class (\<lambda>e. kind e \<in> K)"
  by unfold_locales auto

end
