(* ===== verification/Recon_Status.thy ===== *)
theory Recon_Status
  imports Recon_Base
begin

text \<open>
  Status writing: the status constants and the event reasons, \<open>setCondition\<close>, \<open>conditionsChanged\<close>,
  \<open>updateStatus\<close>, \<open>logUpdateStatus\<close>, \<open>invalidateModelID\<close> and the message texts of
  \<open>internal/controller/basetenmodel_controller.go\<close>.
\<close>

definition statusPromoting :: string where "statusPromoting = ''PROMOTING''"
definition statusPromotingDeployment :: string where "statusPromotingDeployment = ''PROMOTING_DEPLOYMENT''"
definition statusPending :: string where "statusPending = ''PENDING''"
definition statusTrussPushing :: string where "statusTrussPushing = ''TRUSS_PUSHING''"
definition statusTrussPushDone :: string where "statusTrussPushDone = ''TRUSS_PUSH_DONE''"
definition statusTrussPushFailed :: string where "statusTrussPushFailed = ''TRUSS_PUSH_FAILED''"
definition statusPaused :: string where "statusPaused = ''PAUSED''"
definition statusDeleting :: string where "statusDeleting = ''DELETING''"
definition statusDeleteFailed :: string where "statusDeleteFailed = ''DELETE_FAILED''"
definition statusDeleteBlocked :: string where "statusDeleteBlocked = ''DELETE_BLOCKED''"
definition conditionReady :: string where "conditionReady = ''Ready''"
definition conditionProgressing :: string where "conditionProgressing = ''Progressing''"
definition ConditionTrue :: string where "ConditionTrue = ''True''"
definition ConditionFalse :: string where "ConditionFalse = ''False''"

lemmas status_defs = statusPromoting_def statusPromotingDeployment_def statusPending_def
  statusTrussPushing_def statusTrussPushDone_def statusTrussPushFailed_def statusPaused_def
  statusDeleting_def statusDeleteFailed_def statusDeleteBlocked_def

lemmas condition_defs = conditionReady_def conditionProgressing_def ConditionTrue_def ConditionFalse_def

lemma condition_distinct [simp]:
  "conditionReady \<noteq> conditionProgressing" "conditionProgressing \<noteq> conditionReady"
  "ConditionTrue \<noteq> ConditionFalse" "ConditionFalse \<noteq> ConditionTrue"
  by (simp_all add: condition_defs)

section \<open>Event reasons\<close>

definition EventDeploymentActive :: string where "EventDeploymentActive = ''DeploymentActive''"
definition EventDeploymentPromoted :: string where "EventDeploymentPromoted = ''DeploymentPromoted''"
definition EventEnvironmentCreated :: string where "EventEnvironmentCreated = ''EnvironmentCreated''"
definition EventAutoscalingUpdated :: string where "EventAutoscalingUpdated = ''AutoscalingUpdated''"
definition EventPromotionSettingsUpdated :: string where "EventPromotionSettingsUpdated = ''PromotionSettingsUpdated''"
definition EventAutoscalingScheduleUpdated :: string where "EventAutoscalingScheduleUpdated = ''AutoscalingScheduleUpdated''"
definition EventOrphanDeploymentsScaledIn :: string where "EventOrphanDeploymentsScaledIn = ''OrphanDeploymentsScaledIn''"
definition EventOrphanDeploymentsDeleted :: string where "EventOrphanDeploymentsDeleted = ''OrphanDeploymentsDeleted''"
definition EventTrussPushStarted :: string where "EventTrussPushStarted = ''TrussPushStarted''"
definition EventTrussPushCompleted :: string where "EventTrussPushCompleted = ''TrussPushCompleted''"
definition EventReconciliationPaused :: string where "EventReconciliationPaused = ''ReconciliationPaused''"
definition EventDeploymentRetried :: string where "EventDeploymentRetried = ''DeploymentRetried''"
definition EventDeploymentReactivated :: string where "EventDeploymentReactivated = ''DeploymentReactivated''"
definition EventModelDeleted :: string where "EventModelDeleted = ''ModelDeleted''"
definition EventModelNotFound :: string where "EventModelNotFound = ''ModelNotFound''"
definition EventEnvironmentCreateFailed :: string where "EventEnvironmentCreateFailed = ''EnvironmentCreateFailed''"
definition EventAutoscalingUpdateFailed :: string where "EventAutoscalingUpdateFailed = ''AutoscalingUpdateFailed''"
definition EventPromotionSettingsUpdateFailed :: string where "EventPromotionSettingsUpdateFailed = ''PromotionSettingsUpdateFailed''"
definition EventAutoscalingScheduleUpdateFailed :: string where "EventAutoscalingScheduleUpdateFailed = ''AutoscalingScheduleUpdateFailed''"
definition EventSetupScriptNotFound :: string where "EventSetupScriptNotFound = ''SetupScriptNotFound''"
definition EventTrussPushFailed :: string where "EventTrussPushFailed = ''TrussPushFailed''"
definition EventSourceDeploymentNotFound :: string where "EventSourceDeploymentNotFound = ''SourceDeploymentNotFound''"
definition EventSourceDeploymentFailed :: string where "EventSourceDeploymentFailed = ''SourceDeploymentFailed''"
definition EventPromotionFailed :: string where "EventPromotionFailed = ''PromotionFailed''"
definition EventPromotionBlocked :: string where "EventPromotionBlocked = ''PromotionBlocked''"
definition EventDeploymentRetryFailed :: string where "EventDeploymentRetryFailed = ''DeploymentRetryFailed''"
definition EventDeploymentRetryExhausted :: string where "EventDeploymentRetryExhausted = ''DeploymentRetryExhausted''"
definition EventModelDeleteFailed :: string where "EventModelDeleteFailed = ''ModelDeleteFailed''"
definition EventModelDeleteBlocked :: string where "EventModelDeleteBlocked = ''ModelDeleteBlocked''"

section \<open>Messages\<close>

definition fmt_replicas :: "Deployment \<Rightarrow> string" where
  "fmt_replicas d = fmt_d (dep_ActiveReplicaCount d)"

definition activePrefix :: "Deployment option \<Rightarrow> string" where
  "activePrefix active = (case active of
     None \<Rightarrow> ''''
   | Some a \<Rightarrow> ''active: '' @ dep_Name a @ '' ('' @ fmt_replicas a @ '' replicas) | '')"

definition promotionMessage :: "Deployment option \<Rightarrow> Deployment \<Rightarrow> string" where
  "promotionMessage active candidate =
     activePrefix active @ ''promoting: '' @ dep_Name candidate @ '' ('' @ dep_Status candidate @ '', '' @
     fmt_replicas candidate @ '' replicas)''"

definition candidateFailedMessage :: "Deployment option \<Rightarrow> Deployment \<Rightarrow> string" where
  "candidateFailedMessage active candidate =
     activePrefix active @ ''candidate '' @ dep_Name candidate @ '' failed: '' @ dep_Status candidate"

definition steadyStateMessage :: "Deployment \<Rightarrow> string \<Rightarrow> AutoscalingSettings option \<Rightarrow> string" where
  "steadyStateMessage dep envName autoscaling =
     ''active: '' @ dep_Name dep @ '' ('' @ fmt_replicas dep @ '' replicas'' @
     (case autoscaling of
        None \<Rightarrow> ''''
      | Some a \<Rightarrow> '', min:'' @ fmt_d (as_MinReplica a) @ '' max:'' @ fmt_d (as_MaxReplica a)) @
     (if dep_Status dep \<noteq> DeploymentStatusActive then '', '' @ dep_Status dep else '''') @
     '') in '' @ envName @ '' environment''"

definition isProgressingStatus :: "string \<Rightarrow> bool" where
  "isProgressingStatus status \<longleftrightarrow>
     status \<in> set [statusPromoting, statusPromotingDeployment, statusPending, statusDeleting,
       DeploymentStatusActivating, DeploymentStatusBuilding, DeploymentStatusDeploying,
       DeploymentStatusWakingUp, DeploymentStatusUpdating, DeploymentStatusLoadingModel]"

section \<open>Conditions\<close>

text \<open>
  The loop of \<open>setCondition\<close>: the first condition of the same type is replaced, keeping its
  transition time when the status is the same; otherwise the condition is appended. The clock is
  read only where the code reads it.
\<close>

fun setCondition :: "'w BasetenModelReconciler \<Rightarrow> Condition list \<Rightarrow> Condition \<Rightarrow> ('w, Condition list) handler" where
  "setCondition r [] condition = do {
     now \<leftarrow> time_Now r;
     ret [condition\<lparr>c_LastTransitionTime := now\<rparr>] }"
| "setCondition r (c # cs) condition =
     (if c_Type c = c_Type condition then
        (if c_Status c = c_Status condition then
           ret (condition\<lparr>c_LastTransitionTime := c_LastTransitionTime c\<rparr> # cs)
         else do {
           now \<leftarrow> time_Now r;
           ret (condition\<lparr>c_LastTransitionTime := now\<rparr> # cs) })
      else do {
        rest \<leftarrow> setCondition r cs condition;
        ret (c # rest) })"

fun conditionsChanged :: "Condition list \<Rightarrow> string \<Rightarrow> string \<Rightarrow> string \<Rightarrow> bool" where
  "conditionsChanged [] reason readyStatus progressingStatus = False"
| "conditionsChanged (c # cs) reason readyStatus progressingStatus =
     (if c_Type c = conditionReady \<and> (c_Status c \<noteq> readyStatus \<or> c_Reason c \<noteq> reason) then True
      else if c_Type c = conditionProgressing \<and> (c_Status c \<noteq> progressingStatus \<or> c_Reason c \<noteq> reason) then True
      else conditionsChanged cs reason readyStatus progressingStatus)"

section \<open>updateStatus\<close>

record statusUpdate =
  su_deploymentStatus :: string
  su_message :: string
  su_modelID :: string
  su_sourceDeploymentID :: string
  su_sourceDeploymentName :: string
  su_activeDeploymentName :: string
  su_candidateDeploymentID :: string
  su_candidateDeploymentName :: string
  su_clearCandidate :: bool
  su_replicaCount :: int32
  su_firstDeploymentFailureTime :: "time option"

text \<open>A \<open>statusUpdate\<close> literal that names a status, a message and a model id.\<close>

definition status_update :: "string \<Rightarrow> string \<Rightarrow> string \<Rightarrow> statusUpdate" where
  "status_update st msg mid = \<lparr>su_deploymentStatus = st, su_message = msg, su_modelID = mid,
     su_sourceDeploymentID = '''', su_sourceDeploymentName = '''', su_activeDeploymentName = '''',
     su_candidateDeploymentID = '''', su_candidateDeploymentName = '''', su_clearCandidate = False,
     su_replicaCount = 0, su_firstDeploymentFailureTime = None\<rparr>"

record statusSnapshot =
  ss_deploymentStatus :: string
  ss_message :: string
  ss_activeReplicaCount :: int32
  ss_modelID :: string
  ss_modelIDResolvedTimeSet :: bool
  ss_sourceDeploymentID :: string
  ss_sourceDeploymentName :: string
  ss_activeDeploymentName :: string
  ss_candidateDeploymentID :: string
  ss_candidateDeploymentName :: string

definition take_snapshot :: "BasetenModelStatus \<Rightarrow> statusSnapshot" where
  "take_snapshot st = \<lparr>ss_deploymentStatus = DeploymentStatus st, ss_message = Message st,
     ss_activeReplicaCount = ActiveReplicaCount st, ss_modelID = ModelID st,
     ss_modelIDResolvedTimeSet = (ModelIDResolvedTime st \<noteq> None),
     ss_sourceDeploymentID = SourceDeploymentID st, ss_sourceDeploymentName = SourceDeploymentName st,
     ss_activeDeploymentName = ActiveDeploymentName st,
     ss_candidateDeploymentID = CandidateDeploymentID st,
     ss_candidateDeploymentName = CandidateDeploymentName st\<rparr>"

definition healthy :: "string \<Rightarrow> bool" where
  "healthy st \<longleftrightarrow> st = DeploymentStatusActive \<or> st = DeploymentStatusScaledToZero"

text \<open>The assignments of \<open>updateStatus\<close> that follow the model id, up to the conditions.\<close>

definition apply_names :: "statusUpdate \<Rightarrow> BasetenModelStatus \<Rightarrow> BasetenModelStatus" where
  "apply_names s st =
     (let st = (if su_sourceDeploymentID s \<noteq> '''' then st\<lparr>SourceDeploymentID := su_sourceDeploymentID s\<rparr> else st);
          st = (if su_sourceDeploymentName s \<noteq> '''' then st\<lparr>SourceDeploymentName := su_sourceDeploymentName s\<rparr> else st);
          st = (if su_activeDeploymentName s \<noteq> '''' then st\<lparr>ActiveDeploymentName := su_activeDeploymentName s\<rparr> else st);
          st = (if su_clearCandidate s then st\<lparr>CandidateDeploymentID := '''', CandidateDeploymentName := ''''\<rparr>
                else
                  (let st = (if su_candidateDeploymentID s \<noteq> ''''
                             then st\<lparr>CandidateDeploymentID := su_candidateDeploymentID s\<rparr> else st)
                   in if su_candidateDeploymentName s \<noteq> ''''
                      then st\<lparr>CandidateDeploymentName := su_candidateDeploymentName s\<rparr> else st))
      in if healthy (su_deploymentStatus s)
         then st\<lparr>FirstDeploymentFailureTime := None, DeploymentRetryCount := 0, NextRetryTime := None\<rparr>
         else if su_firstDeploymentFailureTime s \<noteq> None
         then st\<lparr>FirstDeploymentFailureTime := su_firstDeploymentFailureTime s\<rparr>
         else st)"

definition make_condition :: "string \<Rightarrow> bool \<Rightarrow> int \<Rightarrow> string \<Rightarrow> string \<Rightarrow> Condition" where
  "make_condition typ on gen reason msg = \<lparr>c_Type = typ,
     c_Status = (if on then ConditionTrue else ConditionFalse), c_ObservedGeneration = gen,
     c_LastTransitionTime = zero_time, c_Reason = reason, c_Message = msg\<rparr>"

definition updateStatus :: "'w BasetenModelReconciler \<Rightarrow> statusUpdate \<Rightarrow> ('w, go_error option) handler" where
  "updateStatus r s = do {
     m \<leftarrow> model;
     let prev = take_snapshot (Status m);
     modify_status (\<lambda>st. st\<lparr>DeploymentStatus := su_deploymentStatus s, Message := su_message s,
       ActiveReplicaCount := su_replicaCount s\<rparr>);
     (if su_modelID s \<noteq> '''' then do {
        now \<leftarrow> time_Now r;
        modify_status (\<lambda>st. st\<lparr>ModelID := su_modelID s, ModelIDResolvedTime := Some now\<rparr>) }
      else ret ());
     modify_status (apply_names s);
     m \<leftarrow> model;
     let ready = healthy (su_deploymentStatus s);
     conds \<leftarrow> setCondition r (Conditions (Status m))
       (make_condition conditionReady ready (bm_Generation m) (su_deploymentStatus s) (su_message s));
     let progressing = isProgressingStatus (su_deploymentStatus s);
     conds \<leftarrow> setCondition r conds
       (make_condition conditionProgressing progressing (bm_Generation m) (su_deploymentStatus s) (su_message s));
     modify_status (\<lambda>st. st\<lparr>Conditions := conds\<rparr>);
     m \<leftarrow> model;
     let curr = take_snapshot (Status m);
     (if curr = prev \<and> \<not> conditionsChanged (Conditions (Status m)) (su_deploymentStatus s)
          (if ready then ConditionTrue else ConditionFalse)
          (if progressing then ConditionTrue else ConditionFalse)
      then ret None
      else Status_Update r) }"

definition logUpdateStatus :: "'w BasetenModelReconciler \<Rightarrow> statusUpdate \<Rightarrow> ('w, unit) handler" where
  "logUpdateStatus r s = do { _ \<leftarrow> updateStatus r s; ret () }"

definition invalidateModelID :: "'w BasetenModelReconciler \<Rightarrow> go_error option \<Rightarrow> ('w, bool) handler" where
  "invalidateModelID r err = do {
     m \<leftarrow> model;
     (if \<not> IsNotFoundError err \<or> ModelID (Status m) = '''' then ret False
      else do {
        Eventf EventTypeWarning EventModelNotFound
          (''Invalidating cached model ID '' @ ModelID (Status m) @ '', will re-resolve'');
        modify_status (\<lambda>st. st\<lparr>ModelID := ''''\<rparr>);
        _ \<leftarrow> Status_Update r;
        ret True }) }"

section \<open>What the status helpers emit\<close>

lemma emits_setCondition [emits_intro]: "emits P (setCondition r cs c)"
  by (induction r cs c rule: setCondition.induct) (auto intro!: emits_intro)

context effect_class
begin

lemma emits_status: "emits allowed (Status_Update r)"
  by (intro emits_intro allows_status)

lemma emits_event: "emits allowed (Eventf t rs msg)"
  by (intro emits_intro allows_event)

lemma emits_updateStatus: "emits allowed (updateStatus r s)"
  unfolding updateStatus_def Let_def by (intro emits_intro allows_status)

lemma emits_logUpdateStatus: "emits allowed (logUpdateStatus r s)"
  unfolding logUpdateStatus_def by (intro emits_intro emits_updateStatus)

lemma emits_invalidateModelID: "emits allowed (invalidateModelID r err)"
  unfolding invalidateModelID_def by (intro emits_intro allows_status allows_event)

lemmas emits_basic = emits_status emits_event emits_updateStatus emits_logUpdateStatus
  emits_invalidateModelID

end

text \<open>The helpers stay within the kinds that hold status writes and events.\<close>

lemmas stays_basic = effect_class.emits_basic [OF effect_class_kinds]

end
