(* ===== verification/Recon_Orphans.thy ===== *)
theory Recon_Orphans
  imports Recon_Status
begin

text \<open>
  Orphan cleanup: \<open>reconcileOrphanCleanup\<close>, \<open>findOrphanDeployments\<close>, \<open>scaleInOrphans\<close> and
  \<open>deleteStaleOrphans\<close>. A negative \<open>minToKeep\<close> makes the Go slice expression panic, which is the
  value \<open>PanicError\<close>.
\<close>

section \<open>Finding orphans\<close>

text \<open>\<open>model.Spec.SourceDeploymentName\<close>, or the one of the status when the spec has none.\<close>

definition source_dep_name :: "BasetenModel \<Rightarrow> string" where
  "source_dep_name m =
     (if spec_SourceDeploymentName (Spec m) = '''' then SourceDeploymentName (Status m)
      else spec_SourceDeploymentName (Spec m))"

definition deployment_ids :: "Deployment option \<Rightarrow> string list" where
  "deployment_ids d = (case d of None \<Rightarrow> [] | Some d \<Rightarrow> [dep_ID d])"

definition protected_ids :: "Environment list \<Rightarrow> string list" where
  "protected_ids envs = concat (map (\<lambda>env.
     deployment_ids (env_CurrentDeployment env) @ deployment_ids (env_CandidateDeployment env)) envs)"

definition is_orphan :: "BasetenModel \<Rightarrow> Environment list \<Rightarrow> DeploymentDetail \<Rightarrow> bool" where
  "is_orphan m envs dep =
     (if dd_ID dep \<in> set (protected_ids envs) then False
      else if dd_IsProduction dep \<or> dd_IsDevelopment dep then False
      else
        (let sourceDepName = source_dep_name m in
         if sourceDepName \<noteq> '''' \<and> DeploymentNameMatchesPrefix (dd_Name dep) sourceDepName \<and>
            (dd_Environment dep \<noteq> None \<or>
             (dd_Status dep \<noteq> DeploymentStatusInactive \<and> \<not> IsTerminalFailure (dd_Status dep)))
         then False else True))"

definition findOrphanDeployments ::
  "'w BasetenModelReconciler \<Rightarrow> string \<Rightarrow> ('w, go_error + DeploymentDetail list) handler" where
  "findOrphanDeployments r modelID = do {
     deployments \<leftarrow> api_ListDeployments r modelID;
     case deployments of
       Inl err \<Rightarrow> ret (Inl (WrapError ''listing deployments'' err))
     | Inr deployments \<Rightarrow> do {
         environments \<leftarrow> api_ListEnvironments r modelID;
         case environments of
           Inl err \<Rightarrow> ret (Inl (WrapError ''listing environments'' err))
         | Inr environments \<Rightarrow> do {
             m \<leftarrow> model;
             ret (Inr (filter (is_orphan m environments) deployments)) } } }"

section \<open>Scaling in\<close>

definition scale_in_one ::
  "'w BasetenModelReconciler \<Rightarrow> string \<Rightarrow> DeploymentDetail \<Rightarrow> string list \<Rightarrow> ('w, string list) handler" where
  "scale_in_one r modelID dep names =
     (if (case dd_AutoscalingSettings dep of None \<Rightarrow> False | Some a \<Rightarrow> as_MinReplica a = 0) then ret names
      else do {
        err \<leftarrow> api_UpdateDeploymentAutoscaling r modelID (dd_ID dep) 0;
        ret (if err = None then names @ [dd_Name dep] else names) })"

definition scaleInOrphans ::
  "'w BasetenModelReconciler \<Rightarrow> string \<Rightarrow> DeploymentDetail list \<Rightarrow> ('w, nat \<times> string list) handler" where
  "scaleInOrphans r modelID orphans = do {
     names \<leftarrow> mfold (scale_in_one r modelID) orphans [];
     ret (length names, names) }"

section \<open>Deleting stale orphans\<close>

definition newer :: "DeploymentDetail \<Rightarrow> DeploymentDetail \<Rightarrow> bool" where
  "newer a b \<longleftrightarrow> dd_CreatedAt a > dd_CreatedAt b"

definition older :: "DeploymentDetail \<Rightarrow> DeploymentDetail \<Rightarrow> bool" where
  "older a b \<longleftrightarrow> dd_CreatedAt a < dd_CreatedAt b"

definition matches_source :: "string \<Rightarrow> DeploymentDetail \<Rightarrow> bool" where
  "matches_source src dep \<longleftrightarrow> src \<noteq> '''' \<and> DeploymentNameMatchesPrefix (dd_Name dep) src"

text \<open>The guards of \<open>tryDelete\<close>: the status is final and the creation time is at or before the cutoff.\<close>

definition deletable :: "time \<Rightarrow> DeploymentDetail \<Rightarrow> bool" where
  "deletable cutoff dep =
     (if dd_Status dep \<noteq> DeploymentStatusInactive \<and> \<not> IsTerminalFailure (dd_Status dep) then False
      else (case RFC3339_Parse (dd_CreatedAt dep) of
              Inl err \<Rightarrow> False
            | Inr createdAt \<Rightarrow> \<not> createdAt > cutoff))"

definition try_delete ::
  "'w BasetenModelReconciler \<Rightarrow> string \<Rightarrow> time \<Rightarrow> DeploymentDetail \<Rightarrow> string list \<Rightarrow> ('w, string list) handler" where
  "try_delete r modelID cutoff dep names =
     (if \<not> deletable cutoff dep then ret names
      else do {
        err \<leftarrow> api_DeleteDeployment r modelID (dd_ID dep);
        ret (if err = None then names @ [dd_Name dep] else names) })"

text \<open>
  The deployments that \<open>tryDelete\<close> sees, in its order: what the \<open>keep\<close> newest leave, those of other
  sources first and each group oldest first.
\<close>

definition delete_order ::
  "'w BasetenModelReconciler \<Rightarrow> string \<Rightarrow> nat \<Rightarrow> DeploymentDetail list \<Rightarrow> DeploymentDetail list" where
  "delete_order r src keep orphans =
     (let sorted = SortSlice r newer orphans;
          protectedCount = (if keep > length sorted then length sorted else keep);
          candidates = drop protectedCount sorted;
          nonPrefix = filter (\<lambda>dep. \<not> matches_source src dep) candidates;
          prefixMatched = filter (matches_source src) candidates
      in SortSlice r older nonPrefix @ SortSlice r older prefixMatched)"

definition deleteStaleOrphans ::
  "'w BasetenModelReconciler \<Rightarrow> string \<Rightarrow> DeploymentDetail list \<Rightarrow> OrphanDeploymentCleanupConfig \<Rightarrow>
   ('w, go_error + (nat \<times> string list)) handler" where
  "deleteStaleOrphans r modelID orphans cleanup =
     (case (oc_DeleteAfterDays cleanup, oc_MinToKeep cleanup) of
        (Some staleDays, Some minKeep) \<Rightarrow>
          (if sint minKeep < 0 then ret (Inl (PanicError ''slice bounds out of range''))
           else do {
             m \<leftarrow> model;
             let order = delete_order r (source_dep_name m) (nat (sint minKeep)) orphans;
             now \<leftarrow> time_Now r;
             let cutoff = time_SubDays now (sint staleDays);
             names \<leftarrow> mfold (try_delete r modelID cutoff) order [];
             ret (Inr (length names, names)) })
      | _ \<Rightarrow> ret (Inr (0, [])))"

section \<open>The cleanup pass\<close>

text \<open>\<open>time.Duration(*cleanup.IntervalMinutes) * time.Minute\<close>, which wraps at 64 bits.\<close>

definition cleanup_interval :: "int32 \<Rightarrow> duration" where
  "cleanup_interval minutes = wrap64 (sint minutes * Minute)"

definition cleanup_due ::
  "'w BasetenModelReconciler \<Rightarrow> int32 \<Rightarrow> ('w, bool) handler" where
  "cleanup_due r minutes = do {
     m \<leftarrow> model;
     case LastCleanupTime (Status m) of
       None \<Rightarrow> ret True
     | Some t \<Rightarrow> do {
         now \<leftarrow> time_Now r;
         ret (\<not> time_Sub now t < cleanup_interval minutes) } }"

definition run_cleanup ::
  "'w BasetenModelReconciler \<Rightarrow> string \<Rightarrow> OrphanDeploymentCleanupConfig \<Rightarrow> bool \<Rightarrow> bool \<Rightarrow>
   ('w, go_error option) handler" where
  "run_cleanup r modelID cleanup scaleIn deleteStale = do {
     found \<leftarrow> findOrphanDeployments r modelID;
     case found of
       Inl err \<Rightarrow> ret None
     | Inr orphans \<Rightarrow> do {
         scaled \<leftarrow> (if scaleIn then scaleInOrphans r modelID orphans else ret (0, []));
         deleted \<leftarrow> (if deleteStale then deleteStaleOrphans r modelID orphans cleanup else ret (Inr (0, [])));
         case deleted of
           Inl panic \<Rightarrow> ret (Some panic)
         | Inr (n, deletedNames) \<Rightarrow> do {
             (if fst scaled > 0 then
                Eventf EventTypeNormal EventOrphanDeploymentsScaledIn
                  (''Scaled in '' @ fmt_nat (fst scaled) @ '' orphan deployments: '' @ strings_Join (snd scaled) '', '')
              else ret ());
             (if n > 0 then
                Eventf EventTypeNormal EventOrphanDeploymentsDeleted
                  (''Deleted '' @ fmt_nat n @ '' stale orphan deployments: '' @ strings_Join deletedNames '', '')
              else ret ());
             now \<leftarrow> time_Now r;
             modify_status (\<lambda>st. st\<lparr>LastCleanupTime := Some now\<rparr>);
             _ \<leftarrow> Status_Update r;
             ret None } } }"

definition reconcileOrphanCleanup ::
  "'w BasetenModelReconciler \<Rightarrow> string \<Rightarrow> OrphanDeploymentCleanupConfig \<Rightarrow> ('w, go_error option) handler" where
  "reconcileOrphanCleanup r modelID cleanup =
     (case oc_IntervalMinutes cleanup of
        None \<Rightarrow> ret None
      | Some minutes \<Rightarrow> do {
          due \<leftarrow> cleanup_due r minutes;
          let scaleIn = (oc_ScaleToZero cleanup = Some True);
          let deleteStale = (oc_Delete cleanup = Some True);
          (if \<not> due then ret None
           else if \<not> scaleIn \<and> \<not> deleteStale then ret None
           else run_cleanup r modelID cleanup scaleIn deleteStale) })"

end
