(* ===== verification/Recon_Lifecycle.thy ===== *)
theory Recon_Lifecycle
  imports Recon_Status
begin

text \<open>
  The lifecycle prelude of a reconcile: \<open>effectiveMode\<close>, \<open>reconcileLifecycle\<close>, \<open>reconcilePaused\<close>,
  \<open>reconcileDeletion\<close>, \<open>checkDeleteGuardrails\<close> and \<open>releaseFinalizer\<close>.
\<close>

definition effectiveMode :: "BasetenModel \<Rightarrow> ReconcileMode" where
  "effectiveMode m =
     (if spec_Paused (Spec m) then ModePause
      else if spec_Mode (Spec m) = '''' then ModeReconcile
      else spec_Mode (Spec m))"

text \<open>\<open>model.DeletionTimestamp.IsZero()\<close>.\<close>

definition deletion_requested :: "BasetenModel \<Rightarrow> bool" where
  "deletion_requested m = (case bm_DeletionTimestamp m of None \<Rightarrow> False | Some t \<Rightarrow> t \<noteq> zero_time)"

section \<open>Pause\<close>

definition paused_message :: "string \<Rightarrow> string" where
  "paused_message msg =
     (if msg \<noteq> '''' \<and> \<not> HasPrefix msg ''reconciliation paused''
      then ''reconciliation paused | last status: '' @ msg
      else if msg \<noteq> '''' then msg
      else ''reconciliation paused'')"

definition reconcilePaused :: "'w BasetenModelReconciler \<Rightarrow> ('w, unit) handler" where
  "reconcilePaused r = do {
     m \<leftarrow> model;
     let msg = paused_message (Message (Status m));
     (if DeploymentStatus (Status m) \<noteq> statusPaused then
        Eventf EventTypeNormal EventReconciliationPaused
          (''Reconciliation paused for '' @ spec_ModelName (Spec m))
      else ret ());
     logUpdateStatus r (status_update statusPaused msg '''') }"

section \<open>Deletion\<close>

text \<open>
  The loop over the environments: the larger of 0 and the active replicas of the current and the
  candidate deployment, compared as signed integers.
\<close>

definition max_active :: "int32 \<Rightarrow> Deployment option \<Rightarrow> int32" where
  "max_active acc d = (case d of
     None \<Rightarrow> acc
   | Some d \<Rightarrow> if sint (dep_ActiveReplicaCount d) > sint acc then dep_ActiveReplicaCount d else acc)"

definition env_min_replica :: "Environment \<Rightarrow> int32" where
  "env_min_replica env = (case env_AutoscalingSettings env of None \<Rightarrow> 0 | Some a \<Rightarrow> as_MinReplica a)"

definition env_active_replica :: "Environment \<Rightarrow> int32" where
  "env_active_replica env = max_active (max_active 0 (env_CurrentDeployment env)) (env_CandidateDeployment env)"

definition env_serving :: "Environment \<Rightarrow> bool" where
  "env_serving env \<longleftrightarrow> sint (env_min_replica env) > 0 \<or> sint (env_active_replica env) > 0"

definition blocker_text :: "Environment \<Rightarrow> string" where
  "blocker_text env = env_Name env @ '' (min='' @ fmt_d (env_min_replica env) @ '', active='' @
     fmt_d (env_active_replica env) @ '')''"

definition env_blockers :: "Environment list \<Rightarrow> string list" where
  "env_blockers envs = sort (map blocker_text (filter env_serving envs))"

definition checkDeleteGuardrails ::
  "'w BasetenModelReconciler \<Rightarrow> string \<Rightarrow> ('w, go_error + string list) handler" where
  "checkDeleteGuardrails r modelID = do {
     envs \<leftarrow> api_ListEnvironments r modelID;
     case envs of
       Inl err \<Rightarrow> (if IsNotFoundError (Some err) then ret (Inr []) else ret (Inl err))
     | Inr envs \<Rightarrow> ret (Inr (env_blockers envs)) }"

definition releaseFinalizer :: "'w BasetenModelReconciler \<Rightarrow> ('w, Result \<times> go_error option) handler" where
  "releaseFinalizer r = do {
     modify_obj (\<lambda>m. m\<lparr>bm_Finalizers := fst (u_RemoveFinalizer r (bm_Finalizers m) FinalizerName)\<rparr>);
     err \<leftarrow> K_Update r;
     ret (no_requeue, IgnoreNotFound err) }"

text \<open>The status and the event of a blocked deletion; the event only on the first time.\<close>

definition delete_blocked ::
  "'w BasetenModelReconciler \<Rightarrow> string \<Rightarrow> string \<Rightarrow> ('w, Result \<times> go_error option) handler" where
  "delete_blocked r modelID msg = do {
     m \<leftarrow> model;
     (if DeploymentStatus (Status m) \<noteq> statusDeleteBlocked
      then Eventf EventTypeWarning EventModelDeleteBlocked msg
      else ret ());
     logUpdateStatus r (status_update statusDeleteBlocked msg modelID);
     ret (requeue (30 * Second), None) }"

text \<open>The call of \<open>DeleteModel\<close> and what follows it.\<close>

definition delete_model ::
  "'w BasetenModelReconciler \<Rightarrow> string \<Rightarrow> ('w, Result \<times> go_error option) handler" where
  "delete_model r modelID = do {
     logUpdateStatus r (status_update statusDeleting (''deleting Baseten model '' @ modelID) modelID);
     err \<leftarrow> api_DeleteModel r modelID;
     case err of
       Some e \<Rightarrow>
         (if IsNotFoundError err then do {
            Eventf EventTypeNormal EventModelDeleted
              (''Baseten model '' @ modelID @ '' already deleted (404)'');
            releaseFinalizer r }
          else do {
            Eventf EventTypeWarning EventModelDeleteFailed
              (''Failed to delete Baseten model '' @ modelID @ '': '' @ error_text e);
            logUpdateStatus r (status_update statusDeleteFailed
              (''failed to delete Baseten model '' @ modelID @ '': '' @ error_text e) modelID);
            ret (requeue (30 * Second), None) })
     | None \<Rightarrow> do {
         Eventf EventTypeNormal EventModelDeleted (''Deleted Baseten model '' @ modelID);
         releaseFinalizer r } }"

definition reconcileDeletion :: "'w BasetenModelReconciler \<Rightarrow> ('w, Result \<times> go_error option) handler" where
  "reconcileDeletion r = do {
     m \<leftarrow> model;
     (if \<not> u_ContainsFinalizer r (bm_Finalizers m) FinalizerName then ret (no_requeue, None)
      else do {
        let mode = effectiveMode m;
        let policy = (if spec_DeletionPolicy (Spec m) = '''' then DeletionPolicyRetain
                      else spec_DeletionPolicy (Spec m));
        let deletePolicy = (policy = DeletionPolicyDelete \<or> policy = DeletionPolicyDeleteWithGuardrails);
        (if mode \<noteq> ModeReconcile \<or> \<not> deletePolicy then releaseFinalizer r
         else do {
           let modelID = ModelID (Status m);
           (if modelID = '''' then releaseFinalizer r
            else if policy = DeletionPolicyDeleteWithGuardrails then do {
              blockers \<leftarrow> checkDeleteGuardrails r modelID;
              case blockers of
                Inl err \<Rightarrow> delete_blocked r modelID
                  (''deletion blocked: failed to list environments for model '' @ modelID @ '': '' @ error_text err)
              | Inr bs \<Rightarrow>
                  (if 0 < length bs then delete_blocked r modelID
                     (''deletion blocked: '' @ strings_Join bs '', '' @
                      '' must be scaled to min_replicas: 0 and idle before model can be deleted'')
                   else delete_model r modelID) }
            else delete_model r modelID) }) }) }"

section \<open>The prelude\<close>

definition reconcileLifecycle ::
  "'w BasetenModelReconciler \<Rightarrow> ('w, bool \<times> Result \<times> go_error option) handler" where
  "reconcileLifecycle r = do {
     m \<leftarrow> model;
     (if deletion_requested m then do {
        (result, err) \<leftarrow> reconcileDeletion r;
        ret (True, result, err) }
      else if effectiveMode m = ModePause then do {
        reconcilePaused r;
        ret (True, no_requeue, None) }
      else
        (case u_AddFinalizer r (bm_Finalizers m) FinalizerName of (finalizers, added) \<Rightarrow> do {
          modify_obj (\<lambda>m. m\<lparr>bm_Finalizers := finalizers\<rparr>);
          (if \<not> added then ret (False, no_requeue, None)
           else do {
             err \<leftarrow> K_Update r;
             case err of
               Some e \<Rightarrow> (if \<not> k8s_IsConflict e then ret (True, no_requeue, Some e)
                           else ret (True, no_requeue, None))
             | None \<Rightarrow> ret (True, no_requeue, None) }) })) }"

end
