(* ===== verification/Recon_Retry.thy ===== *)
theory Recon_Retry
  imports Recon_Status
begin

text \<open>
  Retries of failed deployments: the back-off (\<open>retryBackoff\<close>, with its floating-point jitter),
  \<open>scheduleNextRetry\<close>, \<open>tryRetryDeployment\<close> and \<open>handleCandidateFailure\<close>.
\<close>

definition deploymentRetryDeadline :: duration where "deploymentRetryDeadline = 2 * Hour"
definition retryBaseInterval :: duration where "retryBaseInterval = 2 * Minute"
definition retryMaxInterval :: duration where "retryMaxInterval = 30 * Minute"

lemmas retry_consts = deploymentRetryDeadline_def retryBaseInterval_def retryMaxInterval_def

section \<open>The back-off\<close>

text \<open>The loop \<open>for i := 1; i < retryCount; i++\<close> with its \<open>break\<close> at the cap.\<close>

function backoff_loop :: "int \<Rightarrow> int \<Rightarrow> duration \<Rightarrow> duration" where
  "backoff_loop i retryCount base =
     (if i < retryCount then
        (let base = base * 2 in
         if base > retryMaxInterval then retryMaxInterval
         else backoff_loop (i + 1) retryCount base)
      else base)"
  by pat_completeness auto
termination
  by (relation "measure (\<lambda>(i, n, base). nat (n - i))") auto

declare backoff_loop.simps [simp del]

text \<open>
  Rounding of a product to the 53 bits of a \<open>float64\<close>, ties to even: \<open>excess m\<close> is the number
  of bits of \<open>m\<close> beyond 53.
\<close>

function excess :: "int \<Rightarrow> nat" where
  "excess m = (if m < 2 ^ 53 then 0 else Suc (excess (m div 2)))"
  by pat_completeness auto
termination
  by (relation "measure nat") auto

declare excess.simps [simp del]

definition round53 :: "int \<Rightarrow> int" where
  "round53 m =
     (let e = excess m; q = m div 2 ^ e; rest = m mod 2 ^ e in
      if e = 0 then m
      else if 2 * rest > 2 ^ e \<or> (2 * rest = 2 ^ e \<and> odd q) then (q + 1) * 2 ^ e
      else q * 2 ^ e)"

text \<open>
  \<open>time.Duration(float64(base) * 0.5 * rand.Float64())\<close> for the random number \<open>k / 2 ^ 53\<close>:
  \<open>float64(base) * 0.5\<close> is exact for the even values of \<open>base\<close> that occur, the second product is
  rounded, the conversion truncates.
\<close>

definition jitter :: "duration \<Rightarrow> nat \<Rightarrow> duration" where
  "jitter base k = round53 ((base div 2) * int k) div 2 ^ 53"

definition retryBackoff :: "'w BasetenModelReconciler \<Rightarrow> int32 \<Rightarrow> ('w, duration) handler" where
  "retryBackoff r retryCount = do {
     let base = backoff_loop 1 (sint retryCount) retryBaseInterval;
     k \<leftarrow> ext_read (RandFloat64 r);
     ret (base + jitter base k) }"

section \<open>Retrying\<close>

definition scheduleNextRetry :: "'w BasetenModelReconciler \<Rightarrow> ('w, unit) handler" where
  "scheduleNextRetry r = do {
     modify_status (\<lambda>st. st\<lparr>DeploymentRetryCount := DeploymentRetryCount st + 1\<rparr>);
     m \<leftarrow> model;
     backoff \<leftarrow> retryBackoff r (DeploymentRetryCount (Status m));
     now \<leftarrow> time_Now r;
     modify_status (\<lambda>st. st\<lparr>NextRetryTime := Some (now + backoff)\<rparr>);
     _ \<leftarrow> Status_Update r;
     ret () }"

text \<open>The first detection of the failure: the stored time, or the current time, which is stored.\<close>

definition first_failure :: "'w BasetenModelReconciler \<Rightarrow> ('w, time) handler" where
  "first_failure r = do {
     m \<leftarrow> model;
     case FirstDeploymentFailureTime (Status m) of
       Some t \<Rightarrow> ret t
     | None \<Rightarrow> do {
         now \<leftarrow> time_Now r;
         modify_status (\<lambda>st. st\<lparr>FirstDeploymentFailureTime := Some now\<rparr>);
         _ \<leftarrow> Status_Update r;
         ret now } }"

text \<open>The back-off test; the remaining time is computed from a second reading of the clock.\<close>

definition backoff_remaining :: "'w BasetenModelReconciler \<Rightarrow> time option \<Rightarrow> ('w, duration option) handler" where
  "backoff_remaining r nextRetry = (case nextRetry of
     None \<Rightarrow> ret None
   | Some next \<Rightarrow> do {
       now \<leftarrow> time_Now r;
       (if now < next then do {
          now' \<leftarrow> time_Now r;
          ret (Some (time_Sub next now')) }
        else ret None) })"

definition tryRetryDeployment ::
  "'w BasetenModelReconciler \<Rightarrow> string \<Rightarrow> string \<Rightarrow> string \<Rightarrow> string \<Rightarrow> ('w, Result option \<times> bool) handler" where
  "tryRetryDeployment r modelID deploymentID deploymentName failedStatus = do {
     firstFailure \<leftarrow> first_failure r;
     now \<leftarrow> time_Now r;
     (if time_Sub now firstFailure > deploymentRetryDeadline then do {
        Eventf EventTypeWarning EventDeploymentRetryExhausted
          (''Deployment '' @ deploymentName @ '' has been failing for over '' @
           fmt_secs (deploymentRetryDeadline div Second) @ '', giving up retries'');
        ret (None, False) }
      else do {
        m \<leftarrow> model;
        waiting \<leftarrow> backoff_remaining r (NextRetryTime (Status m));
        case waiting of
          Some remaining \<Rightarrow> ret (Some (requeue remaining), True)
        | None \<Rightarrow> do {
            found \<leftarrow> api_FindDeploymentIDByName r modelID deploymentName;
            let currentStatus = (case found of
                Inl e \<Rightarrow> failedStatus
              | Inr (_, freshStatus) \<Rightarrow> if freshStatus \<noteq> '''' then freshStatus else failedStatus);
            (if \<not> IsRetryableFailure currentStatus then ret (Some (requeue (30 * Second)), True)
             else do {
               resp \<leftarrow> api_RetryDeployment r modelID deploymentID;
               case resp of
                 Inl err \<Rightarrow> do {
                   Eventf EventTypeWarning EventDeploymentRetryFailed
                     (''Failed to retry deployment '' @ deploymentName @ '': '' @ error_text err);
                   scheduleNextRetry r;
                   ret (Some (requeue (30 * Second)), True) }
               | Inr retryResp \<Rightarrow>
                   if \<not> rr_Retried retryResp then do {
                     Eventf EventTypeWarning EventDeploymentRetryFailed
                       (''Retry declined for deployment '' @ deploymentName @ '': '' @ rr_Reason retryResp);
                     scheduleNextRetry r;
                     ret (Some (requeue (30 * Second)), True) }
                   else do {
                     m \<leftarrow> model;
                     Eventf EventTypeNormal EventDeploymentRetried
                       (''Retried deployment '' @ deploymentName @ '' (was '' @ failedStatus @ '', attempt '' @
                        fmt_d (DeploymentRetryCount (Status m) + 1) @ '')'');
                     scheduleNextRetry r;
                     m \<leftarrow> model;
                     logUpdateStatus r (status_update DeploymentStatusBuilding
                       (''retrying deployment '' @ deploymentName @ '' (was '' @ failedStatus @ '', attempt '' @
                        fmt_d (DeploymentRetryCount (Status m)) @ '')'') modelID);
                     ret (Some (requeue (30 * Second)), True) } }) } }) }"

definition handleCandidateFailure ::
  "'w BasetenModelReconciler \<Rightarrow> string \<Rightarrow> Deployment option \<Rightarrow> Deployment \<Rightarrow> statusUpdate \<Rightarrow>
   ('w, Result \<times> go_error option) handler" where
  "handleCandidateFailure r modelID current candidate su =
     (if IsRetryableFailure (dep_Status candidate) then do {
        m \<leftarrow> model;
        let candidateID = (if dep_ID candidate = '''' then CandidateDeploymentID (Status m) else dep_ID candidate);
        tried \<leftarrow> (if candidateID \<noteq> ''''
          then tryRetryDeployment r modelID candidateID (dep_Name candidate) (dep_Status candidate)
          else ret (None, False));
        case tried of
          (Some result, True) \<Rightarrow> ret (result, None)
        | _ \<Rightarrow> do {
            Eventf EventTypeWarning EventPromotionFailed
              (''Candidate deployment '' @ dep_Name candidate @ '' failed with status '' @ dep_Status candidate @
               '' (retries exhausted)'');
            logUpdateStatus r su;
            ret (no_requeue, Some (TerminalError (ErrorString
              (''candidate deployment '' @ dep_Name candidate @ '' failed with status '' @ dep_Status candidate @
               '' (retries exhausted after '' @ fmt_secs (deploymentRetryDeadline div Second) @ '')'')))) } }
      else do {
        let su = su\<lparr>su_deploymentStatus := dep_Status candidate,
                    su_message := candidateFailedMessage current candidate\<rparr>;
        Eventf EventTypeWarning EventPromotionFailed
          (''Candidate deployment '' @ dep_Name candidate @ '' failed with status '' @ dep_Status candidate);
        logUpdateStatus r su;
        ret (no_requeue, Some (ErrorString
          (''candidate deployment '' @ dep_Name candidate @ '' failed with status '' @ dep_Status candidate))) })"

end
