(* ===== verification/Recon_Truss.thy ===== *)
theory Recon_Truss
  imports Recon_Retry
begin

text \<open>
  Operator-managed deployments: \<open>resolveSourceDeployment\<close>, \<open>reconcileTrussDeployment\<close> with the push
  slots, \<open>readSetupScript\<close>, and the background push (\<open>asyncPush\<close>, \<open>updatePushStatus\<close>,
  \<open>recordPushFailure\<close>), which runs on its own copy of the object. \<open>go r.asyncPush(...)\<close> is the
  effect \<open>SpawnPush\<close>; the push itself is a handler of its own.
\<close>

definition trussPushStaleTimeout :: duration where "trussPushStaleTimeout = 5 * Minute"
definition maxPushErrorLen :: nat where "maxPushErrorLen = 512"

definition clearPushFailure :: "BasetenModelStatus \<Rightarrow> BasetenModelStatus" where
  "clearPushFailure st = st\<lparr>TrussPushFailureCount := 0, TrussPushNextRetryTime := None,
     TrussPushLastError := ''''\<rparr>"

definition truncateString :: "string \<Rightarrow> nat \<Rightarrow> string" where
  "truncateString s n = (if length s \<le> n then s else take n s @ ''...'')"

section \<open>The setup script\<close>

definition readSetupScript ::
  "'w BasetenModelReconciler \<Rightarrow> TrussConfig \<Rightarrow> string \<Rightarrow> ('w, go_error + string) handler" where
  "readSetupScript r tc namespace =
     (case tc_SetupScript tc of
        None \<Rightarrow> ret (Inr '''')
      | Some src \<Rightarrow>
          (case ss_ConfigMapRef src of
             Some ref \<Rightarrow> do {
               cm \<leftarrow> ext_call (k_GetConfigMap r (cr_Name ref) namespace)
                 (\<lambda>a. KGetConfigMap (cr_Name ref) namespace (map_sum id (\<lambda>data. data (cr_Key ref)) a));
               case cm of
                 Inl err \<Rightarrow> ret (Inl (WrapError
                   (''ConfigMap '' @ sq (cr_Name ref) @ '' not found'') err))
               | Inr data \<Rightarrow>
                   (case data (cr_Key ref) of
                      None \<Rightarrow> ret (Inl (ErrorString (''key '' @ sq (cr_Key ref) @
                        '' not found in ConfigMap '' @ sq (cr_Name ref))))
                    | Some script \<Rightarrow> ret (Inr script)) }
           | None \<Rightarrow>
               (case ss_Inline src of
                  Some script \<Rightarrow> ret (Inr script)
                | None \<Rightarrow> ret (Inr ''''))))"

section \<open>The steps of reconcileTrussDeployment\<close>

text \<open>
  The Go function returns a name, an optional result and an error. A step that lets the function
  continue answers \<open>None\<close>; a step that returns answers \<open>Some\<close> of the three values.
\<close>

type_synonym source_result = "string \<times> Result option \<times> go_error option"

definition truss_prefix :: "BasetenModel \<Rightarrow> string" where
  "truss_prefix m = (if ActiveDeploymentName (Status m) \<noteq> ''''
     then ''active: '' @ ActiveDeploymentName (Status m) @ '' | '' else '''')"

text \<open>With a model id: the cached deployment, or the one that exists in Baseten.\<close>

definition truss_existing ::
  "'w BasetenModelReconciler \<Rightarrow> string \<Rightarrow> string \<Rightarrow> string \<Rightarrow> string \<Rightarrow> ('w, source_result option) handler" where
  "truss_existing r modelID ap configHash deploymentName = do {
     m \<leftarrow> model;
     (if TrussConfigHash (Status m) = configHash \<and> TrussPushStatus (Status m) = statusTrussPushDone
      then ret (Some (SourceDeploymentName (Status m), None, None))
      else do {
        found \<leftarrow> api_FindDeploymentIDByName r modelID deploymentName;
        case found of
          Inl err \<Rightarrow> do {
            logUpdateStatus r (status_update statusPending
              (ap @ ''unable to check deployment '' @ deploymentName @ '': '' @ error_text err) modelID);
            ret (Some ('''', Some (requeue (30 * Second)), Some err)) }
        | Inr (existingID, _) \<Rightarrow>
            (if existingID \<noteq> '''' then do {
               m \<leftarrow> model;
               (if TrussPushStatus (Status m) = statusTrussPushing then
                  Eventf EventTypeNormal EventTrussPushCompleted
                    (''Deployment '' @ sq deploymentName @ '' created successfully via truss push'')
                else ret ());
               modify_status (\<lambda>st. clearPushFailure (st\<lparr>TrussConfigHash := configHash,
                 SourceDeploymentName := deploymentName, TrussPushStatus := statusTrussPushDone\<rparr>));
               _ \<leftarrow> Status_Update r;
               ret (Some (deploymentName, None, None)) }
             else ret None) }) }"

text \<open>\<open>time.Since(model.Status.TrussPushTime.Time) > trussPushStaleTimeout\<close>, with the elapsed time.\<close>

definition stale_push :: "'w BasetenModelReconciler \<Rightarrow> time option \<Rightarrow> ('w, duration option) handler" where
  "stale_push r pushTime = (case pushTime of
     None \<Rightarrow> ret None
   | Some t \<Rightarrow> do {
       now \<leftarrow> time_Now r;
       (if time_Sub now t > trussPushStaleTimeout then do {
          now' \<leftarrow> time_Now r;
          ret (Some (time_Sub now' t)) }
        else ret None) })"

text \<open>A push is recorded for this deployment: wait for it, or clear it when it is stale.\<close>

definition truss_in_flight ::
  "'w BasetenModelReconciler \<Rightarrow> string \<Rightarrow> string \<Rightarrow> string \<Rightarrow> ('w, source_result option) handler" where
  "truss_in_flight r modelID ap deploymentName = do {
     m \<leftarrow> model;
     (if TrussPushStatus (Status m) = statusTrussPushing \<and> SourceDeploymentName (Status m) = deploymentName then do {
        stale \<leftarrow> stale_push r (TrussPushTime (Status m));
        case stale of
          Some elapsed \<Rightarrow> do {
            Eventf EventTypeWarning EventTrussPushFailed
              (''Truss push for '' @ sq deploymentName @ '' timed out after '' @
               fmt_secs (trunc_sec elapsed) @ '', retrying'');
            modify_status (\<lambda>st. st\<lparr>TrussPushStatus := '''', TrussPushTime := None\<rparr>);
            _ \<leftarrow> Status_Update r;
            ret None }
        | None \<Rightarrow> do {
            logUpdateStatus r (status_update DeploymentStatusDeploying
              (ap @ ''truss push in progress for '' @ deploymentName) modelID);
            ret (Some ('''', Some (requeue (10 * Second)), None)) } }
      else ret None) }"

text \<open>After a failed push: push at once when the configuration changed, otherwise back off.\<close>

definition truss_backoff ::
  "'w BasetenModelReconciler \<Rightarrow> string \<Rightarrow> string \<Rightarrow> string \<Rightarrow> ('w, source_result option) handler" where
  "truss_backoff r modelID ap deploymentName = do {
     m \<leftarrow> model;
     (if TrussPushStatus (Status m) = statusTrussPushFailed then
        (if SourceDeploymentName (Status m) \<noteq> deploymentName then do {
           modify_status clearPushFailure;
           ret None }
         else
           (case TrussPushNextRetryTime (Status m) of
              None \<Rightarrow> ret None
            | Some next \<Rightarrow> do {
                now \<leftarrow> time_Now r;
                (if now < next then do {
                   logUpdateStatus r (status_update DeploymentStatusFailed
                     (ap @ ''truss push failed for '' @ deploymentName @ '' (attempt '' @
                      fmt_d (TrussPushFailureCount (Status m)) @ ''): '' @ TrussPushLastError (Status m) @
                      ''; next retry at '' @ RFC3339_Format next) modelID);
                   now' \<leftarrow> time_Now r;
                   ret (Some ('''', Some (requeue (time_Sub next now')), None)) }
                 else ret None) }))
      else ret None) }"

text \<open>The non-blocking send on the semaphore channel; a nil channel is not used at all.\<close>

definition acquire_slot :: "'w BasetenModelReconciler \<Rightarrow> ('w, bool) handler" where
  "acquire_slot r = (case PushSemaphore r of
     None \<Rightarrow> ret True
   | Some cap \<Rightarrow> State (\<lambda>s. if semUsed s < cap then (True, s\<lparr>semUsed := semUsed s + 1\<rparr>) else (False, s)))"

definition release_slot :: "'w BasetenModelReconciler \<Rightarrow> ('w, unit) handler" where
  "release_slot r = (case PushSemaphore r of
     None \<Rightarrow> ret ()
   | Some cap \<Rightarrow> modify (\<lambda>s. s\<lparr>semUsed := semUsed s - 1\<rparr>))"

definition truss_launch ::
  "'w BasetenModelReconciler \<Rightarrow> string \<Rightarrow> string \<Rightarrow> string \<Rightarrow> string \<Rightarrow> string \<Rightarrow> string \<Rightarrow>
   ('w, source_result) handler" where
  "truss_launch r modelID ap configHash deploymentName configYAML setupScript = do {
     now \<leftarrow> time_Now r;
     modify_status (\<lambda>st. st\<lparr>TrussConfigHash := configHash, SourceDeploymentName := deploymentName,
       TrussPushStatus := statusTrussPushing, TrussPushTime := Some now\<rparr>);
     _ \<leftarrow> Status_Update r;
     acquired \<leftarrow> acquire_slot r;
     (if \<not> acquired then do {
        modify_status (\<lambda>st. st\<lparr>TrussPushStatus := '''', SourceDeploymentName := ''''\<rparr>);
        _ \<leftarrow> Status_Update r;
        logUpdateStatus r (status_update statusPending
          (ap @ ''waiting for push capacity for '' @ deploymentName) modelID);
        ret ('''', Some (requeue (10 * Second)), None) }
      else do {
        m \<leftarrow> model;
        Eventf EventTypeNormal EventTrussPushStarted
          (if modelID = '''' then
             ''Creating model '' @ sq (spec_ModelName (Spec m)) @ '' and deployment '' @
             sq deploymentName @ '' via truss push''
           else ''Creating deployment '' @ sq deploymentName @ '' via truss push'');
        log_effect (SpawnPush \<lparr>pj_ModelName = bm_Name m, pj_Namespace = bm_Namespace m,
          pj_ConfigYAML = configYAML, pj_SetupScript = setupScript,
          pj_BasetenModelName = spec_ModelName (Spec m), pj_Team = spec_Team (Spec m),
          pj_DeploymentName = deploymentName\<rparr>);
        logUpdateStatus r (status_update DeploymentStatusDeploying
          (ap @ ''truss push started for '' @ deploymentName) modelID);
        ret ('''', Some (requeue (10 * Second)), None) }) }"

text \<open>The deployment does not exist yet: from the check for a push in flight on.\<close>

definition truss_push ::
  "'w BasetenModelReconciler \<Rightarrow> TrussConfig \<Rightarrow> string \<Rightarrow> string \<Rightarrow> string \<Rightarrow> string \<Rightarrow> string \<Rightarrow>
   ('w, source_result) handler" where
  "truss_push r tc modelID ap configHash deploymentName setupScript = do {
     inFlight \<leftarrow> truss_in_flight r modelID ap deploymentName;
     case inFlight of
       Some res \<Rightarrow> ret res
     | None \<Rightarrow> do {
         backoff \<leftarrow> truss_backoff r modelID ap deploymentName;
         case backoff of
           Some res \<Rightarrow> ret res
         | None \<Rightarrow> do {
             m \<leftarrow> model;
             case GenerateConfigYAML (JsonValid r) (YamlMarshal r) tc (spec_ModelName (Spec m)) of
               Inl err \<Rightarrow> do {
                 Eventf EventTypeWarning EventTrussPushFailed
                   (''Failed to prepare truss push for '' @ sq deploymentName @
                    '': '' @ error_text err);
                 logUpdateStatus r (status_update DeploymentStatusFailed
                   (ap @ ''truss push failed for '' @ deploymentName @ '': '' @ error_text err) modelID);
                 ret ('''', Some no_requeue, Some err) }
             | Inr configYAML \<Rightarrow>
                 truss_launch r modelID ap configHash deploymentName configYAML setupScript } } }"

definition reconcileTrussDeployment ::
  "'w BasetenModelReconciler \<Rightarrow> TrussConfig \<Rightarrow> string \<Rightarrow> ('w, source_result) handler" where
  "reconcileTrussDeployment r tc modelID = do {
     m \<leftarrow> model;
     let ap = truss_prefix m;
     script \<leftarrow> readSetupScript r tc (bm_Namespace m);
     case script of
       Inl err \<Rightarrow> do {
         Eventf EventTypeWarning EventSetupScriptNotFound (error_text err);
         logUpdateStatus r (status_update DeploymentStatusFailed
           (ap @ ''truss push failed: '' @ error_text err) modelID);
         ret ('''', Some no_requeue, Some err) }
     | Inr setupScript \<Rightarrow> do {
         let configHash = HashTrussConfig tc setupScript;
         let deploymentName = DeploymentName configHash (bi_Image (tc_BaseImage tc));
         existing \<leftarrow> (if modelID \<noteq> '''' then truss_existing r modelID ap configHash deploymentName else ret None);
         case existing of
           Some res \<Rightarrow> ret res
         | None \<Rightarrow> truss_push r tc modelID ap configHash deploymentName setupScript } }"

definition resolveSourceDeployment ::
  "'w BasetenModelReconciler \<Rightarrow> string \<Rightarrow> ('w, source_result) handler" where
  "resolveSourceDeployment r modelID = do {
     m \<leftarrow> model;
     case spec_TrussConfig (Spec m) of
       Some tc \<Rightarrow> reconcileTrussDeployment r tc modelID
     | None \<Rightarrow> ret (spec_SourceDeploymentName (Spec m), None, None) }"

section \<open>The background push\<close>

text \<open>
  The documented contract of \<open>retry.RetryOnConflict\<close>, a parameter of the model: the closure runs at
  least once, runs again only after a conflict, and the last answer is the answer. \<open>attempts n\<close> is
  at most \<open>n\<close> further runs; the number may depend on the state (back-off steps, deadlines).
\<close>

fun attempts ::
  "nat \<Rightarrow> ('v \<Rightarrow> ('w, go_error option \<times> 'v) handler) \<Rightarrow> 'v \<Rightarrow> ('w, go_error option \<times> 'v) handler" where
  "attempts 0 body v = body v"
| "attempts (Suc n) body v = do {
     (err, v) \<leftarrow> body v;
     case err of
       None \<Rightarrow> ret (None, v)
     | Some e \<Rightarrow> (if k8s_IsConflict e then attempts n body v else ret (Some e, v)) }"

definition retries_on_conflict :: "'w BasetenModelReconciler \<Rightarrow> bool" where
  "retries_on_conflict r \<longleftrightarrow>
     (\<forall>body v s. \<exists>n. run_state (k_RetryOnConflict r body v) s = run_state (attempts n body v) s)"

definition push_status_body ::
  "'w BasetenModelReconciler \<Rightarrow> push_job \<Rightarrow> string \<Rightarrow> string \<Rightarrow> duration \<Rightarrow> ('w, go_error option \<times> duration) handler" where
  "push_status_body r job pushStatus modelID v = do {
     modify_obj (\<lambda>_. zero_BasetenModel);
     err \<leftarrow> K_Get r (pj_ModelName job) (pj_Namespace job);
     case err of
       Some e \<Rightarrow> ret (Some e, v)
     | None \<Rightarrow> do {
         modify_status (\<lambda>st. st\<lparr>TrussPushStatus := pushStatus, TrussPushTime := None\<rparr>);
         (if pushStatus = statusTrussPushDone then modify_status clearPushFailure else ret ());
         (if modelID \<noteq> '''' then do {
            now \<leftarrow> time_Now r;
            modify_status (\<lambda>st. st\<lparr>ModelID := modelID, ModelIDResolvedTime := Some now\<rparr>) }
          else ret ());
         err \<leftarrow> Status_Update r;
         ret (err, v) } }"

definition updatePushStatus ::
  "'w BasetenModelReconciler \<Rightarrow> push_job \<Rightarrow> string \<Rightarrow> string \<Rightarrow> ('w, unit) handler" where
  "updatePushStatus r job pushStatus modelID = do {
     _ \<leftarrow> k_RetryOnConflict r (push_status_body r job pushStatus modelID) 0;
     ret () }"

definition push_failure_body ::
  "'w BasetenModelReconciler \<Rightarrow> push_job \<Rightarrow> go_error \<Rightarrow> duration \<Rightarrow> ('w, go_error option \<times> duration) handler" where
  "push_failure_body r job pushErr backoff = do {
     err \<leftarrow> K_Get r (pj_ModelName job) (pj_Namespace job);
     case err of
       Some e \<Rightarrow> ret (Some e, backoff)
     | None \<Rightarrow> do {
         modify_status (\<lambda>st. st\<lparr>TrussPushStatus := statusTrussPushFailed, TrussPushTime := None,
           TrussPushFailureCount := TrussPushFailureCount st + 1\<rparr>);
         m \<leftarrow> model;
         backoff \<leftarrow> retryBackoff r (TrussPushFailureCount (Status m));
         now \<leftarrow> time_Now r;
         modify_status (\<lambda>st. st\<lparr>TrussPushNextRetryTime := Some (now + backoff),
           TrussPushLastError := truncateString (error_text pushErr) maxPushErrorLen\<rparr>);
         err \<leftarrow> Status_Update r;
         ret (err, backoff) } }"

text \<open>The variable \<open>backoff\<close> lives outside the retried body and keeps the value of its last run.\<close>

definition recordPushFailure ::
  "'w BasetenModelReconciler \<Rightarrow> push_job \<Rightarrow> go_error \<Rightarrow> ('w, unit) handler" where
  "recordPushFailure r job pushErr = do {
     modify_obj (\<lambda>_. zero_BasetenModel);
     (err, backoff) \<leftarrow> k_RetryOnConflict r (push_failure_body r job pushErr) 0;
     case err of
       Some e \<Rightarrow> ret ()
     | None \<Rightarrow> do {
         m \<leftarrow> model;
         Eventf EventTypeWarning EventTrussPushFailed
           (''Truss push for '' @ sq (pj_DeploymentName job) @ '' failed (attempt '' @
            fmt_d (TrussPushFailureCount (Status m)) @ ''), retrying in '' @
            fmt_secs (trunc_sec backoff) @ '': '' @ error_text pushErr) } }"

text \<open>The deferred receive releases the slot on every path.\<close>

definition asyncPush :: "'w BasetenModelReconciler \<Rightarrow> push_job \<Rightarrow> ('w, unit) handler" where
  "asyncPush r job = do {
     result \<leftarrow> ext_call (pi_PushFromConfig (TrussPusher r) (pj_ConfigYAML job) (pj_SetupScript job)
         (pj_BasetenModelName job) (pj_Team job) (pj_DeploymentName job)) (PushCall job);
     (case result of
        Inl err \<Rightarrow> recordPushFailure r job err
      | Inr res \<Rightarrow> updatePushStatus r job statusTrussPushDone (pu_ModelID res));
     release_slot r }"

end
