(* ===== verification/Recon_Environment.thy ===== *)
theory Recon_Environment
  imports Recon_Status
begin

text \<open>
  \<open>reconcileEnvironment\<close>: the environment is created when it does not exist, and a difference
  between the settings of the spec and those observed is patched away. A Go function that returns
  a value, an optional result and an error returns a triple; \<open>Some\<close> result or \<open>Some\<close> error means
  that the caller returns too.
\<close>

section \<open>The parts\<close>

definition baselineAutoscalingDrift :: "BasetenModel \<Rightarrow> Environment \<Rightarrow> bool \<times> string list" where
  "baselineAutoscalingDrift m env =
     (if ec_AutoscalingSchedule (spec_Environment (Spec m)) \<noteq> None \<and> ScheduleActive (Some env)
      then (False, [])
      else HasAutoscalingDrift (ec_Autoscaling (spec_Environment (Spec m))) (env_AutoscalingSettings env))"

text \<open>
  \<open>baseten.HasScheduleDrift\<close> with its readings of the clock, one for each schedule of the spec. (The
  code reads the clock only for one-time schedules with a readable end; a reading that is not used
  does not matter.)
\<close>

definition schedule_drift ::
  "'w BasetenModelReconciler \<Rightarrow> AutoscalingScheduleConfig option \<Rightarrow> AutoscalingSchedules option \<Rightarrow>
   ('w, bool \<times> string list) handler" where
  "schedule_drift r spec observed = do {
     ts \<leftarrow> ext_read (read_clock (Now r) (schedule_count spec));
     ret (HasScheduleDrift (nth ts) spec observed) }"

text \<open>
  The event on one kind of drift. The message takes the first change, so that a drift without changes is a
  panic, which \<open>Some\<close> error answers.
\<close>

definition drift_event :: "string \<Rightarrow> string \<Rightarrow> bool \<times> string list \<Rightarrow> ('w, go_error option) handler" where
  "drift_event reason what drift =
     (if \<not> fst drift then ret None
      else if snd drift = [] then ret (Some (PanicError ''index out of range''))
      else do {
        Eventf EventTypeNormal reason (''updating '' @ what @ '': '' @
          (if length (snd drift) > 1 then fmt_nat (length (snd drift)) @ '' changes'' else snd drift ! 0));
        ret None })"

definition active_message :: "Environment \<Rightarrow> string \<Rightarrow> string" where
  "active_message env envName = (case env_CurrentDeployment env of
     None \<Rightarrow> ''''
   | Some dep \<Rightarrow> steadyStateMessage dep envName (env_AutoscalingSettings env) @ '' | '')"

text \<open>The outcome of a step that lets the function go on is \<open>None\<close>.\<close>

definition create_environment ::
  "'w BasetenModelReconciler \<Rightarrow> string \<Rightarrow> string \<Rightarrow> ('w, Environment option \<times> Result option \<times> go_error option) handler" where
  "create_environment r modelID envName = do {
     m \<leftarrow> model;
     err \<leftarrow> api_CreateEnvironment r modelID (spec_Environment (Spec m));
     case err of
       Some e \<Rightarrow> do {
         Eventf EventTypeWarning EventEnvironmentCreateFailed
           (''Failed to create environment '' @ envName @ '': '' @ error_text e);
         logUpdateStatus r (status_update DeploymentStatusFailed
           (''Failed to create environment '' @ sq envName @ '': '' @ error_text e) modelID);
         ret (None, Some no_requeue, Some e) }
     | None \<Rightarrow> do {
         Eventf EventTypeNormal EventEnvironmentCreated
           (''Created environment '' @ envName @ '' with autoscaling settings'');
         logUpdateStatus r (status_update statusPending (''Created environment '' @ envName) modelID);
         ret (None, Some (requeue (10 * Second)), None) } }"

definition patch_settings ::
  "'w BasetenModelReconciler \<Rightarrow> string \<Rightarrow> string \<Rightarrow> string \<Rightarrow> bool \<Rightarrow> bool \<Rightarrow> ('w, go_error option) handler" where
  "patch_settings r modelID envName activeMsg autoscalingDrift promotionDrift =
     (if autoscalingDrift \<or> promotionDrift then do {
        m \<leftarrow> model;
        let autoscalingConfig = (if autoscalingDrift then ec_Autoscaling (spec_Environment (Spec m)) else None);
        let promotionConfig = (if promotionDrift then ec_PromotionSettings (spec_Environment (Spec m)) else None);
        err \<leftarrow> api_UpdateEnvironmentSettings r modelID envName autoscalingConfig promotionConfig;
        case err of
          None \<Rightarrow> ret None
        | Some e \<Rightarrow> do {
            (if autoscalingDrift then Eventf EventTypeWarning EventAutoscalingUpdateFailed
               (''Failed to update autoscaling for '' @ envName @ '': '' @ error_text e) else ret ());
            (if promotionDrift then Eventf EventTypeWarning EventPromotionSettingsUpdateFailed
               (''Failed to update promotion settings for '' @ envName @ '': '' @ error_text e) else ret ());
            logUpdateStatus r (status_update DeploymentStatusFailed
              (activeMsg @ ''failed to update settings for '' @ envName @ '': '' @ error_text e) modelID);
            ret (Some e) } }
      else ret None)"

definition patch_schedules ::
  "'w BasetenModelReconciler \<Rightarrow> string \<Rightarrow> string \<Rightarrow> string \<Rightarrow> bool \<Rightarrow> Environment \<Rightarrow> ('w, go_error option) handler" where
  "patch_schedules r modelID envName activeMsg scheduleDrift env =
     (if scheduleDrift then do {
        m \<leftarrow> model;
        err \<leftarrow> api_UpdateAutoscalingSchedules r modelID envName
          (ec_AutoscalingSchedule (spec_Environment (Spec m))) (env_AutoscalingSchedules env);
        case err of
          None \<Rightarrow> ret None
        | Some e \<Rightarrow> do {
            Eventf EventTypeWarning EventAutoscalingScheduleUpdateFailed
              (''Failed to update autoscaling schedules for '' @ envName @ '': '' @ error_text e);
            logUpdateStatus r (status_update DeploymentStatusFailed
              (activeMsg @ ''failed to update autoscaling schedules for '' @ envName @ '': '' @ error_text e) modelID);
            ret (Some e) } }
      else ret None)"

definition drift_events ::
  "bool \<times> string list \<Rightarrow> bool \<times> string list \<Rightarrow> bool \<times> string list \<Rightarrow> ('w, go_error option) handler" where
  "drift_events autoscaling promotion schedule = do {
     panic \<leftarrow> drift_event EventAutoscalingUpdated ''autoscaling'' autoscaling;
     case panic of
       Some p \<Rightarrow> ret (Some p)
     | None \<Rightarrow> do {
         panic \<leftarrow> drift_event EventPromotionSettingsUpdated ''promotion settings'' promotion;
         case panic of
           Some p \<Rightarrow> ret (Some p)
         | None \<Rightarrow> drift_event EventAutoscalingScheduleUpdated ''autoscaling schedules'' schedule } }"

text \<open>The body of the branch on drift: patch, events, status.\<close>

definition fix_drift ::
  "'w BasetenModelReconciler \<Rightarrow> string \<Rightarrow> string \<Rightarrow> Environment \<Rightarrow> bool \<times> string list \<Rightarrow> bool \<times> string list \<Rightarrow>
   bool \<times> string list \<Rightarrow> ('w, Environment option \<times> Result option \<times> go_error option) handler" where
  "fix_drift r modelID envName env autoscaling promotion schedule = do {
     let allChanges = snd autoscaling @ snd promotion @ snd schedule;
     let activeMsg = active_message env envName;
     err \<leftarrow> patch_settings r modelID envName activeMsg (fst autoscaling) (fst promotion);
     case err of
       Some e \<Rightarrow> ret (None, Some no_requeue, Some e)
     | None \<Rightarrow> do {
         err \<leftarrow> patch_schedules r modelID envName activeMsg (fst schedule) env;
         case err of
           Some e \<Rightarrow> ret (None, Some no_requeue, Some e)
         | None \<Rightarrow> do {
             panic \<leftarrow> drift_events autoscaling promotion schedule;
             case panic of
               Some p \<Rightarrow> ret (None, Some no_requeue, Some p)
             | None \<Rightarrow> do {
                 let statusMsg = (if length allChanges = 1 then ''updating settings: '' @ allChanges ! 0
                                  else ''updating settings: '' @ fmt_nat (length allChanges) @ '' changes'');
                 logUpdateStatus r (status_update statusPending (activeMsg @ statusMsg) modelID);
                 ret (None, Some (requeue (10 * Second)), None) } } } }"

section \<open>reconcileEnvironment\<close>

definition reconcileEnvironment ::
  "'w BasetenModelReconciler \<Rightarrow> string \<Rightarrow> string \<Rightarrow> ('w, Environment option \<times> Result option \<times> go_error option) handler" where
  "reconcileEnvironment r modelID envName = do {
     res \<leftarrow> api_GetEnvironment r modelID envName;
     case res of
       Inl err \<Rightarrow>
         (if IsNotFoundError (Some err) then create_environment r modelID envName
          else do {
            logUpdateStatus r (status_update DeploymentStatusFailed
              (''Failed to get environment '' @ sq envName @ '': '' @ error_text err) modelID);
            ret (None, Some no_requeue, Some err) })
     | Inr env \<Rightarrow> do {
         m \<leftarrow> model;
         case (ec_AutoscalingSchedule (spec_Environment (Spec m)), env_ScheduleDecodeErr env) of
           (Some _, Some err) \<Rightarrow> do {
             Eventf EventTypeWarning EventAutoscalingScheduleUpdateFailed
               (''Failed to read autoscaling schedules for '' @ envName @ '': '' @ error_text err);
             logUpdateStatus r (status_update DeploymentStatusFailed
               (''failed to read autoscaling schedules for '' @ envName @ '': '' @ error_text err) modelID);
             ret (None, Some no_requeue, Some err) }
         | _ \<Rightarrow> do {
             let autoscaling = baselineAutoscalingDrift m env;
             let promotion = HasPromotionSettingsDrift
               (ec_PromotionSettings (spec_Environment (Spec m))) (env_PromotionSettings env);
             schedule \<leftarrow> schedule_drift r (ec_AutoscalingSchedule (spec_Environment (Spec m)))
               (env_AutoscalingSchedules env);
             (if fst autoscaling \<or> fst promotion \<or> fst schedule
              then fix_drift r modelID envName env autoscaling promotion schedule
              else ret (Some env, None, None)) } } }"

end
