(* ===== verification/Recon_Observe.thy ===== *)
theory Recon_Observe
  imports Recon_Environment Recon_Truss
begin

text \<open>
  Observe mode: \<open>reconcileObserve\<close>, \<open>expectedSourceDeploymentName\<close>, \<open>composeObserveStatus\<close> and
  \<open>observeDriftSuffix\<close>, which refresh the status and change nothing in Baseten.
\<close>

definition expectedSourceDeploymentName ::
  "'w BasetenModelReconciler \<Rightarrow> ('w, go_error + string) handler" where
  "expectedSourceDeploymentName r = do {
     m \<leftarrow> model;
     (if spec_SourceDeploymentName (Spec m) \<noteq> '''' then ret (Inr (spec_SourceDeploymentName (Spec m)))
      else
        (case spec_TrussConfig (Spec m) of
           None \<Rightarrow> ret (Inl (ErrorString ''neither sourceDeploymentName nor trussConfig set''))
         | Some tc \<Rightarrow> do {
             script \<leftarrow> readSetupScript r tc (bm_Namespace m);
             case script of
               Inl err \<Rightarrow> ret (Inl err)
             | Inr setupScript \<Rightarrow>
                 ret (Inr (DeploymentName (HashTrussConfig tc setupScript) (bi_Image (tc_BaseImage tc)))) })) }"

definition observeDriftSuffix :: "'w BasetenModelReconciler \<Rightarrow> Environment \<Rightarrow> ('w, string) handler" where
  "observeDriftSuffix r env = do {
     m \<leftarrow> model;
     let e = spec_Environment (Spec m);
     let autoscalingChanges = snd (baselineAutoscalingDrift m env);
     let promotionChanges = snd (HasPromotionSettingsDrift (ec_PromotionSettings e) (env_PromotionSettings env));
     schedule \<leftarrow> schedule_drift r (ec_AutoscalingSchedule e) (env_AutoscalingSchedules env);
     let scheduleChanges = (if ec_AutoscalingSchedule e \<noteq> None \<and> env_ScheduleDecodeErr env \<noteq> None
                            then [''autoscaling schedules unreadable''] else snd schedule);
     let chs = autoscalingChanges @ promotionChanges @ scheduleChanges;
     ret (if chs = [] then ''''
          else '' | drift: '' @ strings_Join chs '', '' @ ''; awaiting reconciliation'') }"

definition name_of :: "Deployment option \<Rightarrow> string" where
  "name_of d = (case d of None \<Rightarrow> '''' | Some d \<Rightarrow> dep_Name d)"

definition matches :: "Deployment option \<Rightarrow> string \<Rightarrow> bool" where
  "matches d src = (case d of None \<Rightarrow> False | Some d \<Rightarrow> DeploymentNameMatchesPrefix (dep_Name d) src)"

text \<open>The status of an environment whose current and candidate deployments are not the source.\<close>

definition observe_pending :: "Deployment option \<Rightarrow> string \<Rightarrow> string \<Rightarrow> statusUpdate" where
  "observe_pending current sourceDeploymentName modelID = (case current of
     Some cur \<Rightarrow> (status_update statusPending
       (''active: '' @ dep_Name cur @ '' ('' @ fmt_replicas cur @ '' replicas) | spec source: '' @
        sourceDeploymentName @ '' (not yet promoted; awaiting reconciliation)'') modelID)
       \<lparr>su_activeDeploymentName := dep_Name cur, su_replicaCount := dep_ActiveReplicaCount cur\<rparr>
   | None \<Rightarrow> status_update statusPending
       (''no active deployment | spec source: '' @ sourceDeploymentName @
        '' (not yet promoted; awaiting reconciliation)'') modelID)"

definition composeObserveStatus ::
  "'w BasetenModelReconciler \<Rightarrow> Environment \<Rightarrow> string \<Rightarrow> string \<Rightarrow> ('w, statusUpdate) handler" where
  "composeObserveStatus r env sourceDeploymentName modelID = do {
     m \<leftarrow> model;
     let envName = ec_Name (spec_Environment (Spec m));
     case (env_CurrentDeployment env, env_CandidateDeployment env) of
       (current, candidate) \<Rightarrow>
         (if matches current sourceDeploymentName then do {
            let cur = the current;
            suffix \<leftarrow> observeDriftSuffix r env;
            let msg = steadyStateMessage cur envName (env_AutoscalingSettings env) @ suffix;
            let msg = (if IsTerminalFailure (dep_Status cur) then msg @ ''; awaiting reconciliation'' else msg);
            ret ((status_update (dep_Status cur) msg modelID)
              \<lparr>su_activeDeploymentName := dep_Name cur, su_replicaCount := dep_ActiveReplicaCount cur,
               su_clearCandidate := True\<rparr>) }
          else if matches candidate sourceDeploymentName then do {
            let cand = the candidate;
            ret ((status_update (dep_Status cand) (promotionMessage current cand) modelID)
              \<lparr>su_candidateDeploymentName := dep_Name cand, su_replicaCount := dep_ActiveReplicaCount cand,
               su_activeDeploymentName := name_of current\<rparr>) }
          else ret (observe_pending current sourceDeploymentName modelID)) }"

section \<open>reconcileObserve\<close>

text \<open>The model id: the cached one, or the one of the lookup by name.\<close>

definition observe_model_id :: "'w BasetenModelReconciler \<Rightarrow> ('w, go_error + string) handler" where
  "observe_model_id r = do {
     m \<leftarrow> model;
     (if ModelID (Status m) \<noteq> '''' then ret (Inr (ModelID (Status m)))
      else api_FindModelIDByName r (spec_ModelName (Spec m)) (spec_Team (Spec m))) }"

definition observe_failed ::
  "'w BasetenModelReconciler \<Rightarrow> string \<Rightarrow> string \<Rightarrow> ('w, Result \<times> go_error option) handler" where
  "observe_failed r msg modelID = do {
     logUpdateStatus r (status_update DeploymentStatusFailed msg modelID);
     ret (requeue (30 * Second), None) }"

definition observe_environment ::
  "'w BasetenModelReconciler \<Rightarrow> string \<Rightarrow> string \<Rightarrow> ('w, Result \<times> go_error option) handler" where
  "observe_environment r modelID sourceDeploymentName = do {
     m \<leftarrow> model;
     let envName = ec_Name (spec_Environment (Spec m));
     res \<leftarrow> api_GetEnvironment r modelID envName;
     case res of
       Inl err \<Rightarrow>
         (if IsNotFoundError (Some err) then
            observe_failed r (''environment '' @ fmt_q envName @ '' does not exist; observe mode does not create'') modelID
          else ret (no_requeue, Some err))
     | Inr env \<Rightarrow> do {
         su \<leftarrow> composeObserveStatus r env sourceDeploymentName modelID;
         err \<leftarrow> updateStatus r su;
         case err of
           Some e \<Rightarrow> ret (no_requeue, Some e)
         | None \<Rightarrow> ret (requeue (30 * Second), None) } }"

definition reconcileObserve :: "'w BasetenModelReconciler \<Rightarrow> ('w, Result \<times> go_error option) handler" where
  "reconcileObserve r = do {
     m \<leftarrow> model;
     res \<leftarrow> observe_model_id r;
     case res of
       Inl err \<Rightarrow> observe_failed r
         (''failed to lookup model '' @ fmt_q (spec_ModelName (Spec m)) @ '': '' @ error_text err) ''''
     | Inr modelID \<Rightarrow>
         (if modelID = '''' then observe_failed r
            (''model '' @ fmt_q (spec_ModelName (Spec m)) @
             '' not found in Baseten; observe mode does not create'') ''''
          else do {
            src \<leftarrow> expectedSourceDeploymentName r;
            case src of
              Inl err \<Rightarrow> observe_failed r
                (''failed to compute expected source deployment name: '' @ error_text err) modelID
            | Inr sourceDeploymentName \<Rightarrow> observe_environment r modelID sourceDeploymentName }) }"

end
