(* ===== verification/Recon_Promote.thy ===== *)
theory Recon_Promote
  imports Recon_Retry Recon_Observe
begin

text \<open>
  Promotion: \<open>checkDoublePromoteGuard\<close>, \<open>validateSourceDeployment\<close> and the promotion step of
  \<open>Reconcile\<close>.
\<close>

section \<open>The guard against a second promotion\<close>

text \<open>A candidate id that no longer belongs to the source is forgotten, in memory.\<close>

definition clear_stale_candidate ::
  "Environment \<Rightarrow> string \<Rightarrow> BasetenModelStatus \<Rightarrow> BasetenModelStatus" where
  "clear_stale_candidate env sourceDeploymentName st =
     (if CandidateDeploymentID st \<noteq> '''' \<and> \<not> matches (env_CandidateDeployment env) sourceDeploymentName
      then st\<lparr>CandidateDeploymentID := '''', CandidateDeploymentName := ''''\<rparr>
      else st)"

definition blocked_message :: "Environment \<Rightarrow> string \<Rightarrow> string" where
  "blocked_message env sourceDeploymentName = (case env_CandidateDeployment env of
     Some cand \<Rightarrow> promotionMessage (env_CurrentDeployment env) cand @ '' '' @ em_dash @
       '' waiting for completion before promoting '' @ sourceDeploymentName
   | None \<Rightarrow> activePrefix (env_CurrentDeployment env) @
       ''waiting for existing promotion to complete (candidate: , status: )'')"

definition checkDoublePromoteGuard ::
  "'w BasetenModelReconciler \<Rightarrow> Environment \<Rightarrow> string \<Rightarrow> string \<Rightarrow> ('w, Result option) handler" where
  "checkDoublePromoteGuard r env modelID sourceDeploymentName = do {
     modify_status (clear_stale_candidate env sourceDeploymentName);
     m \<leftarrow> model;
     (if CandidateDeploymentID (Status m) = '''' \<and> env_CandidateDeployment env = None then ret None
      else do {
        let candidateName = name_of (env_CandidateDeployment env);
        Eventf EventTypeWarning EventPromotionBlocked
          (''Waiting for existing promotion to complete (candidate: '' @ candidateName @ '')'');
        logUpdateStatus r ((status_update statusPromoting (blocked_message env sourceDeploymentName) modelID)
          \<lparr>su_candidateDeploymentID := CandidateDeploymentID (Status m),
           su_candidateDeploymentName := candidateName,
           su_activeDeploymentName := name_of (env_CurrentDeployment env)\<rparr>);
        ret (Some (requeue (30 * Second))) }) }"

section \<open>validateSourceDeployment\<close>

type_synonym validation = "string \<times> Result option \<times> go_error option"

definition source_missing ::
  "'w BasetenModelReconciler \<Rightarrow> string \<Rightarrow> string \<Rightarrow> string \<Rightarrow> string \<Rightarrow> go_error \<Rightarrow> ('w, validation) handler" where
  "source_missing r modelID ap sourceDeploymentName event err = do {
     Eventf EventTypeWarning EventSourceDeploymentNotFound event;
     logUpdateStatus r (status_update DeploymentStatusFailed
       (ap @ ''unable to promote: source deployment '' @ sourceDeploymentName @ '' not found'') modelID);
     ret ('''', Some no_requeue, Some err) }"

text \<open>The branch of a failed source: retry, or give up with a terminal error.\<close>

definition source_failed ::
  "'w BasetenModelReconciler \<Rightarrow> string \<Rightarrow> string \<Rightarrow> string \<Rightarrow> string \<Rightarrow> string \<Rightarrow> ('w, validation) handler" where
  "source_failed r modelID ap sourceID sourceDeploymentName status = do {
     (result, shouldReturn) \<leftarrow> tryRetryDeployment r modelID sourceID sourceDeploymentName status;
     (if shouldReturn then ret ('''', result, None)
      else do {
        let deadline = fmt_secs (deploymentRetryDeadline div Second);
        Eventf EventTypeWarning EventSourceDeploymentFailed
          (''Source deployment '' @ fmt_q sourceDeploymentName @ '' is in '' @ status @ '' state (retries exhausted)'');
        logUpdateStatus r (status_update status
          (ap @ ''unable to promote: source deployment '' @ sourceDeploymentName @ '' is '' @ status @
           '' (retries exhausted after '' @ deadline @ '')'') modelID);
        ret ('''', Some no_requeue, Some (TerminalError (ErrorString
          (''source deployment '' @ sq sourceDeploymentName @ '' is '' @ status @
           '' (retries exhausted after '' @ deadline @ '')'')))) }) }"

text \<open>The branch of an inactive source: it is activated first.\<close>

definition source_inactive ::
  "'w BasetenModelReconciler \<Rightarrow> string \<Rightarrow> string \<Rightarrow> string \<Rightarrow> string \<Rightarrow> ('w, validation) handler" where
  "source_inactive r modelID ap sourceID sourceDeploymentName = do {
     err \<leftarrow> api_ActivateDeployment r modelID sourceID;
     (case err of
        Some e \<Rightarrow> logUpdateStatus r (status_update DeploymentStatusFailed
          (ap @ ''unable to promote: failed to activate source deployment '' @ sourceDeploymentName @ '': '' @
           error_text e) modelID)
      | None \<Rightarrow> logUpdateStatus r (status_update DeploymentStatusActivating
          (ap @ ''waiting to promote: source deployment '' @ sourceDeploymentName @ '' is ACTIVATING'') modelID));
     ret ('''', Some (requeue (30 * Second)), None) }"

definition source_waiting ::
  "'w BasetenModelReconciler \<Rightarrow> string \<Rightarrow> string \<Rightarrow> string \<Rightarrow> ('w, validation) handler" where
  "source_waiting r modelID status msg = do {
     logUpdateStatus r (status_update status msg modelID);
     ret ('''', Some (requeue (30 * Second)), None) }"

text \<open>The statuses of the \<open>case\<close> that waits for the source.\<close>

definition starting_status :: "string \<Rightarrow> bool" where
  "starting_status st \<longleftrightarrow> st \<in> set [DeploymentStatusDeploying, DeploymentStatusBuilding,
     DeploymentStatusWakingUp, DeploymentStatusActivating, DeploymentStatusUpdating]"

text \<open>The \<open>switch\<close> on the status of the source.\<close>

definition source_switch ::
  "'w BasetenModelReconciler \<Rightarrow> string \<Rightarrow> string \<Rightarrow> string \<Rightarrow> string \<Rightarrow> string \<Rightarrow> ('w, validation) handler" where
  "source_switch r modelID ap sourceID sourceDeploymentName status =
     (if status = DeploymentStatusFailed \<or> status = DeploymentStatusDeployFailed \<or>
         status = DeploymentStatusBuildFailed
      then source_failed r modelID ap sourceID sourceDeploymentName status
      else if status = DeploymentStatusInactive
      then source_inactive r modelID ap sourceID sourceDeploymentName
      else if status = DeploymentStatusScaledToZero then ret (sourceID, None, None)
      else if starting_status status
      then source_waiting r modelID status
        (ap @ ''waiting to promote: source deployment '' @ sourceDeploymentName @ '' is '' @ status)
      else if status = DeploymentStatusActive then ret (sourceID, None, None)
      else source_waiting r modelID status
        (ap @ ''waiting to promote: source deployment '' @ sourceDeploymentName @ '' has status '' @ status))"

definition validateSourceDeployment ::
  "'w BasetenModelReconciler \<Rightarrow> string \<Rightarrow> string \<Rightarrow> Deployment option \<Rightarrow> ('w, validation) handler" where
  "validateSourceDeployment r modelID sourceDeploymentName activeDep = do {
     let ap = activePrefix activeDep;
     found \<leftarrow> api_FindDeploymentIDByName r modelID sourceDeploymentName;
     case found of
       Inl err \<Rightarrow> source_missing r modelID ap sourceDeploymentName
         (''Failed to lookup source deployment '' @ fmt_q sourceDeploymentName @ '': '' @ error_text err) err
     | Inr (sourceID, status) \<Rightarrow>
         (if sourceID = '''' then do {
            m \<leftarrow> model;
            source_missing r modelID ap sourceDeploymentName
              (''Source deployment '' @ fmt_q sourceDeploymentName @ '' not found for model '' @
               fmt_q (spec_ModelName (Spec m)))
              (ErrorString (''source deployment '' @ sq sourceDeploymentName @ '' not found for model '' @
               sq (spec_ModelName (Spec m)))) }
          else source_switch r modelID ap sourceID sourceDeploymentName status) }"

section \<open>The promotion step\<close>

text \<open>\<open>return *result, err\<close>: a nil result is a nil pointer dereference.\<close>

definition return_result :: "Result option \<Rightarrow> go_error option \<Rightarrow> Result \<times> go_error option" where
  "return_result result err = (case result of
     None \<Rightarrow> (no_requeue, Some (PanicError ''invalid memory address or nil pointer dereference''))
   | Some res \<Rightarrow> (res, err))"

text \<open>How \<open>Reconcile\<close> returns from a step: a 404 invalidates the cached model id first.\<close>

definition return_step ::
  "'w BasetenModelReconciler \<Rightarrow> Result option \<Rightarrow> go_error option \<Rightarrow> ('w, Result \<times> go_error option) handler" where
  "return_step r result err = do {
     invalidated \<leftarrow> invalidateModelID r err;
     (if invalidated then ret (requeue Second, None) else ret (return_result result err)) }"

definition promotion_succeeded ::
  "'w BasetenModelReconciler \<Rightarrow> Environment \<Rightarrow> string \<Rightarrow> string \<Rightarrow> string \<Rightarrow> string \<Rightarrow> Deployment \<Rightarrow>
   ('w, Result \<times> go_error option) handler" where
  "promotion_succeeded r env modelID envName sourceID sourceDeploymentName targetDep = do {
     Eventf EventTypeNormal EventDeploymentPromoted
       (''Promoted '' @ sourceDeploymentName @ '' to '' @ envName @ '' environment'');
     err \<leftarrow> updateStatus r ((status_update statusPromoting
       (activePrefix (env_CurrentDeployment env) @ ''promoted '' @ sourceDeploymentName @ '' to '' @ envName @
        '' ('' @ dep_Status targetDep @ '')'') modelID)
       \<lparr>su_sourceDeploymentID := sourceID, su_sourceDeploymentName := sourceDeploymentName,
        su_candidateDeploymentID := dep_ID targetDep, su_candidateDeploymentName := dep_Name targetDep,
        su_replicaCount := dep_ActiveReplicaCount targetDep,
        su_activeDeploymentName := name_of (env_CurrentDeployment env)\<rparr>);
     case err of
       Some e \<Rightarrow> ret (no_requeue, Some e)
     | None \<Rightarrow> ret (requeue (30 * Second), None) }"

definition promotion_failed ::
  "'w BasetenModelReconciler \<Rightarrow> Environment \<Rightarrow> string \<Rightarrow> string \<Rightarrow> string \<Rightarrow> string \<Rightarrow> go_error \<Rightarrow>
   ('w, Result \<times> go_error option) handler" where
  "promotion_failed r env modelID envName sourceID sourceDeploymentName err = do {
     Eventf EventTypeWarning EventPromotionFailed
       (''Failed to promote '' @ sourceDeploymentName @ '' to '' @ envName @ '': '' @ error_text err);
     logUpdateStatus r ((status_update DeploymentStatusFailed
       (activePrefix (env_CurrentDeployment env) @ ''promotion of '' @ sq sourceDeploymentName @ '' to '' @
        envName @ '' failed: '' @ error_text err) modelID)
       \<lparr>su_sourceDeploymentID := sourceID, su_sourceDeploymentName := sourceDeploymentName\<rparr>);
     return_step r (Some no_requeue) (Some err) }"

definition promote_source ::
  "'w BasetenModelReconciler \<Rightarrow> Environment \<Rightarrow> string \<Rightarrow> string \<Rightarrow> string \<Rightarrow> string \<Rightarrow>
   ('w, Result \<times> go_error option) handler" where
  "promote_source r env modelID envName sourceID sourceDeploymentName = do {
     logUpdateStatus r ((status_update statusPromotingDeployment
       (activePrefix (env_CurrentDeployment env) @ ''promoting '' @ sourceDeploymentName @ '' to '' @ envName)
       modelID)
       \<lparr>su_sourceDeploymentID := sourceID, su_sourceDeploymentName := sourceDeploymentName\<rparr>);
     m \<leftarrow> model;
     res \<leftarrow> api_Promote r modelID sourceID envName (ec_PromotionSettings (spec_Environment (Spec m)));
     case res of
       Inl err \<Rightarrow> promotion_failed r env modelID envName sourceID sourceDeploymentName err
     | Inr None \<Rightarrow> ret (return_result None None)
     | Inr (Some targetDep) \<Rightarrow>
         promotion_succeeded r env modelID envName sourceID sourceDeploymentName targetDep }"

end
