(* ===== verification/Recon_Main.thy ===== *)
theory Recon_Main
  imports Recon_Orphans Recon_Lifecycle Recon_Truss Recon_Promote
begin

text \<open>
  \<open>resolveModelID\<close> and \<open>Reconcile\<close>: one pass over a resource, from the read of the object to the
  result for the work queue. The branches of \<open>Reconcile\<close> are definitions of their own, composed
  in \<open>reconcile_model\<close> in the order of the code.
\<close>

section \<open>resolveModelID\<close>

text \<open>The guard of the recreation: a policy of sole ownership and a model resolved before.\<close>

definition recreation_blocked :: "BasetenModel \<Rightarrow> bool" where
  "recreation_blocked m \<longleftrightarrow>
     (spec_DeletionPolicy (Spec m) = DeletionPolicyDelete \<or>
      spec_DeletionPolicy (Spec m) = DeletionPolicyDeleteWithGuardrails) \<and>
     ModelIDResolvedTime (Status m) \<noteq> None"

definition model_not_found :: "'w BasetenModelReconciler \<Rightarrow> BasetenModel \<Rightarrow> ('w, validation) handler" where
  "model_not_found r m =
     (if recreation_blocked m then do {
        let msg = ''Baseten model '' @ fmt_q (spec_ModelName (Spec m)) @ '' missing; deletionPolicy: '' @
          spec_DeletionPolicy (Spec m) @ '' blocks recreation'';
        Eventf EventTypeWarning EventModelNotFound
          (msg @ ''. Recreate the model in Baseten or set deletionPolicy: Retain to recover.'');
        logUpdateStatus r (status_update DeploymentStatusFailed msg '''');
        ret ('''', Some (requeue (5 * Minute)), None) }
      else if spec_TrussConfig (Spec m) \<noteq> None then ret ('''', None, None)
      else do {
        let msg = ''model '' @ sq (spec_ModelName (Spec m)) @ '' not found'';
        Eventf EventTypeWarning EventModelNotFound
          (''Model '' @ fmt_q (spec_ModelName (Spec m)) @ '' not found'');
        logUpdateStatus r (status_update DeploymentStatusFailed msg '''');
        ret ('''', Some no_requeue, Some (ErrorString msg)) })"

definition resolveModelID :: "'w BasetenModelReconciler \<Rightarrow> ('w, validation) handler" where
  "resolveModelID r = do {
     m \<leftarrow> model;
     (if ModelID (Status m) \<noteq> '''' then ret (ModelID (Status m), None, None)
      else do {
        res \<leftarrow> api_FindModelIDByName r (spec_ModelName (Spec m)) (spec_Team (Spec m));
        case res of
          Inl err \<Rightarrow> do {
            Eventf EventTypeWarning EventModelNotFound
              (''Failed to lookup model '' @ fmt_q (spec_ModelName (Spec m)) @ '': '' @ error_text err);
            logUpdateStatus r (status_update DeploymentStatusFailed
              (''Failed to lookup model '' @ sq (spec_ModelName (Spec m)) @ '': '' @ error_text err) '''');
            ret ('''', Some no_requeue, Some err) }
        | Inr modelID \<Rightarrow>
            (if modelID = '''' then model_not_found r m else ret (modelID, None, None)) }) }"

section \<open>The current deployment is the source\<close>

definition reactivate_current ::
  "'w BasetenModelReconciler \<Rightarrow> string \<Rightarrow> string \<Rightarrow> Deployment \<Rightarrow> ('w, Result \<times> go_error option) handler" where
  "reactivate_current r modelID envName cur = do {
     err \<leftarrow> api_ActivateDeployment r modelID (dep_ID cur);
     case err of
       Some e \<Rightarrow> do {
         logUpdateStatus r ((status_update DeploymentStatusFailed
           (''failed to reactivate deployment '' @ dep_Name cur @ '' in '' @ envName @ '' environment: '' @
            error_text e) modelID)
           \<lparr>su_activeDeploymentName := dep_Name cur, su_replicaCount := dep_ActiveReplicaCount cur\<rparr>);
         invalidated \<leftarrow> invalidateModelID r err;
         (if invalidated then ret (requeue Second, None) else ret (requeue (30 * Second), None)) }
     | None \<Rightarrow> do {
         Eventf EventTypeNormal EventDeploymentReactivated
           (''Reactivating inactive deployment '' @ dep_Name cur @ '' in '' @ envName @ '' environment'');
         logUpdateStatus r ((status_update DeploymentStatusActivating
           (''reactivating inactive deployment '' @ dep_Name cur @ '' in '' @ envName @ '' environment'') modelID)
           \<lparr>su_activeDeploymentName := dep_Name cur, su_replicaCount := dep_ActiveReplicaCount cur\<rparr>);
         ret (requeue (30 * Second), None) } }"

definition steady_state ::
  "'w BasetenModelReconciler \<Rightarrow> string \<Rightarrow> string \<Rightarrow> Environment \<Rightarrow> Deployment \<Rightarrow> ('w, Result \<times> go_error option) handler" where
  "steady_state r modelID envName env cur = do {
     m \<leftarrow> model;
     let promoted = (CandidateDeploymentID (Status m) \<noteq> '''' \<or> CandidateDeploymentName (Status m) \<noteq> '''');
     (if promoted then Eventf EventTypeNormal EventDeploymentActive
        (''Deployment '' @ dep_Name cur @ '' is now active in '' @ envName)
      else ret ());
     err \<leftarrow> updateStatus r ((status_update (dep_Status cur)
       (steadyStateMessage cur envName (env_AutoscalingSettings env)) modelID)
       \<lparr>su_activeDeploymentName := dep_Name cur, su_replicaCount := dep_ActiveReplicaCount cur,
        su_clearCandidate := promoted\<rparr>);
     case err of
       Some e \<Rightarrow> ret (no_requeue, Some e)
     | None \<Rightarrow> do {
         m \<leftarrow> model;
         panic \<leftarrow> (case spec_OrphanDeploymentCleanup (Spec m) of
            None \<Rightarrow> ret None
          | Some cleanup \<Rightarrow> reconcileOrphanCleanup r modelID cleanup);
         case panic of
           Some p \<Rightarrow> ret (no_requeue, Some p)
         | None \<Rightarrow> ret (requeue (5 * Minute), None) } }"

section \<open>The candidate is the source\<close>

definition promotion_running ::
  "'w BasetenModelReconciler \<Rightarrow> string \<Rightarrow> Environment \<Rightarrow> Deployment \<Rightarrow> ('w, Result \<times> go_error option) handler" where
  "promotion_running r modelID env cand = do {
     m \<leftarrow> model;
     let su = (status_update statusPromoting (promotionMessage (env_CurrentDeployment env) cand) modelID)
       \<lparr>su_candidateDeploymentName := dep_Name cand, su_replicaCount := dep_ActiveReplicaCount cand,
        su_activeDeploymentName := name_of (env_CurrentDeployment env),
        su_candidateDeploymentID := CandidateDeploymentID (Status m)\<rparr>;
     (if IsTerminalFailure (dep_Status cand)
      then handleCandidateFailure r modelID (env_CurrentDeployment env) cand su
      else do {
        logUpdateStatus r su;
        ret (requeue (30 * Second), None) }) }"

section \<open>Neither is the source\<close>

definition start_promotion ::
  "'w BasetenModelReconciler \<Rightarrow> string \<Rightarrow> string \<Rightarrow> Environment \<Rightarrow> string \<Rightarrow> ('w, Result \<times> go_error option) handler" where
  "start_promotion r modelID envName env sourceDeploymentName = do {
     guard \<leftarrow> checkDoublePromoteGuard r env modelID sourceDeploymentName;
     case guard of
       Some result \<Rightarrow> ret (result, None)
     | None \<Rightarrow> do {
         (sourceID, result, err) \<leftarrow> validateSourceDeployment r modelID sourceDeploymentName (env_CurrentDeployment env);
         (if err \<noteq> None \<or> result \<noteq> None then return_step r result err
          else promote_source r env modelID envName sourceID sourceDeploymentName) } }"

section \<open>Reconcile\<close>

definition reconcile_environment_state ::
  "'w BasetenModelReconciler \<Rightarrow> string \<Rightarrow> string \<Rightarrow> Environment \<Rightarrow> string \<Rightarrow> ('w, Result \<times> go_error option) handler" where
  "reconcile_environment_state r modelID envName env sourceDeploymentName =
     (case (env_CurrentDeployment env, env_CandidateDeployment env) of
        (current, candidate) \<Rightarrow>
          (if matches current sourceDeploymentName then
             (if dep_Status (the current) = DeploymentStatusInactive
              then reactivate_current r modelID envName (the current)
              else steady_state r modelID envName env (the current))
           else if matches candidate sourceDeploymentName then promotion_running r modelID env (the candidate)
           else start_promotion r modelID envName env sourceDeploymentName))"

text \<open>From step 1 of \<open>Reconcile\<close> on.\<close>

definition reconcile_model :: "'w BasetenModelReconciler \<Rightarrow> ('w, Result \<times> go_error option) handler" where
  "reconcile_model r = do {
     (modelID, result, err) \<leftarrow> resolveModelID r;
     (if err \<noteq> None \<or> result \<noteq> None then ret (return_result result err)
      else do {
        m \<leftarrow> model;
        let envName = ec_Name (spec_Environment (Spec m));
        (sourceDeploymentName, depResult, err) \<leftarrow> resolveSourceDeployment r modelID;
        (if err \<noteq> None \<or> depResult \<noteq> None then return_step r depResult err
         else if modelID = '''' then ret (requeue (10 * Second), None)
         else do {
           (env, envResult, err) \<leftarrow> reconcileEnvironment r modelID envName;
           (if err \<noteq> None \<or> envResult \<noteq> None then return_step r envResult err
            else
              (case env of
                 None \<Rightarrow> ret (return_result None None)
               | Some env \<Rightarrow> reconcile_environment_state r modelID envName env sourceDeploymentName)) }) }) }"

text \<open>After the read of the object.\<close>

definition reconcile_object :: "'w BasetenModelReconciler \<Rightarrow> ('w, Result \<times> go_error option) handler" where
  "reconcile_object r = do {
     (handled, result, err) \<leftarrow> reconcileLifecycle r;
     (if handled then ret (result, err)
      else do {
        m \<leftarrow> model;
        (if effectiveMode m = ModeObserve then reconcileObserve r else reconcile_model r) }) }"

definition Reconcile :: "'w BasetenModelReconciler \<Rightarrow> string \<Rightarrow> string \<Rightarrow> ('w, Result \<times> go_error option) handler" where
  "Reconcile r name namespace = do {
     modify_obj (\<lambda>_. zero_BasetenModel);
     err \<leftarrow> K_Get r name namespace;
     case err of
       Some e \<Rightarrow> (if k8s_IsNotFound e then ret (no_requeue, None) else ret (no_requeue, Some e))
     | None \<Rightarrow> reconcile_object r }"

end
