(* ===== verification/Recon_Effects.thy ===== *)
theory Recon_Effects
  imports Recon_Main
begin

text \<open>
  Which kinds of effects each handler of the reconciler may have. The lemmas are proved once for
  every set of kinds that is large enough, bottom up along the calls of the handlers.
\<close>

named_theorems stays_intro "which kinds of effects a handler stays within"

declare stays_basic [stays_intro]

lemma stays_ext_read [stays_intro]: "stays K (ext_read f)"
  by (rule emits_ext_read)

lemma stays_lookup [stays_intro]:
  assumes "EkLookup \<in> K"
  shows "stays K (api_FindModelIDByName r n t)" "stays K (api_GetEnvironment r m e)"
    "stays K (api_ListEnvironments r m)" "stays K (api_FindDeploymentIDByName r m n)"
    "stays K (api_ListDeployments r m)"
  unfolding api_defs using assms by (intro emits_intro; simp)+

lemma stays_environment_calls [stays_intro]:
  assumes "EkEnvironment \<in> K"
  shows "stays K (api_CreateEnvironment r m c)" "stays K (api_UpdateEnvironmentSettings r m e ac pc)"
    "stays K (api_UpdateAutoscalingSchedules r m e sp ob)"
  unfolding api_defs using assms by (intro emits_intro; simp)+

lemma stays_change_calls [stays_intro]:
  shows "EkActivate \<in> K \<Longrightarrow> stays K (api_ActivateDeployment r m d)"
    "EkPromote \<in> K \<Longrightarrow> stays K (api_Promote r m d e p)"
    "EkScaleIn \<in> K \<Longrightarrow> stays K (api_UpdateDeploymentAutoscaling r m d n)"
    "EkDeleteDeployment \<in> K \<Longrightarrow> stays K (api_DeleteDeployment r m d)"
    "EkRetry \<in> K \<Longrightarrow> stays K (api_RetryDeployment r m d)"
    "EkDeleteModel \<in> K \<Longrightarrow> stays K (api_DeleteModel r m)"
  unfolding api_defs by (intro emits_intro; simp)+

lemma stays_read_object [stays_intro]: "EkGet \<in> K \<Longrightarrow> stays K (K_Get r n ns)"
  by (intro emits_intro) simp

section \<open>Retries and promotion\<close>

lemma stays_scheduleNextRetry [stays_intro]:
  "{EkStatus, EkEvent} \<subseteq> K \<Longrightarrow> stays K (scheduleNextRetry r)"
  unfolding scheduleNextRetry_def retryBackoff_def Let_def by (intro emits_intro stays_intro) auto

lemma stays_tryRetry [stays_intro]:
  "{EkStatus, EkEvent, EkLookup, EkRetry} \<subseteq> K \<Longrightarrow> stays K (tryRetryDeployment r modelID deploymentID n st)"
  unfolding tryRetryDeployment_def first_failure_def backoff_remaining_def Let_def
  by (intro emits_intro stays_intro) auto

lemma stays_handleCandidateFailure [stays_intro]:
  "{EkStatus, EkEvent, EkLookup, EkRetry} \<subseteq> K \<Longrightarrow> stays K (handleCandidateFailure r modelID cur cand su)"
  unfolding handleCandidateFailure_def Let_def by (intro emits_intro stays_intro) auto

lemma stays_checkDoublePromoteGuard [stays_intro]:
  "{EkStatus, EkEvent} \<subseteq> K \<Longrightarrow> stays K (checkDoublePromoteGuard r env modelID src)"
  unfolding checkDoublePromoteGuard_def Let_def by (intro emits_intro stays_intro) auto

lemma stays_source_steps [stays_intro]:
  shows "{EkStatus, EkEvent} \<subseteq> K \<Longrightarrow> stays K (source_missing r modelID ap src ev err)"
    "{EkStatus, EkEvent, EkLookup, EkRetry} \<subseteq> K \<Longrightarrow> stays K (source_failed r modelID ap sid src st)"
    "{EkStatus, EkEvent, EkActivate} \<subseteq> K \<Longrightarrow> stays K (source_inactive r modelID ap sid src)"
    "{EkStatus, EkEvent} \<subseteq> K \<Longrightarrow> stays K (source_waiting r modelID st msg)"
  unfolding source_missing_def source_failed_def source_inactive_def source_waiting_def Let_def
  by (intro emits_intro stays_intro; auto)+

lemma stays_source_switch [stays_intro]:
  "{EkStatus, EkEvent, EkLookup, EkRetry, EkActivate} \<subseteq> K \<Longrightarrow> stays K (source_switch r modelID ap sid src st)"
  unfolding source_switch_def by (intro emits_intro stays_intro) auto

lemma stays_validateSourceDeployment [stays_intro]:
  "{EkStatus, EkEvent, EkLookup, EkRetry, EkActivate} \<subseteq> K \<Longrightarrow>
   stays K (validateSourceDeployment r modelID src cur)"
  unfolding validateSourceDeployment_def Let_def by (intro emits_intro stays_intro) auto

lemma stays_return_step [stays_intro]: "{EkStatus, EkEvent} \<subseteq> K \<Longrightarrow> stays K (return_step r res err)"
  unfolding return_step_def by (intro emits_intro stays_intro) auto

lemma stays_promotion_outcome [stays_intro]:
  assumes "{EkStatus, EkEvent} \<subseteq> K"
  shows "stays K (promotion_succeeded r env modelID envName sid src dep)"
    "stays K (promotion_failed r env modelID envName sid src err)"
  unfolding promotion_succeeded_def promotion_failed_def using assms
  by (intro emits_intro stays_intro; auto)+

lemma stays_promote_source [stays_intro]:
  "{EkStatus, EkEvent, EkPromote} \<subseteq> K \<Longrightarrow> stays K (promote_source r env modelID envName sid src)"
  unfolding promote_source_def by (intro emits_intro stays_intro) auto

lemma stays_start_promotion [stays_intro]:
  "{EkStatus, EkEvent, EkLookup, EkRetry, EkActivate, EkPromote} \<subseteq> K \<Longrightarrow>
   stays K (start_promotion r modelID envName env src)"
  unfolding start_promotion_def by (intro emits_intro stays_intro) auto

section \<open>Truss deployments\<close>

lemma stays_readSetupScript [stays_intro]: "EkGet \<in> K \<Longrightarrow> stays K (readSetupScript r tc ns)"
  unfolding readSetupScript_def by (intro emits_intro) auto

lemma stays_slots [stays_intro]: "stays K (acquire_slot r)" "stays K (release_slot r)"
  by (simp_all add: acquire_slot_def release_slot_def emits_def modify_def split: option.splits)

lemma stays_truss_steps [stays_intro]:
  shows "{EkStatus, EkEvent, EkLookup} \<subseteq> K \<Longrightarrow> stays K (truss_existing r modelID ap h n)"
    "{EkStatus, EkEvent} \<subseteq> K \<Longrightarrow> stays K (truss_in_flight r modelID ap n)"
    "{EkStatus, EkEvent} \<subseteq> K \<Longrightarrow> stays K (truss_backoff r modelID ap n)"
    "{EkStatus, EkEvent, EkSpawn} \<subseteq> K \<Longrightarrow> stays K (truss_launch r modelID ap h n y sc)"
  unfolding truss_existing_def truss_in_flight_def stale_push_def truss_backoff_def truss_launch_def
  by (intro emits_intro stays_intro; auto)+

lemma stays_resolveSourceDeployment [stays_intro]:
  "{EkStatus, EkEvent, EkGet, EkLookup, EkSpawn} \<subseteq> K \<Longrightarrow> stays K (resolveSourceDeployment r modelID)"
  unfolding resolveSourceDeployment_def reconcileTrussDeployment_def truss_push_def Let_def
  by (intro emits_intro stays_intro) auto

section \<open>The environment\<close>

lemma stays_schedule_drift [stays_intro]: "stays K (schedule_drift r spec ob)"
  unfolding schedule_drift_def by (intro emits_intro)

lemma stays_environment_steps [stays_intro]:
  assumes "{EkStatus, EkEvent, EkEnvironment} \<subseteq> K"
  shows "stays K (create_environment r modelID envName)"
    "stays K (patch_settings r modelID envName msg a p)"
    "stays K (patch_schedules r modelID envName msg b env)"
    "stays K (drift_events da dp ds)"
  unfolding create_environment_def patch_settings_def patch_schedules_def drift_events_def drift_event_def Let_def using assms
  by (intro emits_intro stays_intro; auto)+

lemma stays_fix_drift [stays_intro]:
  "{EkStatus, EkEvent, EkEnvironment} \<subseteq> K \<Longrightarrow> stays K (fix_drift r modelID envName env a p sch)"
  unfolding fix_drift_def Let_def by (intro emits_intro stays_intro) auto

lemma stays_reconcileEnvironment [stays_intro]:
  "{EkStatus, EkEvent, EkLookup, EkEnvironment} \<subseteq> K \<Longrightarrow> stays K (reconcileEnvironment r modelID envName)"
  unfolding reconcileEnvironment_def Let_def by (intro emits_intro stays_intro) auto

section \<open>Orphans\<close>

lemma stays_orphan_steps [stays_intro]:
  shows "EkScaleIn \<in> K \<Longrightarrow> stays K (scaleInOrphans r modelID orphans)"
    "EkDeleteDeployment \<in> K \<Longrightarrow> stays K (deleteStaleOrphans r modelID orphans cfg)"
    "EkLookup \<in> K \<Longrightarrow> stays K (findOrphanDeployments r modelID)"
  unfolding scaleInOrphans_def scale_in_one_def deleteStaleOrphans_def try_delete_def
    findOrphanDeployments_def Let_def
  by (intro emits_intro stays_intro; auto)+

lemma stays_reconcileOrphanCleanup [stays_intro]:
  "{EkStatus, EkEvent, EkLookup, EkScaleIn, EkDeleteDeployment} \<subseteq> K \<Longrightarrow>
   stays K (reconcileOrphanCleanup r modelID cfg)"
  unfolding reconcileOrphanCleanup_def cleanup_due_def run_cleanup_def Let_def
  by (intro emits_intro stays_intro) auto

section \<open>Lifecycle and observation\<close>

lemma stays_reconcilePaused [stays_intro]: "{EkStatus, EkEvent} \<subseteq> K \<Longrightarrow> stays K (reconcilePaused r)"
  unfolding reconcilePaused_def Let_def by (intro emits_intro stays_intro) auto

lemma stays_releaseFinalizer [stays_intro]: "EkObject \<in> K \<Longrightarrow> stays K (releaseFinalizer r)"
  unfolding releaseFinalizer_def by (intro emits_intro) auto

lemma stays_deletion_steps [stays_intro]:
  shows "{EkStatus, EkEvent} \<subseteq> K \<Longrightarrow> stays K (delete_blocked r modelID msg)"
    "{EkStatus, EkEvent, EkObject, EkDeleteModel} \<subseteq> K \<Longrightarrow> stays K (delete_model r modelID)"
    "EkLookup \<in> K \<Longrightarrow> stays K (checkDeleteGuardrails r modelID)"
  unfolding delete_blocked_def delete_model_def checkDeleteGuardrails_def
  by (intro emits_intro stays_intro; auto)+

lemma stays_reconcileDeletion [stays_intro]:
  "{EkStatus, EkEvent, EkObject, EkLookup, EkDeleteModel} \<subseteq> K \<Longrightarrow> stays K (reconcileDeletion r)"
  unfolding reconcileDeletion_def Let_def by (intro emits_intro stays_intro) auto

lemma stays_observe_steps [stays_intro]:
  shows "{EkStatus, EkEvent} \<subseteq> K \<Longrightarrow> stays K (observe_failed r msg modelID)"
    "EkLookup \<in> K \<Longrightarrow> stays K (observe_model_id r)"
    "EkGet \<in> K \<Longrightarrow> stays K (expectedSourceDeploymentName r)"
    "stays K (observeDriftSuffix r env)"
  unfolding observe_failed_def observe_model_id_def expectedSourceDeploymentName_def observeDriftSuffix_def Let_def
  by (intro emits_intro stays_intro; auto)+

lemma stays_composeObserveStatus [stays_intro]: "stays K (composeObserveStatus r env src modelID)"
  unfolding composeObserveStatus_def Let_def by (intro emits_intro stays_intro)

lemma stays_reconcileObserve [stays_intro]:
  "{EkStatus, EkEvent, EkGet, EkLookup} \<subseteq> K \<Longrightarrow> stays K (reconcileObserve r)"
  unfolding reconcileObserve_def observe_environment_def Let_def by (intro emits_intro stays_intro) auto

section \<open>Reconcile\<close>

lemma stays_resolveModelID [stays_intro]:
  "{EkStatus, EkEvent, EkLookup} \<subseteq> K \<Longrightarrow> stays K (resolveModelID r)"
  unfolding resolveModelID_def model_not_found_def Let_def by (intro emits_intro stays_intro) auto

lemma stays_current [stays_intro]:
  shows "{EkStatus, EkEvent, EkActivate} \<subseteq> K \<Longrightarrow> stays K (reactivate_current r modelID envName cur)"
    "{EkStatus, EkEvent, EkLookup, EkScaleIn, EkDeleteDeployment} \<subseteq> K \<Longrightarrow>
     stays K (steady_state r modelID envName env cur)"
    "{EkStatus, EkEvent, EkLookup, EkRetry} \<subseteq> K \<Longrightarrow> stays K (promotion_running r modelID env cand)"
  unfolding reactivate_current_def steady_state_def promotion_running_def Let_def
  by (intro emits_intro stays_intro; auto)+

text \<open>Everything that \<open>Reconcile\<close> may do past the lifecycle prelude; it never deletes the model.\<close>

definition normal_kinds :: "effect_kind set" where
  "normal_kinds = {EkStatus, EkEvent, EkGet, EkLookup, EkEnvironment, EkActivate, EkPromote, EkRetry,
     EkScaleIn, EkDeleteDeployment, EkSpawn}"

lemma stays_reconcile_environment_state [stays_intro]:
  "normal_kinds \<subseteq> K \<Longrightarrow> stays K (reconcile_environment_state r modelID envName env src)"
  unfolding reconcile_environment_state_def normal_kinds_def by (intro emits_intro stays_intro) auto

lemma stays_reconcile_model [stays_intro]: "normal_kinds \<subseteq> K \<Longrightarrow> stays K (reconcile_model r)"
  unfolding reconcile_model_def Let_def
  by (intro emits_intro stays_intro) (auto simp: normal_kinds_def)

end
