(* ===== verification/Recon_Logic.thy ===== *)
theory Recon_Logic
  imports Recon_Base
begin

text \<open>
  Two logics for handlers beside \<open>wp\<close> and \<open>emits\<close>: \<open>answers\<close> speaks of what a handler returns from
  every state, and \<open>hwp\<close> of each effect together with the effects before it. \<open>hwp\<close> carries the
  history \<open>h\<close> of the pass, so that a guard such as ``a promotion comes after a lookup that answered
  this deployment'' is a predicate on history and effect.
\<close>

section \<open>What a handler answers\<close>

named_theorems answers_intro "introduction rules for answers"

definition answers :: "('a \<Rightarrow> bool) \<Rightarrow> ('w, 'a) handler \<Rightarrow> bool" where
  "answers A m \<longleftrightarrow> (\<forall>s. A (fst (run_state m s)))"

lemma answersD: "answers A m \<Longrightarrow> run_state m s = (a, s') \<Longrightarrow> A a"
  unfolding answers_def by (metis fst_conv)

lemma answers_mono: "answers A m \<Longrightarrow> (\<And>a. A a \<Longrightarrow> B a) \<Longrightarrow> answers B m"
  unfolding answers_def by blast

lemma answers_return [answers_intro]: "A a \<Longrightarrow> answers A (State_Monad.return a)"
  by (simp add: answers_def)

lemma answers_bind [answers_intro]: "(\<And>a. answers A (f a)) \<Longrightarrow> answers A (State_Monad.bind m f)"
  by (simp add: answers_def split: prod.splits)

lemma answers_bind_with:
  assumes "answers B m" and "\<And>a. B a \<Longrightarrow> answers A (f a)"
  shows "answers A (State_Monad.bind m f)"
  using assms unfolding answers_def by (auto split: prod.splits) (metis fst_conv)

lemma answers_if [answers_intro]:
  "(b \<Longrightarrow> answers A m) \<Longrightarrow> (\<not> b \<Longrightarrow> answers A n) \<Longrightarrow> answers A (if b then m else n)"
  by simp

lemma answers_option [answers_intro]:
  "(x = None \<Longrightarrow> answers A m) \<Longrightarrow> (\<And>y. x = Some y \<Longrightarrow> answers A (n y)) \<Longrightarrow>
   answers A (case x of None \<Rightarrow> m | Some y \<Rightarrow> n y)"
  by (simp split: option.splits)

lemma answers_sum [answers_intro]:
  "(\<And>e. x = Inl e \<Longrightarrow> answers A (m e)) \<Longrightarrow> (\<And>y. x = Inr y \<Longrightarrow> answers A (n y)) \<Longrightarrow>
   answers A (case x of Inl e \<Rightarrow> m e | Inr y \<Rightarrow> n y)"
  by (simp split: sum.splits)

lemma answers_prod [answers_intro]:
  "(\<And>a b. x = (a, b) \<Longrightarrow> answers A (m a b)) \<Longrightarrow> answers A (case x of (a, b) \<Rightarrow> m a b)"
  by (simp split: prod.splits)

lemma answers_bool [answers_intro]:
  "(b \<Longrightarrow> answers A m) \<Longrightarrow> (\<not> b \<Longrightarrow> answers A n) \<Longrightarrow> answers A (case b of True \<Rightarrow> m | False \<Rightarrow> n)"
  by (cases b) simp_all

section \<open>Effects and their history\<close>

definition hwp ::
  "(effect list \<Rightarrow> effect \<Rightarrow> bool) \<Rightarrow> ('w, 'a) handler \<Rightarrow> ('a \<Rightarrow> 'w rstate \<Rightarrow> effect list \<Rightarrow> bool) \<Rightarrow>
   'w rstate \<Rightarrow> effect list \<Rightarrow> bool" where
  "hwp P m Q s h \<longleftrightarrow> (\<exists>es. trace (snd (run_state m s)) = trace s @ es \<and>
     (\<forall>i < length es. P (h @ take i es) (es ! i)) \<and>
     Q (fst (run_state m s)) (snd (run_state m s)) (h @ es))"

lemma hwpD:
  assumes "hwp P m Q s []" and "run_state m s = (a, s')" and "trace s' = trace s @ es"
  shows "\<And>i. i < length es \<Longrightarrow> P (take i es) (es ! i)" and "Q a s' es"
  using assms unfolding hwp_def by auto

lemma hwp_mono:
  "hwp P m Q s h \<Longrightarrow> (\<And>a s' h'. Q a s' h' \<Longrightarrow> R a s' h') \<Longrightarrow> hwp P m R s h"
  unfolding hwp_def by blast

lemma hwp_return: "Q a s h \<Longrightarrow> hwp P (State_Monad.return a) Q s h"
  by (simp add: hwp_def)

lemma hwp_bind:
  assumes "hwp P m (\<lambda>a s' h'. hwp P (f a) Q s' h') s h"
  shows "hwp P (State_Monad.bind m f) Q s h"
proof -
  obtain a s1 where m: "run_state m s = (a, s1)" by (cases "run_state m s")
  obtain b s2 where f: "run_state (f a) s1 = (b, s2)" by (cases "run_state (f a) s1")
  from assms m obtain es1 where 1: "trace s1 = trace s @ es1"
    "\<forall>i < length es1. P (h @ take i es1) (es1 ! i)" "hwp P (f a) Q s1 (h @ es1)"
    by (auto simp: hwp_def)
  from 1(3) f obtain es2 where 2: "trace s2 = trace s1 @ es2"
    "\<forall>i < length es2. P ((h @ es1) @ take i es2) (es2 ! i)" "Q b s2 ((h @ es1) @ es2)"
    by (auto simp: hwp_def)
  have "P (h @ take i (es1 @ es2)) ((es1 @ es2) ! i)" if "i < length (es1 @ es2)" for i
    using that 1(2) 2(2) by (cases "i < length es1") (auto simp: nth_append)
  with m f 1(1) 2 show ?thesis
    unfolding hwp_def by (intro exI [of _ "es1 @ es2"]) simp
qed

lemma hwp_if:
  "(b \<Longrightarrow> hwp P m Q s h) \<Longrightarrow> (\<not> b \<Longrightarrow> hwp P n Q s h) \<Longrightarrow> hwp P (if b then m else n) Q s h"
  by simp

lemma hwp_option:
  "(x = None \<Longrightarrow> hwp P m Q s h) \<Longrightarrow> (\<And>y. x = Some y \<Longrightarrow> hwp P (n y) Q s h) \<Longrightarrow>
   hwp P (case x of None \<Rightarrow> m | Some y \<Rightarrow> n y) Q s h"
  by (simp split: option.splits)

lemma hwp_sum:
  "(\<And>e. x = Inl e \<Longrightarrow> hwp P (m e) Q s h) \<Longrightarrow> (\<And>y. x = Inr y \<Longrightarrow> hwp P (n y) Q s h) \<Longrightarrow>
   hwp P (case x of Inl e \<Rightarrow> m e | Inr y \<Rightarrow> n y) Q s h"
  by (simp split: sum.splits)

lemma hwp_prod:
  "(\<And>a b. x = (a, b) \<Longrightarrow> hwp P (m a b) Q s h) \<Longrightarrow> hwp P (case x of (a, b) \<Rightarrow> m a b) Q s h"
  by (simp split: prod.splits)

lemma hwp_model: "hwp P (f (obj s)) Q s h \<Longrightarrow> hwp P (State_Monad.bind model f) Q s h"
  by (rule hwp_bind) (simp add: hwp_def model_def gets_def)

lemma hwp_modify_obj:
  "hwp P (f ()) Q (s\<lparr>obj := g (obj s)\<rparr>) h \<Longrightarrow> hwp P (State_Monad.bind (modify_obj g) f) Q s h"
  by (rule hwp_bind) (simp add: hwp_def modify_obj_def modify_def)

lemma hwp_ext_call:
  assumes "\<And>a w. g (world s) = (a, w) \<Longrightarrow>
    P h (eff a) \<and> hwp P (f a) Q (s\<lparr>world := w, trace := trace s @ [eff a]\<rparr>) (h @ [eff a])"
  shows "hwp P (State_Monad.bind (ext_call g eff) f) Q s h"
proof (rule hwp_bind)
  obtain a w where "g (world s) = (a, w)" by (cases "g (world s)")
  with assms show "hwp P (ext_call g eff) (\<lambda>a s' h'. hwp P (f a) Q s' h') s h"
    unfolding hwp_def [of P "ext_call g eff"] by (intro exI [of _ "[eff a]"]) (simp add: ext_call_def)
qed

text \<open>
  The frame rule: a handler all of whose effects are harmless, whatever came before them, keeps
  every fact about the history that longer histories keep.
\<close>

lemma hwp_frame:
  assumes "emits E m" and "\<And>e h. E e \<Longrightarrow> P h e"
    and "\<And>a s' es. run_state m s = (a, s') \<Longrightarrow> trace s' = trace s @ es \<Longrightarrow> \<forall>e \<in> set es. E e \<Longrightarrow> Q a s' (h @ es)"
  shows "hwp P m Q s h"
proof -
  obtain a s' where m: "run_state m s = (a, s')" by (cases "run_state m s")
  with assms(1) obtain es where "trace s' = trace s @ es" "\<forall>e \<in> set es. E e" by (rule emitsD)
  with m assms(2,3) show ?thesis unfolding hwp_def by (intro exI [of _ es]) auto
qed

lemma hwp_frame_bind:
  assumes "emits E m" and "\<And>e h. E e \<Longrightarrow> P h e"
    and "\<And>a s' es. run_state m s = (a, s') \<Longrightarrow> \<forall>e \<in> set es. E e \<Longrightarrow> hwp P (f a) Q s' (h @ es)"
  shows "hwp P (State_Monad.bind m f) Q s h"
  by (rule hwp_bind, rule hwp_frame [OF assms(1,2)]) (use assms(3) in auto)

text \<open>A handler whose effects are harmless and after which nothing is claimed.\<close>

lemma hwp_stays:
  assumes "stays K m" and "\<And>e h. kind e \<in> K \<Longrightarrow> P h e"
  shows "hwp P m (\<lambda>_ _ _. True) s h"
  by (rule hwp_frame [OF assms]) auto

section \<open>The effects of one run\<close>

definition new_effects :: "('w, 'a) handler \<Rightarrow> 'w rstate \<Rightarrow> effect list" where
  "new_effects m s = drop (length (trace s)) (trace (snd (run_state m s)))"

text \<open>Each effect satisfies the guard, given the effects before it.\<close>

definition guarded :: "(effect list \<Rightarrow> effect \<Rightarrow> bool) \<Rightarrow> effect list \<Rightarrow> bool" where
  "guarded P es \<longleftrightarrow> (\<forall>i < length es. P (take i es) (es ! i))"

lemma hwp_guarded: "hwp P m Q s [] \<Longrightarrow> guarded P (new_effects m s)"
  by (auto simp: hwp_def guarded_def new_effects_def)

lemma guarded_effects:
  "guarded P es \<Longrightarrow> (\<And>h e. P h e \<Longrightarrow> E e) \<Longrightarrow> \<forall>e \<in> set es. E e"
  unfolding guarded_def by (metis in_set_conv_nth)

lemma stays_new_effects: "stays K m \<Longrightarrow> \<forall>e \<in> set (new_effects m s). kind e \<in> K"
  by (cases "run_state m s") (auto simp: new_effects_def elim!: emitsD)

section \<open>Loops\<close>

text \<open>A fact about the history that every step of a loop keeps.\<close>

lemma hwp_mfold:
  assumes "I h" and "\<And>x a s h. x \<in> set xs \<Longrightarrow> I h \<Longrightarrow> hwp P (f x a) (\<lambda>_ _ h'. I h') s h"
  shows "hwp P (mfold f xs a) (\<lambda>_ _ h'. I h') s h"
  using assms
proof (induction xs arbitrary: a s h)
  case Nil
  then show ?case by (simp add: hwp_return)
next
  case (Cons x xs)
  have "hwp P (f x a) (\<lambda>a s' h'. hwp P (mfold f xs a) (\<lambda>_ _ h'. I h') s' h') s h"
    by (rule hwp_mono [OF Cons.prems(2)]) (use Cons in auto)
  then show ?case by (simp add: hwp_bind)
qed

end
