(* ===== verification/Recon_Sample.thy ===== *)
theory Recon_Sample
  imports Recon_Effects Recon_Logic
begin

text \<open>
  A concrete reconciler for the witnesses: every call succeeds, the environment, the deployments and
  the lookup by name are fixed, the world is the clock in nanoseconds and stands still. The other
  cases are updates of single fields of these records.
\<close>

definition sample_Deployment :: "string \<Rightarrow> string \<Rightarrow> string \<Rightarrow> Deployment" where
  "sample_Deployment i n st = \<lparr>dep_ID = i, dep_Name = n, dep_Status = st, dep_ActiveReplicaCount = 1\<rparr>"

definition sample_Environment :: "Deployment option \<Rightarrow> Deployment option \<Rightarrow> Environment" where
  "sample_Environment cur cand = \<lparr>env_Name = ''production'', env_CurrentDeployment = cur,
     env_CandidateDeployment = cand, env_AutoscalingSettings = None, env_PromotionSettings = None,
     env_AutoscalingSchedules = None, env_ScheduleDecodeErr = None\<rparr>"

definition sample_Client ::
  "Environment \<Rightarrow> string \<times> string \<Rightarrow> DeploymentDetail list \<Rightarrow> time ClientInterface" where
  "sample_Client env found deps = \<lparr>ci_FindModelIDByName = (\<lambda>n t w. (Inr ''mid'', w)),
     ci_DeleteModel = (\<lambda>m w. (None, w)),
     ci_GetEnvironment = (\<lambda>m e w. (Inr env, w)),
     ci_ListEnvironments = (\<lambda>m w. (Inr [env], w)),
     ci_CreateEnvironment = (\<lambda>m c w. (None, w)),
     ci_UpdateEnvironmentSettings = (\<lambda>m e a p w. (None, w)),
     ci_UpdateAutoscalingSchedules = (\<lambda>m e a ob w. (None, w)),
     ci_FindDeploymentIDByName = (\<lambda>m n w. (Inr found, w)),
     ci_ActivateDeployment = (\<lambda>m d w. (None, w)),
     ci_Promote = (\<lambda>m d e p w. (Inr (Some (sample_Deployment d ''v2.1'' DeploymentStatusDeploying)), w)),
     ci_ListDeployments = (\<lambda>m w. (Inr deps, w)),
     ci_UpdateDeploymentAutoscaling = (\<lambda>m d n w. (None, w)),
     ci_DeleteDeployment = (\<lambda>m d w. (None, w)),
     ci_RetryDeployment = (\<lambda>m d w. (Inr \<lparr>rr_Retried = True, rr_Reason = '''', rr_Deployment = None\<rparr>, w))\<rparr>"

text \<open>Insertion into a list ordered by \<open>lt\<close>, and the sort that it gives.\<close>

fun insert_by :: "('a \<Rightarrow> 'a \<Rightarrow> bool) \<Rightarrow> 'a \<Rightarrow> 'a list \<Rightarrow> 'a list" where
  "insert_by lt x [] = [x]"
| "insert_by lt x (y # ys) = (if lt y x then y # insert_by lt x ys else x # y # ys)"

definition sort_by :: "('a \<Rightarrow> 'a \<Rightarrow> bool) \<Rightarrow> 'a list \<Rightarrow> 'a list" where
  "sort_by lt xs = foldr (insert_by lt) xs []"

definition sample_Reconciler :: "BasetenModel \<Rightarrow> time ClientInterface \<Rightarrow> time BasetenModelReconciler" where
  "sample_Reconciler m c = \<lparr>k_Get = (\<lambda>n ns w. (Inr m, w)),
     k_GetConfigMap = (\<lambda>n ns w. (Inr [''setup.sh'' \<mapsto> ''echo''], w)),
     k_Update = (\<lambda>m w. ((None, m), w)),
     k_StatusUpdate = (\<lambda>m w. ((None, m), w)),
     k_RetryOnConflict = attempts 4,
     u_ContainsFinalizer = (\<lambda>fs f. f \<in> set fs),
     u_AddFinalizer = (\<lambda>fs f. if f \<in> set fs then (fs, False) else (fs @ [f], True)),
     u_RemoveFinalizer = (\<lambda>fs f. (filter (\<lambda>g. g \<noteq> f) fs, f \<in> set fs)),
     BasetenClient = c,
     TrussPusher = \<lparr>pi_PushFromConfig = (\<lambda>y sc n t d w. (Inr \<lparr>pu_ModelID = ''mid'', pu_DeploymentID = ''dep''\<rparr>, w))\<rparr>,
     MaxConcurrentReconciles = 5,
     PushSemaphore = Some 10,
     Now = (\<lambda>w. (w, w)),
     RandFloat64 = (\<lambda>w. (0, w)),
     SortSlice = sort_by,
     JsonValid = (\<lambda>j. True),
     YamlMarshal = (\<lambda>y. Inr '''')\<rparr>"

definition sample_Model :: "ReconcileMode \<Rightarrow> DeletionPolicy \<Rightarrow> BasetenModel" where
  "sample_Model mode policy = zero_BasetenModel
     \<lparr>bm_Name := ''m'', bm_Namespace := ''ns'', bm_Generation := 1, bm_Finalizers := [FinalizerName],
      Spec := zero_BasetenModelSpec
        \<lparr>spec_ModelName := ''llama'', spec_SourceDeploymentName := ''v2'',
         spec_Environment := zero_EnvironmentConfig\<lparr>ec_Name := ''production''\<rparr>,
         spec_Mode := mode, spec_DeletionPolicy := policy\<rparr>,
      Status := zero_BasetenModelStatus\<lparr>ModelID := ''mid''\<rparr>\<rparr>"

definition sample_State :: "BasetenModel \<Rightarrow> time rstate" where
  "sample_State m = \<lparr>world = 0, trace = [], obj = m, semUsed = 0\<rparr>"

text \<open>The source is deployed and serves: the pass has nothing to do but show it.\<close>

definition sample_steady :: "time BasetenModelReconciler" where
  "sample_steady = sample_Reconciler (sample_Model ModeReconcile '''')
     (sample_Client (sample_Environment (Some (sample_Deployment ''d2'' ''v2'' DeploymentStatusActive)) None)
       (''d2'', DeploymentStatusActive) [])"

section \<open>Running a pass by simplification\<close>

lemma wp_State [wp_simps]: "wp (State f) Q s = (case f s of (a, t) \<Rightarrow> Q a t)"
  by (simp add: wp_def)

lemmas object_step_defs = Reconcile_def K_Get_def reconcile_object_def reconcileLifecycle_def
  deletion_requested_def effectiveMode_def mode_defs

lemmas status_step_defs = logUpdateStatus_def updateStatus_def take_snapshot_def apply_names_def status_update_def
  healthy_def make_condition_def conditionReady_def conditionProgressing_def isProgressingStatus_def
  DeploymentStatusDeploying_def DeploymentStatusActive_def DeploymentStatusScaledToZero_def

end
