(* ===== verification/Safety_Lifecycle.thy ===== *)
theory Safety_Lifecycle
  imports Recon_Sample
begin

text \<open>
  What a pass may do at which mode of the resource, and when the model in Baseten and the finalizer
  of the resource go away. Each property speaks of all the effects of one run of \<open>Reconcile\<close>.
\<close>

section \<open>Cutting a pass at its prelude\<close>

text \<open>The state in which the prelude hands over: the object read, with other finalizers at most.\<close>

definition with_finalizers :: "string list \<Rightarrow> 'w rstate \<Rightarrow> 'w rstate" where
  "with_finalizers fs s = s\<lparr>obj := (obj s)\<lparr>bm_Finalizers := fs\<rparr>\<rparr>"

lemma with_finalizers_simps [simp]:
  "world (with_finalizers fs s) = world s" "trace (with_finalizers fs s) = trace s"
  "Spec (obj (with_finalizers fs s)) = Spec (obj s)" "Status (obj (with_finalizers fs s)) = Status (obj s)"
  "effectiveMode (obj (with_finalizers fs s)) = effectiveMode (obj s)"
  "deletion_requested (obj (with_finalizers fs s)) = deletion_requested (obj s)"
  by (simp_all add: with_finalizers_def effectiveMode_def deletion_requested_def)

lemma hwp_K_Update:
  assumes "\<And>e. P h (KUpdate (obj s) e)" and "\<And>e s'. hwp P (f e) Q s' (h @ [KUpdate (obj s) e])"
  shows "hwp P (State_Monad.bind (K_Update r) f) Q s h"
proof (rule hwp_bind)
  obtain e m w where "k_Update r (obj s) (world s) = ((e, m), w)"
    by (cases "k_Update r (obj s) (world s)") auto
  then show "hwp P (K_Update r) (\<lambda>e s' h'. hwp P (f e) Q s' h') s h"
    unfolding hwp_def [of P "K_Update r"]
    by (intro exI [of _ "[KUpdate (obj s) e]"]) (simp add: K_Update_def assms)
qed

lemma hwp_true_return: "hwp P (State_Monad.return a) (\<lambda>_ _ _. True) s h"
  by (rule hwp_return) simp

lemma hwp_reconcile_object:
  assumes deletion: "deletion_requested (obj s) \<Longrightarrow> hwp P (reconcileDeletion r) (\<lambda>_ _ _. True) s h"
    and status: "\<And>h e. kind e \<in> {EkStatus, EkEvent} \<Longrightarrow> P h e"
    and finalizer: "\<And>ob e. \<not> deletion_requested (obj s) \<Longrightarrow> P h (KUpdate ob e)"
    and observe: "\<And>fs. \<not> deletion_requested (obj s) \<Longrightarrow> effectiveMode (obj s) = ModeObserve \<Longrightarrow>
      hwp P (reconcileObserve r) (\<lambda>_ _ _. True) (with_finalizers fs s) h"
    and normal: "\<And>fs. \<not> deletion_requested (obj s) \<Longrightarrow> effectiveMode (obj s) \<noteq> ModeObserve \<Longrightarrow>
      effectiveMode (obj s) \<noteq> ModePause \<Longrightarrow>
      hwp P (reconcile_model r) (\<lambda>_ _ _. True) (with_finalizers fs s) h"
  shows "hwp P (reconcile_object r) (\<lambda>_ _ _. True) s h"
proof -
  let ?rest = "\<lambda>(handled, result, err). if handled then ret (result, err)
    else State_Monad.bind model (\<lambda>m. if effectiveMode m = ModeObserve then reconcileObserve r else reconcile_model r)"
  have go_on: "hwp P (?rest (False, no_requeue, None)) (\<lambda>_ _ _. True) (with_finalizers fs s) h"
    if "\<not> deletion_requested (obj s)" "effectiveMode (obj s) \<noteq> ModePause" for fs
    using that by (simp, intro hwp_model hwp_if observe normal) simp_all
  have stop: "hwp P (ret (True, result, err)) (\<lambda>a s' h'. hwp P (?rest a) (\<lambda>_ _ _. True) s' h') s' h'"
    for result err s' h'
    by (rule hwp_return) (simp add: hwp_true_return)
  have "hwp P (reconcileLifecycle r) (\<lambda>a s' h'. hwp P (?rest a) (\<lambda>_ _ _. True) s' h') s h"
    unfolding reconcileLifecycle_def
  proof (intro hwp_model hwp_if)
    assume "deletion_requested (obj s)"
    then show "hwp P (State_Monad.bind (reconcileDeletion r) (\<lambda>(result, err). ret (True, result, err)))
        (\<lambda>a s' h'. hwp P (?rest a) (\<lambda>_ _ _. True) s' h') s h"
      by (intro hwp_bind hwp_mono [OF deletion]) (auto intro!: stop split: prod.splits)
  next
    show "hwp P (State_Monad.bind (reconcilePaused r) (\<lambda>_. ret (True, no_requeue, None)))
        (\<lambda>a s' h'. hwp P (?rest a) (\<lambda>_ _ _. True) s' h') s h"
      by (rule hwp_frame_bind [OF stays_reconcilePaused [of "{EkStatus, EkEvent}"]]) (simp, erule status, rule stop)
  next
    assume nodel: "\<not> deletion_requested (obj s)" and nopause: "effectiveMode (obj s) \<noteq> ModePause"
    show "hwp P (case u_AddFinalizer r (bm_Finalizers (obj s)) FinalizerName of (finalizers, added) \<Rightarrow>
        State_Monad.bind (modify_obj (\<lambda>m. m\<lparr>bm_Finalizers := finalizers\<rparr>)) (\<lambda>_.
          if \<not> added then ret (False, no_requeue, None)
          else State_Monad.bind (K_Update r) (\<lambda>err. case err of
            None \<Rightarrow> ret (True, no_requeue, None)
          | Some e \<Rightarrow> if \<not> k8s_IsConflict e then ret (True, no_requeue, Some e) else ret (True, no_requeue, None))))
        (\<lambda>a s' h'. hwp P (?rest a) (\<lambda>_ _ _. True) s' h') s h"
      by (intro hwp_prod hwp_modify_obj hwp_if hwp_K_Update finalizer hwp_option stop nodel)
        (rule hwp_return, rule go_on [OF nodel nopause, unfolded with_finalizers_def])
  qed
  then show ?thesis unfolding reconcile_object_def by (rule hwp_bind)
qed

lemma hwp_Reconcile:
  assumes "fst (k_Get r name ns (world s)) = Inr m"
    and "\<And>e. P h (KGet name ns e)"
    and "\<And>s'. obj s' = m \<Longrightarrow> hwp P (reconcile_object r) (\<lambda>_ _ _. True) s' (h @ [KGet name ns (Inr m)])"
  shows "hwp P (Reconcile r name ns) (\<lambda>_ _ _. True) s h"
proof -
  obtain w where "k_Get r name ns (world s) = (Inr m, w)"
    using assms(1) by (cases "k_Get r name ns (world s)") auto
  then have "run_state (K_Get r name ns) (s\<lparr>obj := zero_BasetenModel\<rparr>) =
      (None, s\<lparr>obj := m, world := w, trace := trace s @ [KGet name ns (Inr m)]\<rparr>)"
    by (simp add: K_Get_def ext_call_def modify_obj_def modify_def)
  then have "hwp P (K_Get r name ns) (\<lambda>err s' h'. hwp P (case err of
        Some e \<Rightarrow> if k8s_IsNotFound e then ret (no_requeue, None) else ret (no_requeue, Some e)
      | None \<Rightarrow> reconcile_object r) (\<lambda>_ _ _. True) s' h') (s\<lparr>obj := zero_BasetenModel\<rparr>) h"
    unfolding hwp_def [of P "K_Get r name ns"]
    by (intro exI [of _ "[KGet name ns (Inr m)]"]) (simp add: assms(2,3))
  then show ?thesis
    unfolding Reconcile_def by (intro hwp_modify_obj hwp_bind) simp
qed

text \<open>When the object is not read there is nothing but the read.\<close>

lemma Reconcile_unread:
  assumes "fst (k_Get r name ns (world s)) = Inl e"
  shows "new_effects (Reconcile r name ns) s = [KGet name ns (Inl e)]"
  using assms by (cases "k_Get r name ns (world s)")
    (simp add: new_effects_def Reconcile_def K_Get_def ext_call_def modify_obj_def modify_def)

section \<open>Modes\<close>

definition mode_allows :: "BasetenModel \<Rightarrow> effect \<Rightarrow> bool" where
  "mode_allows m e =
     (if effectiveMode m = ModePause then \<not> is_api e \<and> \<not> mutates_baseten e
      else if effectiveMode m = ModeObserve then \<not> mutates_baseten e
      else effectiveMode m = ModeReconcile \<or> kind e \<noteq> EkDeleteModel)"

lemma mode_allows_kinds:
  "kind e \<in> {EkStatus, EkEvent, EkObject, EkGet} \<Longrightarrow> mode_allows m e"
  "kind e \<in> {EkStatus, EkEvent, EkObject, EkGet, EkLookup} \<Longrightarrow> effectiveMode m = ModeObserve \<Longrightarrow> mode_allows m e"
  "kind e \<in> normal_kinds \<Longrightarrow> effectiveMode m \<noteq> ModePause \<Longrightarrow> effectiveMode m \<noteq> ModeObserve \<Longrightarrow> mode_allows m e"
  using is_api_kind [of e] by (auto simp: mode_allows_def mutates_iff_kind quiet_def normal_kinds_def)

lemma deletion_outside_reconcile:
  assumes "effectiveMode (obj s) \<noteq> ModeReconcile" and "\<And>h e. kind e = EkObject \<Longrightarrow> P h e"
  shows "hwp P (reconcileDeletion r) (\<lambda>_ _ _. True) s h"
  unfolding reconcileDeletion_def Let_def
  by (intro hwp_model hwp_if hwp_true_return hwp_stays [OF stays_releaseFinalizer [of "{EkObject}"]])
    (use assms in auto)

lemma mode_allows_pass:
  "hwp (\<lambda>_. mode_allows (obj s)) (reconcile_object r) (\<lambda>_ _ _. True) s h"
proof (rule hwp_reconcile_object)
  show "hwp (\<lambda>_. mode_allows (obj s)) (reconcileDeletion r) (\<lambda>_ _ _. True) s h"
  proof (cases "effectiveMode (obj s) = ModeReconcile")
    case True
    then show ?thesis
      by (intro hwp_stays [OF stays_reconcileDeletion [OF subset_refl]]) (simp add: mode_allows_def)
  next
    case False
    then show ?thesis
      by (rule deletion_outside_reconcile) (auto intro!: mode_allows_kinds(1))
  qed
next
  fix fs assume "effectiveMode (obj s) = ModeObserve"
  then show "hwp (\<lambda>_. mode_allows (obj s)) (reconcileObserve r) (\<lambda>_ _ _. True) (with_finalizers fs s) h"
    by (intro hwp_stays [OF stays_reconcileObserve [OF subset_refl]] mode_allows_kinds(2)) auto
next
  fix fs assume "effectiveMode (obj s) \<noteq> ModeObserve" "effectiveMode (obj s) \<noteq> ModePause"
  then show "hwp (\<lambda>_. mode_allows (obj s)) (reconcile_model r) (\<lambda>_ _ _. True) (with_finalizers fs s) h"
    by (intro hwp_stays [OF stays_reconcile_model [OF subset_refl]] mode_allows_kinds(3)) auto
qed (auto intro!: mode_allows_kinds(1))

text \<open>
  C1: the mode of the resource is respected. When the object that \<open>Reconcile\<close> reads is paused, no
  call of the Baseten API and no push is made, not even for a deletion; when it is in Observe mode,
  nothing in Baseten is changed; and the model in Baseten is deleted in mode Reconcile only.
\<close>

theorem modes_respected:
  assumes "fst (k_Get r name ns (world s)) = Inr m" and "e \<in> set (new_effects (Reconcile r name ns) s)"
  shows "(effectiveMode m = ModePause \<longrightarrow> \<not> is_api e \<and> \<not> mutates_baseten e) \<and>
    (effectiveMode m = ModeObserve \<longrightarrow> \<not> mutates_baseten e) \<and>
    (kind e = EkDeleteModel \<longrightarrow> effectiveMode m = ModeReconcile)"
proof -
  have "hwp (\<lambda>_. mode_allows m) (Reconcile r name ns) (\<lambda>_ _ _. True) s []"
    by (rule hwp_Reconcile [OF assms(1)]) (auto intro: mode_allows_kinds(1) mode_allows_pass)
  then have "mode_allows m e"
    using guarded_effects [OF hwp_guarded, of "\<lambda>_. mode_allows m"] assms(2) by blast
  moreover have "kind e = EkDeleteModel \<Longrightarrow> mutates_baseten e"
    by (simp add: mutates_iff_kind quiet_def)
  ultimately show ?thesis
    by (auto simp: mode_allows_def split: if_splits)
qed

section \<open>Deletion\<close>

definition deletion_policy :: "BasetenModel \<Rightarrow> DeletionPolicy" where
  "deletion_policy m =
     (if spec_DeletionPolicy (Spec m) = '''' then DeletionPolicyRetain else spec_DeletionPolicy (Spec m))"

text \<open>The resource owns a model in Baseten that its policy says to delete.\<close>

definition owes_deletion :: "BasetenModel \<Rightarrow> bool" where
  "owes_deletion m \<longleftrightarrow> effectiveMode m = ModeReconcile \<and> ModelID (Status m) \<noteq> '''' \<and>
     deletion_policy m \<in> {DeletionPolicyDelete, DeletionPolicyDeleteWithGuardrails}"

text \<open>An answer that shows the model idle: none of its environments serves, or it does not exist.\<close>

fun shows_idle :: "string \<Rightarrow> effect \<Rightarrow> bool" where
  "shows_idle mid (Api (CListEnvironments mid' (Inr envs))) \<longleftrightarrow> mid' = mid \<and> (\<forall>env \<in> set envs. \<not> env_serving env)"
| "shows_idle mid (Api (CListEnvironments mid' (Inl err))) \<longleftrightarrow> mid' = mid \<and> IsNotFoundError (Some err)"
| "shows_idle mid _ \<longleftrightarrow> False"

text \<open>An answer that shows the model deleted.\<close>

fun shows_deleted :: "string \<Rightarrow> effect \<Rightarrow> bool" where
  "shows_deleted mid (Api (CDeleteModel mid' ans)) \<longleftrightarrow> mid' = mid \<and> (ans = None \<or> IsNotFoundError ans)"
| "shows_deleted mid _ \<longleftrightarrow> False"

text \<open>
  The guard of the deletion calls, and the guard of the writes of the object in a pass over a
  resource that is being deleted: the writes that release the finalizer.
\<close>

fun deletion_guard :: "BasetenModel \<Rightarrow> effect list \<Rightarrow> effect \<Rightarrow> bool" where
  "deletion_guard m h (Api (CDeleteModel mid ans)) \<longleftrightarrow>
     deletion_requested m \<and> owes_deletion m \<and> mid = ModelID (Status m) \<and>
     (deletion_policy m = DeletionPolicyDeleteWithGuardrails \<longrightarrow> (\<exists>e \<in> set h. shows_idle mid e))"
| "deletion_guard m h (KUpdate ob ans) \<longleftrightarrow>
     (deletion_requested m \<and> owes_deletion m \<longrightarrow> (\<exists>e \<in> set h. shows_deleted (ModelID (Status m)) e))"
| "deletion_guard m h _ \<longleftrightarrow> True"

lemma deletion_guard_other: "kind e \<notin> {EkDeleteModel, EkObject} \<Longrightarrow> deletion_guard m h e"
proof (cases e)
  case (Api c)
  then show "kind e \<notin> {EkDeleteModel, EkObject} \<Longrightarrow> ?thesis" by (cases c) simp_all
qed simp_all

lemma deletion_guard_basic: "kind e \<in> {EkStatus, EkEvent} \<Longrightarrow> deletion_guard m h e"
  by (rule deletion_guard_other) auto

lemma env_blockers_empty: "env_blockers envs = [] \<longleftrightarrow> (\<forall>env \<in> set envs. \<not> env_serving env)"
proof -
  have "env_blockers envs = [] \<longleftrightarrow> length (env_blockers envs) = 0" by simp
  also have "\<dots> \<longleftrightarrow> filter env_serving envs = []" by (simp add: env_blockers_def)
  finally show ?thesis by (simp add: filter_empty_conv)
qed

lemma releaseFinalizer_guard:
  assumes "\<And>ob e. P h (KUpdate ob e)"
  shows "hwp P (releaseFinalizer r) (\<lambda>_ _ _. True) s h"
  unfolding releaseFinalizer_def by (intro hwp_modify_obj hwp_K_Update hwp_true_return assms)

lemma basic_then_guard:
  assumes "stays {EkStatus, EkEvent} n" and "\<And>a s' h'. set h \<subseteq> set h' \<Longrightarrow> hwp (deletion_guard m) (f a) Q s' h'"
  shows "hwp (deletion_guard m) (State_Monad.bind n f) Q s h"
  by (rule hwp_frame_bind [OF assms(1)], erule deletion_guard_basic) (auto intro: assms(2))

lemma delete_model_guard:
  assumes "deletion_requested m" "owes_deletion m" "modelID = ModelID (Status m)"
    and "deletion_policy m = DeletionPolicyDeleteWithGuardrails \<Longrightarrow> \<exists>e \<in> set h. shows_idle modelID e"
  shows "hwp (deletion_guard m) (delete_model r modelID) (\<lambda>_ _ _. True) s h"
proof -
  have release: "hwp (deletion_guard m) (State_Monad.bind (Eventf t rs msg) (\<lambda>_. releaseFinalizer r))
      (\<lambda>_ _ _. True) s' (g @ [Api (CDeleteModel modelID err)])"
    if "err = None \<or> IsNotFoundError err" for t rs msg s' g err
  proof (rule basic_then_guard [OF stays_basic(2)], simp, rule releaseFinalizer_guard)
    fix h'' ob e
    assume "set (g @ [Api (CDeleteModel modelID err)]) \<subseteq> set h''"
    then have "Api (CDeleteModel modelID err) \<in> set h''" by auto
    moreover have "shows_deleted modelID (Api (CDeleteModel modelID err))" using that by simp
    ultimately have "\<exists>x \<in> set h''. shows_deleted (ModelID (Status m)) x" using assms(3) by blast
    then show "deletion_guard m h'' (KUpdate ob e)" by simp
  qed
  have failed: "hwp (deletion_guard m) (State_Monad.bind (Eventf t rs msg) (\<lambda>_.
      State_Monad.bind (logUpdateStatus r su) (\<lambda>_. ret res))) (\<lambda>_ _ _. True) s' h'" for t rs msg su res s' h'
    by (intro basic_then_guard stays_basic hwp_true_return) simp_all
  show ?thesis
    unfolding delete_model_def api_defs
  proof (rule basic_then_guard [OF stays_basic(4)], simp, rule hwp_ext_call, intro conjI hwp_option hwp_if)
    fix s' :: "'a rstate" and h' err w
    assume "set h \<subseteq> set h'"
    with assms show "deletion_guard m h' (Api (CDeleteModel modelID err))" by auto
  qed ((rule release, simp) | rule failed)+
qed

lemma checkDeleteGuardrails_guard:
  "hwp (deletion_guard m) (checkDeleteGuardrails r mid)
     (\<lambda>res s' h'. \<forall>bs. res = Inr bs \<longrightarrow> \<not> 0 < length bs \<longrightarrow> (\<exists>e \<in> set h'. shows_idle mid e)) s h"
  unfolding checkDeleteGuardrails_def api_defs
  by (intro hwp_ext_call conjI hwp_sum hwp_if hwp_return) (auto simp: env_blockers_empty)

lemma blocked_guard: "hwp (deletion_guard m) (delete_blocked r mid msg) (\<lambda>_ _ _. True) s' h'"
  by (rule hwp_stays [OF stays_deletion_steps(1) [OF subset_refl]]) (rule deletion_guard_basic)

lemma reconcileDeletion_guard:
  assumes "obj s = m" "deletion_requested m"
  shows "hwp (deletion_guard m) (reconcileDeletion r) (\<lambda>_ _ _. True) s h"
proof -
  have release: "hwp (deletion_guard m) (releaseFinalizer r) (\<lambda>_ _ _. True) s h" if "\<not> owes_deletion m"
    using that by (intro releaseFinalizer_guard) simp
  have guardrails: "hwp (deletion_guard m) (State_Monad.bind (checkDeleteGuardrails r mid) (\<lambda>blockers. case blockers of
      Inl err \<Rightarrow> delete_blocked r mid (f err)
    | Inr bs \<Rightarrow> if 0 < length bs then delete_blocked r mid (g bs) else delete_model r mid)) (\<lambda>_ _ _. True) s h"
    if "owes_deletion m" "mid = ModelID (Status m)" for mid f g
    by (rule hwp_bind, rule hwp_mono [OF checkDeleteGuardrails_guard])
      (intro hwp_sum hwp_if blocked_guard delete_model_guard [OF assms(2) that(1)], simp_all add: that)
  show ?thesis
    unfolding reconcileDeletion_def Let_def
    by (intro hwp_model hwp_if hwp_true_return release guardrails delete_model_guard [OF assms(2)])
      (auto simp: owes_deletion_def deletion_policy_def assms(1) split: if_splits)
qed

lemma deletion_guard_pass: "hwp (deletion_guard (obj s)) (reconcile_object r) (\<lambda>_ _ _. True) s h"
proof (rule hwp_reconcile_object)
  show "hwp (deletion_guard (obj s)) (reconcileObserve r) (\<lambda>_ _ _. True) (with_finalizers fs s) h" for fs
    by (rule hwp_stays [OF stays_reconcileObserve [OF subset_refl]]) (auto intro: deletion_guard_other)
  show "hwp (deletion_guard (obj s)) (reconcile_model r) (\<lambda>_ _ _. True) (with_finalizers fs s) h" for fs
    by (rule hwp_stays [OF stays_reconcile_model [OF subset_refl]])
      (auto intro: deletion_guard_other simp: normal_kinds_def)
qed (auto intro: reconcileDeletion_guard deletion_guard_other)

lemma deletion_guarded:
  assumes "fst (k_Get r name ns (world s)) = Inr m"
  shows "guarded (deletion_guard m) (new_effects (Reconcile r name ns) s)"
  by (rule hwp_guarded, rule hwp_Reconcile [OF assms]) (auto intro: deletion_guard_pass)

text \<open>
  C2: a model in Baseten is deleted only when it must be. In every pass, a call of \<open>DeleteModel\<close>
  comes from an object whose deletion was requested, in mode Reconcile, with policy Delete or
  DeleteWithGuardrails, and names the model id of its status; under DeleteWithGuardrails the
  environments of that model were listed before in the same pass, and none had replicas configured or
  active (or the model was already gone).
\<close>

theorem model_deletion_justified:
  assumes "fst (k_Get r name ns (world s)) = Inr m"
    and "i < length (new_effects (Reconcile r name ns) s)"
    and "new_effects (Reconcile r name ns) s ! i = Api (CDeleteModel mid ans)"
  shows "deletion_requested m \<and> owes_deletion m \<and> mid = ModelID (Status m) \<and>
    (deletion_policy m = DeletionPolicyDeleteWithGuardrails \<longrightarrow>
      (\<exists>e \<in> set (take i (new_effects (Reconcile r name ns) s)). shows_idle mid e))"
  using deletion_guarded [OF assms(1)] assms(2,3) unfolding guarded_def by (metis deletion_guard.simps(1))

text \<open>
  C3: the finalizer is not released early. When the deletion of a resource was requested and it owes
  the deletion of its model in Baseten, a pass writes the object (which releases the finalizer) only
  after \<open>DeleteModel\<close> has answered success or 404 for that model in the same pass.
\<close>

theorem finalizer_waits_for_deletion:
  assumes "fst (k_Get r name ns (world s)) = Inr m"
    and "deletion_requested m" and "owes_deletion m"
    and "i < length (new_effects (Reconcile r name ns) s)"
    and "new_effects (Reconcile r name ns) s ! i = KUpdate ob ans"
  shows "\<exists>e \<in> set (take i (new_effects (Reconcile r name ns) s)). shows_deleted (ModelID (Status m)) e"
  using deletion_guarded [OF assms(1)] assms(2-5) unfolding guarded_def by (metis deletion_guard.simps(2))

text \<open>A pass over a resource that is being deleted with policy DeleteWithGuardrails and idles.\<close>

definition sample_deleting :: BasetenModel where
  "sample_deleting = (sample_Model ModeReconcile DeletionPolicyDeleteWithGuardrails)
     \<lparr>bm_DeletionTimestamp := Some 1\<rparr>"

definition sample_deletion_pass :: "(time, Result \<times> go_error option) handler" where
  "sample_deletion_pass = Reconcile (sample_Reconciler sample_deleting
     (sample_Client (sample_Environment None None) ('''', '''') [])) ''m'' ''ns''"

definition sample_deletion_effects :: "effect list" where
  "sample_deletion_effects = new_effects sample_deletion_pass (sample_State zero_BasetenModel)"

lemma sample_deletion_shape: "map kind sample_deletion_effects =
    [EkGet, EkLookup, EkStatus, EkDeleteModel, EkEvent, EkObject]"
  by code_simp

lemma kind_cases_deletion:
  "kind e = EkDeleteModel \<Longrightarrow> \<exists>mid ans. e = Api (CDeleteModel mid ans)"
  "kind e = EkObject \<Longrightarrow> \<exists>ob ans. e = KUpdate ob ans"
proof -
  show "kind e = EkDeleteModel \<Longrightarrow> \<exists>mid ans. e = Api (CDeleteModel mid ans)"
  proof (cases e)
    case (Api c)
    then show "kind e = EkDeleteModel \<Longrightarrow> ?thesis" by (cases c) simp_all
  qed simp_all
  show "kind e = EkObject \<Longrightarrow> \<exists>ob ans. e = KUpdate ob ans"
  proof (cases e)
    case (Api c)
    then show "kind e = EkObject \<Longrightarrow> ?thesis" by (cases c) simp_all
  qed simp_all
qed

lemma sample_deletion_nth:
  "i < 6 \<Longrightarrow> i < length sample_deletion_effects \<and>
     kind (sample_deletion_effects ! i) = [EkGet, EkLookup, EkStatus, EkDeleteModel, EkEvent, EkObject] ! i"
  using arg_cong [OF sample_deletion_shape, of length] arg_cong [OF sample_deletion_shape, of "\<lambda>xs. xs ! i"]
  by simp

lemma sample_deletion_facts:
  "fst (k_Get (sample_Reconciler sample_deleting c) ''m'' ''ns'' w) = Inr sample_deleting"
  "deletion_requested sample_deleting" "owes_deletion sample_deleting"
  "deletion_policy sample_deleting = DeletionPolicyDeleteWithGuardrails"
  "ModelID (Status sample_deleting) = ''mid''"
  by (simp add: sample_Reconciler_def, code_simp+)

lemma modes_respected_witness:
  "list_all (\<lambda>e. \<not> is_api e \<and> \<not> mutates_baseten e)
     (new_effects (Reconcile (sample_Reconciler (sample_Model ModePause '''')
       (sample_Client (sample_Environment None None) ('''', '''') [])) ''m'' ''ns'')
     (sample_State zero_BasetenModel))"
  unfolding list_all_iff
proof
  let ?r = "sample_Reconciler (sample_Model ModePause '''') (sample_Client (sample_Environment None None) ('''', '''') [])"
  fix e assume e: "e \<in> set (new_effects (Reconcile ?r ''m'' ''ns'') (sample_State zero_BasetenModel))"
  have "fst (k_Get ?r ''m'' ''ns'' (world (sample_State zero_BasetenModel))) = Inr (sample_Model ModePause '''')"
    by (simp add: sample_Reconciler_def)
  from modes_respected [OF this e] show "\<not> is_api e \<and> \<not> mutates_baseten e"
    by (simp add: sample_Model_def zero_defs effectiveMode_def mode_defs)
qed

lemma model_deletion_justified_witness:
  "\<exists>e \<in> set (take 3 sample_deletion_effects). shows_idle ''mid'' e"
proof -
  have 3: "3 < length sample_deletion_effects" "kind (sample_deletion_effects ! 3) = EkDeleteModel"
    using sample_deletion_nth [of 3] by simp_all
  then obtain mid ans where "sample_deletion_effects ! 3 = Api (CDeleteModel mid ans)"
    using kind_cases_deletion(1) by blast
  with 3(1) show ?thesis
    using model_deletion_justified [OF sample_deletion_facts(1), of 3] sample_deletion_facts
    unfolding sample_deletion_effects_def sample_deletion_pass_def by simp
qed

lemma finalizer_waits_for_deletion_witness:
  "\<exists>e \<in> set (take 5 sample_deletion_effects). shows_deleted ''mid'' e"
proof -
  have 5: "5 < length sample_deletion_effects" "kind (sample_deletion_effects ! 5) = EkObject"
    using sample_deletion_nth [of 5] by simp_all
  then obtain ob ans where "sample_deletion_effects ! 5 = KUpdate ob ans"
    using kind_cases_deletion(2) by blast
  with 5(1) show ?thesis
    using finalizer_waits_for_deletion [OF sample_deletion_facts(1-3), of 5] sample_deletion_facts(5)
    unfolding sample_deletion_effects_def sample_deletion_pass_def by simp
qed

end
