(* ===== verification/Safety_Promotion.thy ===== *)
theory Safety_Promotion
  imports Safety_Lifecycle
begin

text \<open>
  When a deployment is promoted: only the source of the resource, only when it can serve, only when
  no other promotion runs, and at most once in a pass.
\<close>

section \<open>The evidence for a promotion\<close>

text \<open>An answer that found the deployment \<open>d\<close> under the name \<open>src\<close>, able to serve.\<close>

fun shows_ready :: "string \<Rightarrow> string \<Rightarrow> string \<Rightarrow> effect \<Rightarrow> bool" where
  "shows_ready mid src d (Api (CFindDeploymentIDByName mid' n (Inr (i, st)))) \<longleftrightarrow>
     mid' = mid \<and> n = src \<and> i = d \<and> i \<noteq> '''' \<and> healthy st"
| "shows_ready mid src d _ \<longleftrightarrow> False"

text \<open>An answer that shows the environment without candidate and with another deployment than the source.\<close>

fun shows_vacant :: "string \<Rightarrow> string \<Rightarrow> string \<Rightarrow> effect \<Rightarrow> bool" where
  "shows_vacant mid envName src (Api (CGetEnvironment mid' n (Inr env))) \<longleftrightarrow>
     mid' = mid \<and> n = envName \<and> env_CandidateDeployment env = None \<and> \<not> matches (env_CurrentDeployment env) src"
| "shows_vacant mid envName src _ \<longleftrightarrow> False"

fun is_promotion :: "effect \<Rightarrow> bool" where
  "is_promotion (Api (CPromote _ _ _ _ _)) \<longleftrightarrow> True"
| "is_promotion _ \<longleftrightarrow> False"

fun promotion_guard :: "effect list \<Rightarrow> effect \<Rightarrow> bool" where
  "promotion_guard h (Api (CPromote mid d envName p ans)) \<longleftrightarrow>
     \<not> list_ex is_promotion h \<and>
     (\<exists>src. (\<exists>e \<in> set h. shows_ready mid src d e) \<and> (\<exists>e \<in> set h. shows_vacant mid envName src e))"
| "promotion_guard h _ \<longleftrightarrow> True"

lemma kind_promote_iff: "kind e = EkPromote \<longleftrightarrow> is_promotion e"
proof (cases e)
  case (Api c)
  then show ?thesis by (cases c) simp_all
qed simp_all

lemma promotion_guard_other: "kind e \<noteq> EkPromote \<Longrightarrow> promotion_guard h e"
proof (cases e)
  case (Api c)
  then show "kind e \<noteq> EkPromote \<Longrightarrow> ?thesis" by (cases c) simp_all
qed simp_all

text \<open>A handler that promotes nothing keeps the history free of promotions.\<close>

lemma no_promotions: "EkPromote \<notin> K \<Longrightarrow> \<forall>e \<in> set es. kind e \<in> K \<Longrightarrow> \<not> list_ex is_promotion es"
  by (auto simp: list_ex_iff kind_promote_iff [symmetric])

lemma promotion_free_bind:
  assumes "stays K n" and "EkPromote \<notin> K" and "\<not> list_ex is_promotion h"
    and "\<And>a s' h'. run_state n s = (a, s') \<Longrightarrow> set h \<subseteq> set h' \<Longrightarrow> \<not> list_ex is_promotion h' \<Longrightarrow>
      hwp promotion_guard (f a) Q s' h'"
  shows "hwp promotion_guard (State_Monad.bind n f) Q s h"
proof (rule hwp_frame_bind [OF assms(1)])
  show "promotion_guard h' e" if "kind e \<in> K" for h' e
    using that assms(2) by (intro promotion_guard_other) auto
  show "hwp promotion_guard (f a) Q s' (h @ es)"
    if "run_state n s = (a, s')" "\<forall>e \<in> set es. kind e \<in> K" for a s' es
    using that assms(3) no_promotions [OF assms(2) that(2)] by (intro assms(4)) auto
qed

lemma promotion_free:
  assumes "stays K n" and "EkPromote \<notin> K"
  shows "hwp promotion_guard n (\<lambda>_ _ _. True) s h"
  using assms by (intro hwp_stays [OF assms(1)] promotion_guard_other) auto

section \<open>The steps before it\<close>

lemma tryRetry_answers: "answers (\<lambda>(result, again). again \<longrightarrow> result \<noteq> None) (tryRetryDeployment r mid d n st)"
  unfolding tryRetryDeployment_def Let_def by (intro answers_intro) auto

lemma source_switch_answers:
  "answers (\<lambda>(i, result, err). err = None \<and> result = None \<longrightarrow> i = sid \<and> healthy st)
     (source_switch r mid ap sid src st)"
  unfolding source_switch_def source_failed_def source_inactive_def source_waiting_def Let_def
  by (intro answers_intro answers_bind_with [OF tryRetry_answers]) (auto simp: healthy_def)

text \<open>What \<open>validateSourceDeployment\<close> guarantees when it lets the pass go on.\<close>

lemma validate_evidence:
  assumes "\<not> list_ex is_promotion h"
  shows "hwp promotion_guard (validateSourceDeployment r mid src cur)
    (\<lambda>(sid, result, err) s' h'. set h \<subseteq> set h' \<and> \<not> list_ex is_promotion h' \<and>
      (err = None \<and> result = None \<longrightarrow> (\<exists>e \<in> set h'. shows_ready mid src sid e))) s h"
proof -
  let ?Q = "\<lambda>(sid, result, err) s' h'. set h \<subseteq> set h' \<and> \<not> list_ex is_promotion h' \<and>
    (err = None \<and> result = None \<longrightarrow> (\<exists>e \<in> set h'. shows_ready mid src sid e))"
  let ?e = "\<lambda>a. Api (CFindDeploymentIDByName mid src a)"
  let ?K = "{EkStatus, EkEvent, EkLookup, EkRetry, EkActivate}"
  have after: "hwp promotion_guard n ?Q s' (h @ [?e a])"
    if "stays ?K n" and "answers (\<lambda>(sid, result, err). err = None \<and> result = None \<longrightarrow> shows_ready mid src sid (?e a)) n"
    for n :: "('a rstate, validation) state" and s' a
  proof (rule hwp_frame [OF that(1)])
    show "promotion_guard h' e" if "kind e \<in> ?K" for h' e
      using that by (intro promotion_guard_other) auto
    show "?Q x s'' ((h @ [?e a]) @ es)"
      if "run_state n s' = (x, s'')" "\<forall>e \<in> set es. kind e \<in> ?K" for x s'' es
      using answersD [OF \<open>answers _ n\<close> that(1)] no_promotions [OF _ that(2)] assms by (cases x) auto
  qed
  have missing: "answers (\<lambda>(sid, result, err). err = None \<and> result = None \<longrightarrow> X sid)
      (source_missing r mid ap src ev e)" for ap ev e X
    unfolding source_missing_def by (intro answers_intro) auto
  show ?thesis
    unfolding validateSourceDeployment_def Let_def api_defs
  proof (intro hwp_ext_call conjI hwp_sum hwp_prod hwp_if, simp, goal_cases)
    case (1 a w e)
    then show ?case by (intro after stays_source_steps) (simp, rule missing)
  next
    case (2 a w y i st)
    then show ?case
      by (intro after emits_intro stays_intro answers_intro missing) simp_all
  next
    case (3 a w y i st)
    then show ?case
      by (intro after stays_source_switch answers_mono [OF source_switch_answers]) auto
  qed
qed

lemma guard_vacant:
  assumes "\<not> list_ex is_promotion h"
  shows "hwp promotion_guard (checkDoublePromoteGuard r env mid src)
    (\<lambda>result s' h'. set h \<subseteq> set h' \<and> \<not> list_ex is_promotion h' \<and>
      (result = None \<longrightarrow> env_CandidateDeployment env = None)) s h"
proof (rule hwp_frame [OF stays_checkDoublePromoteGuard [OF subset_refl]])
  show "promotion_guard h' e" if "kind e \<in> {EkStatus, EkEvent}" for h' e
    using that by (intro promotion_guard_other) auto
  have answer: "answers (\<lambda>result. result = None \<longrightarrow> env_CandidateDeployment env = None)
      (checkDoublePromoteGuard r env mid src)"
    unfolding checkDoublePromoteGuard_def Let_def by (intro answers_intro) auto
  show "set h \<subseteq> set (h @ es) \<and> \<not> list_ex is_promotion (h @ es) \<and> (a = None \<longrightarrow> env_CandidateDeployment env = None)"
    if "run_state (checkDoublePromoteGuard r env mid src) s = (a, s')" "\<forall>e \<in> set es. kind e \<in> {EkStatus, EkEvent}"
    for a s' es
    using answersD [OF answer that(1)] no_promotions [OF _ that(2)] assms by auto
qed

section \<open>The promotion\<close>

lemma promote_source_guard:
  assumes "\<not> list_ex is_promotion h" and "\<exists>e \<in> set h. shows_ready mid src sid e"
    and "\<exists>e \<in> set h. shows_vacant mid envName src e"
  shows "hwp promotion_guard (promote_source r env mid envName sid src) (\<lambda>_ _ _. True) s h"
  unfolding promote_source_def api_defs
proof (rule promotion_free_bind [OF stays_basic(4) [OF subset_refl] _ assms(1)], simp,
    rule hwp_model, rule hwp_ext_call, rule conjI)
  fix s' :: "'a rstate" and h' p a w
  assume "set h \<subseteq> set h'" "\<not> list_ex is_promotion h'"
  then show "promotion_guard h' (Api (CPromote mid sid envName p a))"
    using assms(2,3) by (simp, intro exI [of _ src]) blast
next
  fix s' :: "'a rstate" and h' a
  show "hwp promotion_guard (case a of
      Inl err \<Rightarrow> promotion_failed r env mid envName sid src err
    | Inr None \<Rightarrow> ret (return_result None None)
    | Inr (Some dep) \<Rightarrow> promotion_succeeded r env mid envName sid src dep) (\<lambda>_ _ _. True) s' h'" for s' h' a
    by (intro hwp_sum hwp_option hwp_true_return promotion_free [OF stays_promotion_outcome(1) [OF subset_refl]]
        promotion_free [OF stays_promotion_outcome(2) [OF subset_refl]]) simp_all
qed

lemma start_promotion_guard:
  assumes "\<not> list_ex is_promotion h" and "Api (CGetEnvironment mid envName (Inr env)) \<in> set h"
    and "\<not> matches (env_CurrentDeployment env) src"
  shows "hwp promotion_guard (start_promotion r mid envName env src) (\<lambda>_ _ _. True) s h"
  unfolding start_promotion_def
proof (rule hwp_bind, rule hwp_mono [OF guard_vacant [OF assms(1)]], intro hwp_option hwp_true_return, elim conjE)
  fix result s' h'
  assume h': "set h \<subseteq> set h'" "\<not> list_ex is_promotion h'" "result = None \<longrightarrow> env_CandidateDeployment env = None" "result = None"
  then have "shows_vacant mid envName src (Api (CGetEnvironment mid envName (Inr env)))" using assms(3) by simp
  then have vacant: "\<exists>e \<in> set h''. shows_vacant mid envName src e" if "set h' \<subseteq> set h''" for h''
    using assms(2) h'(1) that by blast
  show "hwp promotion_guard (State_Monad.bind (validateSourceDeployment r mid src (env_CurrentDeployment env))
      (\<lambda>(sid, result, err). if err \<noteq> None \<or> result \<noteq> None then return_step r result err
        else promote_source r env mid envName sid src)) (\<lambda>_ _ _. True) s' h'"
    by (rule hwp_bind, rule hwp_mono [OF validate_evidence [OF h'(2)]])
      (auto intro!: hwp_if promote_source_guard vacant promotion_free [OF stays_return_step [OF subset_refl]])
qed

section \<open>The whole pass\<close>

lemma environment_answers:
  "answers (\<lambda>(x, result, err). err = None \<longrightarrow> result \<noteq> None) (create_environment r mid envName)"
  "answers (\<lambda>(x, result, err). err = None \<longrightarrow> result \<noteq> None) (fix_drift r mid envName env da dp ds)"
  unfolding create_environment_def fix_drift_def Let_def by (intro answers_intro; simp)+

lemma environment_evidence:
  assumes "\<not> list_ex is_promotion h"
  shows "hwp promotion_guard (reconcileEnvironment r mid envName)
    (\<lambda>(x, result, err) s' h'. \<not> list_ex is_promotion h' \<and> (err = None \<and> result = None \<longrightarrow>
      (\<forall>env. x = Some env \<longrightarrow> Api (CGetEnvironment mid envName (Inr env)) \<in> set h'))) s h"
proof -
  let ?Q = "\<lambda>(x, result, err) s' h'. \<not> list_ex is_promotion h' \<and> (err = None \<and> result = None \<longrightarrow>
      (\<forall>env. x = Some env \<longrightarrow> Api (CGetEnvironment mid envName (Inr env)) \<in> set h'))"
  let ?K = "{EkStatus, EkEvent, EkLookup, EkEnvironment}"
  have after: "hwp promotion_guard n ?Q s' (h @ [Api (CGetEnvironment mid envName a)])"
    if "stays ?K n" and "answers (\<lambda>(x, result, err). err = None \<and> result = None \<longrightarrow> a = Inr (the x)) n"
    for n :: "('a rstate, Environment option \<times> Result option \<times> go_error option) state" and s' a
  proof (rule hwp_frame [OF that(1)])
    show "promotion_guard h' e" if "kind e \<in> ?K" for h' e
      using that by (intro promotion_guard_other) auto
    show "?Q x s'' ((h @ [Api (CGetEnvironment mid envName a)]) @ es)"
      if "run_state n s' = (x, s'')" "\<forall>e \<in> set es. kind e \<in> ?K" for x s'' es
      using answersD [OF \<open>answers _ n\<close> that(1)] no_promotions [OF _ that(2)] assms by (cases x) auto
  qed
  show ?thesis
    unfolding reconcileEnvironment_def api_defs Let_def
  proof (rule hwp_ext_call, rule conjI, simp, rule after, goal_cases)
    case (1 a w)
    show ?case by (intro emits_intro stays_intro) auto
  next
    case (2 a w)
    show ?case
      by (intro answers_intro answers_mono [OF environment_answers(1)] answers_mono [OF environment_answers(2)]) auto
  qed
qed

lemma environment_state_guard:
  assumes "\<not> list_ex is_promotion h" and "Api (CGetEnvironment mid envName (Inr env)) \<in> set h"
  shows "hwp promotion_guard (reconcile_environment_state r mid envName env src) (\<lambda>_ _ _. True) s h"
  unfolding reconcile_environment_state_def
  by (intro hwp_prod hwp_if promotion_free [OF stays_current(1) [OF subset_refl]]
      promotion_free [OF stays_current(2) [OF subset_refl]] promotion_free [OF stays_current(3) [OF subset_refl]]
      start_promotion_guard assms) auto

lemma reconcile_model_guard:
  assumes "\<not> list_ex is_promotion h"
  shows "hwp promotion_guard (reconcile_model r) (\<lambda>_ _ _. True) s h"
proof -
  have step: "hwp promotion_guard (return_step r result err) (\<lambda>_ _ _. True) s' h'" for result err s' h'
    by (rule promotion_free [OF stays_return_step [OF subset_refl]]) simp
  have environment: "hwp promotion_guard (State_Monad.bind (reconcileEnvironment r mid envName)
      (\<lambda>(x, result, err). if err \<noteq> None \<or> result \<noteq> None then return_step r result err
        else case x of None \<Rightarrow> ret (return_result None None)
          | Some env \<Rightarrow> reconcile_environment_state r mid envName env src)) (\<lambda>_ _ _. True) s' h'"
    if "\<not> list_ex is_promotion h'" for mid envName src s' h'
    by (rule hwp_bind, rule hwp_mono [OF environment_evidence [OF that]])
      (auto intro!: hwp_if hwp_option hwp_true_return step environment_state_guard)
  show ?thesis
    unfolding reconcile_model_def Let_def
    by (rule promotion_free_bind [OF stays_resolveModelID [OF subset_refl] _ assms], simp,
        intro hwp_prod hwp_if hwp_true_return hwp_model,
        rule promotion_free_bind [OF stays_resolveSourceDeployment [OF subset_refl]], simp, assumption,
        intro hwp_prod hwp_if hwp_true_return step environment)
qed

text \<open>
  C4: a promotion is justified. In every pass, before \<open>Promote\<close> is called for a deployment and an
  environment, a lookup by the name of the source has answered that very deployment as ACTIVE or
  SCALED_TO_ZERO, and the environment has been read without a candidate (no other promotion runs in
  it) and with a current deployment that is not the source; and it is the only promotion of the pass.
\<close>

theorem promotion_justified:
  "guarded promotion_guard (new_effects (Reconcile r name ns) s)"
proof (cases "fst (k_Get r name ns (world s))")
  case (Inl e)
  then show ?thesis by (simp add: Reconcile_unread guarded_def)
next
  case (Inr m)
  show ?thesis
  proof (rule hwp_guarded, rule hwp_Reconcile [OF Inr], simp, rule hwp_reconcile_object)
    show "hwp promotion_guard (reconcileDeletion r) (\<lambda>_ _ _. True) s' h" for s' h
      by (rule promotion_free [OF stays_reconcileDeletion [OF subset_refl]]) simp
    show "hwp promotion_guard (reconcileObserve r) (\<lambda>_ _ _. True) s' h" for s' h
      by (rule promotion_free [OF stays_reconcileObserve [OF subset_refl]]) simp
    show "hwp promotion_guard (reconcile_model r) (\<lambda>_ _ _. True) s' ([] @ [KGet name ns (Inr m)])" for s'
      by (rule reconcile_model_guard) simp
    show "promotion_guard h e" if "kind e \<in> {EkStatus, EkEvent}" for h e
      using that by (intro promotion_guard_other) auto
  qed simp_all
qed

text \<open>The evidence is not empty: a pass over a resource whose source is ready promotes it.\<close>

definition sample_promoting :: "(time, Result \<times> go_error option) handler" where
  "sample_promoting = Reconcile (sample_Reconciler (sample_Model ModeReconcile '''')
     (sample_Client (sample_Environment (Some (sample_Deployment ''d1'' ''v1'' DeploymentStatusActive)) None)
       (''d2'', DeploymentStatusActive) [])) ''m'' ''ns''"

lemma sample_promotion_shape:
  "map kind (new_effects sample_promoting (sample_State zero_BasetenModel)) =
     [EkGet, EkLookup, EkLookup, EkStatus, EkPromote, EkEvent, EkStatus]"
proof -
  note [simp] = wp_simps
  note parts = sample_promoting_def sample_Reconciler_def sample_Model_def sample_Client_def sample_State_def
    sample_Environment_def sample_Deployment_def zero_BasetenModel_def zero_BasetenModelSpec_def zero_BasetenModelStatus_def
    zero_EnvironmentConfig_def
  have "wp sample_promoting (\<lambda>_ s'. map kind (trace s') =
      [EkGet, EkLookup, EkLookup, EkStatus, EkPromote, EkEvent, EkStatus]) (sample_State zero_BasetenModel)"
    by (simp add: parts object_step_defs, simp add: reconcile_model_def resolveModelID_def resolveSourceDeployment_def
        reconcileEnvironment_def schedule_drift_def schedule_count_def baselineAutoscalingDrift_def HasAutoscalingDrift_def
        HasPromotionSettingsDrift_def HasScheduleDrift_def diffSchedules_def api_defs Let_def,
        simp add: reconcile_environment_state_def start_promotion_def checkDoublePromoteGuard_def clear_stale_candidate_def
        validateSourceDeployment_def source_switch_def starting_status_def deployment_status_defs promote_source_def
        promotion_succeeded_def matches_def DeploymentNameMatchesPrefix_def HasPrefix_def name_of_def api_defs
        status_step_defs statusPromoting_def statusPromotingDeployment_def Let_def)
  then show ?thesis by (simp add: wp_def new_effects_def sample_State_def split: prod.splits)
qed

end
