(* ===== verification/Safety_Orphans.thy ===== *)
theory Safety_Orphans
  imports Safety_Lifecycle
begin

text \<open>
  The orphan cleanup: which deployments it may touch, which ones it keeps, in which order it deletes
  and when it runs.
\<close>

section \<open>The contract of sort.Slice\<close>

definition strict_weak :: "('a \<Rightarrow> 'a \<Rightarrow> bool) \<Rightarrow> bool" where
  "strict_weak lt \<longleftrightarrow> (\<forall>x y. lt x y \<longrightarrow> \<not> lt y x) \<and> (\<forall>x y z. lt x z \<longrightarrow> lt x y \<or> lt y z)"

definition sorts_slices :: "'w BasetenModelReconciler \<Rightarrow> bool" where
  "sorts_slices r \<longleftrightarrow> (\<forall>lt xs. mset (SortSlice r lt xs) = mset xs \<and>
     (strict_weak lt \<longrightarrow> sorted_wrt (\<lambda>a b. \<not> lt b a) (SortSlice r lt xs)))"

lemma strict_weak_created [simp]: "strict_weak newer" "strict_weak older"
  by (auto simp: strict_weak_def newer_def older_def)

lemma sorts_slices_set: "sorts_slices r \<Longrightarrow> set (SortSlice r lt xs) = set xs"
  unfolding sorts_slices_def by (metis set_mset_mset)

lemma insert_by_mset: "mset (insert_by lt x xs) = {#x#} + mset xs"
  by (induction xs) auto

lemma insert_by_sorted:
  "strict_weak lt \<Longrightarrow> sorted_wrt (\<lambda>a b. \<not> lt b a) xs \<Longrightarrow> sorted_wrt (\<lambda>a b. \<not> lt b a) (insert_by lt x xs)"
proof (induction xs)
  case (Cons y ys)
  have set: "set (insert_by lt x ys) = insert x (set ys)"
    using insert_by_mset [of lt x ys] by (metis set_mset_add_mset_insert set_mset_mset add_mset_add_single union_commute)
  from Cons show ?case unfolding strict_weak_def by (auto simp: set) blast+
qed simp

lemma sort_by_sorts:
  "mset (sort_by lt xs) = mset xs \<and> (strict_weak lt \<longrightarrow> sorted_wrt (\<lambda>a b. \<not> lt b a) (sort_by lt xs))"
  unfolding sort_by_def by (induction xs) (auto simp: insert_by_mset insert_by_sorted)

lemma sample_sorts: "sorts_slices (sample_Reconciler m c)"
  by (simp add: sorts_slices_def sample_Reconciler_def sort_by_sorts)

section \<open>The order of deletion\<close>


section \<open>Which deployments may be touched\<close>

definition final_status :: "string \<Rightarrow> bool" where
  "final_status st \<longleftrightarrow> st = DeploymentStatusInactive \<or> IsTerminalFailure st"

text \<open>
  The evidence that the deployment \<open>d\<close> is an orphan with the property \<open>Q\<close>: both lists were read in
  this pass, and it is in no environment, and neither of production nor of development.
\<close>

definition shows_orphan :: "(DeploymentDetail \<Rightarrow> bool) \<Rightarrow> string \<Rightarrow> string \<Rightarrow> effect list \<Rightarrow> bool" where
  "shows_orphan Q mid d h \<longleftrightarrow> (\<exists>deps envs. Api (CListDeployments mid (Inr deps)) \<in> set h \<and>
     Api (CListEnvironments mid (Inr envs)) \<in> set h \<and>
     (\<exists>dep \<in> set deps. dd_ID dep = d \<and> d \<notin> set (protected_ids envs) \<and>
        \<not> dd_IsProduction dep \<and> \<not> dd_IsDevelopment dep \<and> Q dep))"

fun orphan_guard :: "effect list \<Rightarrow> effect \<Rightarrow> bool" where
  "orphan_guard h (Api (CDeleteDeployment mid d ans)) \<longleftrightarrow> shows_orphan (\<lambda>dep. final_status (dd_Status dep)) mid d h"
| "orphan_guard h (Api (CUpdateDeploymentAutoscaling mid d n ans)) \<longleftrightarrow> n = 0 \<and> shows_orphan (\<lambda>_. True) mid d h"
| "orphan_guard h _ \<longleftrightarrow> True"

lemma orphan_guard_other: "kind e \<notin> {EkDeleteDeployment, EkScaleIn} \<Longrightarrow> orphan_guard h e"
proof (cases e)
  case (Api c)
  then show "kind e \<notin> {EkDeleteDeployment, EkScaleIn} \<Longrightarrow> ?thesis" by (cases c) simp_all
qed simp_all

lemma orphan_free:
  assumes "stays K n" and "K \<inter> {EkDeleteDeployment, EkScaleIn} = {}"
  shows "hwp orphan_guard n (\<lambda>_ _ _. True) s h"
  using assms by (intro hwp_stays [OF assms(1)] orphan_guard_other) auto

lemma orphan_free_bind:
  assumes "stays K n" and "K \<inter> {EkDeleteDeployment, EkScaleIn} = {}"
    and "\<And>a s' h'. hwp orphan_guard (f a) Q s' h'"
  shows "hwp orphan_guard (State_Monad.bind n f) Q s h"
  by (rule hwp_frame_bind [OF assms(1)]) (use assms in \<open>auto intro!: orphan_guard_other\<close>)

text \<open>The lists were read and give these orphans.\<close>

definition orphans_read :: "string \<Rightarrow> DeploymentDetail list \<Rightarrow> effect list \<Rightarrow> bool" where
  "orphans_read mid orphans h \<longleftrightarrow> (\<exists>deps envs m. Api (CListDeployments mid (Inr deps)) \<in> set h \<and>
     Api (CListEnvironments mid (Inr envs)) \<in> set h \<and> orphans = filter (is_orphan m envs) deps)"

lemma orphans_read_mono: "orphans_read mid orphans h \<Longrightarrow> orphans_read mid orphans (h @ es)"
  unfolding orphans_read_def by auto

lemma orphans_read_shows:
  "orphans_read mid orphans h \<Longrightarrow> dep \<in> set orphans \<Longrightarrow> Q dep \<Longrightarrow> shows_orphan Q mid (dd_ID dep) h"
  unfolding orphans_read_def shows_orphan_def is_orphan_def by (auto split: if_splits)

lemma find_orphans_guard:
  "hwp orphan_guard (findOrphanDeployments r mid)
    (\<lambda>res s' h'. \<forall>orphans. res = Inr orphans \<longrightarrow> orphans_read mid orphans h') s h"
  unfolding findOrphanDeployments_def api_defs
  by (intro hwp_ext_call conjI hwp_sum hwp_return hwp_model) (auto simp: orphans_read_def)

lemma scale_in_guard:
  assumes "orphans_read mid orphans h"
  shows "hwp orphan_guard (scaleInOrphans r mid orphans) (\<lambda>_ _ h'. orphans_read mid orphans h') s h"
  unfolding scaleInOrphans_def
proof (rule hwp_bind, rule hwp_mono [OF hwp_mfold [of "orphans_read mid orphans"], OF assms])
  fix dep names s h
  assume "dep \<in> set orphans" "orphans_read mid orphans h"
  then show "hwp orphan_guard (scale_in_one r mid dep names) (\<lambda>_ _ h'. orphans_read mid orphans h') s h"
    unfolding scale_in_one_def api_defs
    by (intro hwp_if hwp_return hwp_ext_call conjI) (auto intro: orphans_read_shows orphans_read_mono)
qed (simp add: hwp_return)

lemma delete_guard:
  assumes "sorts_slices r" and "orphans_read mid orphans h"
  shows "hwp orphan_guard (deleteStaleOrphans r mid orphans cfg) (\<lambda>_ _ h'. orphans_read mid orphans h') s h"
proof -
  have order: "set (delete_order r src keep orphans) \<subseteq> set orphans" for src keep
    using sorts_slices_set [OF assms(1)] unfolding delete_order_def Let_def
    by (auto dest!: in_set_dropD)
  have step: "hwp orphan_guard (try_delete r mid cutoff dep names) (\<lambda>_ _ h'. orphans_read mid orphans h') s h"
    if "dep \<in> set orphans" "orphans_read mid orphans h" for cutoff dep names s h
    unfolding try_delete_def api_defs using that
    by (intro hwp_if hwp_return hwp_ext_call conjI)
      (auto intro!: orphans_read_shows orphans_read_mono simp: deletable_def final_status_def split: if_splits)
  have loop: "hwp orphan_guard (mfold (try_delete r mid cutoff) (delete_order r src keep orphans) [])
      (\<lambda>_ _ h'. orphans_read mid orphans h') s' h'" if "orphans_read mid orphans h'" for cutoff src keep s' h'
    by (rule hwp_mfold [of "orphans_read mid orphans", OF that]) (use step order in blast)
  have clock: "hwp orphan_guard (State_Monad.bind (time_Now r) f) Q s' h'"
    if "\<And>t s'. hwp orphan_guard (f t) Q s' h'" for f Q s' h'
    by (rule hwp_frame_bind [OF emits_time_Now [of "\<lambda>_. False"]]) (use that in auto)
  show ?thesis
    unfolding deleteStaleOrphans_def Let_def
    by (intro hwp_prod hwp_option hwp_if hwp_return hwp_model clock assms(2))
      (rule hwp_bind, rule hwp_mono [OF loop [OF assms(2)]], erule hwp_return)
qed

lemma cleanup_guard:
  assumes "sorts_slices r"
  shows "hwp orphan_guard (reconcileOrphanCleanup r mid cfg) (\<lambda>_ _ _. True) s h"
proof -
  have tail: "hwp orphan_guard n (\<lambda>_ _ _. True) s' h'" if "stays {EkStatus, EkEvent} n" for n s' h'
    by (rule orphan_free [OF that]) simp
  have run: "hwp orphan_guard (run_cleanup r mid cfg a b) (\<lambda>_ _ _. True) s' h'" for a b s' h'
    unfolding run_cleanup_def
  proof (rule hwp_bind, rule hwp_mono [OF find_orphans_guard], intro hwp_sum hwp_true_return, rule hwp_bind, goal_cases)
    case (1 res s' h' orphans)
    then have read: "orphans_read mid orphans h'" by simp
    have scaled: "hwp orphan_guard (if a then scaleInOrphans r mid orphans else ret (0, []))
        (\<lambda>_ _ h'. orphans_read mid orphans h') s' h'"
      by (intro hwp_if scale_in_guard hwp_return read)
    show ?case
    proof (rule hwp_mono [OF scaled], rule hwp_bind, goal_cases)
      case (1 sc s'' h'')
      have "hwp orphan_guard (if b then deleteStaleOrphans r mid orphans cfg else ret (Inr (0, [])))
          (\<lambda>_ _ _. True) s'' h''"
        by (intro hwp_if hwp_true_return hwp_mono [OF delete_guard [OF assms 1]]) simp
      then show ?case
        by (rule hwp_mono) (intro tail emits_intro stays_intro; simp)
    qed
  qed
  show ?thesis
    unfolding reconcileOrphanCleanup_def cleanup_due_def Let_def
    by (intro hwp_option hwp_true_return orphan_free_bind [of "{EkLookup}"] emits_intro hwp_if run) auto
qed

section \<open>The whole pass\<close>

lemma steady_state_guard:
  assumes "sorts_slices r"
  shows "hwp orphan_guard (steady_state r mid envName env cur) (\<lambda>_ _ _. True) s h"
proof -
  have after: "hwp orphan_guard (State_Monad.bind (case cfg of None \<Rightarrow> ret None
      | Some cleanup \<Rightarrow> reconcileOrphanCleanup r mid cleanup) (\<lambda>p. case p of Some p \<Rightarrow> ret (no_requeue, Some p)
      | None \<Rightarrow> ret (requeue (5 * Minute), None))) (\<lambda>_ _ _. True) s' h'" for cfg s' h'
  proof (rule hwp_bind, rule hwp_mono)
    show "hwp orphan_guard (case cfg of None \<Rightarrow> ret None | Some cleanup \<Rightarrow> reconcileOrphanCleanup r mid cleanup)
      (\<lambda>_ _ _. True) s' h'"
      by (intro hwp_option hwp_true_return cleanup_guard assms)
  qed (intro hwp_option hwp_true_return)
  show ?thesis
    unfolding steady_state_def Let_def
    by (intro hwp_model orphan_free_bind [of "{EkStatus, EkEvent}"] stays_intro emits_intro hwp_option
        hwp_true_return after) auto
qed

lemma orphan_reconcile_model_guard:
  assumes "sorts_slices r"
  shows "hwp orphan_guard (reconcile_model r) (\<lambda>_ _ _. True) s h"
proof -
  have state: "hwp orphan_guard (reconcile_environment_state r mid envName env src) (\<lambda>_ _ _. True) s' h'"
    for mid envName env src s' h'
    unfolding reconcile_environment_state_def
    by (intro hwp_prod hwp_if orphan_free [OF stays_current(1) [OF subset_refl]] steady_state_guard assms
        orphan_free [OF stays_current(3) [OF subset_refl]] orphan_free [OF stays_start_promotion [OF subset_refl]]) auto
  have step: "hwp orphan_guard (return_step r result err) (\<lambda>_ _ _. True) s' h'" for result err s' h'
    by (rule orphan_free [OF stays_return_step [OF subset_refl]]) simp
  show ?thesis
    unfolding reconcile_model_def Let_def
    by (rule orphan_free_bind [OF stays_resolveModelID [OF subset_refl]], simp,
        intro hwp_prod hwp_if hwp_true_return hwp_model,
        rule orphan_free_bind [OF stays_resolveSourceDeployment [OF subset_refl]], simp,
        intro hwp_prod hwp_if hwp_true_return step,
        rule orphan_free_bind [OF stays_reconcileEnvironment [OF subset_refl]], simp,
        intro hwp_prod hwp_if hwp_option hwp_true_return step state)
qed

lemma orphans_guarded:
  assumes "sorts_slices r"
  shows "guarded orphan_guard (new_effects (Reconcile r name ns) s)"
proof (cases "fst (k_Get r name ns (world s))")
  case (Inl e)
  then show ?thesis by (simp add: Reconcile_unread guarded_def)
next
  case (Inr m)
  show ?thesis
  proof (rule hwp_guarded, rule hwp_Reconcile [OF Inr], simp, rule hwp_reconcile_object)
    show "hwp orphan_guard (reconcileDeletion r) (\<lambda>_ _ _. True) s' h" for s' h
      by (rule orphan_free [OF stays_reconcileDeletion [OF subset_refl]]) simp
    show "hwp orphan_guard (reconcileObserve r) (\<lambda>_ _ _. True) s' h" for s' h
      by (rule orphan_free [OF stays_reconcileObserve [OF subset_refl]]) simp
    show "hwp orphan_guard (reconcile_model r) (\<lambda>_ _ _. True) s' h" for s' h
      by (rule orphan_reconcile_model_guard [OF assms])
    show "orphan_guard h e" if "kind e \<in> {EkStatus, EkEvent}" for h e
      using that by (intro orphan_guard_other) auto
  qed simp_all
qed

text \<open>
  C7: only orphans are touched. In every pass, a deployment is deleted only when the deployments and
  the environments of its model have been read before in the same pass, it was among the deployments
  and is neither current nor candidate of any environment, neither a production nor a development
  deployment, and its status is INACTIVE or a terminal failure.
\<close>

theorem orphan_deletion_justified:
  assumes "sorts_slices r" and "i < length (new_effects (Reconcile r name ns) s)"
    and "new_effects (Reconcile r name ns) s ! i = Api (CDeleteDeployment mid d ans)"
  shows "shows_orphan (\<lambda>dep. final_status (dd_Status dep)) mid d (take i (new_effects (Reconcile r name ns) s))"
  using orphans_guarded [OF assms(1)] assms(2,3) unfolding guarded_def by (metis orphan_guard.simps(1))


section \<open>When the cleanup runs\<close>

text \<open>
  The cleanup respects its configuration. Without an interval, or with both actions off, or when
  the last cleanup is less than the interval ago, a cleanup pass has no effect and keeps the object.
\<close>

theorem cleanup_not_due:
  assumes "oc_IntervalMinutes cfg = None \<or> (oc_ScaleToZero cfg \<noteq> Some True \<and> oc_Delete cfg \<noteq> Some True) \<or>
    (\<exists>minutes last. oc_IntervalMinutes cfg = Some minutes \<and> LastCleanupTime (Status (obj s)) = Some last \<and>
       time_Sub (fst (Now r (world s))) last < cleanup_interval minutes)"
  shows "new_effects (reconcileOrphanCleanup r mid cfg) s = [] \<and>
    obj (snd (run_state (reconcileOrphanCleanup r mid cfg) s)) = obj s"
  using assms
  by (cases "Now r (world s)")
    (auto simp: reconcileOrphanCleanup_def cleanup_due_def new_effects_def model_def gets_def time_Now_def
      ext_read_def Let_def split: option.splits)

section \<open>A pass that cleans up\<close>

definition sample_orphan :: "string \<Rightarrow> string \<Rightarrow> DeploymentDetail" where
  "sample_orphan i created = \<lparr>dd_ID = i, dd_Name = ''v1'', dd_Status = DeploymentStatusInactive,
     dd_ActiveReplicaCount = 0, dd_CreatedAt = created, dd_IsProduction = False, dd_IsDevelopment = False,
     dd_Environment = None, dd_AutoscalingSettings = None\<rparr>"

definition sample_orphans :: "DeploymentDetail list" where
  "sample_orphans = [sample_orphan ''o1'' ''2024-01-01T00:00:00Z'', sample_orphan ''o2'' ''2024-02-01T00:00:00Z'']"

definition sample_cleanup :: OrphanDeploymentCleanupConfig where
  "sample_cleanup = \<lparr>oc_ScaleToZero = Some True, oc_Delete = Some True, oc_DeleteAfterDays = Some 30,
     oc_MinToKeep = Some 1, oc_IntervalMinutes = Some 60\<rparr>"

definition sample_cleaning :: "(time, Result \<times> go_error option) handler" where
  "sample_cleaning = Reconcile (sample_Reconciler
     ((sample_Model ModeReconcile '''')\<lparr>Spec := (Spec (sample_Model ModeReconcile ''''))
        \<lparr>spec_OrphanDeploymentCleanup := Some sample_cleanup\<rparr>\<rparr>)
     (sample_Client (sample_Environment (Some (sample_Deployment ''d2'' ''v2'' DeploymentStatusActive)) None)
       (''d2'', DeploymentStatusActive) sample_orphans)) ''m'' ''ns''"

definition sample_cleaning_effects :: "effect list" where
  "sample_cleaning_effects = new_effects sample_cleaning
     ((sample_State zero_BasetenModel)\<lparr>world := 1735689600 * Second\<rparr>)"

lemma sample_cleaning_shape: "map kind sample_cleaning_effects =
    [EkGet, EkLookup, EkStatus, EkLookup, EkLookup, EkScaleIn, EkScaleIn, EkDeleteDeployment,
     EkEvent, EkEvent, EkStatus]"
  by code_simp

lemma kind_cases_orphan:
  "kind e = EkDeleteDeployment \<Longrightarrow> \<exists>mid d ans. e = Api (CDeleteDeployment mid d ans)"
  "kind e = EkScaleIn \<Longrightarrow> \<exists>mid d n ans. e = Api (CUpdateDeploymentAutoscaling mid d n ans)"
proof -
  show "kind e = EkDeleteDeployment \<Longrightarrow> \<exists>mid d ans. e = Api (CDeleteDeployment mid d ans)"
  proof (cases e)
    case (Api c)
    then show "kind e = EkDeleteDeployment \<Longrightarrow> ?thesis" by (cases c) simp_all
  qed simp_all
  show "kind e = EkScaleIn \<Longrightarrow> \<exists>mid d n ans. e = Api (CUpdateDeploymentAutoscaling mid d n ans)"
  proof (cases e)
    case (Api c)
    then show "kind e = EkScaleIn \<Longrightarrow> ?thesis" by (cases c) simp_all
  qed simp_all
qed

lemma sample_cleaning_nth:
  "5 < length sample_cleaning_effects" "kind (sample_cleaning_effects ! 5) = EkScaleIn"
  "7 < length sample_cleaning_effects" "kind (sample_cleaning_effects ! 7) = EkDeleteDeployment"
  using arg_cong [OF sample_cleaning_shape, of length] arg_cong [OF sample_cleaning_shape, of "\<lambda>xs. xs ! 5"]
    arg_cong [OF sample_cleaning_shape, of "\<lambda>xs. xs ! 7"]
  by simp_all

lemma orphan_deletion_justified_witness:
  "\<exists>mid d. shows_orphan (\<lambda>dep. final_status (dd_Status dep)) mid d (take 7 sample_cleaning_effects)"
proof -
  obtain mid d ans where "sample_cleaning_effects ! 7 = Api (CDeleteDeployment mid d ans)"
    using kind_cases_orphan(1) [OF sample_cleaning_nth(4)] by blast
  then show ?thesis
    using orphan_deletion_justified [OF sample_sorts, of 7] sample_cleaning_nth(3)
    unfolding sample_cleaning_effects_def sample_cleaning_def by blast
qed



lemma cleanup_not_due_witness:
  "new_effects (reconcileOrphanCleanup (sample_Reconciler zero_BasetenModel
      (sample_Client (sample_Environment None None) ('''', '''') [])) ''mid'' sample_cleanup)
    (sample_State (zero_BasetenModel\<lparr>Status := zero_BasetenModelStatus\<lparr>LastCleanupTime := Some 0\<rparr>\<rparr>)) = []"
  by (rule cleanup_not_due [THEN conjunct1], rule disjI2, rule disjI2, rule exI [of _ 60], rule exI [of _ 0], code_simp)

end
