(* ===== verification/Retry_Props.thy ===== *)
theory Retry_Props
  imports Safety_Promotion
begin

text \<open>
  The back-off and the retries: bounds of the delay, when a deployment is retried, and that a pass
  over an active resource always schedules the next one.
\<close>

section \<open>The back-off\<close>

lemma backoff_loop_stop: "\<not> i < n \<Longrightarrow> backoff_loop i n base = base"
  by (subst backoff_loop.simps) simp

lemma backoff_loop_step:
  "i < n \<Longrightarrow> backoff_loop i n base =
     (if 2 * base > retryMaxInterval then retryMaxInterval else backoff_loop (i + 1) n (2 * base))"
  by (subst backoff_loop.simps) (simp add: Let_def mult.commute)

lemma backoff_loop_closed:
  assumes "0 < base" "base \<le> retryMaxInterval"
  shows "backoff_loop i n base = min (base * 2 ^ nat (n - i)) retryMaxInterval"
  using assms
proof (induction i n base rule: backoff_loop.induct)
  case (1 i n base)
  show ?case
  proof (cases "i < n")
    case True
    then have k: "nat (n - i) = Suc (nat (n - (i + 1)))" by simp
    show ?thesis
    proof (cases "2 * base > retryMaxInterval")
      case True
      have "2 * base * 1 \<le> 2 * base * 2 ^ nat (n - (i + 1))"
        using "1.prems" by (intro mult_left_mono) simp_all
      then show ?thesis using True \<open>i < n\<close> k by (simp add: backoff_loop_step)
    next
      case False
      then show ?thesis
        using "1.IH" [OF \<open>i < n\<close>, of "base * 2"] "1.prems" k \<open>i < n\<close>
        by (simp add: backoff_loop_step mult.commute mult.left_commute)
    qed
  qed (use "1.prems" in \<open>simp add: backoff_loop_stop\<close>)
qed

lemma retry_interval_values: "retryBaseInterval = 120000000000" "retryMaxInterval = 1800000000000"
  by (simp_all add: retry_consts Minute_def Second_def)

text \<open>The base interval of the attempt \<open>n\<close>, before the jitter.\<close>

definition backoff_base :: "int32 \<Rightarrow> duration" where
  "backoff_base n = min (retryBaseInterval * 2 ^ nat (sint n - 1)) retryMaxInterval"

lemma backoff_base_loop: "backoff_loop 1 (sint n) retryBaseInterval = backoff_base n"
  by (simp add: backoff_loop_closed backoff_base_def retry_interval_values)

lemma backoff_base_range: "retryBaseInterval \<le> backoff_base n" "backoff_base n \<le> retryMaxInterval"
proof -
  have "retryBaseInterval * 1 \<le> retryBaseInterval * 2 ^ nat (sint n - 1)"
    by (intro mult_left_mono) (simp_all add: retry_interval_values)
  then show "retryBaseInterval \<le> backoff_base n"
    by (simp add: backoff_base_def retry_interval_values)
qed (simp add: backoff_base_def)

section \<open>The jitter\<close>

lemma excess_lower: "0 \<le> m \<Longrightarrow> 0 < excess m \<Longrightarrow> 2 ^ (52 + excess m) \<le> m"
proof (induction m rule: excess.induct)
  case (1 m)
  then have big: "\<not> m < 2 ^ 53" and e: "excess m = Suc (excess (m div 2))"
    using excess.simps [of m] by (auto split: if_splits)
  show ?case
  proof (cases "excess (m div 2) = 0")
    case True
    then show ?thesis using big e by simp
  next
    case False
    then have "2 ^ (52 + excess (m div 2)) \<le> m div 2" using "1.IH" [OF big] "1.prems" by simp
    then have "2 * 2 ^ (52 + excess (m div 2)) \<le> m" by linarith
    then have "(2 :: int) ^ Suc (52 + excess (m div 2)) \<le> m" by (simp only: power_Suc)
    then show ?thesis by (simp only: e add_Suc_right)
  qed
qed

lemma round53_bounds:
  assumes "0 \<le> m" "m < B" "(2 :: int) ^ excess m dvd B"
  shows "0 \<le> round53 m \<and> round53 m \<le> B"
proof -
  let ?e = "excess m" let ?q = "m div 2 ^ ?e"
  obtain c where c: "B = 2 ^ ?e * c" using assms(3) unfolding dvd_def by blast
  have low: "0 \<le> ?q" using assms(1) by (simp add: pos_imp_zdiv_nonneg_iff)
  have "0 \<le> m mod 2 ^ ?e" by simp
  then have "?q * 2 ^ ?e \<le> m" using div_mult_mod_eq [of m "2 ^ ?e"] by linarith
  then have "?q * 2 ^ ?e < B" using assms(2) by linarith
  then have "?q * 2 ^ ?e < c * 2 ^ ?e" using c by (metis mult.commute)
  then have "?q < c" by (rule mult_right_less_imp_less) simp
  then have "(?q + 1) * 2 ^ ?e \<le> c * 2 ^ ?e" by (intro mult_right_mono) simp_all
  moreover have "?q * 2 ^ ?e \<le> (?q + 1) * 2 ^ ?e" by (intro mult_right_mono) simp_all
  ultimately have up: "(?q + 1) * 2 ^ ?e \<le> B" "?q * 2 ^ ?e \<le> B" using c by (simp_all add: mult.commute)
  show ?thesis using assms(1,2) low up by (auto simp: round53_def Let_def)
qed

lemma jitter_bounds:
  assumes "0 < base" "base \<le> retryMaxInterval" "k < 2 ^ 53"
  shows "0 \<le> jitter base k \<and> jitter base k \<le> base div 2"
proof -
  let ?m = "(base div 2) * int k" let ?B = "(base div 2) * 2 ^ 53"
  have half: "0 \<le> base div 2" "base div 2 < 2 ^ 40" using assms(1,2) by (simp_all add: retry_interval_values)
  have k: "0 \<le> int k" "int k < 2 ^ 53" using assms(3) by simp_all
  have m0: "0 \<le> ?m" using half(1) k(1) by simp
  show ?thesis
  proof (cases "base div 2 = 0")
    case True
    then show ?thesis by (simp add: jitter_def round53_def excess.simps)
  next
    case False
    then have less: "?m < ?B" using half(1) k(2) by (intro mult_strict_left_mono) simp_all
    have "?B < 2 ^ 40 * 2 ^ 53" using half(2) by (intro mult_strict_right_mono) simp_all
    then have "?m < 2 ^ 93" using less by simp
    then have "52 + excess ?m < 93 \<or> excess ?m = 0"
      using excess_lower [OF m0] by (metis le_less_trans not_gr_zero one_less_numeral_iff
        power_less_imp_less_exp semiring_norm(76))
    then have "excess ?m \<le> 53" by auto
    then have "(2 :: int) ^ excess ?m dvd 2 ^ 53" by (rule le_imp_power_dvd)
    then have "(2 :: int) ^ excess ?m dvd ?B" by simp
    then have "0 \<le> round53 ?m" "round53 ?m \<le> ?B" using round53_bounds [OF m0 less] by simp_all
    moreover from this(2) have "round53 ?m div 2 ^ 53 \<le> ?B div 2 ^ 53" by (intro zdiv_mono1) simp_all
    ultimately show ?thesis by (simp add: jitter_def pos_imp_zdiv_nonneg_iff)
  qed
qed

text \<open>
  C20: bounds of the back-off. For a random number in \<open>[0, 1)\<close> the back-off of attempt \<open>n\<close> is at least
  \<open>min (2m * 2 ^ (n - 1)) 30m\<close> and at most one and a half times that: from 2 to 45 minutes, for every
  32-bit count, also one that has wrapped.
\<close>

theorem retry_backoff_bounds:
  assumes "fst (RandFloat64 r (world s)) < 2 ^ 53" and "run_state (retryBackoff r n) s = (d, s')"
  shows "backoff_base n \<le> d \<and> 2 * d \<le> 3 * backoff_base n \<and> 2 * Minute \<le> d \<and> d \<le> 45 * Minute"
proof -
  obtain k w where kw: "RandFloat64 r (world s) = (k, w)" by (cases "RandFloat64 r (world s)")
  then have d: "d = backoff_base n + jitter (backoff_base n) k"
    using assms(2) by (simp add: retryBackoff_def Let_def backoff_base_loop ext_read_def)
  have range: "0 < backoff_base n" "backoff_base n \<le> retryMaxInterval" "2 * Minute \<le> backoff_base n"
    using backoff_base_range [of n] by (simp_all add: retry_interval_values Minute_def Second_def)
  have "k < 2 ^ 53" using assms(1) kw by simp
  from jitter_bounds [OF range(1,2) this]
  have "0 \<le> jitter (backoff_base n) k" "2 * jitter (backoff_base n) k \<le> backoff_base n" by linarith+
  with d range show ?thesis
    by (simp add: retry_interval_values Minute_def Second_def)
qed

lemma retry_backoff_bounds_witness:
  "2 * Minute \<le> fst (run_state (retryBackoff (sample_Reconciler zero_BasetenModel
      (sample_Client (sample_Environment None None) ('''', '''') [])) 7) (sample_State zero_BasetenModel))"
proof -
  let ?r = "sample_Reconciler zero_BasetenModel (sample_Client (sample_Environment None None) ('''', '''') [])"
  have "fst (RandFloat64 ?r (world (sample_State zero_BasetenModel))) < 2 ^ 53"
    by (simp add: sample_Reconciler_def)
  from retry_backoff_bounds [OF this, of 7] show ?thesis
    by (metis prod.collapse)
qed

section \<open>When a deployment is retried\<close>

text \<open>
  C22: retries stop at the deadline. When the first failure is more than two hours ago, a failed
  deployment is not retried: no call is made, one event is recorded, and the caller is told to give up.
\<close>

theorem retry_deadline:
  assumes "FirstDeploymentFailureTime (Status (obj s)) = Some t"
    and "time_Sub (fst (Now r (world s))) t > deploymentRetryDeadline"
  shows "fst (run_state (tryRetryDeployment r mid d n st) s) = (None, False) \<and>
    (\<exists>msg. new_effects (tryRetryDeployment r mid d n st) s = [Event EventTypeWarning EventDeploymentRetryExhausted msg]) \<and>
    obj (snd (run_state (tryRetryDeployment r mid d n st) s)) = obj s"
  using assms by (cases "Now r (world s)")
    (simp add: tryRetryDeployment_def first_failure_def model_def gets_def time_Now_def ext_read_def
      Eventf_def log_effect_def new_effects_def)

lemma retry_waits:
  assumes "FirstDeploymentFailureTime (Status (obj s)) = Some t" and "NextRetryTime (Status (obj s)) = Some nx"
    and "Now r (world s) = (t1, w1)" and "\<not> time_Sub t1 t > deploymentRetryDeadline"
    and "Now r w1 = (t2, w2)" and "t2 < nx" and "Now r w2 = (t3, w3)"
  shows "run_state (tryRetryDeployment r mid d n st) s =
    ((Some (requeue (time_Sub nx t3)), True), s\<lparr>world := w3\<rparr>)"
  using assms
  by (simp add: tryRetryDeployment_def first_failure_def backoff_remaining_def model_def gets_def time_Now_def
      ext_read_def)


text \<open>The last lookup did not show the deployment in a state that is not to be retried.\<close>

fun shows_retryable :: "string \<Rightarrow> string \<Rightarrow> effect \<Rightarrow> bool" where
  "shows_retryable mid n (Api (CFindDeploymentIDByName mid' n' (Inr (i, st)))) \<longleftrightarrow>
     mid' = mid \<and> n' = n \<and> (st = '''' \<or> IsRetryableFailure st)"
| "shows_retryable mid n (Api (CFindDeploymentIDByName mid' n' (Inl e))) \<longleftrightarrow> mid' = mid \<and> n' = n"
| "shows_retryable mid n _ \<longleftrightarrow> False"

definition is_retry :: "effect \<Rightarrow> bool" where
  "is_retry e \<longleftrightarrow> kind e = EkRetry"

fun retry_guard :: "string \<Rightarrow> effect list \<Rightarrow> effect \<Rightarrow> bool" where
  "retry_guard n h (Api (CRetryDeployment mid d ans)) \<longleftrightarrow>
     list_ex (shows_retryable mid n) h \<and> \<not> list_ex is_retry h"
| "retry_guard n h _ \<longleftrightarrow> True"

lemma retry_guard_other: "kind e \<in> {EkStatus, EkEvent} \<Longrightarrow> retry_guard n h e"
proof (cases e)
  case (Api c)
  then show "kind e \<in> {EkStatus, EkEvent} \<Longrightarrow> ?thesis" by (cases c) simp_all
qed simp_all

lemma retry_free:
  assumes "stays {EkStatus, EkEvent} m"
  shows "hwp (retry_guard n) m (\<lambda>_ _ _. True) s h"
  by (rule hwp_stays [OF assms]) (rule retry_guard_other)

lemma retry_free_bind:
  assumes "stays {EkStatus, EkEvent} m" and "\<not> list_ex is_retry h"
    and "\<And>a s' h'. \<not> list_ex is_retry h' \<Longrightarrow> hwp (retry_guard n) (f a) Q s' h'"
  shows "hwp (retry_guard n) (State_Monad.bind m f) Q s h"
  by (rule hwp_frame_bind [OF assms(1)], erule retry_guard_other, rule assms(3))
    (use assms(2) in \<open>auto simp: list_ex_iff is_retry_def\<close>)

text \<open>
  C21: a retry is checked and single. A failed deployment is retried only after a lookup of it by name
  in the same pass, which failed, knew no status or answered FAILED, DEPLOY_FAILED or BUILD_FAILED; and
  it is retried once.
\<close>

theorem retry_checked:
  "guarded (retry_guard n) (new_effects (tryRetryDeployment r mid d n st) s)"
proof (rule hwp_guarded)
  have first: "stays {EkStatus, EkEvent} (first_failure r)"
    unfolding first_failure_def by (intro emits_intro) auto
  have wait: "stays {EkStatus, EkEvent} (backoff_remaining r nx)" for nx
    unfolding backoff_remaining_def by (intro emits_intro)
  have found: "list_ex (shows_retryable mid n) (h @ [Api (CFindDeploymentIDByName mid n a)])"
    if "IsRetryableFailure (case a of Inl e \<Rightarrow> st | Inr (i, fresh) \<Rightarrow> if fresh \<noteq> '''' then fresh else st)" for a h
    using that by (cases a) (auto split: if_splits)
  show "hwp (retry_guard n) (tryRetryDeployment r mid d n st) (\<lambda>_ _ _. True) s []"
    unfolding tryRetryDeployment_def Let_def api_defs
  proof (rule retry_free_bind [OF first], simp, rule retry_free_bind [OF emits_time_Now], assumption, rule hwp_if,
      goal_cases)
    case (1 t s1 h1 now s2 h2)
    show ?case by (rule retry_free) (intro emits_intro; simp)
  next
    case (2 t s1 h1 now s2 h2)
    show ?case
    proof (rule hwp_model, rule retry_free_bind [OF wait 2(2)], intro hwp_option hwp_true_return hwp_ext_call conjI hwp_if,
        simp, goal_cases)
      case (1 w s3 h3 a w3)
      then show ?case using found by (simp add: is_retry_def)
    next
      case (2 w s3 h3 a w3 b w4)
      show ?case by (rule retry_free) (intro emits_intro stays_intro; simp)
    qed
  qed
qed

abbreviation plain_sample :: "time BasetenModelReconciler" where
  "plain_sample \<equiv> sample_Reconciler zero_BasetenModel (sample_Client (sample_Environment None None) ('''', '''') [])"

definition failing_State :: "time \<Rightarrow> time rstate" where
  "failing_State now = (sample_State (zero_BasetenModel\<lparr>Status := zero_BasetenModelStatus
     \<lparr>FirstDeploymentFailureTime := Some 0, NextRetryTime := Some (2 * Minute)\<rparr>\<rparr>))\<lparr>world := now\<rparr>"

lemma failing_State_simps [simp]:
  "FirstDeploymentFailureTime (Status (obj (failing_State now))) = Some 0"
  "NextRetryTime (Status (obj (failing_State now))) = Some (2 * Minute)"
  "world (failing_State now) = now" "Now plain_sample w = (w, w)"
  by (simp_all add: failing_State_def sample_State_def sample_Reconciler_def)

lemma retry_deadline_witness:
  "fst (run_state (tryRetryDeployment plain_sample ''mid'' ''d1'' ''v1'' DeploymentStatusFailed)
     (failing_State (3 * Hour))) = (None, False)"
  by (rule retry_deadline [THEN conjunct1])
    (simp add: time_Sub_def deploymentRetryDeadline_def Hour_def Minute_def Second_def)+


section \<open>The next pass is scheduled\<close>

text \<open>
  A result that leads to another pass without a new event of the resource: an error (the work queue
  backs off and runs the resource again) or a positive delay.
\<close>

definition live :: "Result \<times> go_error option \<Rightarrow> bool" where
  "live res \<longleftrightarrow> snd res \<noteq> None \<or> 0 < RequeueAfter (fst res)"

definition live_step :: "'a \<times> Result option \<times> go_error option \<Rightarrow> bool" where
  "live_step res \<longleftrightarrow> (case res of (x, result, err) \<Rightarrow>
     err = None \<longrightarrow> (\<forall>rs. result = Some rs \<longrightarrow> 0 < RequeueAfter rs))"

lemma live_simps [simp]:
  "live (res, err) \<longleftrightarrow> err \<noteq> None \<or> 0 < RequeueAfter res"
  "live_step (x, result, err) \<longleftrightarrow> (err = None \<longrightarrow> (\<forall>rs. result = Some rs \<longrightarrow> 0 < RequeueAfter rs))"
  by (simp_all add: live_def live_step_def)

lemma second_positive [simp]: "0 < Second" "0 < Minute"
  by (simp_all add: Second_def Minute_def)

text \<open>The clock shows one time during the pass.\<close>

definition clock_still :: "'w BasetenModelReconciler \<Rightarrow> bool" where
  "clock_still r \<longleftrightarrow> (\<exists>t. \<forall>w. fst (Now r w) = t)"

lemma answers_time_Now: "(\<forall>w. fst (Now r w) = t) \<Longrightarrow> answers (\<lambda>now. now = t) (time_Now r)"
  by (auto simp: answers_def time_Now_def ext_read_def split: prod.splits) (metis fst_conv)

lemma time_Sub_positive: "now < nx \<Longrightarrow> 0 < time_Sub nx now"
  by (simp add: time_Sub_def)

lemma backoff_remaining_positive:
  assumes "clock_still r"
  shows "answers (\<lambda>x. \<forall>d. x = Some d \<longrightarrow> 0 < d) (backoff_remaining r nx)"
proof -
  obtain t where t: "\<forall>w. fst (Now r w) = t" using assms by (auto simp: clock_still_def)
  show ?thesis
    unfolding backoff_remaining_def
    by (intro answers_option answers_bind_with [OF answers_time_Now [OF t]] answers_if answers_return)
      (auto simp: time_Sub_positive)
qed

lemma tryRetry_live:
  assumes "clock_still r"
  shows "answers (\<lambda>(result, again). again \<longrightarrow> (\<exists>rs. result = Some rs \<and> 0 < RequeueAfter rs))
    (tryRetryDeployment r mid d n st)"
  unfolding tryRetryDeployment_def Let_def
  by (intro answers_intro answers_bind_with [OF backoff_remaining_positive [OF assms]]) auto

lemma truss_backoff_live:
  assumes "clock_still r"
  shows "answers (\<lambda>x. \<forall>y. x = Some y \<longrightarrow> live_step y) (truss_backoff r mid ap n)"
proof -
  obtain t where t: "\<forall>w. fst (Now r w) = t" using assms by (auto simp: clock_still_def)
  show ?thesis
    unfolding truss_backoff_def
    by (intro answers_intro answers_bind_with [OF answers_time_Now [OF t]]) (auto simp: time_Sub_positive)
qed

lemma truss_steps_live:
  "answers (\<lambda>x. \<forall>y. x = Some y \<longrightarrow> live_step y) (truss_existing r mid ap h n)"
  "answers (\<lambda>x. \<forall>y. x = Some y \<longrightarrow> live_step y) (truss_in_flight r mid ap n)"
  "answers live_step (truss_launch r mid ap h n y sc)"
  unfolding truss_existing_def truss_in_flight_def truss_launch_def by (intro answers_intro; simp)+

lemma resolveSourceDeployment_live:
  assumes "clock_still r"
  shows "answers live_step (resolveSourceDeployment r mid)"
proof -
  have existing: "answers (\<lambda>x. \<forall>y. x = Some y \<longrightarrow> live_step y)
      (if mid \<noteq> '''' then truss_existing r mid ap h n else ret None)" for ap h n
    by (intro answers_if truss_steps_live(1) answers_return) simp
  show ?thesis
    unfolding resolveSourceDeployment_def reconcileTrussDeployment_def truss_push_def Let_def
    by (intro answers_bind_with [OF existing] answers_bind_with [OF truss_steps_live(2)]
        answers_bind_with [OF truss_backoff_live [OF assms]] truss_steps_live(3) answers_intro) auto
qed

lemma resolveModelID_live: "answers live_step (resolveModelID r)"
  unfolding resolveModelID_def model_not_found_def Let_def by (intro answers_intro) simp_all

lemma reconcileEnvironment_live: "answers live_step (reconcileEnvironment r mid envName)"
  unfolding reconcileEnvironment_def create_environment_def fix_drift_def Let_def by (intro answers_intro) simp_all

lemma return_step_live: "live_step (x, result, err) \<Longrightarrow> answers live (return_step r result err)"
  unfolding return_step_def return_result_def by (intro answers_intro) (auto split: option.splits)

lemma validate_live:
  assumes "clock_still r"
  shows "answers live_step (validateSourceDeployment r mid src cur)"
  unfolding validateSourceDeployment_def source_missing_def source_switch_def source_failed_def
    source_inactive_def source_waiting_def Let_def
  by (intro answers_intro answers_bind_with [OF tryRetry_live [OF assms]]) auto

lemma checkDoublePromoteGuard_live:
  "answers (\<lambda>x. \<forall>res. x = Some res \<longrightarrow> 0 < RequeueAfter res) (checkDoublePromoteGuard r env mid src)"
  unfolding checkDoublePromoteGuard_def Let_def by (intro answers_intro) simp_all

lemma promote_source_live: "answers live (promote_source r env mid envName sid src)"
  unfolding promote_source_def promotion_failed_def promotion_succeeded_def return_step_def return_result_def
  by (intro answers_intro) simp_all

lemma start_promotion_live:
  assumes "clock_still r"
  shows "answers live (start_promotion r mid envName env src)"
  unfolding start_promotion_def
  by (rule answers_bind_with [OF checkDoublePromoteGuard_live],
      intro answers_option answers_return answers_bind_with [OF validate_live [OF assms]] answers_prod answers_if
        promote_source_live return_step_live) auto

lemma candidate_failure_live:
  assumes "clock_still r"
  shows "answers live (handleCandidateFailure r mid cur cand su)"
proof -
  have tried: "answers (\<lambda>(result, again). again \<longrightarrow> (\<exists>rs. result = Some rs \<and> 0 < RequeueAfter rs))
      (if c \<noteq> '''' then tryRetryDeployment r mid c n st else ret (None, False))" for c n st
    by (intro answers_if tryRetry_live assms answers_return) simp
  show ?thesis
    unfolding handleCandidateFailure_def Let_def
    by (intro answers_if answers_bind_with [OF tried] answers_intro) auto
qed

lemma reconcile_environment_state_live:
  assumes "clock_still r"
  shows "answers live (reconcile_environment_state r mid envName env src)"
  unfolding reconcile_environment_state_def reactivate_current_def steady_state_def promotion_running_def Let_def
  by (intro answers_prod answers_if answers_bind answers_option answers_return candidate_failure_live
      start_promotion_live assms) simp_all

lemma reconcile_model_live:
  assumes "clock_still r"
  shows "answers live (reconcile_model r)"
proof -
  have environment: "answers live (State_Monad.bind (reconcileEnvironment r mid envName)
      (\<lambda>(x, result, err). if err \<noteq> None \<or> result \<noteq> None then return_step r result err
        else case x of None \<Rightarrow> ret (return_result None None)
          | Some env \<Rightarrow> reconcile_environment_state r mid envName env src))" for mid envName src
    by (rule answers_bind_with [OF reconcileEnvironment_live])
      (auto intro!: answers_prod answers_if answers_option answers_return return_step_live
        reconcile_environment_state_live [OF assms] simp: return_result_def)
  have source: "answers live (State_Monad.bind (resolveSourceDeployment r mid)
      (\<lambda>(src, result, err). if err \<noteq> None \<or> result \<noteq> None then return_step r result err
        else if mid = '''' then ret (requeue (10 * Second), None)
        else State_Monad.bind (reconcileEnvironment r mid envName)
          (\<lambda>(x, result, err). if err \<noteq> None \<or> result \<noteq> None then return_step r result err
            else case x of None \<Rightarrow> ret (return_result None None)
              | Some env \<Rightarrow> reconcile_environment_state r mid envName env src)))" for mid envName
    by (rule answers_bind_with [OF resolveSourceDeployment_live [OF assms]])
      (auto intro!: answers_prod answers_if answers_return return_step_live environment)
  show ?thesis
    unfolding reconcile_model_def Let_def
    by (rule answers_bind_with [OF resolveModelID_live])
      (auto intro!: answers_prod answers_if answers_return answers_bind source
        simp: return_result_def split: option.splits)
qed

lemma reconcileObserve_live: "answers live (reconcileObserve r)"
  unfolding reconcileObserve_def observe_failed_def observe_environment_def Let_def
  by (intro answers_intro) simp_all

text \<open>Past the read and the prelude.\<close>

lemma object_passes:
  assumes "\<not> deletion_requested (obj s)" and "effectiveMode (obj s) \<noteq> ModePause"
    and "u_AddFinalizer r (bm_Finalizers (obj s)) FinalizerName = (fs, False)"
  shows "run_state (reconcile_object r) s = run_state (if effectiveMode (obj s) = ModeObserve
    then reconcileObserve r else reconcile_model r) (with_finalizers fs s)"
proof -
  have "run_state (reconcileLifecycle r) s = ((False, no_requeue, None), with_finalizers fs s)"
    using assms by (simp add: reconcileLifecycle_def model_def gets_def modify_obj_def modify_def with_finalizers_def)
  then show ?thesis by (simp add: reconcile_object_def model_def gets_def)
qed

lemma Reconcile_read:
  assumes "fst (k_Get r name ns (world s)) = Inr m"
  shows "\<exists>s'. obj s' = m \<and> run_state (Reconcile r name ns) s = run_state (reconcile_object r) s'"
proof -
  obtain w where "k_Get r name ns (world s) = (Inr m, w)"
    using assms by (cases "k_Get r name ns (world s)") auto
  then have "run_state (Reconcile r name ns) s =
      run_state (reconcile_object r) (s\<lparr>world := w, trace := trace s @ [KGet name ns (Inr m)], obj := m\<rparr>)"
    by (simp add: Reconcile_def K_Get_def ext_call_def modify_obj_def modify_def)
  then show ?thesis by (intro exI [of _ "s\<lparr>world := w, trace := trace s @ [KGet name ns (Inr m)], obj := m\<rparr>"]) simp
qed


definition sample_still :: "time BasetenModelReconciler" where
  "sample_still = (sample_Reconciler (sample_Model ModeReconcile '''') (sample_Client (sample_Environment
    (Some (sample_Deployment ''d1'' ''v1'' DeploymentStatusActive)) None) (''d2'', DeploymentStatusActive) []))
    \<lparr>Now := \<lambda>w. (0, w)\<rparr>"



end
