(* ===== verification/Status_Props.thy ===== *)
theory Status_Props
  imports Retry_Props
begin

text \<open>
  The status that the operator writes: the conditions, readiness, when a write is skipped, and the
  cached model id.
\<close>

section \<open>Conditions\<close>

definition cond_of :: "string \<Rightarrow> Condition list \<Rightarrow> Condition option" where
  "cond_of typ cs = List.find (\<lambda>c. c_Type c = typ) cs"

lemma cond_of_simps [simp]:
  "cond_of typ [] = None"
  "cond_of typ (c # cs) = (if c_Type c = typ then Some c else cond_of typ cs)"
  by (simp_all add: cond_of_def)

text \<open>What \<open>setCondition\<close> computes, with the time \<open>now\<close> at hand.\<close>

fun set_condition :: "time \<Rightarrow> Condition list \<Rightarrow> Condition \<Rightarrow> Condition list" where
  "set_condition now [] c = [c\<lparr>c_LastTransitionTime := now\<rparr>]"
| "set_condition now (x # xs) c =
     (if c_Type x = c_Type c
      then c\<lparr>c_LastTransitionTime := (if c_Status x = c_Status c then c_LastTransitionTime x else now)\<rparr> # xs
      else x # set_condition now xs c)"

lemma setCondition_computes:
  "run_state (setCondition r cs c) s = (cs', s') \<Longrightarrow>
     cs' = set_condition (fst (Now r (world s))) cs c \<and> obj s' = obj s \<and> trace s' = trace s"
proof (induction r cs c arbitrary: cs' s' rule: setCondition.induct)
  case (1 r c)
  then show ?case by (auto simp: time_Now_def ext_read_def split: prod.splits)
next
  case (2 r x xs c)
  then show ?case
    by (cases "run_state (setCondition r xs c) s")
      (auto simp: time_Now_def ext_read_def split: prod.splits if_splits)
qed

lemma set_condition_same: "cond_of (c_Type c) (set_condition now cs c) = Some (c\<lparr>c_LastTransitionTime :=
    (case cond_of (c_Type c) cs of
       Some old \<Rightarrow> if c_Status old = c_Status c then c_LastTransitionTime old else now
     | None \<Rightarrow> now)\<rparr>)"
  by (induction cs) auto

lemma set_condition_other: "typ \<noteq> c_Type c \<Longrightarrow> cond_of typ (set_condition now cs c) = cond_of typ cs"
  by (induction cs) auto

lemma set_condition_types:
  "map c_Type (set_condition now cs c) =
     (if c_Type c \<in> set (map c_Type cs) then map c_Type cs else map c_Type cs @ [c_Type c])"
  by (induction cs) auto

text \<open>
  C28: the laws of \<open>setCondition\<close>. The condition of the type that is set is the new one, with the
  transition time of the old one when the status did not change and the current time otherwise; the
  conditions of all other types are as before; and no type occurs twice when none did before.
\<close>

theorem setCondition_laws:
  assumes "run_state (setCondition r cs c) s = (cs', s')"
  shows "cond_of (c_Type c) cs' = Some (c\<lparr>c_LastTransitionTime :=
      (case cond_of (c_Type c) cs of
         Some old \<Rightarrow> if c_Status old = c_Status c then c_LastTransitionTime old else fst (Now r (world s))
       | None \<Rightarrow> fst (Now r (world s)))\<rparr>) \<and>
    (\<forall>typ. typ \<noteq> c_Type c \<longrightarrow> cond_of typ cs' = cond_of typ cs) \<and>
    (distinct (map c_Type cs) \<longrightarrow> distinct (map c_Type cs'))"
proof -
  have cs': "cs' = set_condition (fst (Now r (world s))) cs c"
    using setCondition_computes [OF assms] by simp
  show ?thesis
    by (auto simp: cs' set_condition_same set_condition_other set_condition_types)
qed

section \<open>updateStatus\<close>

text \<open>The status before the conditions are set, and the two conditions.\<close>

definition ready_condition :: "int \<Rightarrow> statusUpdate \<Rightarrow> Condition" where
  "ready_condition gen su = make_condition conditionReady (healthy (su_deploymentStatus su)) gen
     (su_deploymentStatus su) (su_message su)"

definition progressing_condition :: "int \<Rightarrow> statusUpdate \<Rightarrow> Condition" where
  "progressing_condition gen su = make_condition conditionProgressing (isProgressingStatus (su_deploymentStatus su))
     gen (su_deploymentStatus su) (su_message su)"

lemma condition_fields [simp]:
  "c_Type (ready_condition gen su) = conditionReady"
  "c_Type (progressing_condition gen su) = conditionProgressing"
  "c_Status (ready_condition gen su) = (if healthy (su_deploymentStatus su) then ConditionTrue else ConditionFalse)"
  "c_Status (progressing_condition gen su) =
     (if isProgressingStatus (su_deploymentStatus su) then ConditionTrue else ConditionFalse)"
  "c_Reason (ready_condition gen su) = su_deploymentStatus su"
  "c_Reason (progressing_condition gen su) = su_deploymentStatus su"
  by (simp_all add: ready_condition_def progressing_condition_def make_condition_def)

text \<open>The status fields that an update sets, apart from the conditions.\<close>

definition status_fields :: "statusUpdate \<Rightarrow> time \<Rightarrow> BasetenModelStatus \<Rightarrow> BasetenModelStatus" where
  "status_fields su now st =
     apply_names su
       ((if su_modelID su \<noteq> '''' then (\<lambda>st. st\<lparr>ModelID := su_modelID su, ModelIDResolvedTime := Some now\<rparr>) else id)
        (st\<lparr>DeploymentStatus := su_deploymentStatus su, Message := su_message su,
            ActiveReplicaCount := su_replicaCount su\<rparr>))"

text \<open>
  The abstract step: the new status with both conditions set, for some clock readings, and a write
  exactly when the snapshot or a condition differs.
\<close>

definition updated_status :: "statusUpdate \<Rightarrow> int \<Rightarrow> time \<times> time \<times> time \<Rightarrow> BasetenModelStatus \<Rightarrow> BasetenModelStatus" where
  "updated_status su gen ts st = (case ts of (t1, t2, t3) \<Rightarrow>
     (let st1 = status_fields su t1 st in
      st1\<lparr>Conditions := set_condition t3 (set_condition t2 (Conditions st1) (ready_condition gen su))
        (progressing_condition gen su)\<rparr>))"

lemma apply_names_conditions [simp]: "Conditions (apply_names su st) = Conditions st"
  by (simp add: apply_names_def Let_def)

lemma status_fields_conditions [simp]: "Conditions (status_fields su now st) = Conditions st"
  by (simp add: status_fields_def)

lemma setCondition_run:
  "\<exists>w. run_state (setCondition r cs c) s = (set_condition (fst (Now r (world s))) cs c, s\<lparr>world := w\<rparr>)"
proof (induction r cs c rule: setCondition.induct)
  case (1 r c)
  then show ?case by (auto simp: time_Now_def ext_read_def split: prod.splits)
next
  case (2 r x xs c)
  show ?case
  proof (cases "c_Type x = c_Type c")
    case True
    have "\<exists>w. s = s\<lparr>world := w\<rparr>" by (rule exI [of _ "world s"]) simp
    with True show ?thesis by (auto simp: time_Now_def ext_read_def split: prod.splits)
  next
    case False
    with 2 show ?thesis by auto
  qed
qed

definition update_skipped :: "statusUpdate \<Rightarrow> BasetenModelStatus \<Rightarrow> BasetenModelStatus \<Rightarrow> bool" where
  "update_skipped su st st' \<longleftrightarrow> take_snapshot st' = take_snapshot st \<and>
     \<not> conditionsChanged (Conditions st') (su_deploymentStatus su)
       (if healthy (su_deploymentStatus su) then ConditionTrue else ConditionFalse)
       (if isProgressingStatus (su_deploymentStatus su) then ConditionTrue else ConditionFalse)"

lemma updateStatus_run:
  "\<exists>ts w. run_state (updateStatus r su) s =
     (let st' = updated_status su (bm_Generation (obj s)) ts (Status (obj s));
          s' = s\<lparr>world := w, obj := (obj s)\<lparr>Status := st'\<rparr>\<rparr>
      in if update_skipped su (Status (obj s)) st' then (None, s') else run_state (Status_Update r) s')"
proof -
  obtain t1 w1 where now: "Now r (world s) = (t1, w1)" by (cases "Now r (world s)")
  define w1' where "w1' = (if su_modelID su \<noteq> '''' then w1 else world s)"
  let ?st = "status_fields su t1 (Status (obj s))"
  let ?s1 = "s\<lparr>world := w1', obj := (obj s)\<lparr>Status := ?st\<rparr>\<rparr>"
  let ?gen = "bm_Generation (obj s)"
  obtain w2 where 2: "run_state (setCondition r (Conditions ?st) (ready_condition ?gen su)) ?s1 =
      (set_condition (fst (Now r w1')) (Conditions ?st) (ready_condition ?gen su), ?s1\<lparr>world := w2\<rparr>)"
    using setCondition_run [of r "Conditions ?st" "ready_condition ?gen su" ?s1] by auto
  let ?cs = "set_condition (fst (Now r w1')) (Conditions ?st) (ready_condition ?gen su)"
  obtain w3 where 3: "run_state (setCondition r ?cs (progressing_condition ?gen su)) (?s1\<lparr>world := w2\<rparr>) =
      (set_condition (fst (Now r w2)) ?cs (progressing_condition ?gen su), ?s1\<lparr>world := w3\<rparr>)"
    using setCondition_run [of r ?cs "progressing_condition ?gen su" "?s1\<lparr>world := w2\<rparr>"] by auto
  note runs = model_def gets_def modify_status_def modify_obj_def modify_def time_Now_def ext_read_def
  show ?thesis
    using now 2 3
    by (intro exI [of _ "(t1, fst (Now r w1'), fst (Now r w2))"] exI [of _ w3])
      (auto simp: updateStatus_def runs Let_def updated_status_def update_skipped_def status_fields_def w1'_def
        ready_condition_def progressing_condition_def)
qed

lemma updateStatus_effects:
  "\<exists>ts. let st' = updated_status su (bm_Generation (obj s)) ts (Status (obj s)) in
     if update_skipped su (Status (obj s)) st' then new_effects (updateStatus r su) s = []
     else \<exists>e. new_effects (updateStatus r su) s = [KStatusUpdate ((obj s)\<lparr>Status := st'\<rparr>) e]"
proof -
  obtain ts w where run: "run_state (updateStatus r su) s =
     (let st' = updated_status su (bm_Generation (obj s)) ts (Status (obj s));
          s' = s\<lparr>world := w, obj := (obj s)\<lparr>Status := st'\<rparr>\<rparr>
      in if update_skipped su (Status (obj s)) st' then (None, s') else run_state (Status_Update r) s')"
    using updateStatus_run [of r su s] by (elim exE) (rule that)
  show ?thesis
    by (rule exI [of _ ts]) (auto simp: new_effects_def run Let_def Status_Update_def split: prod.splits)
qed

lemma healthy_not_progressing: "healthy st \<Longrightarrow> \<not> isProgressingStatus st"
  by (auto simp: healthy_def isProgressingStatus_def status_defs deployment_status_defs)

lemma apply_names_fields [simp]:
  "DeploymentStatus (apply_names su st) = DeploymentStatus st"
  "Message (apply_names su st) = Message st"
  "ModelID (apply_names su st) = ModelID st"
  "ActiveReplicaCount (apply_names su st) = ActiveReplicaCount st"
  "ModelIDResolvedTime (apply_names su st) = ModelIDResolvedTime st"
  by (simp_all add: apply_names_def Let_def)

lemma apply_names_healthy:
  "healthy (su_deploymentStatus su) \<Longrightarrow> FirstDeploymentFailureTime (apply_names su st) = None"
  "healthy (su_deploymentStatus su) \<Longrightarrow> DeploymentRetryCount (apply_names su st) = 0"
  "healthy (su_deploymentStatus su) \<Longrightarrow> NextRetryTime (apply_names su st) = None"
  by (simp_all add: apply_names_def Let_def)

lemma updated_status_fields:
  assumes "st' = updated_status su gen ts st"
  shows "DeploymentStatus st' = su_deploymentStatus su" "Message st' = su_message su"
    "ActiveReplicaCount st' = su_replicaCount su"
    "ModelID st' = (if su_modelID su \<noteq> '''' then su_modelID su else ModelID st)"
    "healthy (su_deploymentStatus su) \<Longrightarrow>
       FirstDeploymentFailureTime st' = None \<and> DeploymentRetryCount st' = 0 \<and> NextRetryTime st' = None"
proof -
  obtain t1 t2 t3 where ts: "ts = (t1, t2, t3)" by (cases ts)
  show "DeploymentStatus st' = su_deploymentStatus su" "Message st' = su_message su"
    "ActiveReplicaCount st' = su_replicaCount su"
    "ModelID st' = (if su_modelID su \<noteq> '''' then su_modelID su else ModelID st)"
    by (simp_all add: assms ts updated_status_def Let_def status_fields_def)
  show "healthy (su_deploymentStatus su) \<Longrightarrow>
       FirstDeploymentFailureTime st' = None \<and> DeploymentRetryCount st' = 0 \<and> NextRetryTime st' = None"
    by (simp add: assms ts updated_status_def Let_def status_fields_def apply_names_healthy)
qed

lemma updated_status_conditions:
  assumes "st' = updated_status su gen ts st"
  shows "map_option c_Status (cond_of conditionReady (Conditions st')) =
      Some (if healthy (su_deploymentStatus su) then ConditionTrue else ConditionFalse)"
    "map_option c_Status (cond_of conditionProgressing (Conditions st')) =
      Some (if isProgressingStatus (su_deploymentStatus su) then ConditionTrue else ConditionFalse)"
    "map_option c_Reason (cond_of conditionReady (Conditions st')) = Some (su_deploymentStatus su)"
    "map_option c_Reason (cond_of conditionProgressing (Conditions st')) = Some (su_deploymentStatus su)"
proof -
  obtain t1 t2 t3 where ts: "ts = (t1, t2, t3)" by (cases ts)
  let ?cs = "set_condition t2 (Conditions st) (ready_condition gen su)"
  have cs: "Conditions st' = set_condition t3 ?cs (progressing_condition gen su)"
    using assms by (simp add: updated_status_def ts Let_def)
  have ready: "cond_of conditionReady (Conditions st') = cond_of conditionReady ?cs"
    unfolding cs by (rule set_condition_other) simp
  note same = set_condition_same [of "ready_condition gen su" t2 "Conditions st"]
    set_condition_same [of "progressing_condition gen su" t3 ?cs]
  show "map_option c_Status (cond_of conditionReady (Conditions st')) =
      Some (if healthy (su_deploymentStatus su) then ConditionTrue else ConditionFalse)"
    "map_option c_Reason (cond_of conditionReady (Conditions st')) = Some (su_deploymentStatus su)"
    using same(1) by (simp_all add: ready)
  show "map_option c_Status (cond_of conditionProgressing (Conditions st')) =
      Some (if isProgressingStatus (su_deploymentStatus su) then ConditionTrue else ConditionFalse)"
    "map_option c_Reason (cond_of conditionProgressing (Conditions st')) = Some (su_deploymentStatus su)"
    using same(2) by (simp_all add: cs)
qed

text \<open>
  C26: the status written tells the truth about readiness. Every status that \<open>updateStatus\<close> writes has
  the status and message of the update; its Ready condition is true exactly for ACTIVE and
  SCALED_TO_ZERO, its Progressing condition exactly for the progressing statuses, never both, both with
  the status as reason; and a healthy status clears the tracking of retries.
\<close>

theorem status_written:
  assumes "KStatusUpdate ob e \<in> set (new_effects (updateStatus r su) s)"
  shows "DeploymentStatus (Status ob) = su_deploymentStatus su \<and> Message (Status ob) = su_message su \<and>
    (map_option c_Status (cond_of conditionReady (Conditions (Status ob))) = Some ConditionTrue \<longleftrightarrow>
      healthy (su_deploymentStatus su)) \<and>
    (map_option c_Status (cond_of conditionProgressing (Conditions (Status ob))) = Some ConditionTrue \<longleftrightarrow>
      isProgressingStatus (su_deploymentStatus su)) \<and>
    \<not> (healthy (su_deploymentStatus su) \<and> isProgressingStatus (su_deploymentStatus su)) \<and>
    map_option c_Reason (cond_of conditionReady (Conditions (Status ob))) = Some (su_deploymentStatus su) \<and>
    (healthy (su_deploymentStatus su) \<longrightarrow> FirstDeploymentFailureTime (Status ob) = None \<and>
      DeploymentRetryCount (Status ob) = 0 \<and> NextRetryTime (Status ob) = None)"
proof -
  obtain ts where ts: "Status ob = updated_status su (bm_Generation (obj s)) ts (Status (obj s))"
    using updateStatus_effects [of su s r] assms by (auto simp: Let_def split: if_splits)
  show ?thesis
    using updated_status_fields [OF ts] updated_status_conditions [OF ts] healthy_not_progressing
    by (auto split: if_splits)
qed

section \<open>When a write is skipped\<close>

lemma conditionsChanged_iff:
  "conditionsChanged cs reason rs ps \<longleftrightarrow> (\<exists>c \<in> set cs.
     (c_Type c = conditionReady \<and> (c_Status c \<noteq> rs \<or> c_Reason c \<noteq> reason)) \<or>
     (c_Type c = conditionProgressing \<and> (c_Status c \<noteq> ps \<or> c_Reason c \<noteq> reason)))"
  by (induction cs) auto

lemma cond_of_distinct: "distinct (map c_Type cs) \<Longrightarrow> c \<in> set cs \<Longrightarrow> cond_of (c_Type c) cs = Some c"
  by (induction cs) auto

lemma conditions_never_changed:
  assumes "distinct (map c_Type (Conditions st))" and "st' = updated_status su gen ts st"
  shows "\<not> conditionsChanged (Conditions st') (su_deploymentStatus su)
    (if healthy (su_deploymentStatus su) then ConditionTrue else ConditionFalse)
    (if isProgressingStatus (su_deploymentStatus su) then ConditionTrue else ConditionFalse)"
proof -
  have dist: "distinct (map c_Type (Conditions st'))"
    using assms by (cases ts) (auto simp: updated_status_def Let_def set_condition_types)
  show ?thesis
    unfolding conditionsChanged_iff
  proof (intro notI, elim bexE disjE conjE)
    fix c assume "c \<in> set (Conditions st')"
    then have c: "cond_of (c_Type c) (Conditions st') = Some c" by (rule cond_of_distinct [OF dist])
    note facts = updated_status_conditions [OF assms(2)]
    show False if "c_Type c = conditionReady" "c_Status c \<noteq> (if healthy (su_deploymentStatus su)
        then ConditionTrue else ConditionFalse)" using facts(1) c that by auto
    show False if "c_Type c = conditionReady" "c_Reason c \<noteq> su_deploymentStatus su"
      using facts(3) c that by auto
    show False if "c_Type c = conditionProgressing" "c_Status c \<noteq> (if isProgressingStatus (su_deploymentStatus su)
        then ConditionTrue else ConditionFalse)" using facts(2) c that by auto
    show False if "c_Type c = conditionProgressing" "c_Reason c \<noteq> su_deploymentStatus su"
      using facts(4) c that by auto
  qed
qed

lemma updated_snapshot:
  "take_snapshot (updated_status su gen ts st) = take_snapshot (status_fields su 0 st)"
  by (cases ts) (auto simp: updated_status_def status_fields_def apply_names_def take_snapshot_def Let_def)

lemma skip_iff:
  assumes "distinct (map c_Type (Conditions (Status (obj s))))"
  shows "new_effects (updateStatus r su) s = [] \<longleftrightarrow>
    take_snapshot (status_fields su 0 (Status (obj s))) = take_snapshot (Status (obj s))"
proof -
  let ?st' = "\<lambda>ts. updated_status su (bm_Generation (obj s)) ts (Status (obj s))"
  obtain ts where ts: "if update_skipped su (Status (obj s)) (?st' ts) then new_effects (updateStatus r su) s = []
     else \<exists>e. new_effects (updateStatus r su) s = [KStatusUpdate ((obj s)\<lparr>Status := ?st' ts\<rparr>) e]"
    using updateStatus_effects [of su s r] by (auto simp: Let_def)
  have "update_skipped su (Status (obj s)) (?st' ts) \<longleftrightarrow>
      take_snapshot (status_fields su 0 (Status (obj s))) = take_snapshot (Status (obj s))"
    using conditions_never_changed [OF assms refl] by (simp add: update_skipped_def updated_snapshot)
  with ts show ?thesis by (auto split: if_splits)
qed

text \<open>
  C27: a status is written exactly when the snapshot changes. The test of the conditions in
  \<open>updateStatus\<close> comes after they have been set and never holds: with no type of condition twice, an
  update is skipped if and only if the ten fields of the snapshot stay the same, whatever the stored
  conditions say.
\<close>

theorem write_skipped_iff_snapshot_same:
  assumes "distinct (map c_Type (Conditions (Status (obj s))))"
  shows "new_effects (updateStatus r su) s = [] \<longleftrightarrow>
    take_snapshot (status_fields su 0 (Status (obj s))) = take_snapshot (Status (obj s))"
  by (rule skip_iff [OF assms])

text \<open>A status that an operator without conditions has left: the snapshot is up to date, no conditions.\<close>

definition status_without_conditions :: BasetenModelStatus where
  "status_without_conditions = zero_BasetenModelStatus\<lparr>DeploymentStatus := DeploymentStatusActive,
     Message := ''up'', ModelID := ''mid'', ModelIDResolvedTime := Some 0\<rparr>"

text \<open>
  Missing conditions stay missing. For a resource whose status fields are up to date but that has no
  conditions at all, an update with the same status, message and model id writes nothing, so that the
  Ready and Progressing conditions do not appear in the API server.
\<close>

theorem missing_conditions_not_written:
  "new_effects (updateStatus r (status_update DeploymentStatusActive ''up'' ''mid''))
     (s\<lparr>obj := m\<lparr>Status := status_without_conditions\<rparr>\<rparr>) = []"
  by (subst skip_iff)
    (simp_all add: status_fields_def apply_names_def status_update_def status_without_conditions_def
      take_snapshot_def zero_BasetenModelStatus_def Let_def)

section \<open>Witnesses\<close>

definition sample_update :: statusUpdate where
  "sample_update = status_update DeploymentStatusActive ''up'' ''mid''"

definition old_condition :: Condition where
  "old_condition = \<lparr>c_Type = conditionReady, c_Status = ConditionFalse, c_ObservedGeneration = 1,
     c_LastTransitionTime = 7, c_Reason = ''FAILED'', c_Message = ''''\<rparr>"

lemma setCondition_laws_witness:
  "cond_of conditionReady (fst (run_state (setCondition plain_sample [old_condition] (ready_condition 1 sample_update))
     (sample_State zero_BasetenModel))) = Some ((ready_condition 1 sample_update)\<lparr>c_LastTransitionTime := 0\<rparr>)"
proof -
  let ?run = "run_state (setCondition plain_sample [old_condition] (ready_condition 1 sample_update))
    (sample_State zero_BasetenModel)"
  have run: "?run = (fst ?run, snd ?run)" by simp
  have now: "fst (Now plain_sample (world (sample_State zero_BasetenModel))) = 0"
    by (simp add: sample_Reconciler_def sample_State_def)
  have changed: "cond_of conditionReady [old_condition] = Some old_condition"
      "c_Status old_condition \<noteq> c_Status (ready_condition 1 sample_update)"
    by (simp_all add: old_condition_def sample_update_def status_update_def healthy_def)
  show ?thesis
    using conjunct1 [OF setCondition_laws [OF run]] changed now
    unfolding condition_fields(1) by (simp del: setCondition.simps cond_of_simps condition_fields(3))
qed

lemma sample_update_effects:
  "map kind (new_effects (updateStatus plain_sample sample_update) (sample_State zero_BasetenModel)) = [EkStatus]"
  by code_simp

lemma status_written_witness:
  "\<exists>ob :: BasetenModel. DeploymentStatus (Status ob) = DeploymentStatusActive \<and> Message (Status ob) = ''up'' \<and>
     map_option c_Status (cond_of conditionReady (Conditions (Status ob))) = Some ConditionTrue \<and>
     DeploymentRetryCount (Status ob) = 0"
proof -
  obtain e where e: "e \<in> set (new_effects (updateStatus plain_sample sample_update) (sample_State zero_BasetenModel))"
      "kind e = EkStatus"
    using sample_update_effects by (cases "new_effects (updateStatus plain_sample sample_update)
      (sample_State zero_BasetenModel)") auto
  obtain ob ans where "e = KStatusUpdate ob ans"
  proof (cases e)
    case (Api c)
    then show ?thesis using e(2) by (cases c) simp_all
  qed (use e(2) in simp_all)
  with e(1) have "KStatusUpdate ob ans \<in> set (new_effects (updateStatus plain_sample sample_update)
      (sample_State zero_BasetenModel))" by simp
  from status_written [OF this] show ?thesis
    unfolding sample_update_def status_update_def healthy_def statusUpdate.simps by blast
qed

lemma write_skipped_iff_snapshot_same_witness:
  "new_effects (updateStatus plain_sample sample_update) (sample_State zero_BasetenModel) \<noteq> []"
proof -
  let ?s = "sample_State zero_BasetenModel"
  have "distinct (map c_Type (Conditions (Status (obj ?s))))" by (simp add: sample_State_def zero_defs)
  moreover have "take_snapshot (status_fields sample_update 0 (Status (obj ?s))) \<noteq> take_snapshot (Status (obj ?s))"
    by code_simp
  ultimately show ?thesis using write_skipped_iff_snapshot_same [of ?s plain_sample sample_update] by blast
qed

end
