(* ===== verification/Object_Logic.thy ===== *)
theory Object_Logic
  imports Status_Props
begin

text \<open>
  Invariants of the object that a pass works on. \<open>keeps I\<close>: a handler keeps the invariant \<open>I\<close> of the
  object in memory, and every object that it writes satisfies \<open>I\<close>. The locale \<open>object_invariant\<close> is the
  contract of such an invariant, a few closure laws; within it every handler is proved to keep \<open>I\<close>, once,
  bottom up along the calls, up to the whole pass. Its interpretations are in the theories of the invariants.
\<close>

section \<open>The logic\<close>

fun written :: "effect \<Rightarrow> BasetenModel option" where
  "written (KUpdate ob e) = Some ob"
| "written (KStatusUpdate ob e) = Some ob"
| "written _ = None"

definition writes_only :: "(BasetenModel \<Rightarrow> bool) \<Rightarrow> effect \<Rightarrow> bool" where
  "writes_only I e \<longleftrightarrow> (\<forall>ob. written e = Some ob \<longrightarrow> I ob)"

lemma writes_only_simps [simp]:
  "writes_only I (Api c)" "writes_only I (KGet n ns x)" "writes_only I (KGetConfigMap n ns z)"
  "writes_only I (Event t rs msg)" "writes_only I (SpawnPush j)" "writes_only I (PushCall j y)"
  "writes_only I (KUpdate ob e) \<longleftrightarrow> I ob" "writes_only I (KStatusUpdate ob e) \<longleftrightarrow> I ob"
  by (simp_all add: writes_only_def)

named_theorems keeps_intro "introduction rules for keeps"

definition keeps :: "(BasetenModel \<Rightarrow> bool) \<Rightarrow> ('w, 'a) handler \<Rightarrow> bool" where
  "keeps I m \<longleftrightarrow> (\<forall>s. I (obj s) \<longrightarrow> hwp (\<lambda>_. writes_only I) m (\<lambda>_ s' _. I (obj s')) s [])"

lemma keeps_hwp: "keeps I m \<Longrightarrow> I (obj s) \<Longrightarrow> hwp (\<lambda>_. writes_only I) m (\<lambda>_ s' _. I (obj s')) s h"
  by (simp add: keeps_def hwp_def)

lemma keeps_return [keeps_intro]: "keeps I (State_Monad.return a)"
  by (simp add: keeps_def hwp_return)

lemma keeps_bind [keeps_intro]:
  fixes m :: "('w, 'a) handler"
  assumes "keeps I m" and "\<And>a. keeps I (f a)"
  shows "keeps I (State_Monad.bind m f)"
  unfolding keeps_def
proof (intro allI impI hwp_bind)
  fix s :: "'w rstate" assume "I (obj s)"
  then have "hwp (\<lambda>_. writes_only I) m (\<lambda>_ s' _. I (obj s')) s []" using assms(1) by (simp add: keeps_def)
  then show "hwp (\<lambda>_. writes_only I) m (\<lambda>a s' h'. hwp (\<lambda>_. writes_only I) (f a) (\<lambda>_ s' _. I (obj s')) s' h') s []"
    by (rule hwp_mono) (rule keeps_hwp [OF assms(2)])
qed

text \<open>What the first handler answers is known in the second.\<close>

lemma keeps_bind_with:
  fixes m :: "('w, 'a) handler"
  assumes "answers B m" and "keeps I m" and "\<And>a. B a \<Longrightarrow> keeps I (f a)"
  shows "keeps I (State_Monad.bind m f)"
  unfolding keeps_def
proof (intro allI impI hwp_bind)
  fix s :: "'w rstate" assume "I (obj s)"
  then have "hwp (\<lambda>_. writes_only I) m (\<lambda>_ s' _. I (obj s')) s []" using assms(2) by (simp add: keeps_def)
  moreover have "B (fst (run_state m s))" using assms(1) by (simp add: answers_def)
  ultimately have "hwp (\<lambda>_. writes_only I) m (\<lambda>a s' _. B a \<and> I (obj s')) s []" by (auto simp: hwp_def)
  then show "hwp (\<lambda>_. writes_only I) m (\<lambda>a s' h'. hwp (\<lambda>_. writes_only I) (f a) (\<lambda>_ s' _. I (obj s')) s' h') s []"
    by (rule hwp_mono) (auto intro: keeps_hwp [OF assms(3)])
qed

lemma keeps_if [keeps_intro]:
  "(b \<Longrightarrow> keeps I m) \<Longrightarrow> (\<not> b \<Longrightarrow> keeps I n) \<Longrightarrow> keeps I (if b then m else n)"
  by simp

lemma keeps_option [keeps_intro]:
  "(x = None \<Longrightarrow> keeps I m) \<Longrightarrow> (\<And>y. x = Some y \<Longrightarrow> keeps I (n y)) \<Longrightarrow>
   keeps I (case x of None \<Rightarrow> m | Some y \<Rightarrow> n y)"
  by (simp split: option.splits)

lemma keeps_sum [keeps_intro]:
  "(\<And>e. x = Inl e \<Longrightarrow> keeps I (m e)) \<Longrightarrow> (\<And>y. x = Inr y \<Longrightarrow> keeps I (n y)) \<Longrightarrow>
   keeps I (case x of Inl e \<Rightarrow> m e | Inr y \<Rightarrow> n y)"
  by (simp split: sum.splits)

lemma keeps_prod [keeps_intro]:
  "(\<And>a b. x = (a, b) \<Longrightarrow> keeps I (m a b)) \<Longrightarrow> keeps I (case x of (a, b) \<Rightarrow> m a b)"
  by (simp split: prod.splits)

lemma keeps_bool [keeps_intro]:
  "(b \<Longrightarrow> keeps I m) \<Longrightarrow> (\<not> b \<Longrightarrow> keeps I n) \<Longrightarrow> keeps I (case b of True \<Rightarrow> m | False \<Rightarrow> n)"
  by (cases b) simp_all

lemma keeps_mfold [keeps_intro]: "(\<And>x a. x \<in> set xs \<Longrightarrow> keeps I (f x a)) \<Longrightarrow> keeps I (mfold f xs a)"
  by (induction xs arbitrary: a) (simp_all add: keeps_return keeps_bind)

lemma keeps_quiet:
  fixes m :: "('w, 'a) handler"
  assumes "\<And>s. obj (snd (run_state m s)) = obj s \<and>
    (\<exists>es. trace (snd (run_state m s)) = trace s @ es \<and> list_all (\<lambda>e. written e = None) es)"
  shows "keeps I m"
  unfolding keeps_def hwp_def
proof (intro allI impI)
  fix s :: "'w rstate" assume "I (obj s)"
  moreover obtain es where "trace (snd (run_state m s)) = trace s @ es" "list_all (\<lambda>e. written e = None) es"
    using assms [of s] by blast
  ultimately show "\<exists>es. trace (snd (run_state m s)) = trace s @ es \<and>
      (\<forall>i<length es. writes_only I (es ! i)) \<and> I (obj (snd (run_state m s)))"
    using assms [of s] by (intro exI [of _ es]) (auto simp: writes_only_def list_all_length)
qed

lemma keeps_primitives [keeps_intro]:
  shows "keeps I (gets f)" "keeps I model" "keeps I (time_Now r)" "keeps I (ext_read g)" "keeps I (Eventf t rs msg)"
    "keeps I (log_effect (SpawnPush j))" "keeps I (acquire_slot r)" "keeps I (release_slot r)"
  by (rule keeps_quiet; auto simp: gets_def model_def time_Now_def ext_read_def Eventf_def log_effect_def
      acquire_slot_def release_slot_def modify_def split: prod.splits option.splits)+

lemma keeps_ext_call [keeps_intro]: "(\<And>a. written (eff a) = None) \<Longrightarrow> keeps I (ext_call g eff)"
  by (rule keeps_quiet) (simp add: ext_call_def split: prod.splits)

lemma keeps_modify_obj: "(\<And>m. I m \<Longrightarrow> I (g m)) \<Longrightarrow> keeps I (modify_obj g)"
  by (simp add: keeps_def hwp_def modify_obj_def modify_def)

lemma keeps_modify_status:
  "(\<And>m. I m \<Longrightarrow> I (m\<lparr>Status := g (Status m)\<rparr>)) \<Longrightarrow> keeps I (modify_status g)"
  by (simp add: modify_status_def keeps_modify_obj)

text \<open>An invariant under a fixed premise.\<close>

lemma keeps_conditional:
  fixes m :: "('w, 'a) handler"
  assumes "p \<Longrightarrow> keeps I m" and "emits (\<lambda>_. True) m"
  shows "keeps (\<lambda>ob. p \<longrightarrow> I ob) m"
proof (cases p)
  case False
  then show ?thesis
    using assms(2) by (auto simp: keeps_def hwp_def emits_def writes_only_def)
qed (simp add: assms(1))

text \<open>
  What the API server answers to a write: the object as stored. It satisfies the invariant when the
  object written does.
\<close>

definition server_keeps :: "(BasetenModel \<Rightarrow> bool) \<Rightarrow> 'w BasetenModelReconciler \<Rightarrow> bool" where
  "server_keeps I r \<longleftrightarrow> (\<forall>ob w. I ob \<longrightarrow> I (snd (fst (k_Update r ob w))) \<and> I (snd (fst (k_StatusUpdate r ob w))))"

lemma keeps_writes:
  assumes "server_keeps I r"
  shows "keeps I (K_Update r)" "keeps I (Status_Update r)"
proof -
  note server = assms [unfolded server_keeps_def, rule_format]
  show "keeps I (K_Update r)"
    unfolding keeps_def hwp_def K_Update_def using conjunct1 [OF server] by (auto split: prod.splits) (metis fst_conv snd_conv)+
  show "keeps I (Status_Update r)"
    unfolding keeps_def hwp_def Status_Update_def using conjunct2 [OF server] by (auto split: prod.splits) (metis fst_conv snd_conv)+
qed

lemma keeps_api [keeps_intro]:
  "keeps I (api_FindModelIDByName r n t)" "keeps I (api_GetEnvironment r m e)" "keeps I (api_ListEnvironments r m)"
  "keeps I (api_FindDeploymentIDByName r m n)" "keeps I (api_ListDeployments r m)"
  "keeps I (api_CreateEnvironment r m c)" "keeps I (api_UpdateEnvironmentSettings r m e ac pc)"
  "keeps I (api_UpdateAutoscalingSchedules r m e sp ob)" "keeps I (api_ActivateDeployment r m d)"
  "keeps I (api_Promote r m d e p)" "keeps I (api_UpdateDeploymentAutoscaling r m d k)"
  "keeps I (api_DeleteDeployment r m d)" "keeps I (api_RetryDeployment r m d)" "keeps I (api_DeleteModel r m)"
  unfolding api_defs by (intro keeps_intro; simp)+

section \<open>The contract of an invariant\<close>

text \<open>The statuses of the operator's own that it writes.\<close>

definition operator_statuses :: "string list" where
  "operator_statuses = [statusPromoting, statusPromotingDeployment, statusPending, statusPaused, statusDeleting,
     statusDeleteFailed, statusDeleteBlocked, DeploymentStatusFailed, DeploymentStatusBuilding,
     DeploymentStatusDeploying, DeploymentStatusActivating]"

text \<open>The statuses of the deployments of an environment.\<close>

definition env_statuses :: "(string \<Rightarrow> bool) \<Rightarrow> Environment \<Rightarrow> bool" where
  "env_statuses ok env \<longleftrightarrow> pred_option (\<lambda>d. ok (dep_Status d)) (env_CurrentDeployment env) \<and>
     pred_option (\<lambda>d. ok (dep_Status d)) (env_CandidateDeployment env)"

lemma env_status:
  assumes "env_statuses ok env"
  shows "matches (env_CurrentDeployment env) src \<Longrightarrow> ok (dep_Status (the (env_CurrentDeployment env)))"
    "matches (env_CandidateDeployment env) src \<Longrightarrow> ok (dep_Status (the (env_CandidateDeployment env)))"
  using assms by (auto simp: env_statuses_def matches_def split: option.splits)

lemma su_status [simp]: "su_deploymentStatus (status_update st msg mid) = st"
  by (simp add: status_update_def)

lemma clearPushFailure_fields [simp]:
  "Conditions (clearPushFailure st) = Conditions st" "ModelIDResolvedTime (clearPushFailure st) = ModelIDResolvedTime st"
  "TrussPushFailureCount (clearPushFailure st) = 0"
  by (simp_all add: clearPushFailure_def)

lemma clear_stale_candidate_fields [simp]:
  "Conditions (clear_stale_candidate env src st) = Conditions st"
  "ModelIDResolvedTime (clear_stale_candidate env src st) = ModelIDResolvedTime st"
  "TrussPushFailureCount (clear_stale_candidate env src st) = TrussPushFailureCount st"
  by (simp_all add: clear_stale_candidate_def)


text \<open>
  An invariant \<open>I\<close> of the object and the statuses that may be written, \<open>ok\<close>: the answers of the API server
  keep \<open>I\<close>; a status update with such a status keeps it; so does every other change that a handler makes,
  which concerns neither the conditions nor the time of resolution, and clears the failure count at most.
  The operator's own statuses and those that Baseten answers are among them.
\<close>

locale object_invariant =
  fixes I :: "BasetenModel \<Rightarrow> bool" and ok :: "string \<Rightarrow> bool" and r :: "'w BasetenModelReconciler"
  assumes update_kept: "keeps I (K_Update r)"
    and status_update_kept: "keeps I (Status_Update r)"
    and update_law: "I m \<Longrightarrow> ok (su_deploymentStatus su) \<Longrightarrow>
      I (m\<lparr>Status := updated_status su (bm_Generation m) ts (Status m)\<rparr>)"
    and change_law: "I m \<Longrightarrow> Conditions st = Conditions (Status m) \<Longrightarrow>
      ModelIDResolvedTime st = ModelIDResolvedTime (Status m) \<Longrightarrow>
      TrussPushFailureCount st = TrussPushFailureCount (Status m) \<or> TrussPushFailureCount st = 0 \<Longrightarrow>
      I (m\<lparr>Status := st\<rparr>)"
    and finalizer_law: "I m \<Longrightarrow> I (m\<lparr>bm_Finalizers := fs\<rparr>)"
    and own_statuses: "list_all ok operator_statuses"
    and environment_law: "fst (ci_GetEnvironment (BasetenClient r) mid envName w) = Inr env \<Longrightarrow> env_statuses ok env"
    and found_law: "fst (ci_FindDeploymentIDByName (BasetenClient r) mid n w) = Inr (i, status) \<Longrightarrow> i \<noteq> '''' \<Longrightarrow> ok status"

context object_invariant
begin

lemma own_ok [simp]:
  "ok statusPromoting" "ok statusPromotingDeployment" "ok statusPending" "ok statusPaused" "ok statusDeleting"
  "ok statusDeleteFailed" "ok statusDeleteBlocked" "ok DeploymentStatusFailed" "ok DeploymentStatusBuilding"
  "ok DeploymentStatusDeploying" "ok DeploymentStatusActivating"
  using own_statuses by (simp_all add: operator_statuses_def)

lemma environment_known:
  "answers (\<lambda>res. \<forall>env. res = Inr env \<longrightarrow> env_statuses ok env) (api_GetEnvironment r mid envName)"
  using environment_law by (auto simp: answers_def api_GetEnvironment_def ext_call_def split: prod.splits)
    (metis fst_conv)

lemma found_known:
  "answers (\<lambda>res. \<forall>i st. res = Inr (i, st) \<longrightarrow> i \<noteq> '''' \<longrightarrow> ok st) (api_FindDeploymentIDByName r mid n)"
  using found_law by (auto simp: answers_def api_FindDeploymentIDByName_def ext_call_def split: prod.splits)
    (metis fst_conv)

declare update_kept [keeps_intro] status_update_kept [keeps_intro]

lemma keeps_updateStatus [keeps_intro]:
  assumes "ok (su_deploymentStatus su)"
  shows "keeps I (updateStatus r su)"
  unfolding keeps_def
proof (intro allI impI)
  fix s :: "'w rstate" assume s: "I (obj s)"
  obtain ts w where run: "run_state (updateStatus r su) s =
     (let st' = updated_status su (bm_Generation (obj s)) ts (Status (obj s));
          s' = s\<lparr>world := w, obj := (obj s)\<lparr>Status := st'\<rparr>\<rparr>
      in if update_skipped su (Status (obj s)) st' then (None, s') else run_state (Status_Update r) s')"
    using updateStatus_run [of r su s] by (elim exE) (rule that)
  let ?s' = "s\<lparr>world := w, obj := (obj s)\<lparr>Status := updated_status su (bm_Generation (obj s)) ts (Status (obj s))\<rparr>\<rparr>"
  have s': "I (obj ?s')" using update_law [OF s assms] by simp
  have "hwp (\<lambda>_. writes_only I) (Status_Update r) (\<lambda>_ s' _. I (obj s')) ?s' []"
    using status_update_kept s' by (simp add: keeps_def)
  with s' show "hwp (\<lambda>_. writes_only I) (updateStatus r su) (\<lambda>_ s' _. I (obj s')) s []"
    unfolding hwp_def run Let_def by (auto split: if_splits)
qed

lemma keeps_status_change [keeps_intro]:
  assumes "\<And>st. Conditions (g st) = Conditions st" "\<And>st. ModelIDResolvedTime (g st) = ModelIDResolvedTime st"
    and "\<And>st. TrussPushFailureCount (g st) = TrussPushFailureCount st \<or> TrussPushFailureCount (g st) = 0"
  shows "keeps I (modify_status g)"
  by (intro keeps_modify_status change_law) (use assms in auto)

lemma keeps_finalizers [keeps_intro]: "keeps I (modify_obj (\<lambda>m. m\<lparr>bm_Finalizers := g m\<rparr>))"
  by (intro keeps_modify_obj finalizer_law)

text \<open>Bottom up along the calls; \<open>intro\<close> leaves the side conditions of the status changes to \<open>simp\<close>.\<close>

lemma keeps_logUpdateStatus [keeps_intro]: "ok (su_deploymentStatus su) \<Longrightarrow> keeps I (logUpdateStatus r su)"
  unfolding logUpdateStatus_def Let_def by (intro keeps_intro; simp)

lemma keeps_invalidateModelID [keeps_intro]: "keeps I (invalidateModelID r err)"
  unfolding invalidateModelID_def Let_def by (intro keeps_intro; simp)

lemma keeps_retryBackoff [keeps_intro]: "keeps I (retryBackoff r n)"
  unfolding retryBackoff_def Let_def by (intro keeps_intro; simp)

lemma keeps_scheduleNextRetry [keeps_intro]: "keeps I (scheduleNextRetry r)"
  unfolding scheduleNextRetry_def Let_def by (intro keeps_intro; simp)

lemma keeps_first_failure [keeps_intro]: "keeps I (first_failure r)"
  unfolding first_failure_def Let_def by (intro keeps_intro; simp)

lemma keeps_backoff_remaining [keeps_intro]: "keeps I (backoff_remaining r next)"
  unfolding backoff_remaining_def Let_def by (intro keeps_intro; simp)

lemma keeps_tryRetryDeployment [keeps_intro]: "keeps I (tryRetryDeployment r mid d n st)"
  unfolding tryRetryDeployment_def Let_def by (intro keeps_intro; simp)

lemma keeps_handleCandidateFailure [keeps_intro]: "ok (dep_Status cand) \<Longrightarrow> ok (su_deploymentStatus su) \<Longrightarrow> keeps I (handleCandidateFailure r mid cur cand su)"
  unfolding handleCandidateFailure_def Let_def by (intro keeps_intro; simp)

lemma keeps_checkDoublePromoteGuard [keeps_intro]: "keeps I (checkDoublePromoteGuard r env mid src)"
  unfolding checkDoublePromoteGuard_def Let_def by (intro keeps_intro; simp)

lemma keeps_return_step [keeps_intro]: "keeps I (return_step r result err)"
  unfolding return_step_def Let_def by (intro keeps_intro; simp)

lemma keeps_source_missing [keeps_intro]: "keeps I (source_missing r mid ap src ev err)"
  unfolding source_missing_def Let_def by (intro keeps_intro; simp)

lemma keeps_source_failed [keeps_intro]: "ok st \<Longrightarrow> keeps I (source_failed r mid ap sid src st)"
  unfolding source_failed_def Let_def by (intro keeps_intro; simp)

lemma keeps_source_inactive [keeps_intro]: "keeps I (source_inactive r mid ap sid src)"
  unfolding source_inactive_def Let_def by (intro keeps_intro; simp)

lemma keeps_source_waiting [keeps_intro]: "ok st \<Longrightarrow> keeps I (source_waiting r mid st msg)"
  unfolding source_waiting_def Let_def by (intro keeps_intro; simp)

lemma keeps_source_switch [keeps_intro]: "ok st \<Longrightarrow> keeps I (source_switch r mid ap sid src st)"
  unfolding source_switch_def Let_def by (intro keeps_intro; simp)

lemma keeps_validateSourceDeployment [keeps_intro]: "keeps I (validateSourceDeployment r mid src cur)"
  unfolding validateSourceDeployment_def Let_def
  by (rule keeps_bind_with [OF found_known]) (intro keeps_intro; simp)+

lemma keeps_promotion_succeeded [keeps_intro]: "keeps I (promotion_succeeded r env mid envName sid src dep)"
  unfolding promotion_succeeded_def Let_def by (intro keeps_intro; simp)

lemma keeps_promotion_failed [keeps_intro]: "keeps I (promotion_failed r env mid envName sid src err)"
  unfolding promotion_failed_def Let_def by (intro keeps_intro; simp)

lemma keeps_promote_source [keeps_intro]: "keeps I (promote_source r env mid envName sid src)"
  unfolding promote_source_def Let_def by (intro keeps_intro; simp)

lemma keeps_readSetupScript [keeps_intro]: "keeps I (readSetupScript r tc ns)"
  unfolding readSetupScript_def Let_def by (intro keeps_intro; simp)

lemma keeps_truss_existing [keeps_intro]: "keeps I (truss_existing r mid ap h n)"
  unfolding truss_existing_def Let_def by (intro keeps_intro; simp)

lemma keeps_stale_push [keeps_intro]: "keeps I (stale_push r t)"
  unfolding stale_push_def Let_def by (intro keeps_intro; simp)

lemma keeps_truss_in_flight [keeps_intro]: "keeps I (truss_in_flight r mid ap n)"
  unfolding truss_in_flight_def Let_def by (intro keeps_intro; simp)

lemma keeps_truss_backoff [keeps_intro]: "keeps I (truss_backoff r mid ap n)"
  unfolding truss_backoff_def Let_def by (intro keeps_intro; simp)

lemma keeps_truss_launch [keeps_intro]: "keeps I (truss_launch r mid ap h n y sc)"
  unfolding truss_launch_def Let_def by (intro keeps_intro; simp)

lemma keeps_reconcileTrussDeployment [keeps_intro]: "keeps I (reconcileTrussDeployment r tc mid)"
  unfolding reconcileTrussDeployment_def truss_push_def Let_def by (intro keeps_intro; simp)

lemma keeps_resolveSourceDeployment [keeps_intro]: "keeps I (resolveSourceDeployment r mid)"
  unfolding resolveSourceDeployment_def Let_def by (intro keeps_intro; simp)

lemma keeps_create_environment [keeps_intro]: "keeps I (create_environment r mid envName)"
  unfolding create_environment_def Let_def by (intro keeps_intro; simp)

lemma keeps_patch_settings [keeps_intro]: "keeps I (patch_settings r mid envName msg a p)"
  unfolding patch_settings_def Let_def by (intro keeps_intro; simp)

lemma keeps_patch_schedules [keeps_intro]: "keeps I (patch_schedules r mid envName msg b env)"
  unfolding patch_schedules_def Let_def by (intro keeps_intro; simp)

lemma keeps_schedule_drift [keeps_intro]: "keeps I (schedule_drift r spec ob)"
  unfolding schedule_drift_def Let_def by (intro keeps_intro; simp)

lemma keeps_fix_drift [keeps_intro]: "keeps I (fix_drift r mid envName env da dp ds)"
  unfolding fix_drift_def drift_events_def drift_event_def Let_def by (intro keeps_intro; simp)

lemma keeps_reconcileEnvironment [keeps_intro]: "keeps I (reconcileEnvironment r mid envName)"
  unfolding reconcileEnvironment_def Let_def by (intro keeps_intro; simp)

lemma reconcileEnvironment_answers:
  "answers (\<lambda>(env, _, _). pred_option (env_statuses ok) env) (reconcileEnvironment r mid envName)"
  unfolding reconcileEnvironment_def create_environment_def fix_drift_def Let_def
  by (rule answers_bind_with [OF environment_known]) (intro answers_intro; simp)

lemma keeps_findOrphanDeployments [keeps_intro]: "keeps I (findOrphanDeployments r mid)"
  unfolding findOrphanDeployments_def Let_def by (intro keeps_intro; simp)

lemma keeps_scaleInOrphans [keeps_intro]: "keeps I (scaleInOrphans r mid orphans)"
  unfolding scaleInOrphans_def scale_in_one_def Let_def by (intro keeps_intro; simp)

lemma keeps_deleteStaleOrphans [keeps_intro]: "keeps I (deleteStaleOrphans r mid orphans cfg)"
  unfolding deleteStaleOrphans_def try_delete_def Let_def by (intro keeps_intro; simp)

lemma keeps_cleanup_due [keeps_intro]: "keeps I (cleanup_due r minutes)"
  unfolding cleanup_due_def Let_def by (intro keeps_intro; simp)

lemma keeps_run_cleanup [keeps_intro]: "keeps I (run_cleanup r mid cfg a b)"
  unfolding run_cleanup_def Let_def by (intro keeps_intro; simp)

lemma keeps_reconcileOrphanCleanup [keeps_intro]: "keeps I (reconcileOrphanCleanup r mid cfg)"
  unfolding reconcileOrphanCleanup_def Let_def by (intro keeps_intro; simp)

lemma keeps_reconcilePaused [keeps_intro]: "keeps I (reconcilePaused r)"
  unfolding reconcilePaused_def Let_def by (intro keeps_intro; simp)

lemma keeps_releaseFinalizer [keeps_intro]: "keeps I (releaseFinalizer r)"
  unfolding releaseFinalizer_def Let_def by (intro keeps_intro; simp)

lemma keeps_delete_blocked [keeps_intro]: "keeps I (delete_blocked r mid msg)"
  unfolding delete_blocked_def Let_def by (intro keeps_intro; simp)

lemma keeps_delete_model [keeps_intro]: "keeps I (delete_model r mid)"
  unfolding delete_model_def Let_def by (intro keeps_intro; simp)

lemma keeps_checkDeleteGuardrails [keeps_intro]: "keeps I (checkDeleteGuardrails r mid)"
  unfolding checkDeleteGuardrails_def Let_def by (intro keeps_intro; simp)

lemma keeps_reconcileDeletion [keeps_intro]: "keeps I (reconcileDeletion r)"
  unfolding reconcileDeletion_def Let_def by (intro keeps_intro; simp)

lemma keeps_reconcileLifecycle [keeps_intro]: "keeps I (reconcileLifecycle r)"
  unfolding reconcileLifecycle_def Let_def by (intro keeps_intro; simp)

lemma keeps_observe_failed [keeps_intro]: "keeps I (observe_failed r msg mid)"
  unfolding observe_failed_def Let_def by (intro keeps_intro; simp)

lemma keeps_observe_model_id [keeps_intro]: "keeps I (observe_model_id r)"
  unfolding observe_model_id_def Let_def by (intro keeps_intro; simp)

lemma keeps_expectedSourceDeploymentName [keeps_intro]: "keeps I (expectedSourceDeploymentName r)"
  unfolding expectedSourceDeploymentName_def Let_def by (intro keeps_intro; simp)

lemma keeps_observeDriftSuffix [keeps_intro]: "keeps I (observeDriftSuffix r env)"
  unfolding observeDriftSuffix_def Let_def by (intro keeps_intro; simp)

lemma keeps_composeObserveStatus [keeps_intro]: "keeps I (composeObserveStatus r env src mid)"
  unfolding composeObserveStatus_def Let_def by (intro keeps_intro; simp)

lemma composeObserveStatus_answers:
  "env_statuses ok env \<Longrightarrow> answers (\<lambda>su. ok (su_deploymentStatus su)) (composeObserveStatus r env src mid)"
  unfolding composeObserveStatus_def Let_def
  by (intro answers_intro) (auto simp: observe_pending_def env_status split: option.splits)

lemma keeps_observe_environment [keeps_intro]: "keeps I (observe_environment r mid src)"
  unfolding observe_environment_def Let_def
proof (rule keeps_bind [OF keeps_primitives(2)], rule keeps_bind_with [OF environment_known])
  fix m and res :: "go_error + Environment"
  assume res: "\<forall>env. res = Inr env \<longrightarrow> env_statuses ok env"
  show "keeps I (case res of
      Inl err \<Rightarrow> if IsNotFoundError (Some err)
        then observe_failed r (''environment '' @ fmt_q (ec_Name (spec_Environment (Spec m))) @
          '' does not exist; observe mode does not create'') mid
        else ret (no_requeue, Some err)
    | Inr env \<Rightarrow> State_Monad.bind (composeObserveStatus r env src mid)
        (\<lambda>su. State_Monad.bind (updateStatus r su)
          (\<lambda>err. case err of None \<Rightarrow> ret (requeue (30 * Second), None) | Some e \<Rightarrow> ret (no_requeue, Some e))))"
    using res by (intro keeps_intro keeps_bind_with [OF composeObserveStatus_answers]) auto
qed (rule keeps_api)

lemma keeps_reconcileObserve [keeps_intro]: "keeps I (reconcileObserve r)"
  unfolding reconcileObserve_def Let_def by (intro keeps_intro; simp)

lemma keeps_resolveModelID [keeps_intro]: "keeps I (resolveModelID r)"
  unfolding resolveModelID_def model_not_found_def Let_def by (intro keeps_intro; simp)

lemma keeps_reactivate_current [keeps_intro]: "keeps I (reactivate_current r mid envName cur)"
  unfolding reactivate_current_def Let_def by (intro keeps_intro; simp)

lemma keeps_steady_state [keeps_intro]: "ok (dep_Status cur) \<Longrightarrow> keeps I (steady_state r mid envName env cur)"
  unfolding steady_state_def Let_def by (intro keeps_intro; simp)

lemma keeps_promotion_running [keeps_intro]: "ok (dep_Status cand) \<Longrightarrow> keeps I (promotion_running r mid env cand)"
  unfolding promotion_running_def Let_def by (intro keeps_intro; simp)

lemma keeps_start_promotion [keeps_intro]: "keeps I (start_promotion r mid envName env src)"
  unfolding start_promotion_def Let_def by (intro keeps_intro; simp)

lemma keeps_reconcile_environment_state [keeps_intro]:
  "env_statuses ok env \<Longrightarrow> keeps I (reconcile_environment_state r mid envName env src)"
  unfolding reconcile_environment_state_def Let_def
  by (intro keeps_intro) (auto simp: env_status)

lemma keeps_reconcile_model [keeps_intro]: "keeps I (reconcile_model r)"
  unfolding reconcile_model_def Let_def
  by (intro keeps_intro keeps_bind_with [OF reconcileEnvironment_answers]) simp_all

lemma keeps_reconcile_object [keeps_intro]: "keeps I (reconcile_object r)"
  unfolding reconcile_object_def Let_def by (intro keeps_intro; simp)

text \<open>The whole pass: all that it writes satisfies \<open>I\<close> when the object that it read does.\<close>

lemma pass_writes:
  assumes "fst (k_Get r name ns (world s)) = Inr m" and "I m"
    and "e \<in> set (new_effects (Reconcile r name ns) s)" and "written e = Some ob"
  shows "I ob"
proof -
  have "hwp (\<lambda>_. writes_only I) (Reconcile r name ns) (\<lambda>_ _ _. True) s []"
  proof (rule hwp_Reconcile [OF assms(1)])
    fix s' :: "'w rstate" and h assume "obj s' = m"
    with keeps_reconcile_object assms(2)
    show "hwp (\<lambda>_. writes_only I) (reconcile_object r) (\<lambda>_ _ _. True) s' h"
      by (intro hwp_mono [OF keeps_hwp]) auto
  qed simp
  then have "writes_only I e"
    using guarded_effects [OF hwp_guarded, of "\<lambda>_. writes_only I"] assms(3) by blast
  with assms(4) show ?thesis by (simp add: writes_only_def)
qed

end

end
