(* ===== verification/Object_Props.thy ===== *)
theory Object_Props
  imports Object_Logic
begin

text \<open>
  What a pass may change in the object: an invariant of the in-memory object, kept by every handler and
  held by every object that is written.
\<close>

section \<open>The object during a pass\<close>

text \<open>
  The object \<open>m\<close> as it derives from the object \<open>m0\<close> that was read: identity, spec and request of
  deletion are the same, a time of resolution stays set, the failures of pushes are only counted by the
  push, and no type of condition appears twice.
\<close>

definition object_kept :: "BasetenModel \<Rightarrow> BasetenModel \<Rightarrow> bool" where
  "object_kept m0 m \<longleftrightarrow> bm_Name m = bm_Name m0 \<and> bm_Namespace m = bm_Namespace m0 \<and> Spec m = Spec m0 \<and>
     bm_DeletionTimestamp m = bm_DeletionTimestamp m0 \<and>
     (ModelIDResolvedTime (Status m0) \<noteq> None \<longrightarrow> ModelIDResolvedTime (Status m) \<noteq> None) \<and>
     TrussPushFailureCount (Status m) \<in> {0, TrussPushFailureCount (Status m0)} \<and>
     (distinct (map c_Type (Conditions (Status m0))) \<longrightarrow> distinct (map c_Type (Conditions (Status m))))"

text \<open>
  The contract of the API server: a write is answered with the object as stored, which has what was
  written of these fields (the resource version excludes a write over a newer spec).
\<close>

definition server_stores :: "'w BasetenModelReconciler \<Rightarrow> bool" where
  "server_stores r \<longleftrightarrow> (\<forall>m0. server_keeps (object_kept m0) r)"

lemma apply_names_kept [simp]: "TrussPushFailureCount (apply_names su st) = TrussPushFailureCount st"
  by (simp add: apply_names_def Let_def)

lemma updated_status_kept:
  assumes "object_kept m0 m"
  shows "object_kept m0 (m\<lparr>Status := updated_status su gen ts (Status m)\<rparr>)"
  using assms by (cases ts)
    (auto simp: object_kept_def updated_status_def status_fields_def Let_def set_condition_types)

lemma kept_status_change:
  "object_kept m0 m \<Longrightarrow> Conditions st = Conditions (Status m) \<Longrightarrow>
   ModelIDResolvedTime st = ModelIDResolvedTime (Status m) \<Longrightarrow>
   TrussPushFailureCount st = TrussPushFailureCount (Status m) \<or> TrussPushFailureCount st = 0 \<Longrightarrow>
   object_kept m0 (m\<lparr>Status := st\<rparr>)"
  by (auto simp: object_kept_def)

text \<open>The contract of the server is the premise of the invariant, so that the interpretation has none.\<close>

interpretation kept: object_invariant "\<lambda>m. server_stores r \<longrightarrow> object_kept m0 m" "\<lambda>_. True" r for m0 r
proof (unfold_locales, goal_cases)
  case 1
  show ?case by (intro keeps_conditional emits_intro) (simp_all add: server_stores_def keeps_writes)
next
  case 2
  show ?case by (intro keeps_conditional emits_intro) (simp_all add: server_stores_def keeps_writes)
next
  case (5 m fs)
  then show ?case by (simp add: object_kept_def)
qed (auto simp: updated_status_kept intro!: kept_status_change simp: list_all_iff env_statuses_def option.pred_True)

section \<open>The whole pass\<close>

text \<open>
  C12: a pass touches only what is its own. Whatever Baseten answers, and as long as the API server
  answers a write with the object as stored, every object that a pass writes has the name, the spec and
  the request of deletion of the object that was read; it never forgets that a model id was once
  resolved (which the guard of the recreation relies on); it leaves the failure count of the pushes or
  clears it; and it has no type of condition twice if the object read had none twice.
\<close>

theorem pass_keeps_object:
  assumes "server_stores r" and "fst (k_Get r name ns (world s)) = Inr m"
    and "e \<in> set (new_effects (Reconcile r name ns) s)" and "written e = Some ob"
  shows "object_kept m ob"
proof -
  have "object_kept m m" by (simp add: object_kept_def)
  then show ?thesis using kept.pass_writes [of r name ns s m m e ob] assms by simp
qed

lemma sample_stores: "server_stores (sample_Reconciler m c)"
  by (simp add: server_stores_def server_keeps_def sample_Reconciler_def)

lemma pass_keeps_object_witness:
  "\<exists>ob. object_kept sample_deleting ob \<and> Spec ob = Spec sample_deleting"
proof -
  have 5: "5 < length sample_deletion_effects" "kind (sample_deletion_effects ! 5) = EkObject"
    using sample_deletion_nth [of 5] by simp_all
  then obtain ob ans where ob: "sample_deletion_effects ! 5 = KUpdate ob ans"
    using kind_cases_deletion(2) by blast
  with 5(1) have "KUpdate ob ans \<in> set sample_deletion_effects" by (metis nth_mem)
  then have "object_kept sample_deleting ob"
    using pass_keeps_object [OF sample_stores sample_deletion_facts(1)]
    unfolding sample_deletion_effects_def sample_deletion_pass_def by (metis written.simps(1))
  then show ?thesis by (auto simp: object_kept_def)
qed

end
