(* ===== verification/Condition_Props.thy ===== *)
theory Condition_Props
  imports Object_Logic
begin

text \<open>
  The conditions that the operator writes against the schema of the custom resource definition
  (\<open>config/crd/bases/\<close>), which the API server enforces: a write that violates it is rejected. The second
  interpretation of \<open>object_invariant\<close>.
\<close>

section \<open>The schema\<close>

definition is_letter :: "char \<Rightarrow> bool" where
  "is_letter c \<longleftrightarrow> (CHR ''A'' \<le> c \<and> c \<le> CHR ''Z'') \<or> (CHR ''a'' \<le> c \<and> c \<le> CHR ''z'')"

definition is_word :: "char \<Rightarrow> bool" where
  "is_word c \<longleftrightarrow> is_letter c \<or> (CHR ''0'' \<le> c \<and> c \<le> CHR ''9'') \<or> c = CHR ''_''"

text \<open>
  The schema of a reason: at least 1 and at most 1024 characters that match
  \<open>^[A-Za-z]([A-Za-z0-9_,:]*[A-Za-z0-9_])?$\<close>.
\<close>

definition valid_reason :: "string \<Rightarrow> bool" where
  "valid_reason s \<longleftrightarrow> s \<noteq> '''' \<and> length s \<le> 1024 \<and> is_letter (hd s) \<and> is_word (last s) \<and>
     list_all (\<lambda>c. is_word c \<or> c = CHR '','' \<or> c = CHR '':'') s"

text \<open>A condition as the schema has it, but for the length of the message and the pattern of the type.\<close>

definition valid_condition :: "Condition \<Rightarrow> bool" where
  "valid_condition c \<longleftrightarrow> c_Status c \<in> set [ConditionTrue, ConditionFalse, ''Unknown''] \<and>
     valid_reason (c_Reason c) \<and> 0 \<le> c_ObservedGeneration c"

text \<open>
  The conditions of an object: valid, with types that \<open>m0\<close> has or the operator's two, no type twice (the
  list is a map keyed by type). The generation of an object, which new conditions take, is not negative.
\<close>

definition conditions_valid :: "BasetenModel \<Rightarrow> BasetenModel \<Rightarrow> bool" where
  "conditions_valid m0 m \<longleftrightarrow> 0 \<le> bm_Generation m \<and> list_all valid_condition (Conditions (Status m)) \<and>
     distinct (map c_Type (Conditions (Status m))) \<and>
     c_Type ` set (Conditions (Status m)) \<subseteq> {conditionReady, conditionProgressing} \<union> c_Type ` set (Conditions (Status m0))"

lemma operator_reasons: "list_all valid_reason operator_statuses"
  by code_simp

section \<open>The invariant\<close>

lemma set_condition_valid:
  "list_all valid_condition cs \<Longrightarrow> valid_condition c \<Longrightarrow> list_all valid_condition (set_condition now cs c)"
  by (induction cs) (auto simp: valid_condition_def)

lemma updated_conditions:
  "Conditions (updated_status su gen (t1, t2, t3) st) =
     set_condition t3 (set_condition t2 (Conditions st) (ready_condition gen su)) (progressing_condition gen su)"
  by (simp add: updated_status_def Let_def)

lemma new_conditions_valid:
  assumes "0 \<le> gen" and "valid_reason (su_deploymentStatus su)"
  shows "valid_condition (ready_condition gen su)" "valid_condition (progressing_condition gen su)"
  using assms by (simp_all add: valid_condition_def ready_condition_def progressing_condition_def make_condition_def)

lemma set_condition_type_set:
  "c_Type ` set (set_condition now cs c) = insert (c_Type c) (c_Type ` set cs)"
  using arg_cong [OF set_condition_types [of now cs c], of set] by (auto split: if_splits)

lemma updated_conditions_valid:
  assumes "conditions_valid m0 m" and "valid_reason (su_deploymentStatus su)"
  shows "conditions_valid m0 (m\<lparr>Status := updated_status su (bm_Generation m) ts (Status m)\<rparr>)"
proof -
  obtain t1 t2 t3 where ts: "ts = (t1, t2, t3)" by (cases ts)
  show ?thesis
    using assms unfolding conditions_valid_def ts
    by (auto simp: updated_conditions set_condition_types set_condition_type_set
        intro!: set_condition_valid new_conditions_valid)
qed

text \<open>
  Baseten's documented statuses are words such as \<open>ACTIVE\<close>: every status that its environments and its
  lookup by name answer is a valid reason.
\<close>

definition statuses_valid :: "'w BasetenModelReconciler \<Rightarrow> bool" where
  "statuses_valid r \<longleftrightarrow>
     (\<forall>mid envName w env w'. ci_GetEnvironment (BasetenClient r) mid envName w = (Inr env, w') \<longrightarrow>
        env_statuses valid_reason env) \<and>
     (\<forall>mid n w i st w'. ci_FindDeploymentIDByName (BasetenClient r) mid n w = (Inr (i, st), w') \<longrightarrow>
        i \<noteq> '''' \<longrightarrow> valid_reason st)"

text \<open>A write of valid conditions is answered with valid conditions (the object as stored).\<close>

definition server_validates :: "'w BasetenModelReconciler \<Rightarrow> bool" where
  "server_validates r \<longleftrightarrow> (\<forall>m0. server_keeps (conditions_valid m0) r)"

lemma change_keeps_conditions:
  "conditions_valid m0 m \<Longrightarrow> Conditions st = Conditions (Status m) \<Longrightarrow> conditions_valid m0 (m\<lparr>Status := st\<rparr>)"
  by (simp add: conditions_valid_def)

lemma statuses_validD:
  assumes "statuses_valid r"
  shows "fst (ci_GetEnvironment (BasetenClient r) mid envName w) = Inr env \<Longrightarrow> env_statuses valid_reason env"
    "fst (ci_FindDeploymentIDByName (BasetenClient r) mid n w) = Inr (i, st) \<Longrightarrow> i \<noteq> '''' \<Longrightarrow> valid_reason st"
  using assms unfolding statuses_valid_def by (metis prod.collapse)+

lemma env_statuses_conditional: "(p \<Longrightarrow> env_statuses Q env) \<Longrightarrow> env_statuses (\<lambda>st. p \<longrightarrow> Q st) env"
  by (cases p) (simp_all add: env_statuses_def option.pred_True)

interpretation conditions: object_invariant "\<lambda>m. server_validates r \<and> statuses_valid r \<longrightarrow> conditions_valid m0 m"
  "\<lambda>st. statuses_valid r \<longrightarrow> valid_reason st" r for m0 r
proof (unfold_locales, goal_cases)
  case 1
  show ?case by (intro keeps_conditional emits_intro) (simp_all add: server_validates_def keeps_writes)
next
  case 2
  show ?case by (intro keeps_conditional emits_intro) (simp_all add: server_validates_def keeps_writes)
next
  case (3 m su ts)
  then show ?case by (simp add: updated_conditions_valid)
next
  case (4 m st)
  then show ?case by (simp add: change_keeps_conditions)
next
  case (5 m fs)
  then show ?case by (simp add: conditions_valid_def)
next
  case 6
  show ?case using operator_reasons by (cases "statuses_valid r") (simp_all add: list.pred_True)
next
  case (7 mid envName w env)
  show ?case by (rule env_statuses_conditional) (rule statuses_validD(1) [OF _ 7])
next
  case (8 mid n w i st)
  show ?case by (rule impI) (rule statuses_validD(2) [OF _ 8])
qed

section \<open>The pass\<close>


section \<open>Messages\<close>

text \<open>
  The schema limits a message to 32768 characters; the operator puts the text of an error, with the body of
  Baseten's response, into the message as it is.
\<close>

definition maxConditionMessage :: nat where "maxConditionMessage = 32768"

lemma updated_message:
  "\<exists>c \<in> set (Conditions (updated_status su gen ts st)). c_Message c = su_message su"
proof -
  obtain t1 t2 t3 where ts: "ts = (t1, t2, t3)" by (cases ts)
  let ?c = "progressing_condition gen su"
  let ?cs = "set_condition t2 (Conditions st) (ready_condition gen su)"
  have "cond_of conditionProgressing (Conditions (updated_status su gen ts st)) \<noteq> None"
    and msg: "map_option c_Message (cond_of conditionProgressing (Conditions (updated_status su gen ts st))) = Some (su_message su)"
    using set_condition_same [of ?c t3 ?cs] unfolding ts updated_conditions
    by (simp_all add: progressing_condition_def make_condition_def)
  then obtain c where c: "cond_of conditionProgressing (Conditions (updated_status su gen ts st)) = Some c"
      "c_Message c = su_message su"
    by auto
  from c(1) have "c \<in> set (Conditions (updated_status su gen ts st))"
    unfolding cond_of_def by (metis find_Some_iff nth_mem)
  then show ?thesis using c(2) by (rule rev_bexI)
qed

text \<open>A failed lookup of the model with a long response is reported by a write that violates the schema.\<close>

lemma long_error_violates_schema:
  assumes "ModelID (Status (obj s)) = ''''" and "length (Message (Status (obj s))) \<le> maxConditionMessage"
    and "ci_FindModelIDByName (BasetenClient r) (spec_ModelName (Spec (obj s))) (spec_Team (Spec (obj s))) (world s) =
      (Inl err, w)"
    and "maxConditionMessage < length (error_text err)"
  shows "\<exists>ob ans c. KStatusUpdate ob ans \<in> set (new_effects (resolveModelID r) s) \<and>
    c \<in> set (Conditions (Status ob)) \<and> maxConditionMessage < length (c_Message c)"
proof -
  define su where "su = status_update DeploymentStatusFailed
    (''Failed to lookup model '' @ sq (spec_ModelName (Spec (obj s))) @ '': '' @ error_text err) ''''"
  let ?s = "s\<lparr>world := w, trace := trace s @ [Api (CFindModelIDByName (spec_ModelName (Spec (obj s)))
      (spec_Team (Spec (obj s))) (Inl err)), Event EventTypeWarning EventModelNotFound (''Failed to lookup model '' @
      fmt_q (spec_ModelName (Spec (obj s))) @ '': '' @ error_text err)]\<rparr>"
  obtain ts w' where run: "run_state (updateStatus r su) ?s =
     (let st' = updated_status su (bm_Generation (obj ?s)) ts (Status (obj ?s));
          s' = ?s\<lparr>world := w', obj := (obj ?s)\<lparr>Status := st'\<rparr>\<rparr>
      in if update_skipped su (Status (obj ?s)) st' then (None, s') else run_state (Status_Update r) s')"
    using updateStatus_run [of r su ?s] by (elim exE) (rule that)
  let ?st = "updated_status su (bm_Generation (obj s)) ts (Status (obj s))"
  have long: "maxConditionMessage < length (su_message su)"
    using assms(4) by (simp add: su_def status_update_def)
  moreover have "Message ?st = su_message su" by (rule updated_status_fields) (rule refl)
  ultimately have "\<not> update_skipped su (Status (obj s)) ?st"
    using assms(2) by (auto simp: update_skipped_def take_snapshot_def)
  then have "\<exists>ans. KStatusUpdate ((obj s)\<lparr>Status := ?st\<rparr>) ans \<in> set (new_effects (resolveModelID r) s)"
    using run assms(1,3)
    by (auto simp: new_effects_def resolveModelID_def model_def gets_def api_FindModelIDByName_def ext_call_def
        Eventf_def log_effect_def logUpdateStatus_def su_def Status_Update_def Let_def split: prod.splits)
  moreover obtain c where c: "c \<in> set (Conditions (Status ((obj s)\<lparr>Status := ?st\<rparr>)))" "c_Message c = su_message su"
    using updated_message [of su "bm_Generation (obj s)" ts "Status (obj s)"] by auto
  moreover have "maxConditionMessage < length (c_Message c)"
    unfolding c(2) by (rule long)
  ultimately show ?thesis by blast
qed

section \<open>A witness\<close>

lemma sample_steady_conditions:
  "map (\<lambda>e. map_option (\<lambda>ob. map c_Reason (Conditions (Status ob))) (written e))
     (new_effects (Reconcile sample_steady ''m'' ''ns'') (sample_State zero_BasetenModel)) =
   [None, None, Some [''ACTIVE'', ''ACTIVE'']]"
  by code_simp

lemma sample_steady_valid: "server_validates sample_steady" "statuses_valid sample_steady"
proof -
  show "server_validates sample_steady"
    by (simp add: server_validates_def server_keeps_def sample_steady_def sample_Reconciler_def)
  have "valid_reason DeploymentStatusActive" by code_simp
  then show "statuses_valid sample_steady"
    by (simp add: statuses_valid_def sample_steady_def sample_Reconciler_def sample_Client_def sample_Environment_def
        sample_Deployment_def env_statuses_def)
qed


end
