(* ===== verification/Steady_Props.thy ===== *)
theory Steady_Props
  imports Object_Logic
begin

text \<open>
  The fixed point of the operator: over a resource whose source is deployed and serves, with the settings
  of the spec, one pass shows this in the status and every later pass only reads.
\<close>

section \<open>A resource that has what it asks for\<close>

text \<open>The setup script where it is in the spec itself.\<close>

definition inline_script :: "TrussConfig \<Rightarrow> string option" where
  "inline_script tc = (case tc_SetupScript tc of
     None \<Rightarrow> Some ''''
   | Some src \<Rightarrow> (case ss_ConfigMapRef src of
       Some ref \<Rightarrow> None
     | None \<Rightarrow> Some (case ss_Inline src of Some script \<Rightarrow> script | None \<Rightarrow> '''')))"

text \<open>The source is named in the spec, or its push has been recorded as done for this configuration.\<close>

definition source_known :: "BasetenModel \<Rightarrow> string \<Rightarrow> bool" where
  "source_known m src \<longleftrightarrow> (case spec_TrussConfig (Spec m) of
     None \<Rightarrow> src = spec_SourceDeploymentName (Spec m)
   | Some tc \<Rightarrow> (case inline_script tc of
       None \<Rightarrow> False
     | Some script \<Rightarrow> TrussConfigHash (Status m) = HashTrussConfig tc script \<and>
         TrussPushStatus (Status m) = statusTrussPushDone \<and> src = SourceDeploymentName (Status m)))"

text \<open>No setting differs, at any time.\<close>

definition no_drift :: "BasetenModel \<Rightarrow> Environment \<Rightarrow> bool" where
  "no_drift m env \<longleftrightarrow> (let e = spec_Environment (Spec m) in
     \<not> fst (baselineAutoscalingDrift m env) \<and>
     \<not> fst (HasPromotionSettingsDrift (ec_PromotionSettings e) (env_PromotionSettings env)) \<and>
     (\<forall>clk. \<not> fst (HasScheduleDrift clk (ec_AutoscalingSchedule e) (env_AutoscalingSchedules env))) \<and>
     (ec_AutoscalingSchedule e = None \<or> env_ScheduleDecodeErr env = None))"

text \<open>Nothing is to be cleaned up: no cleanup is configured, or the last one is recent at every reading.\<close>

definition cleanup_idle :: "'w BasetenModelReconciler \<Rightarrow> BasetenModel \<Rightarrow> bool" where
  "cleanup_idle r m \<longleftrightarrow> (case spec_OrphanDeploymentCleanup (Spec m) of
     None \<Rightarrow> True
   | Some c \<Rightarrow> (case oc_IntervalMinutes c of
       None \<Rightarrow> True
     | Some minutes \<Rightarrow> (oc_ScaleToZero c \<noteq> Some True \<and> oc_Delete c \<noteq> Some True) \<or>
         (case LastCleanupTime (Status m) of
            None \<Rightarrow> False
          | Some t \<Rightarrow> \<forall>w. time_Sub (fst (Now r w)) t < cleanup_interval minutes)))"

definition steady ::
  "'w BasetenModelReconciler \<Rightarrow> BasetenModel \<Rightarrow> Environment \<Rightarrow> string \<Rightarrow> Deployment \<Rightarrow> bool" where
  "steady r m env src cur \<longleftrightarrow>
     \<not> deletion_requested m \<and> effectiveMode m = ModeReconcile \<and>
     u_AddFinalizer r (bm_Finalizers m) FinalizerName = (bm_Finalizers m, False) \<and>
     ModelID (Status m) \<noteq> '''' \<and> source_known m src \<and> no_drift m env \<and>
     env_CurrentDeployment env = Some cur \<and> DeploymentNameMatchesPrefix (dep_Name cur) src \<and>
     dep_Status cur \<noteq> DeploymentStatusInactive \<and> cleanup_idle r m \<and>
     distinct (map c_Type (Conditions (Status m)))"

section \<open>The parts of the pass\<close>

lemma inline_script_read:
  "inline_script tc = Some script \<Longrightarrow> run_state (readSetupScript r tc ns) s = (Inr script, s)"
  by (auto simp: inline_script_def readSetupScript_def split: option.splits)

lemma source_resolved:
  assumes "source_known (obj s) src" and "ModelID (Status (obj s)) \<noteq> ''''"
  shows "run_state (resolveSourceDeployment r (ModelID (Status (obj s)))) s = ((src, None, None), s)"
proof (cases "spec_TrussConfig (Spec (obj s))")
  case None
  with assms(1) show ?thesis
    by (simp add: source_known_def resolveSourceDeployment_def model_def gets_def)
next
  case (Some tc)
  with assms(1) obtain script where script: "inline_script tc = Some script"
      "TrussConfigHash (Status (obj s)) = HashTrussConfig tc script"
      "TrussPushStatus (Status (obj s)) = statusTrussPushDone" "src = SourceDeploymentName (Status (obj s))"
    by (auto simp: source_known_def split: option.splits)
  then show ?thesis
    using Some assms(2)
    by (simp add: inline_script_read resolveSourceDeployment_def reconcileTrussDeployment_def truss_existing_def model_def gets_def Let_def)
qed

lemma environment_read:
  assumes "no_drift (obj s) env" and "ci_GetEnvironment (BasetenClient r) mid envName (world s) = (Inr env, w)"
  shows "\<exists>w'. run_state (reconcileEnvironment r mid envName) s =
    ((Some env, None, None), s\<lparr>world := w', trace := trace s @ [Api (CGetEnvironment mid envName (Inr env))]\<rparr>)"
proof -
  note parts = reconcileEnvironment_def api_GetEnvironment_def ext_call_def model_def gets_def schedule_drift_def
    ext_read_def no_drift_def Let_def
  let ?spec = "ec_AutoscalingSchedule (spec_Environment (Spec (obj s)))"
  obtain ts w' where clock: "read_clock (Now r) (schedule_count ?spec) w = (ts, w')"
    by (cases "read_clock (Now r) (schedule_count ?spec) w")
  show ?thesis
    using assms clock
    by (intro exI [of _ w'], cases ?spec; cases "env_ScheduleDecodeErr env") (simp_all add: parts)
qed

lemma idle_cleanup_run:
  assumes "cleanup_idle r (obj s)"
  shows "\<exists>w. run_state (case spec_OrphanDeploymentCleanup (Spec (obj s)) of
      None \<Rightarrow> ret None | Some c \<Rightarrow> reconcileOrphanCleanup r mid c) s = (None, s\<lparr>world := w\<rparr>)"
proof -
  obtain now w where now: "Now r (world s) = (now, w)" by (cases "Now r (world s)")
  have same: "s\<lparr>world := world s\<rparr> = s" by simp
  note parts = reconcileOrphanCleanup_def cleanup_due_def model_def gets_def time_Now_def ext_read_def cleanup_idle_def
  have recent: "\<forall>w. time_Sub (fst (Now r w)) t < d \<Longrightarrow> time_Sub now t < d" for t d
    using now by (metis fst_conv)
  show ?thesis
  proof (cases "LastCleanupTime (Status (obj s))")
    case None
    with assms same show ?thesis
      by (intro exI [of _ "world s"]) (auto simp: parts Let_def split: option.splits)
  next
    case (Some t)
    with assms same now recent show ?thesis
      by (intro exI [of _ "if spec_OrphanDeploymentCleanup (Spec (obj s)) = None \<or>
          oc_IntervalMinutes (the (spec_OrphanDeploymentCleanup (Spec (obj s)))) = None then world s else w"])
        (auto simp: parts Let_def split: option.splits)
  qed
qed

section \<open>The status of the steady state\<close>

text \<open>A status write is answered with the object as written.\<close>

definition status_stored :: "'w BasetenModelReconciler \<Rightarrow> bool" where
  "status_stored r \<longleftrightarrow> (\<forall>ob w. fst (k_StatusUpdate r ob w) = (None, ob))"

text \<open>The status has what the update would set.\<close>

definition shown :: "statusUpdate \<Rightarrow> BasetenModelStatus \<Rightarrow> bool" where
  "shown su st \<longleftrightarrow> take_snapshot (status_fields su 0 st) = take_snapshot st"

lemma updateStatus_stored:
  assumes "status_stored r" and "distinct (map c_Type (Conditions (Status (obj s))))"
  shows "\<exists>ts w. let ob = (obj s)\<lparr>Status := updated_status su (bm_Generation (obj s)) ts (Status (obj s))\<rparr> in
    run_state (updateStatus r su) s = (None, s\<lparr>world := w, obj := ob,
      trace := trace s @ (if shown su (Status (obj s)) then [] else [KStatusUpdate ob None])\<rparr>)"
proof -
  obtain ts w where run: "run_state (updateStatus r su) s =
     (let st' = updated_status su (bm_Generation (obj s)) ts (Status (obj s));
          s' = s\<lparr>world := w, obj := (obj s)\<lparr>Status := st'\<rparr>\<rparr>
      in if update_skipped su (Status (obj s)) st' then (None, s') else run_state (Status_Update r) s')"
    using updateStatus_run [of r su s] by (elim exE) (rule that)
  let ?st = "updated_status su (bm_Generation (obj s)) ts (Status (obj s))"
  let ?ob = "(obj s)\<lparr>Status := ?st\<rparr>"
  have skip: "update_skipped su (Status (obj s)) ?st \<longleftrightarrow> shown su (Status (obj s))"
    using conditions_never_changed [OF assms(2) refl]
    by (simp add: update_skipped_def updated_snapshot shown_def)
  obtain w2 where answer: "k_StatusUpdate r ?ob w = ((None, ?ob), w2)"
    using assms(1) by (metis prod.collapse status_stored_def)
  have trace: "s\<lparr>world := w', obj := ob, trace := trace s @ []\<rparr> = s\<lparr>world := w', obj := ob\<rparr>" for w' ob by simp
  show ?thesis
  proof (cases "shown su (Status (obj s))")
    case True
    then show ?thesis
      by (intro exI [of _ ts] exI [of _ w]) (simp add: run Let_def skip trace)
  next
    case False
    then show ?thesis
      using answer by (intro exI [of _ ts] exI [of _ w2])
        (simp add: run Let_def skip Status_Update_def)
  qed
qed

definition steady_update :: "string \<Rightarrow> string \<Rightarrow> Environment \<Rightarrow> Deployment \<Rightarrow> bool \<Rightarrow> statusUpdate" where
  "steady_update mid envName env cur promoted =
     (status_update (dep_Status cur) (steadyStateMessage cur envName (env_AutoscalingSettings env)) mid)
       \<lparr>su_activeDeploymentName := dep_Name cur, su_replicaCount := dep_ActiveReplicaCount cur,
        su_clearCandidate := promoted\<rparr>"

text \<open>A candidate is recorded: the steady state ends its promotion.\<close>

definition candidate_recorded :: "BasetenModelStatus \<Rightarrow> bool" where
  "candidate_recorded st \<longleftrightarrow> CandidateDeploymentID st \<noteq> '''' \<or> CandidateDeploymentName st \<noteq> ''''"

abbreviation own_steady_update :: "string \<Rightarrow> string \<Rightarrow> Environment \<Rightarrow> Deployment \<Rightarrow> BasetenModelStatus \<Rightarrow> statusUpdate" where
  "own_steady_update mid envName env cur st \<equiv> steady_update mid envName env cur (candidate_recorded st)"

lemma updated_status_last_cleanup: "LastCleanupTime (updated_status su gen ts st) = LastCleanupTime st"
  by (cases ts) (simp add: updated_status_def status_fields_def apply_names_def Let_def)

lemma cleanup_idle_status:
  "LastCleanupTime st = LastCleanupTime (Status m) \<Longrightarrow> cleanup_idle r (m\<lparr>Status := st\<rparr>) \<longleftrightarrow> cleanup_idle r m"
  by (simp add: cleanup_idle_def cong: option.case_cong)

lemma steady_state_run:
  assumes "status_stored r" and "cleanup_idle r (obj s)" and "distinct (map c_Type (Conditions (Status (obj s))))"
    and "su = own_steady_update mid envName env cur (Status (obj s))"
  shows "\<exists>ts w. let ob = (obj s)\<lparr>Status := updated_status su (bm_Generation (obj s)) ts (Status (obj s))\<rparr> in
    run_state (steady_state r mid envName env cur) s = ((requeue (5 * Minute), None), s\<lparr>world := w, obj := ob,
      trace := trace s @ (if candidate_recorded (Status (obj s)) then [Event EventTypeNormal EventDeploymentActive
          (''Deployment '' @ dep_Name cur @ '' is now active in '' @ envName)] else []) @
        (if shown su (Status (obj s)) then [] else [KStatusUpdate ob None])\<rparr>)"
proof -
  let ?st = "Status (obj s)"
  let ?ev = "if candidate_recorded ?st then [Event EventTypeNormal EventDeploymentActive
      (''Deployment '' @ dep_Name cur @ '' is now active in '' @ envName)] else []"
  let ?s = "s\<lparr>trace := trace s @ ?ev\<rparr>"
  let ?ob = "\<lambda>ts. (obj s)\<lparr>Status := updated_status su (bm_Generation (obj s)) ts ?st\<rparr>"
  obtain ts w where upd: "run_state (updateStatus r su) ?s = (None, ?s\<lparr>world := w, obj := ?ob ts,
      trace := trace ?s @ (if shown su ?st then [] else [KStatusUpdate (?ob ts) None])\<rparr>)"
    using updateStatus_stored [of r ?s su] assms(1,3) by (auto simp: Let_def)
  let ?s' = "?s\<lparr>world := w, obj := ?ob ts, trace := trace ?s @ (if shown su ?st then [] else [KStatusUpdate (?ob ts) None])\<rparr>"
  have idle: "cleanup_idle r (obj ?s')"
    using assms(2) by (simp add: cleanup_idle_status updated_status_last_cleanup)
  obtain w' where cleanup: "run_state (case spec_OrphanDeploymentCleanup (Spec (obj ?s')) of
      None \<Rightarrow> ret None | Some c \<Rightarrow> reconcileOrphanCleanup r mid c) ?s' = (None, ?s'\<lparr>world := w'\<rparr>)"
    using idle_cleanup_run [OF idle, of mid] by (elim exE) (rule that)
  have event: "run_state (if candidate_recorded ?st then Eventf EventTypeNormal EventDeploymentActive
      (''Deployment '' @ dep_Name cur @ '' is now active in '' @ envName) else ret ()) s = ((), ?s)"
    by (simp add: Eventf_def log_effect_def)
  show ?thesis
    using upd cleanup event unfolding steady_state_def Let_def candidate_recorded_def [symmetric]
      steady_update_def [symmetric] assms(4)
    by (intro exI [of _ ts] exI [of _ w']) (simp add: model_def gets_def split del: if_split)
qed

section \<open>The pass\<close>

lemma steady_pass:
  assumes "steady r m env src cur" and "k_Get r name ns (world s) = (Inr m, w)"
    and "fst (ci_GetEnvironment (BasetenClient r) (ModelID (Status m)) (ec_Name (spec_Environment (Spec m))) w) = Inr env"
  shows "\<exists>w'. run_state (Reconcile r name ns) s =
    run_state (steady_state r (ModelID (Status m)) (ec_Name (spec_Environment (Spec m))) env cur)
      (s\<lparr>obj := m, world := w', trace := trace s @ [KGet name ns (Inr m),
        Api (CGetEnvironment (ModelID (Status m)) (ec_Name (spec_Environment (Spec m))) (Inr env))]\<rparr>)"
proof -
  let ?mid = "ModelID (Status m)" and ?env = "ec_Name (spec_Environment (Spec m))"
  let ?s = "s\<lparr>world := w, trace := trace s @ [KGet name ns (Inr m)], obj := m\<rparr>"
  have m: "\<not> deletion_requested m" "effectiveMode m = ModeReconcile" "ModelID (Status m) \<noteq> ''''"
      "u_AddFinalizer r (bm_Finalizers m) FinalizerName = (bm_Finalizers m, False)"
      "env_CurrentDeployment env = Some cur" "DeploymentNameMatchesPrefix (dep_Name cur) src"
      "dep_Status cur \<noteq> DeploymentStatusInactive" "source_known (obj ?s) src" "no_drift (obj ?s) env"
    using assms(1) by (simp_all add: steady_def)
  have source: "run_state (resolveSourceDeployment r ?mid) ?s = ((src, None, None), ?s)"
    using source_resolved [of ?s src r] m(3,8) by simp
  obtain w1 where "ci_GetEnvironment (BasetenClient r) ?mid ?env (world ?s) = (Inr env, w1)"
    using assms(3) by (metis prod.collapse rstate.select_convs(1) rstate.surjective rstate.update_convs(1-3))
  from environment_read [OF m(9) this] obtain w' where
    read: "run_state (reconcileEnvironment r ?mid ?env) ?s = ((Some env, None, None),
      ?s\<lparr>world := w', trace := trace ?s @ [Api (CGetEnvironment ?mid ?env (Inr env))]\<rparr>)"
    by (elim exE) (rule that)
  have mode: "ModeReconcile \<noteq> ModePause" "ModeReconcile \<noteq> ModeObserve" by (simp_all add: mode_defs)
  have same: "m\<lparr>bm_Finalizers := bm_Finalizers m\<rparr> = m" by simp
  note steps = Reconcile_def K_Get_def reconcile_object_def reconcileLifecycle_def ext_call_def modify_obj_def
    modify_def model_def gets_def reconcile_model_def resolveModelID_def reconcile_environment_state_def matches_def Let_def
  show ?thesis
    using assms(2) m(1-7) source read mode same
    by (intro exI [of _ w']) (simp add: steps)
qed

text \<open>After the update no candidate is recorded, and the status shows what the next pass would set.\<close>

lemma updated_steady_status:
  assumes "st' = updated_status (own_steady_update mid envName env cur st) gen ts st"
  shows "\<not> candidate_recorded st'" "TrussConfigHash st' = TrussConfigHash st" "TrussPushStatus st' = TrussPushStatus st"
    "SourceDeploymentName st' = SourceDeploymentName st" "LastCleanupTime st' = LastCleanupTime st"
    "mid \<noteq> '''' \<Longrightarrow> ModelID st' = mid"
    "mid \<noteq> '''' \<Longrightarrow> shown (own_steady_update mid envName env cur st') st'"
    "distinct (map c_Type (Conditions st)) \<Longrightarrow> distinct (map c_Type (Conditions st'))"
proof -
  obtain t1 t2 t3 where ts: "ts = (t1, t2, t3)" by (cases ts)
  note parts = updated_status_def status_fields_def apply_names_def steady_update_def status_update_def Let_def ts
  show none: "\<not> candidate_recorded st'" "TrussConfigHash st' = TrussConfigHash st" "TrussPushStatus st' = TrussPushStatus st"
    "SourceDeploymentName st' = SourceDeploymentName st" "LastCleanupTime st' = LastCleanupTime st"
    "mid \<noteq> '''' \<Longrightarrow> ModelID st' = mid"
    by (auto simp: assms parts candidate_recorded_def)
  show "mid \<noteq> '''' \<Longrightarrow> shown (own_steady_update mid envName env cur st') st'"
    using none(1) by (simp add: shown_def take_snapshot_def assms parts candidate_recorded_def)
  show "distinct (map c_Type (Conditions st)) \<Longrightarrow> distinct (map c_Type (Conditions st'))"
    by (simp add: assms updated_status_def ts Let_def set_condition_types)
qed

lemma steady_after:
  assumes "steady r m env src cur"
    and "st' = updated_status (own_steady_update (ModelID (Status m)) envName env cur (Status m)) gen ts (Status m)"
  shows "steady r (m\<lparr>Status := st'\<rparr>) env src cur"
  using assms(1) updated_steady_status(2-5,8) [OF assms(2)] updated_steady_status(6) [OF assms(2)]
  by (auto simp: steady_def deletion_requested_def effectiveMode_def source_known_def no_drift_def
      baselineAutoscalingDrift_def cleanup_idle_status Let_def split: option.splits)


section \<open>A witness\<close>

definition sample_env :: Environment where
  "sample_env = sample_Environment (Some (sample_Deployment ''d2'' ''v2'' DeploymentStatusActive)) None"

text \<open>The object after a pass over \<open>sample_steady\<close>, and a server that has stored it at time 1.\<close>

definition settled_Model :: BasetenModel where
  "settled_Model = obj (snd (run_state (Reconcile sample_steady ''m'' ''ns'') (sample_State zero_BasetenModel)))"

definition settling :: "time BasetenModelReconciler" where
  "settling = sample_steady\<lparr>k_Get := \<lambda>n ns w. (Inr (if w = 0 then sample_Model ModeReconcile '''' else settled_Model), w)\<rparr>"

lemma settling_first: "obj (snd (run_state (Reconcile settling ''m'' ''ns'') (sample_State zero_BasetenModel))) = settled_Model"
  by code_simp

lemma settling_steady: "steady settling (sample_Model ModeReconcile '''') sample_env ''v2''
    (sample_Deployment ''d2'' ''v2'' DeploymentStatusActive)"
proof -
  have "DeploymentNameMatchesPrefix ''v2'' ''v2''" "DeploymentStatusActive \<noteq> DeploymentStatusInactive" by code_simp+
  moreover have "\<not> fst (HasAutoscalingDrift None None)" "\<not> fst (HasPromotionSettingsDrift None None)"
      "\<not> fst (HasScheduleDrift clk None None)" for clk
    by (simp_all add: HasAutoscalingDrift_def HasPromotionSettingsDrift_def HasScheduleDrift_def
        diffSchedules_def Let_def)
  ultimately show ?thesis
    by (simp add: steady_def settling_def sample_steady_def sample_Reconciler_def sample_Model_def zero_defs
        deletion_requested_def effectiveMode_def source_known_def no_drift_def baselineAutoscalingDrift_def
        sample_env_def sample_Environment_def sample_Deployment_def cleanup_idle_def Let_def)
qed


end
