(* ===== verification/Rollout.thy ===== *)
theory Rollout
  imports Steady_Props
begin

text \<open>
  A rollout as a whole: passes of the operator and the completions of promotions by Baseten, in any order.
  What they have in common is the environment in Baseten, seen as the names of its current and its candidate
  deployment. A variant of three steps shows that a rollout ends, and that it promotes once.
\<close>

section \<open>The environment in Baseten\<close>

type_synonym view = "string option \<times> string option"

definition name_matches :: "string option \<Rightarrow> string \<Rightarrow> bool" where
  "name_matches n src \<longleftrightarrow> (case n of None \<Rightarrow> False | Some n \<Rightarrow> DeploymentNameMatchesPrefix n src)"

definition env_view :: "Environment \<Rightarrow> view" where
  "env_view env = (map_option dep_Name (env_CurrentDeployment env), map_option dep_Name (env_CandidateDeployment env))"

text \<open>
  The variant: 0 when the current deployment is the source, 1 when the candidate is, 2 when there is no
  candidate, 3 when another deployment is being promoted.
\<close>

fun phase :: "string \<Rightarrow> view \<Rightarrow> nat" where
  "phase src (cur, cand) =
     (if name_matches cur src then 0 else if name_matches cand src then 1 else if cand = None then 2 else 3)"

text \<open>Nobody else promotes another deployment over the source.\<close>

definition undisturbed :: "string \<Rightarrow> view \<Rightarrow> bool" where
  "undisturbed src v \<longleftrightarrow> (name_matches (fst v) src \<longrightarrow> snd v = None)"

lemma name_matches_None [simp]: "\<not> name_matches None src"
  by (simp add: name_matches_def)

lemma matches_view: "matches d src \<longleftrightarrow> name_matches (map_option dep_Name d) src"
  by (simp add: matches_def name_matches_def split: option.splits)

fun promoted :: "effect \<Rightarrow> bool" where
  "promoted (Api (CPromote _ _ _ _ (Inr (Some _)))) = True"
| "promoted _ = False"

definition promotions :: "effect list \<Rightarrow> nat" where
  "promotions es = length (filter promoted es)"

lemma promotions_simps [simp]:
  "promotions [] = 0" "promotions (es @ fs) = promotions es + promotions fs"
  "promotions (e # es) = (if promoted e then 1 else 0) + promotions es"
  by (simp_all add: promotions_def)

section \<open>The logic\<close>

text \<open>
  How a handler moves what is seen of the world, with the number of promotions on the way; most handlers
  do not move it.
\<close>

definition moves :: "('w \<Rightarrow> 'v) \<Rightarrow> ('v \<Rightarrow> 'v \<Rightarrow> nat \<Rightarrow> bool) \<Rightarrow> ('w, 'a) handler \<Rightarrow> 'w rstate \<Rightarrow> bool" where
  "moves V R m s \<longleftrightarrow> (\<exists>es. trace (snd (run_state m s)) = trace s @ es \<and>
     R (V (world s)) (V (world (snd (run_state m s)))) (promotions es))"

named_theorems unmoved_intro "introduction rules for unmoved"

definition unmoved :: "('w \<Rightarrow> 'v) \<Rightarrow> ('w, 'a) handler \<Rightarrow> bool" where
  "unmoved V m \<longleftrightarrow> (\<forall>s. moves V (\<lambda>v v' n. v' = v \<and> n = 0) m s)"

definition preserves :: "('w \<Rightarrow> 'v) \<Rightarrow> ('w \<Rightarrow> 'a \<times> 'w) \<Rightarrow> bool" where
  "preserves V f \<longleftrightarrow> (\<forall>w. V (snd (f w)) = V w)"

lemma preservesD: "preserves V f \<Longrightarrow> f w = (a, w') \<Longrightarrow> V w' = V w"
  unfolding preserves_def by (metis snd_conv)

lemma unmovedD:
  assumes "unmoved V m" and "run_state m s = (a, s')"
  shows "V (world s') = V (world s)" and "\<exists>es. trace s' = trace s @ es \<and> promotions es = 0"
  using assms unfolding unmoved_def moves_def by (metis snd_conv)+

lemma moves_bind:
  assumes "unmoved V m" and "\<And>a s'. run_state m s = (a, s') \<Longrightarrow> V (world s') = V (world s) \<Longrightarrow> moves V R (f a) s'"
  shows "moves V R (State_Monad.bind m f) s"
proof -
  obtain a s' where m: "run_state m s = (a, s')" by (cases "run_state m s")
  from unmovedD [OF assms(1) m] obtain es where
    es: "V (world s') = V (world s)" "trace s' = trace s @ es" "promotions es = 0" by blast
  from assms(2) [OF m es(1)] obtain fs where "trace (snd (run_state (f a) s')) = trace s' @ fs"
    "R (V (world s')) (V (world (snd (run_state (f a) s')))) (promotions fs)" by (auto simp: moves_def)
  with m es show ?thesis unfolding moves_def by (intro exI [of _ "es @ fs"]) simp
qed

lemma moves_then:
  assumes "moves V R m s" and "\<And>a. unmoved V (f a)"
  shows "moves V R (State_Monad.bind m f) s"
proof -
  obtain a s' where m: "run_state m s = (a, s')" by (cases "run_state m s")
  obtain b s2 where f: "run_state (f a) s' = (b, s2)" by (cases "run_state (f a) s'")
  from assms(1) m obtain es where es: "trace s' = trace s @ es" "R (V (world s)) (V (world s')) (promotions es)"
    by (auto simp: moves_def)
  from unmovedD [OF assms(2) f] obtain fs where "V (world s2) = V (world s')" "trace s2 = trace s' @ fs" "promotions fs = 0"
    by blast
  with m f es show ?thesis unfolding moves_def by (intro exI [of _ "es @ fs"]) simp
qed

lemma unmoved_return [unmoved_intro]: "unmoved V (State_Monad.return a)"
  by (simp add: unmoved_def moves_def)

lemma unmoved_bind [unmoved_intro]: "unmoved V m \<Longrightarrow> (\<And>a. unmoved V (f a)) \<Longrightarrow> unmoved V (State_Monad.bind m f)"
  unfolding unmoved_def by (intro allI moves_bind) (simp_all add: unmoved_def)

lemma unmoved_bind_with:
  assumes "answers B m" and "unmoved V m" and "\<And>a. B a \<Longrightarrow> unmoved V (f a)"
  shows "unmoved V (State_Monad.bind m f)"
  unfolding unmoved_def
proof (intro allI moves_bind [OF assms(2)])
  fix s s' a assume "run_state m s = (a, s')"
  with assms(1,3) have "unmoved V (f a)" by (metis answersD)
  then show "moves V (\<lambda>v v' n. v' = v \<and> n = 0) (f a) s'" by (simp add: unmoved_def)
qed

lemma unmoved_if [unmoved_intro]:
  "(b \<Longrightarrow> unmoved V m) \<Longrightarrow> (\<not> b \<Longrightarrow> unmoved V n) \<Longrightarrow> unmoved V (if b then m else n)"
  by simp

lemma unmoved_option [unmoved_intro]:
  "(x = None \<Longrightarrow> unmoved V m) \<Longrightarrow> (\<And>y. x = Some y \<Longrightarrow> unmoved V (n y)) \<Longrightarrow>
   unmoved V (case x of None \<Rightarrow> m | Some y \<Rightarrow> n y)"
  by (simp split: option.splits)

lemma unmoved_sum [unmoved_intro]:
  "(\<And>e. x = Inl e \<Longrightarrow> unmoved V (m e)) \<Longrightarrow> (\<And>y. x = Inr y \<Longrightarrow> unmoved V (n y)) \<Longrightarrow>
   unmoved V (case x of Inl e \<Rightarrow> m e | Inr y \<Rightarrow> n y)"
  by (simp split: sum.splits)

lemma unmoved_prod [unmoved_intro]:
  "(\<And>a b. x = (a, b) \<Longrightarrow> unmoved V (m a b)) \<Longrightarrow> unmoved V (case x of (a, b) \<Rightarrow> m a b)"
  by (simp split: prod.splits)

lemma unmoved_bool [unmoved_intro]:
  "(b \<Longrightarrow> unmoved V m) \<Longrightarrow> (\<not> b \<Longrightarrow> unmoved V n) \<Longrightarrow> unmoved V (case b of True \<Rightarrow> m | False \<Rightarrow> n)"
  by (cases b) simp_all

lemma unmoved_mfold [unmoved_intro]: "(\<And>x a. x \<in> set xs \<Longrightarrow> unmoved V (f x a)) \<Longrightarrow> unmoved V (mfold f xs a)"
  by (induction xs arbitrary: a) (simp_all add: unmoved_return unmoved_bind)

lemma unmoved_primitives [unmoved_intro]:
  shows "unmoved V (gets f)" "unmoved V model" "unmoved V (modify_obj g)" "unmoved V (modify_status h)"
    "unmoved V (Eventf t rs msg)"
  by (simp_all add: unmoved_def moves_def gets_def model_def modify_obj_def modify_status_def modify_def Eventf_def
      log_effect_def)

lemma unmoved_ext_read [unmoved_intro]: "preserves V g \<Longrightarrow> unmoved V (ext_read g)"
  by (auto simp: unmoved_def moves_def ext_read_def dest: preservesD split: prod.splits)

lemma unmoved_ext_call [unmoved_intro]: "preserves V g \<Longrightarrow> (\<And>a. \<not> promoted (eff a)) \<Longrightarrow> unmoved V (ext_call g eff)"
  by (auto simp: unmoved_def moves_def ext_call_def dest: preservesD split: prod.splits)

lemma moves_ext_call:
  assumes "\<And>a w. g (world s) = (a, w) \<Longrightarrow> unmoved V (f a) \<and> R (V (world s)) (V w) (if promoted (eff a) then 1 else 0)"
  shows "moves V R (State_Monad.bind (ext_call g eff) f) s"
proof -
  obtain a w where a: "g (world s) = (a, w)" by (cases "g (world s)")
  let ?s = "s\<lparr>world := w, trace := trace s @ [eff a]\<rparr>"
  obtain b s' where b: "run_state (f a) ?s = (b, s')" by (cases "run_state (f a) ?s")
  from unmovedD [OF _ b] assms [OF a] obtain es where
    "V (world s') = V w" "trace s' = trace s @ eff a # es" "promotions es = 0" by auto
  with a b assms [OF a] show ?thesis
    unfolding moves_def by (intro exI [of _ "eff a # es"]) (simp add: ext_call_def split: if_splits)
qed

lemma moves_unmoved: "unmoved V m \<Longrightarrow> R (V (world s)) (V (world s)) 0 \<Longrightarrow> moves V R m s"
  unfolding unmoved_def moves_def by metis

section \<open>The service\<close>

text \<open>
  Only a promotion that is answered with a deployment moves the environment \<open>envName\<close> of the model \<open>mid\<close>: it
  becomes the candidate. Reads of the environment tell the truth, and promoting the deployment that the
  lookup finds under the name of the source makes a deployment of that name the candidate.
\<close>

definition promotion_moves :: "'w BasetenModelReconciler \<Rightarrow> ('w \<Rightarrow> view) \<Rightarrow> string \<Rightarrow> string \<Rightarrow> string \<Rightarrow> bool" where
  "promotion_moves r V mid envName src \<longleftrightarrow>
     (\<forall>d p w. case ci_Promote (BasetenClient r) mid d envName p w of
        (Inr (Some dep), w') \<Rightarrow> V w' = (fst (V w), Some (dep_Name dep)) \<and>
          (\<forall>w0 st. fst (ci_FindDeploymentIDByName (BasetenClient r) mid src w0) = Inr (d, st) \<longrightarrow> d \<noteq> '''' \<longrightarrow>
             DeploymentNameMatchesPrefix (dep_Name dep) src)
      | (_, w') \<Rightarrow> V w' = V w)"

definition others_preserve :: "'w BasetenModelReconciler \<Rightarrow> ('w \<Rightarrow> 'v) \<Rightarrow> bool" where
  "others_preserve r V \<longleftrightarrow>
     preserves V (Now r) \<and> preserves V (RandFloat64 r) \<and> (\<forall>n ns. preserves V (k_Get r n ns)) \<and>
     (\<forall>ob. preserves V (k_Update r ob)) \<and> (\<forall>ob. preserves V (k_StatusUpdate r ob)) \<and>
     (let c = BasetenClient r in
      (\<forall>m e. preserves V (ci_GetEnvironment c m e)) \<and> (\<forall>m. preserves V (ci_ListEnvironments c m)) \<and>
      (\<forall>m x. preserves V (ci_CreateEnvironment c m x)) \<and>
      (\<forall>m e a p. preserves V (ci_UpdateEnvironmentSettings c m e a p)) \<and>
      (\<forall>m e a ob. preserves V (ci_UpdateAutoscalingSchedules c m e a ob)) \<and>
      (\<forall>m n. preserves V (ci_FindDeploymentIDByName c m n)) \<and> (\<forall>m d. preserves V (ci_ActivateDeployment c m d)) \<and>
      (\<forall>m. preserves V (ci_ListDeployments c m)) \<and>
      (\<forall>m d k. preserves V (ci_UpdateDeploymentAutoscaling c m d k)) \<and>
      (\<forall>m d. preserves V (ci_DeleteDeployment c m d)) \<and> (\<forall>m d. preserves V (ci_RetryDeployment c m d)))"

definition reads_truthful :: "'w BasetenModelReconciler \<Rightarrow> ('w \<Rightarrow> view) \<Rightarrow> string \<Rightarrow> string \<Rightarrow> bool" where
  "reads_truthful r V mid envName \<longleftrightarrow>
     (\<forall>w env w'. ci_GetEnvironment (BasetenClient r) mid envName w = (Inr env, w') \<longrightarrow> V w = env_view env)"

section \<open>The handlers that do not move it\<close>

lemma preserves_read_clock: "preserves V f \<Longrightarrow> preserves V (read_clock f n)"
  unfolding preserves_def
proof (rule allI)
  fix w assume V: "\<forall>w. V (snd (f w)) = V w"
  show "V (snd (read_clock f n w)) = V w"
  proof (induction n arbitrary: w)
    case (Suc n)
    then show ?case using V [rule_format, of w] by (auto split: prod.splits) (metis snd_conv)
  qed simp
qed

lemma unmoved_calls [unmoved_intro]:
  assumes "others_preserve r V"
  shows "unmoved V (time_Now r)" "unmoved V (ext_read (RandFloat64 r))" "unmoved V (K_Update r)"
    "unmoved V (Status_Update r)" "unmoved V (api_GetEnvironment r m e)" "unmoved V (api_ListEnvironments r m)"
    "unmoved V (api_CreateEnvironment r m x)" "unmoved V (api_UpdateEnvironmentSettings r m e a p)"
    "unmoved V (api_UpdateAutoscalingSchedules r m e sp ob)" "unmoved V (api_FindDeploymentIDByName r m n)"
    "unmoved V (api_ActivateDeployment r m d)" "unmoved V (api_ListDeployments r m)"
    "unmoved V (api_UpdateDeploymentAutoscaling r m d k)" "unmoved V (api_DeleteDeployment r m d)"
    "unmoved V (api_RetryDeployment r m d)" "unmoved V (schedule_drift r sp sched)"
proof -
  note keeps = assms [unfolded others_preserve_def Let_def]
  show "unmoved V (K_Update r)" "unmoved V (Status_Update r)"
    using keeps by (auto simp: unmoved_def moves_def K_Update_def Status_Update_def dest: preservesD split: prod.splits)
qed (use assms [unfolded others_preserve_def Let_def] in \<open>auto simp: time_Now_def api_defs schedule_drift_def
    intro!: unmoved_intro preserves_read_clock\<close>)

lemma unmoved_setCondition [unmoved_intro]: "others_preserve r V \<Longrightarrow> unmoved V (setCondition r cs c)"
  by (induction r cs c rule: setCondition.induct) (auto intro!: unmoved_intro)

lemma unmoved_status [unmoved_intro]:
  assumes "others_preserve r V"
  shows "unmoved V (updateStatus r su)" "unmoved V (logUpdateStatus r su)" "unmoved V (invalidateModelID r err)"
  unfolding updateStatus_def logUpdateStatus_def invalidateModelID_def Let_def by (intro unmoved_intro assms)+

lemma unmoved_retry [unmoved_intro]:
  assumes "others_preserve r V"
  shows "unmoved V (scheduleNextRetry r)" "unmoved V (tryRetryDeployment r mid d n st)"
    "unmoved V (handleCandidateFailure r mid cur cand su)"
  unfolding scheduleNextRetry_def retryBackoff_def tryRetryDeployment_def first_failure_def backoff_remaining_def
    handleCandidateFailure_def Let_def
  by (intro unmoved_intro assms)+

lemma unmoved_source [unmoved_intro]:
  assumes "others_preserve r V"
  shows "unmoved V (checkDoublePromoteGuard r env mid src)" "unmoved V (validateSourceDeployment r mid src cur)"
    "unmoved V (return_step r res err)" "unmoved V (promotion_succeeded r env mid envName sid src dep)"
    "unmoved V (promotion_failed r env mid envName sid src e)"
  unfolding checkDoublePromoteGuard_def validateSourceDeployment_def source_switch_def source_missing_def
    source_failed_def source_inactive_def source_waiting_def return_step_def promotion_succeeded_def
    promotion_failed_def Let_def
  by (intro unmoved_intro assms)+

lemma unmoved_environment [unmoved_intro]:
  assumes "others_preserve r V"
  shows "unmoved V (create_environment r mid envName)" "unmoved V (fix_drift r mid envName env a p sch)"
  unfolding create_environment_def fix_drift_def patch_settings_def patch_schedules_def drift_events_def drift_event_def Let_def
  by (intro unmoved_intro assms)+

lemma unmoved_cleanup [unmoved_intro]:
  assumes "others_preserve r V"
  shows "unmoved V (reconcileOrphanCleanup r mid cfg)"
  unfolding reconcileOrphanCleanup_def cleanup_due_def run_cleanup_def findOrphanDeployments_def scaleInOrphans_def
    scale_in_one_def deleteStaleOrphans_def try_delete_def Let_def
  by (intro unmoved_intro assms)

lemma unmoved_current [unmoved_intro]:
  assumes "others_preserve r V"
  shows "unmoved V (reactivate_current r mid envName cur)" "unmoved V (steady_state r mid envName env cur)"
    "unmoved V (promotion_running r mid env cand)"
  unfolding reactivate_current_def steady_state_def promotion_running_def Let_def
  by (intro unmoved_intro assms)+

section \<open>One pass\<close>

text \<open>The objects read name the source and the environment, and have the model id.\<close>

definition managed :: "string \<Rightarrow> string \<Rightarrow> string \<Rightarrow> BasetenModel \<Rightarrow> bool" where
  "managed mid envName src m \<longleftrightarrow> \<not> deletion_requested m \<and> effectiveMode m = ModeReconcile \<and>
     mid \<noteq> '''' \<and> ModelID (Status m) = mid \<and> ec_Name (spec_Environment (Spec m)) = envName \<and>
     spec_TrussConfig (Spec m) = None \<and> spec_SourceDeploymentName (Spec m) = src"

text \<open>The contract of the rollout, with the completion \<open>finish\<close> of a promotion by Baseten.\<close>

definition rollout_service ::
  "'w BasetenModelReconciler \<Rightarrow> ('w \<Rightarrow> view) \<Rightarrow> ('w \<Rightarrow> 'w) \<Rightarrow> string \<Rightarrow> string \<Rightarrow> string \<Rightarrow> string \<Rightarrow> string \<Rightarrow> bool" where
  "rollout_service r V finish name ns mid envName src \<longleftrightarrow>
     others_preserve r V \<and> promotion_moves r V mid envName src \<and> reads_truthful r V mid envName \<and>
     (\<forall>w m w'. k_Get r name ns w = (Inr m, w') \<longrightarrow> managed mid envName src m) \<and>
     (\<forall>w. V (finish w) = (case V w of (cur, None) \<Rightarrow> (cur, None) | (cur, Some c) \<Rightarrow> (Some c, None)))"

text \<open>All calls succeed: the source can be promoted, and the settings agree.\<close>

definition all_succeed :: "'w BasetenModelReconciler \<Rightarrow> string \<Rightarrow> string \<Rightarrow> string \<Rightarrow> string \<Rightarrow> string \<Rightarrow> bool" where
  "all_succeed r name ns mid envName src \<longleftrightarrow>
     (\<forall>w. \<exists>m w'. k_Get r name ns w = (Inr m, w') \<and>
        \<not> snd (u_AddFinalizer r (bm_Finalizers m) FinalizerName) \<and>
        (\<forall>w. \<exists>env w'. ci_GetEnvironment (BasetenClient r) mid envName w = (Inr env, w') \<and> no_drift m env)) \<and>
     (\<forall>w. \<exists>d st w'. ci_FindDeploymentIDByName (BasetenClient r) mid src w = (Inr (d, st), w') \<and> d \<noteq> '''' \<and> healthy st) \<and>
     (\<forall>d p w. \<exists>dep w'. ci_Promote (BasetenClient r) mid d envName p w = (Inr (Some dep), w'))"

text \<open>
  What one step may do: nothing, which in phase 2 takes a call that fails, or promote, which takes phase 2
  to phase 1.
\<close>

definition rolls :: "bool \<Rightarrow> string \<Rightarrow> view \<Rightarrow> view \<Rightarrow> nat \<Rightarrow> bool" where
  "rolls ok src v v' n \<longleftrightarrow> (v' = v \<and> n = 0 \<and> (phase src v = 2 \<longrightarrow> \<not> ok)) \<or>
     (phase src v = 2 \<and> phase src v' = 1 \<and> n = 1)"

lemma rolls_stay:
  "unmoved V m \<Longrightarrow> (phase src (V (world s)) = 2 \<Longrightarrow> \<not> ok) \<Longrightarrow> moves V (rolls ok src) m s"
  by (rule moves_unmoved) (simp_all add: rolls_def)

lemma phase_cases:
  "V = (cur, cand) \<Longrightarrow> phase src V = 2 \<longleftrightarrow> \<not> name_matches cur src \<and> cand = None"
  by (auto simp: name_matches_def)

lemma promotion_movesD:
  assumes "promotion_moves r V mid envName src" and "ci_Promote (BasetenClient r) mid d envName p w = (res, w')"
  shows "res = Inr (Some dep) \<Longrightarrow> V w' = (fst (V w), Some (dep_Name dep))"
    "res = Inr (Some dep) \<Longrightarrow> fst (ci_FindDeploymentIDByName (BasetenClient r) mid src w0) = Inr (d, st) \<Longrightarrow> d \<noteq> '''' \<Longrightarrow>
      DeploymentNameMatchesPrefix (dep_Name dep) src"
    "\<nexists>dep. res = Inr (Some dep) \<Longrightarrow> V w' = V w"
proof -
  have "case (res, w') of
      (Inr (Some dep), w') \<Rightarrow> V w' = (fst (V w), Some (dep_Name dep)) \<and>
        (\<forall>w0 st. fst (ci_FindDeploymentIDByName (BasetenClient r) mid src w0) = Inr (d, st) \<longrightarrow> d \<noteq> '''' \<longrightarrow>
           DeploymentNameMatchesPrefix (dep_Name dep) src)
    | (_, w') \<Rightarrow> V w' = V w"
    using assms(1) [unfolded promotion_moves_def, THEN spec [of _ d], THEN spec [of _ p], THEN spec [of _ w]]
    unfolding assms(2) .
  then show "res = Inr (Some dep) \<Longrightarrow> V w' = (fst (V w), Some (dep_Name dep))"
    "res = Inr (Some dep) \<Longrightarrow> fst (ci_FindDeploymentIDByName (BasetenClient r) mid src w0) = Inr (d, st) \<Longrightarrow> d \<noteq> '''' \<Longrightarrow>
      DeploymentNameMatchesPrefix (dep_Name dep) src"
    "\<nexists>dep. res = Inr (Some dep) \<Longrightarrow> V w' = V w"
    by (auto split: sum.splits option.splits)
qed

lemma promote_rolls:
  assumes "others_preserve r V" and "promotion_moves r V mid envName src"
    and "fst (ci_FindDeploymentIDByName (BasetenClient r) mid src w0) = Inr (d, st)" and "d \<noteq> ''''"
    and "phase src (V (world s)) = 2" and "ok \<Longrightarrow> all_succeed r name ns mid envName src"
  shows "moves V (rolls ok src) (promote_source r env mid envName d src) s"
  unfolding promote_source_def api_Promote_def
proof (rule moves_bind, goal_cases)
  case 1
  show ?case by (intro unmoved_intro assms(1))
next
  case (2 a s1)
  show ?case
  proof (rule moves_bind, goal_cases)
    case 1
    show ?case by (intro unmoved_intro)
  next
    case (2 m s2)
    let ?p = "ec_PromotionSettings (spec_Environment (Spec m))"
    have phase: "phase src (V (world s2)) = 2" using 2(2) \<open>V (world s1) = V (world s)\<close> assms(5) by simp
    show ?case
    proof (rule moves_ext_call, rule conjI, goal_cases)
      case (1 res w)
      show ?case by (intro unmoved_intro assms(1))
    next
      case (2 res w)
      note law = promotion_movesD [OF assms(2) 2]
      show ?case
      proof (cases "\<exists>dep. res = Inr (Some dep)")
        case True
        then obtain dep where res: "res = Inr (Some dep)" by blast
        from law(1,2) [OF res] assms(3,4) have "V w = (fst (V (world s2)), Some (dep_Name dep))"
          "DeploymentNameMatchesPrefix (dep_Name dep) src" by auto
        with phase res show ?thesis
          by (cases "V (world s2)") (auto simp: rolls_def name_matches_def)
      next
        case False
        then have same: "V w = V (world s2)" by (rule law(3))
        have "\<not> ok" using assms(6) 2 False by (auto simp: all_succeed_def) (metis prod.inject)
        with same False show ?thesis by (cases res) (auto simp: rolls_def)
      qed
    qed
  qed
qed

lemma guard_answer:
  assumes "run_state (checkDoublePromoteGuard r env mid src) s = (g, s')"
  shows "g = None \<longleftrightarrow> env_CandidateDeployment env = None"
proof -
  have "answers (\<lambda>g. g = None \<longrightarrow> env_CandidateDeployment env = None) (checkDoublePromoteGuard r env mid src)"
    unfolding checkDoublePromoteGuard_def Let_def by (intro answers_intro) auto
  moreover have "g = None" if "env_CandidateDeployment env = None"
    using assms that
    by (auto simp: checkDoublePromoteGuard_def modify_status_def modify_obj_def modify_def model_def gets_def
        clear_stale_candidate_def matches_def split: if_splits)
  ultimately show ?thesis using answersD [OF _ assms] by auto
qed

text \<open>What a handler answers in terms of the answer to its first call.\<close>

lemma answers_first:
  assumes "run_state (State_Monad.bind (ext_call g eff) f) s = (b, s')" and "\<And>a. answers (A a) (f a)"
  shows "A (fst (g (world s))) b"
  using assms(1) answersD [OF assms(2)] by (auto simp: ext_call_def split: prod.splits)

text \<open>The source that \<open>validateSourceDeployment\<close> lets pass has been found under its name; one that serves passes.\<close>

lemma validate_answer:
  assumes "run_state (validateSourceDeployment r mid src cur) s = ((sid, res, err), s')"
  shows "err = None \<Longrightarrow> res = None \<Longrightarrow>
      \<exists>w0 st. fst (ci_FindDeploymentIDByName (BasetenClient r) mid src w0) = Inr (sid, st) \<and> sid \<noteq> ''''"
    and "fst (ci_FindDeploymentIDByName (BasetenClient r) mid src (world s)) = Inr (d, st) \<Longrightarrow> d \<noteq> '''' \<Longrightarrow> healthy st \<Longrightarrow>
      err = None \<and> res = None"
proof -
  let ?found = "fst (ci_FindDeploymentIDByName (BasetenClient r) mid src (world s))"
  let ?A = "\<lambda>found (sid, res, err). (err = None \<and> res = None \<longrightarrow> (\<exists>st. found = Inr (sid, st) \<and> sid \<noteq> '''')) \<and>
    ((\<exists>d st. found = Inr (d, st) \<and> d \<noteq> '''' \<and> healthy st) \<longrightarrow> err = None \<and> res = None)"
  have missing: "answers (\<lambda>(_, res, err). err \<noteq> None) (source_missing r mid ap src ev e)" for ap ev e
    unfolding source_missing_def by (intro answers_intro) auto
  have switch: "answers (\<lambda>(i, res, err). (err = None \<and> res = None \<longrightarrow> i = d) \<and> (healthy st \<longrightarrow> err = None \<and> res = None))
      (source_switch r mid ap d src st)" for ap d st
  proof (cases "healthy st")
    case True
    then show ?thesis
      by (auto simp: answers_def healthy_def source_switch_def starting_status_def deployment_status_defs)
  next
    case False
    then show ?thesis by (intro answers_mono [OF source_switch_answers]) auto
  qed
  have "?A ?found (sid, res, err)"
    using assms unfolding validateSourceDeployment_def api_FindDeploymentIDByName_def Let_def
    by (rule answers_first)
      (intro answers_intro answers_mono [OF missing] answers_mono [OF switch]; auto)
  then show "err = None \<Longrightarrow> res = None \<Longrightarrow>
      \<exists>w0 st. fst (ci_FindDeploymentIDByName (BasetenClient r) mid src w0) = Inr (sid, st) \<and> sid \<noteq> ''''"
    "?found = Inr (d, st) \<Longrightarrow> d \<noteq> '''' \<Longrightarrow> healthy st \<Longrightarrow> err = None \<and> res = None"
    by auto
qed

lemma start_promotion_rolls:
  assumes "others_preserve r V" and "promotion_moves r V mid envName src" and "V (world s) = env_view env"
    and "\<not> matches (env_CurrentDeployment env) src" and "\<not> matches (env_CandidateDeployment env) src"
    and ok: "ok \<Longrightarrow> all_succeed r name ns mid envName src"
  shows "moves V (rolls ok src) (start_promotion r mid envName env src) s"
  unfolding start_promotion_def
proof (rule moves_bind [OF unmoved_source(1) [OF assms(1)]])
  fix g s1 assume g: "run_state (checkDoublePromoteGuard r env mid src) s = (g, s1)" and s1: "V (world s1) = V (world s)"
  have phase: "phase src (V (world s1)) = 2 \<longleftrightarrow> env_CandidateDeployment env = None"
    using assms(4) by (simp add: s1 assms(3) env_view_def phase_cases matches_view)
  show "moves V (rolls ok src) (case g of Some result \<Rightarrow> ret (result, None)
      | None \<Rightarrow> State_Monad.bind (validateSourceDeployment r mid src (env_CurrentDeployment env))
          (\<lambda>(sourceID, result, err). if err \<noteq> None \<or> result \<noteq> None then return_step r result err
            else promote_source r env mid envName sourceID src)) s1"
  proof (cases g)
    case (Some res)
    then show ?thesis
      using guard_answer [OF g] phase by (auto intro!: rolls_stay unmoved_intro)
  next
    case None
    then have 2: "phase src (V (world s1)) = 2" using guard_answer [OF g] phase by simp
    show ?thesis
      unfolding None option.case
    proof (rule moves_bind [OF unmoved_source(2) [OF assms(1)]])
      fix x s2 assume v: "run_state (validateSourceDeployment r mid src (env_CurrentDeployment env)) s1 = (x, s2)"
        and s2: "V (world s2) = V (world s1)"
      obtain sid res err where x: "x = (sid, res, err)" by (cases x)
      note v = v [unfolded x]
      show "moves V (rolls ok src) (case x of (sourceID, result, err) \<Rightarrow>
          if err \<noteq> None \<or> result \<noteq> None then return_step r result err
          else promote_source r env mid envName sourceID src) s2"
      proof (cases "err = None \<and> res = None")
        case True
        then obtain w0 st where "fst (ci_FindDeploymentIDByName (BasetenClient r) mid src w0) = Inr (sid, st)" "sid \<noteq> ''''"
          using validate_answer(1) [OF v] by blast
        from promote_rolls [OF assms(1,2) this _ ok, of s2] True 2 s2 show ?thesis by (simp add: x)
      next
        case False
        have "\<not> ok"
        proof
          assume ok
          then obtain d st where "fst (ci_FindDeploymentIDByName (BasetenClient r) mid src (world s1)) = Inr (d, st)"
              "d \<noteq> ''''" "healthy st"
            using ok unfolding all_succeed_def by (metis fst_conv)
          with validate_answer(2) [OF v] False show False by blast
        qed
        with False show ?thesis by (auto simp: x intro!: rolls_stay unmoved_intro assms(1))
      qed
    qed
  qed
qed

lemma environment_state_rolls:
  assumes "others_preserve r V" and "promotion_moves r V mid envName src" and "V (world s) = env_view env"
    and "ok \<Longrightarrow> all_succeed r name ns mid envName src"
  shows "moves V (rolls ok src) (reconcile_environment_state r mid envName env src) s"
proof (cases "matches (env_CurrentDeployment env) src \<or> matches (env_CandidateDeployment env) src")
  case True
  then have "phase src (V (world s)) \<noteq> 2"
    by (auto simp: assms(3) env_view_def matches_view)
  moreover have "unmoved V (reconcile_environment_state r mid envName env src)"
    using True unfolding reconcile_environment_state_def by (auto intro!: unmoved_intro assms(1))
  ultimately show ?thesis by (auto intro: rolls_stay)
next
  case False
  then show ?thesis
    using start_promotion_rolls [OF assms(1-3) _ _ assms(4)] by (simp add: reconcile_environment_state_def)
qed

text \<open>What \<open>reconcileEnvironment\<close> answers is the environment that it read.\<close>

lemma environment_seen:
  assumes "others_preserve r V" and "reads_truthful r V mid envName"
    and "run_state (reconcileEnvironment r mid envName) s = ((Some env, res, err), s')"
  shows "V (world s') = env_view env"
proof -
  have unmoved: "unmoved V (reconcileEnvironment r mid envName)"
    unfolding reconcileEnvironment_def Let_def by (intro unmoved_intro assms(1))
  have create: "answers (\<lambda>(x, _, _). x = None) (create_environment r mid envName)"
    unfolding create_environment_def by (intro answers_intro) auto
  have drift: "answers (\<lambda>(x, _, _). x = None) (fix_drift r mid envName e a p sch)" for e a p sch
    unfolding fix_drift_def Let_def by (intro answers_intro) auto
  have "(\<lambda>found (x, _, _). \<forall>env. x = Some env \<longrightarrow> found = Inr env)
      (fst (ci_GetEnvironment (BasetenClient r) mid envName (world s))) (Some env, res, err)"
    using assms(3) unfolding reconcileEnvironment_def api_GetEnvironment_def Let_def
    by (rule answers_first)
      (intro answers_intro answers_mono [OF create] answers_mono [OF drift]; auto)
  then have "fst (ci_GetEnvironment (BasetenClient r) mid envName (world s)) = Inr env" by simp
  with assms(2) have "V (world s) = env_view env" unfolding reads_truthful_def by (metis prod.collapse)
  with unmovedD(1) [OF unmoved assms(3)] show ?thesis by simp
qed

lemma moves_cong:
  "run_state m s = run_state n s' \<Longrightarrow> world s = world s' \<Longrightarrow> trace s = trace s' \<Longrightarrow> moves V R n s' \<Longrightarrow> moves V R m s"
  by (simp add: moves_def)

lemma managed_model_run:
  assumes "managed mid envName src (obj s)"
  shows "run_state (reconcile_model r) s = run_state (State_Monad.bind (reconcileEnvironment r mid envName)
      (\<lambda>(env, envResult, err). if err \<noteq> None \<or> envResult \<noteq> None then return_step r envResult err
        else case env of None \<Rightarrow> ret (return_result None None)
          | Some env \<Rightarrow> reconcile_environment_state r mid envName env src)) s"
  using assms
  by (auto simp: managed_def reconcile_model_def resolveModelID_def resolveSourceDeployment_def model_def gets_def Let_def)

lemma model_rolls:
  assumes "others_preserve r V" and "promotion_moves r V mid envName src" and "reads_truthful r V mid envName"
    and "managed mid envName src (obj s)"
    and "ok \<Longrightarrow> all_succeed r name ns mid envName src"
    and "ok \<Longrightarrow> \<forall>w. \<exists>env w'. ci_GetEnvironment (BasetenClient r) mid envName w = (Inr env, w') \<and> no_drift (obj s) env"
  shows "moves V (rolls ok src) (reconcile_model r) s"
proof (rule moves_cong [OF managed_model_run [OF assms(4)] refl refl], rule moves_bind)
  show "unmoved V (reconcileEnvironment r mid envName)"
    unfolding reconcileEnvironment_def Let_def by (intro unmoved_intro assms(1))
  fix x s' assume run: "run_state (reconcileEnvironment r mid envName) s = (x, s')"
  obtain seen res err where x: "x = (seen, res, err)" by (cases x)
  show "moves V (rolls ok src) (case x of (env, envResult, err) \<Rightarrow>
      if err \<noteq> None \<or> envResult \<noteq> None then return_step r envResult err
      else case env of None \<Rightarrow> ret (return_result None None)
        | Some env \<Rightarrow> reconcile_environment_state r mid envName env src) s'"
  proof (cases "err = None \<and> res = None \<and> seen \<noteq> None")
    case True
    then obtain env where env: "x = (Some env, None, None)" using x by auto
    with environment_seen [OF assms(1,3) run [unfolded env]] environment_state_rolls [OF assms(1,2) _ assms(5)]
    show ?thesis by simp
  next
    case False
    have "\<not> ok"
    proof
      assume ok
      with assms(6) obtain env w where "ci_GetEnvironment (BasetenClient r) mid envName (world s) = (Inr env, w)"
        "no_drift (obj s) env" by blast
      from environment_read [OF this(2,1)] run False show False by (auto simp: x)
    qed
    with False show ?thesis by (auto simp: x intro!: rolls_stay unmoved_intro assms(1) split: option.splits)
  qed
qed

lemma object_rolls:
  assumes "others_preserve r V" and "promotion_moves r V mid envName src" and "reads_truthful r V mid envName"
    and "managed mid envName src (obj s)"
    and "ok \<Longrightarrow> all_succeed r name ns mid envName src"
    and "ok \<Longrightarrow> \<not> snd (u_AddFinalizer r (bm_Finalizers (obj s)) FinalizerName) \<and>
      (\<forall>w. \<exists>env w'. ci_GetEnvironment (BasetenClient r) mid envName w = (Inr env, w') \<and> no_drift (obj s) env)"
  shows "moves V (rolls ok src) (reconcile_object r) s"
proof -
  obtain fs added where fin: "u_AddFinalizer r (bm_Finalizers (obj s)) FinalizerName = (fs, added)"
    by (cases "u_AddFinalizer r (bm_Finalizers (obj s)) FinalizerName")
  let ?s = "s\<lparr>obj := (obj s)\<lparr>bm_Finalizers := fs\<rparr>\<rparr>"
  have m: "managed mid envName src (obj ?s)" and drift: "no_drift (obj ?s) env = no_drift (obj s) env" for env
    using assms(4) by (simp_all add: managed_def deletion_requested_def effectiveMode_def no_drift_def
        baselineAutoscalingDrift_def cong: if_cong option.case_cong)
  have mode: "ModeReconcile \<noteq> ModePause" "ModeReconcile \<noteq> ModeObserve" by (simp_all add: mode_defs)
  note steps = reconcile_object_def reconcileLifecycle_def model_def gets_def modify_obj_def modify_def
  show ?thesis
  proof (cases added)
    case True
    let ?n = "State_Monad.bind (K_Update r) (\<lambda>err. ret (no_requeue,
        case err of None \<Rightarrow> None | Some e \<Rightarrow> if k8s_IsConflict e then None else Some e))"
    have run: "run_state (reconcile_object r) s = run_state ?n ?s"
      using assms(4) fin True mode
      by (simp add: steps managed_def) (auto split: prod.splits option.splits)
    have "\<not> ok" using assms(6) fin True by auto
    then have "moves V (rolls ok src) ?n ?s" by (intro rolls_stay unmoved_intro assms(1))
    then show ?thesis by (intro moves_cong [OF run]) simp_all
  next
    case False
    have "run_state (reconcile_object r) s = run_state (reconcile_model r) ?s"
      using assms(4) m fin False mode by (simp add: steps managed_def effectiveMode_def split: if_splits)
    moreover have "moves V (rolls ok src) (reconcile_model r) ?s"
      by (rule model_rolls [OF assms(1-3) m assms(5)]) (use assms(6) drift in auto)
    ultimately show ?thesis by (intro moves_cong [of _ s _ ?s]) simp_all
  qed
qed

lemma pass_rolls:
  assumes "rollout_service r V finish name ns mid envName src" and "ok \<Longrightarrow> all_succeed r name ns mid envName src"
  shows "moves V (rolls ok src) (Reconcile r name ns) s"
proof -
  have service: "others_preserve r V" "promotion_moves r V mid envName src" "reads_truthful r V mid envName"
      "\<forall>w m w'. k_Get r name ns w = (Inr m, w') \<longrightarrow> managed mid envName src m"
    using assms(1) by (simp_all add: rollout_service_def)
  obtain found w where get: "k_Get r name ns (world s) = (found, w)" by (cases "k_Get r name ns (world s)")
  have V: "V w = V (world s)"
    by (rule preservesD [of V "k_Get r name ns", OF _ get]) (use service(1) in \<open>simp add: others_preserve_def\<close>)
  show ?thesis
  proof (cases found)
    case (Inl e)
    have "\<not> ok" using assms(2) get Inl by (auto simp: all_succeed_def) (metis Inl_Inr_False prod.inject)
    then show ?thesis
      using get Inl V
      by (auto simp: moves_def rolls_def Reconcile_def K_Get_def modify_obj_def modify_def ext_call_def)
  next
    case (Inr m)
    let ?s = "s\<lparr>world := w, trace := trace s @ [KGet name ns (Inr m)], obj := m\<rparr>"
    have run: "run_state (Reconcile r name ns) s = run_state (reconcile_object r) ?s"
      using get Inr by (simp add: Reconcile_def K_Get_def modify_obj_def modify_def ext_call_def)
    have ok: "\<not> snd (u_AddFinalizer r (bm_Finalizers m) FinalizerName) \<and>
        (\<forall>w. \<exists>env w'. ci_GetEnvironment (BasetenClient r) mid envName w = (Inr env, w') \<and> no_drift m env)" if ok
    proof -
      note succeed = assms(2) [OF that]
      obtain m' w' where "k_Get r name ns (world s) = (Inr m', w')"
          "\<not> snd (u_AddFinalizer r (bm_Finalizers m') FinalizerName)"
          "\<forall>w. \<exists>env w'. ci_GetEnvironment (BasetenClient r) mid envName w = (Inr env, w') \<and> no_drift m' env"
        using succeed unfolding all_succeed_def by blast
      with get Inr show ?thesis by simp
    qed
    have "moves V (rolls ok src) (reconcile_object r) ?s"
      by (rule object_rolls [OF service(1-3) _ assms(2)]) (use service(4) get Inr ok in auto)
    then show ?thesis
      using V by (auto simp: moves_def run)
  qed
qed

section \<open>A rollout\<close>

text \<open>
  Passes and completions in any order. Each pass starts afresh; \<open>finish\<close> is Baseten's completion of the
  promotion that runs, if any. The effects of all passes are collected.
\<close>

datatype rollout_event = Pass | Finish

definition fresh :: "'w \<Rightarrow> 'w rstate" where
  "fresh w = \<lparr>world = w, trace = [], obj = zero_BasetenModel, semUsed = 0\<rparr>"

fun rollout ::
  "'w BasetenModelReconciler \<Rightarrow> ('w \<Rightarrow> 'w) \<Rightarrow> string \<Rightarrow> string \<Rightarrow> rollout_event list \<Rightarrow> 'w \<Rightarrow> 'w \<times> effect list" where
  "rollout r finish name ns [] w = (w, [])"
| "rollout r finish name ns (Pass # evs) w =
     (let s = snd (run_state (Reconcile r name ns) (fresh w)); (w', es) = rollout r finish name ns evs (world s)
      in (w', trace s @ es))"
| "rollout r finish name ns (Finish # evs) w = rollout r finish name ns evs (finish w)"

text \<open>The events that are still needed in a phase.\<close>

definition needed :: "nat \<Rightarrow> rollout_event list" where
  "needed n = drop (3 - n) [Finish, Pass, Finish]"

lemma phase_bound: "phase src v \<le> 3"
  by (cases v) simp

lemma needed_simps [simp]:
  "needed 0 = []" "needed 1 = [Finish]" "needed (Suc 0) = [Finish]" "needed 2 = [Pass, Finish]" "needed 3 = [Finish, Pass, Finish]"
  by (simp_all add: needed_def numeral_2_eq_2 numeral_3_eq_3)

lemma phase_0123: "phase src v = 0 \<or> phase src v = 1 \<or> phase src v = 2 \<or> phase src v = 3"
  by (cases v) auto

lemma needed_later:
  "subseq (needed (phase src v)) (Pass # evs) \<Longrightarrow> phase src v \<noteq> 2 \<Longrightarrow> subseq (needed (phase src v)) evs"
  "subseq (needed (phase src v)) (Finish # evs) \<Longrightarrow> phase src v \<noteq> 1 \<Longrightarrow> phase src v \<noteq> 3 \<Longrightarrow>
   subseq (needed (phase src v)) evs"
  "subseq (needed 1) (Finish # evs)" 
  "subseq (needed 2) (Pass # evs) \<Longrightarrow> subseq (needed 1) evs" "subseq (needed 3) (Finish # evs) \<Longrightarrow> subseq (needed 2) evs"
  using phase_0123 [of src v] by auto

text \<open>One event: the variant does not grow, and the event that is needed makes it smaller by one.\<close>

lemma finish_phase:
  assumes "rollout_service r V finish name ns mid envName src" and "undisturbed src (V w)"
  shows "undisturbed src (V (finish w))"
    and "phase src (V (finish w)) =
      (if phase src (V w) = 1 \<or> phase src (V w) = 3 then phase src (V w) - 1 else phase src (V w))"
proof -
  obtain cur cand where V: "V w = (cur, cand)" by (cases "V w")
  have "V (finish w) = (case (cur, cand) of (cur, None) \<Rightarrow> (cur, None) | (cur, Some c) \<Rightarrow> (Some c, None))"
    using assms(1) by (simp add: rollout_service_def V [symmetric])
  then show "undisturbed src (V (finish w))" "phase src (V (finish w)) =
      (if phase src (V w) = 1 \<or> phase src (V w) = 3 then phase src (V w) - 1 else phase src (V w))"
    using assms(2) by (auto simp: undisturbed_def V split: option.splits)
qed

lemma running_undisturbed: "phase src v = 1 \<Longrightarrow> undisturbed src v"
  by (cases v) (auto simp: undisturbed_def split: if_splits)

lemma pass_phase:
  assumes "rollout_service r V finish name ns mid envName src" and "undisturbed src (V w)"
    and "run_state (Reconcile r name ns) (fresh w) = (a, s)"
    and "ok \<longrightarrow> all_succeed r name ns mid envName src"
  shows "undisturbed src (V (world s)) \<and>
    ((phase src (V (world s)) = phase src (V w) \<and> promotions (trace s) = 0 \<and> (phase src (V w) = 2 \<longrightarrow> \<not> ok)) \<or>
     (phase src (V w) = 2 \<and> phase src (V (world s)) = 1 \<and> promotions (trace s) = 1))"
proof -
  have "rolls ok src (V w) (V (world s)) (promotions (trace s))"
    using pass_rolls [where s = "fresh w" and ok = ok, OF assms(1) mp [OF assms(4)]] assms(3) by (auto simp: moves_def fresh_def)
  then show ?thesis
    unfolding rolls_def using assms(2) running_undisturbed [of src "V (world s)"] by auto
qed

lemma rollout_phases:
  assumes "rollout_service r V finish name ns mid envName src" and "undisturbed src (V w)"
    and "rollout r finish name ns evs w = (w', es)" and "ok \<longrightarrow> all_succeed r name ns mid envName src"
  shows "phase src (V w') \<le> phase src (V w) \<and>
    promotions es = (if 2 \<le> phase src (V w) \<and> phase src (V w') < 2 then 1 else 0) \<and>
    (ok \<and> subseq (needed (phase src (V w))) evs \<longrightarrow> phase src (V w') = 0)"
  using assms(2,3)
proof (induction evs arbitrary: w es)
  case Nil
  then show ?case using phase_0123 [of src "V w"] by auto
next
  case (Cons e evs)
  show ?case
  proof (cases e)
    case Finish
    with Cons.prems have rest: "rollout r finish name ns evs (finish w) = (w', es)" by simp
    note step = finish_phase [OF assms(1) Cons.prems(1)]
    note IH = Cons.IH [OF step(1) rest, unfolded step(2)]
    consider "phase src (V w) = 1" | "phase src (V w) = 3" | "phase src (V w) \<noteq> 1" "phase src (V w) \<noteq> 3" by blast
    then show ?thesis
    proof cases
      case 1
      then show ?thesis using IH by simp
    next
      case 2
      then show ?thesis using IH needed_later(5) [of evs] by (auto simp: Finish)
    next
      case 3
      then show ?thesis using IH needed_later(2) [of src "V w" evs] by (auto simp: Finish)
    qed
  next
    case Pass
    obtain a s where run: "run_state (Reconcile r name ns) (fresh w) = (a, s)"
      by (cases "run_state (Reconcile r name ns) (fresh w)")
    obtain fs where rest: "rollout r finish name ns evs (world s) = (w', fs)" and es: "es = trace s @ fs"
      using Cons.prems(2) run by (auto simp: Pass Let_def split: prod.splits)
    note step = pass_phase [where ok = ok, OF assms(1) Cons.prems(1) run assms(4)]
    note IH = Cons.IH [OF conjunct1 [OF step] rest]
    from conjunct2 [OF step] show ?thesis
    proof (elim disjE conjE)
      assume stay: "phase src (V (world s)) = phase src (V w)" "promotions (trace s) = 0" "phase src (V w) = 2 \<longrightarrow> \<not> ok"
      show ?thesis using IH needed_later(1) [of src "V w" evs] stay(2,3) unfolding stay(1) by (auto simp: Pass es)
    next
      assume move: "phase src (V w) = 2" "phase src (V (world s)) = 1" "promotions (trace s) = 1"
      show ?thesis using IH needed_later(4) [of evs] move(3) unfolding move(1,2) by (auto simp: Pass es)
    qed
  qed
qed

lemma rollout_outcome:
  assumes "rollout_service r V finish name ns mid envName src" and "undisturbed src (V w)"
    and "rollout r finish name ns evs w = (w', es)"
  shows "phase src (V w') \<le> phase src (V w) \<and>
    promotions es = (if 2 \<le> phase src (V w) \<and> phase src (V w') < 2 then 1 else 0) \<and>
    (all_succeed r name ns mid envName src \<and> subseq [Finish, Pass, Finish] evs \<longrightarrow> name_matches (fst (V w')) src)"
proof -
  note phases = rollout_phases [where ok = "all_succeed r name ns mid envName src", OF assms imp_refl]
  have "subseq (needed (phase src (V w))) [Finish, Pass, Finish]"
    using phase_0123 [of src "V w"] by auto
  then have needed: "subseq [Finish, Pass, Finish] evs \<Longrightarrow> subseq (needed (phase src (V w))) evs"
    by (rule subseq_order.trans)
  have ended: "phase src (V w') = 0 \<Longrightarrow> name_matches (fst (V w')) src"
    by (cases "V w'") (simp split: if_splits)
  show ?thesis
  proof (intro conjI impI)
    assume "all_succeed r name ns mid envName src \<and> subseq [Finish, Pass, Finish] evs"
    with phases needed have "phase src (V w') = 0" by simp
    then show "name_matches (fst (V w')) src" by (rule ended)
  qed (use phases in simp_all)
qed

text \<open>
  C5: a rollout ends, and promotes once. Let only promotions of the operator and their completions move the
  environment, and let nobody promote another deployment over the source. Over any sequence of passes and
  completions, whatever calls fail, the variant never grows, and the source is promoted exactly once if the
  sequence takes the environment from where it is not yet (phases 2 and 3) to where it is being or has been
  promoted, and not at all otherwise. If all calls succeed, any sequence with a completion, a pass and a
  completion in this order ends with the source as the current deployment.
\<close>

theorem rollout_promotes_once:
  assumes "rollout_service r V finish name ns mid envName src" and "undisturbed src (V w)"
    and "rollout r finish name ns evs w = (w', es)"
  shows "phase src (V w') \<le> phase src (V w) \<and>
    promotions es = (if 2 \<le> phase src (V w) \<and> phase src (V w') < 2 then 1 else 0) \<and>
    (all_succeed r name ns mid envName src \<and> subseq [Finish, Pass, Finish] evs \<longrightarrow> name_matches (fst (V w')) src)"
  by (rule rollout_outcome [OF assms])

section \<open>A witness\<close>

text \<open>A service whose world is the view itself; another deployment is being promoted when the rollout starts.\<close>

definition view_Environment :: "view \<Rightarrow> Environment" where
  "view_Environment v = sample_Environment (map_option (\<lambda>n. sample_Deployment n n DeploymentStatusActive) (fst v))
     (map_option (\<lambda>n. sample_Deployment n n DeploymentStatusActive) (snd v))"

definition view_Client :: "view ClientInterface" where
  "view_Client = \<lparr>ci_FindModelIDByName = (\<lambda>n t w. (Inr ''mid'', w)),
     ci_DeleteModel = (\<lambda>m w. (None, w)),
     ci_GetEnvironment = (\<lambda>m e w. (Inr (view_Environment w), w)),
     ci_ListEnvironments = (\<lambda>m w. (Inr [view_Environment w], w)),
     ci_CreateEnvironment = (\<lambda>m c w. (None, w)),
     ci_UpdateEnvironmentSettings = (\<lambda>m e a p w. (None, w)),
     ci_UpdateAutoscalingSchedules = (\<lambda>m e a ob w. (None, w)),
     ci_FindDeploymentIDByName = (\<lambda>m n w. (Inr (n, DeploymentStatusActive), w)),
     ci_ActivateDeployment = (\<lambda>m d w. (None, w)),
     ci_Promote = (\<lambda>m d e p w. (Inr (Some (sample_Deployment d d DeploymentStatusDeploying)), (fst w, Some d))),
     ci_ListDeployments = (\<lambda>m w. (Inr [], w)),
     ci_UpdateDeploymentAutoscaling = (\<lambda>m d n w. (None, w)),
     ci_DeleteDeployment = (\<lambda>m d w. (None, w)),
     ci_RetryDeployment = (\<lambda>m d w. (Inr \<lparr>rr_Retried = True, rr_Reason = '''', rr_Deployment = None\<rparr>, w))\<rparr>"

definition view_Reconciler :: "view BasetenModelReconciler" where
  "view_Reconciler = \<lparr>k_Get = (\<lambda>n ns w. (Inr (sample_Model ModeReconcile ''''), w)),
     k_GetConfigMap = (\<lambda>n ns w. (Inr Map.empty, w)),
     k_Update = (\<lambda>m w. ((None, m), w)),
     k_StatusUpdate = (\<lambda>m w. ((None, m), w)),
     k_RetryOnConflict = attempts 4,
     u_ContainsFinalizer = (\<lambda>fs f. f \<in> set fs),
     u_AddFinalizer = (\<lambda>fs f. if f \<in> set fs then (fs, False) else (fs @ [f], True)),
     u_RemoveFinalizer = (\<lambda>fs f. (filter (\<lambda>g. g \<noteq> f) fs, f \<in> set fs)),
     BasetenClient = view_Client,
     TrussPusher = \<lparr>pi_PushFromConfig = (\<lambda>y sc n t d w. (Inr \<lparr>pu_ModelID = ''mid'', pu_DeploymentID = ''dep''\<rparr>, w))\<rparr>,
     MaxConcurrentReconciles = 5,
     PushSemaphore = Some 10,
     Now = (\<lambda>w. (0, w)),
     RandFloat64 = (\<lambda>w. (0, w)),
     SortSlice = sort_by,
     JsonValid = (\<lambda>j. True),
     YamlMarshal = (\<lambda>y. Inr '''')\<rparr>"

definition complete :: "view \<Rightarrow> view" where
  "complete v = (case v of (cur, None) \<Rightarrow> (cur, None) | (cur, Some c) \<Rightarrow> (Some c, None))"

lemma view_service: "rollout_service view_Reconciler id complete ''m'' ''ns'' ''mid'' ''production'' ''v2''"
proof -
  have "DeploymentNameMatchesPrefix ''v2'' ''v2''" by code_simp
  then show ?thesis
    by (simp add: rollout_service_def others_preserve_def preserves_def promotion_moves_def reads_truthful_def
        managed_def view_Reconciler_def view_Client_def view_Environment_def sample_Environment_def env_view_def
        sample_Deployment_def option.map_comp comp_def sample_Model_def zero_defs deletion_requested_def
        effectiveMode_def complete_def option.map_ident Let_def)
qed

lemma view_succeeds: "all_succeed view_Reconciler ''m'' ''ns'' ''mid'' ''production'' ''v2''"
proof -
  have "\<not> fst (HasAutoscalingDrift None None)" "\<not> fst (HasPromotionSettingsDrift None None)"
      "\<not> fst (HasScheduleDrift clk None None)" for clk
    by (simp_all add: HasAutoscalingDrift_def HasPromotionSettingsDrift_def HasScheduleDrift_def
        diffSchedules_def Let_def)
  then show ?thesis
    by (simp add: all_succeed_def view_Reconciler_def view_Client_def view_Environment_def sample_Environment_def
        sample_Model_def zero_defs healthy_def no_drift_def baselineAutoscalingDrift_def Let_def)
qed

lemma rollout_promotes_once_witness:
  "name_matches (fst (fst (rollout view_Reconciler complete ''m'' ''ns'' [Pass, Finish, Pass, Finish, Pass]
      (Some ''v1'', Some ''v0'')))) ''v2'' \<and>
   promotions (snd (rollout view_Reconciler complete ''m'' ''ns'' [Pass, Finish, Pass, Finish, Pass]
      (Some ''v1'', Some ''v0''))) = 1"
proof -
  let ?run = "rollout view_Reconciler complete ''m'' ''ns'' [Pass, Finish, Pass, Finish, Pass] (Some ''v1'', Some ''v0'')"
  have "undisturbed ''v2'' (id (Some ''v1'', Some ''v0''))" by code_simp
  note facts = conjunct2 [OF rollout_promotes_once [OF view_service this prod.collapse [symmetric],
    of "[Pass, Finish, Pass, Finish, Pass]"]]
  have source: "name_matches (fst (fst ?run)) ''v2''" using conjunct2 [OF facts] view_succeeds by simp
  have "phase ''v2'' (Some ''v1'', Some ''v0'') = 3" by code_simp
  moreover have "phase ''v2'' (fst ?run) = 0" using source by (cases "fst ?run") simp
  ultimately show ?thesis using source conjunct1 [OF facts] by simp
qed

end
