(* ===== verification/Settings_Props.thy ===== *)
theory Settings_Props
  imports Baseten_Drift
begin

text \<open>
  Autoscaling and promotion settings: when a drift is reported, and that a PATCH that took effect leaves
  none.
\<close>


text \<open>
  C18: a PATCH of the settings converges. When the service has set each field that the request of
  \<open>toUpdateAutoscalingSettings\<close> and \<open>toUpdatePromotionSettings\<close> names to the value sent, the settings that
  the client then reads, narrowed from 64 to 32 bits, show no drift from the spec.
\<close>

theorem settings_update_settles:
  assumes "autoscaling_patch_took (toUpdateAutoscalingSettings spec) x"
    and "promotion_patch_took (toUpdatePromotionSettings pspec) px"
  shows "HasAutoscalingDrift spec (Some (toAutoscalingSettings x)) = (False, []) \<and>
    HasPromotionSettingsDrift pspec (Some (toPromotionSettings px)) = (False, [])"
proof
  show "HasAutoscalingDrift spec (Some (toAutoscalingSettings x)) = (False, [])"
    by (rule autoscaling.settled) (use assms(1) autoscaling_patch_agrees in auto)
  show "HasPromotionSettingsDrift pspec (Some (toPromotionSettings px)) = (False, [])"
    by (rule promotion.settled) (use assms(2) promotion_patch_agrees in auto)
qed

definition sample_autoscaling :: AutoscalingConfig where
  "sample_autoscaling = \<lparr>ac_MinReplicas = Some 0, ac_MaxReplicas = Some 4, ac_ConcurrencyTarget = None,
     ac_AutoscalingWindow = Some 60, ac_ScaleDownDelay = None, ac_TargetUtilizationPercentage = None,
     ac_MaxScaleDownRate = None\<rparr>"

definition sample_promotion_config :: PromotionSettingsConfig where
  "sample_promotion_config = \<lparr>pc_ScaleDownPreviousDeployment = None, pc_PreserveInstanceType = None,
     pc_RedeployOnPromotion = Some True, pc_RollingDeploy = None, pc_PromotionCleanupStrategy = Some ''KEEP'',
     pc_RampUpWhilePromoting = None, pc_RampUpDurationSeconds = Some 30,
     pc_RollingDeployConfig = Some \<lparr>rd_Strategy = None, rd_MaxSurgePercent = Some 25, rd_MaxUnavailablePercent = None,
       rd_StabilizationTimeSeconds = None\<rparr>\<rparr>"

definition patched_autoscaling :: sdk_AutoscalingSettings where
  "patched_autoscaling = \<lparr>xa_MinReplica = 0, xa_MaxReplica = 4, xa_ConcurrencyTarget = 8, xa_AutoscalingWindow = Some 60,
     xa_ScaleDownDelay = Some 900, xa_TargetUtilizationPercentage = None, xa_MaxScaleDownRate = None\<rparr>"

definition patched_promotion :: sdk_PromotionSettings where
  "patched_promotion = \<lparr>xp_RedeployOnPromotion = Some True, xp_RollingDeploy = Some False,
     xp_PromotionCleanupStrategy = Some ''KEEP'', xp_RampUpWhilePromoting = None, xp_RampUpDurationSeconds = Some 30,
     xp_RollingDeployConfig = Some \<lparr>xr_RollingDeployStrategy = None, xr_MaxSurgePercent = Some 25,
       xr_MaxUnavailablePercent = None, xr_StabilizationTimeSeconds = Some 5\<rparr>\<rparr>"

lemma settings_update_settles_witness:
  "HasAutoscalingDrift (Some sample_autoscaling) (Some (toAutoscalingSettings patched_autoscaling)) = (False, []) \<and>
   HasPromotionSettingsDrift (Some sample_promotion_config) (Some (toPromotionSettings patched_promotion)) = (False, [])"
proof (rule settings_update_settles)
  show "autoscaling_patch_took (toUpdateAutoscalingSettings (Some sample_autoscaling)) patched_autoscaling"
    by code_simp
  show "promotion_patch_took (toUpdatePromotionSettings (Some sample_promotion_config)) patched_promotion"
    by code_simp
qed

end
