(* ===== verification/Time_Props.thy ===== *)
theory Time_Props
  imports Schedules
begin

text \<open>
  The calendar and the text of times: days and dates are inverse to each other, and reading the
  RFC 3339 text of a time gives the time back, to the second.
\<close>

section \<open>The calendar\<close>

lemma leap_sum_bounds:
  fixes k a b c :: int
  assumes "4 * a \<le> k" "k \<le> 4 * a + 3" "100 * b \<le> k" "k \<le> 100 * b + 99" "400 * c \<le> k" "k \<le> 400 * c + 399"
  shows "146097 * k - 699 \<le> 400 * (365 * k + a - b + c)" "400 * (365 * k + a - b + c) \<le> 146097 * k + 396"
proof -
  have "100 * k - 300 \<le> 400 * a" "400 * a \<le> 100 * k" "4 * k - 396 \<le> 400 * b" "400 * b \<le> 4 * k"
    "k - 399 \<le> 400 * c" "400 * c \<le> k"
    using assms by - linarith+
  then show "146097 * k - 699 \<le> 400 * (365 * k + a - b + c)" "400 * (365 * k + a - b + c) \<le> 146097 * k + 396"
    unfolding ring_distribs by - linarith+
qed

lemma div_bounds: "m * ((k::int) div m) \<le> k" "k \<le> m * (k div m) + (m - 1)" if "0 < m"
proof -
  have "k = m * (k div m) + k mod m" by simp
  moreover have "0 \<le> k mod m" "k mod m < m" using that by simp_all
  ultimately show "m * (k div m) \<le> k" "k \<le> m * (k div m) + (m - 1)" by linarith+
qed

lemma days_before_year_bounds:
  "146097 * (y - 1) - 699 \<le> 400 * days_before_year y" "400 * days_before_year y \<le> 146097 * (y - 1) + 396"
  unfolding days_before_year_def
  by (rule leap_sum_bounds; use div_bounds [of 4 "y - 1"] div_bounds [of 100 "y - 1"] div_bounds [of 400 "y - 1"] in simp)+

lemma scaled_le:
  assumes "400 * (a::int) \<le> 400 * b + 399"
  shows "a \<le> b"
proof (rule ccontr)
  assume "\<not> a \<le> b"
  then have "400 * (b + 1) \<le> 400 * a" by simp
  then show False using assms unfolding ring_distribs by linarith
qed

lemma year_of_days_correct:
  "days_before_year (year_of_days n) \<le> n" "n < days_before_year (year_of_days n + 1)"
proof -
  define q where "q = 400 * n div 146097"
  have q: "146097 * q \<le> 400 * n" "400 * n \<le> 146097 * q + (146097 - 1)"
    unfolding q_def by (rule div_bounds; simp)+
  have "days_before_year q \<le> n"
    using days_before_year_bounds(2) [of q] q(1) unfolding ring_distribs by - (rule scaled_le, linarith)
  moreover have "n + 1 \<le> days_before_year (q + 3)"
  proof (rule scaled_le)
    have "146097 * q + 291495 \<le> 400 * days_before_year (q + 3)"
      using days_before_year_bounds(1) [of "q + 3"] by simp
    with q(2) show "400 * (n + 1) \<le> 400 * days_before_year (q + 3) + 399" by simp
  qed
  ultimately have "days_before_year (year_of_days n) \<le> n \<and> n < days_before_year (year_of_days n + 1)"
    by (auto simp: year_of_days_def Let_def q_def [symmetric] add.commute add.left_commute)
  then show "days_before_year (year_of_days n) \<le> n" "n < days_before_year (year_of_days n + 1)" by blast+
qed

lemma mod_step: "(k::int) mod m = m - 1 \<Longrightarrow> 0 < m \<Longrightarrow> (k + 1) div m = k div m + 1"
  "(k::int) mod m \<noteq> m - 1 \<Longrightarrow> 0 < m \<Longrightarrow> (k + 1) div m = k div m"
proof -
  have split: "k = m * (k div m) + k mod m" by simp
  assume "0 < m"
  then have r: "0 \<le> k mod m" "k mod m < m" by simp_all
  show "(k + 1) div m = k div m + 1" if "k mod m = m - 1"
  proof -
    have "k + 1 = (k div m + 1) * m" using split that by (simp add: algebra_simps)
    then show ?thesis using \<open>0 < m\<close> by simp
  qed
  show "(k + 1) div m = k div m" if "k mod m \<noteq> m - 1"
  proof -
    have "k + 1 = (k div m) * m + (k mod m + 1)" using split by (simp add: algebra_simps)
    moreover have "(k mod m + 1) div m = 0" using r that by (intro div_pos_pos_trivial) auto
    ultimately show ?thesis using \<open>0 < m\<close> by (metis add_cancel_left_right div_mult_self3 less_irrefl)
  qed
qed

lemma year_step:
  fixes y a b c A B C :: int
  assumes "a' = a + A" "b' = b + B" "c' = c + C"
  shows "365 * y + a' - b' + c' - (365 * (y - 1) + a - b + c) = 365 + A - B + C"
  using assms by simp

lemma year_length:
  assumes "B \<Longrightarrow> A" and "C \<Longrightarrow> B"
  shows "(365::int) + (if A then 1 else 0) - (if B then 1 else 0) + (if C then 1 else 0) =
    sum_list [31, if A \<and> (\<not> B \<or> C) then 29 else 28, 31, 30, 31, 30, 31, 31, 30, 31, 30, 31]"
  using assms by (cases A; cases B; cases C; simp)

lemma days_of_year: "days_before_year (y + 1) - days_before_year y = sum_list (month_days y)"
proof -
  have *: "y div m = (y - 1) div m + (if y mod m = 0 then 1 else 0)" if "0 < m" for m
  proof -
    have "y mod m = ((y - 1) mod m + 1) mod m" by (metis diff_add_cancel mod_add_left_eq)
    moreover have "0 \<le> (y - 1) mod m" "(y - 1) mod m < m" using that by simp_all
    ultimately have "y mod m = 0 \<longleftrightarrow> (y - 1) mod m = m - 1"
      by (smt (verit) mod_pos_pos_trivial mod_self)
    then show ?thesis using mod_step [of "y - 1" m] that by auto
  qed
  have d4: "y div 4 = (y - 1) div 4 + (if y mod 4 = 0 then 1 else 0)" by (rule *) simp
  have d100: "y div 100 = (y - 1) div 100 + (if y mod 100 = 0 then 1 else 0)" by (rule *) simp
  have d400: "y div 400 = (y - 1) div 400 + (if y mod 400 = 0 then 1 else 0)" by (rule *) simp
  have step: "days_before_year (y + 1) - days_before_year y =
      365 + (if y mod 4 = 0 then 1 else 0) - (if y mod 100 = 0 then 1 else 0) + (if y mod 400 = 0 then 1 else 0)"
    unfolding days_before_year_def add_diff_cancel_right' by (rule year_step [OF d4 d100 d400])
  have "y mod 100 = 0 \<Longrightarrow> y mod 4 = 0"
    unfolding mod_eq_0_iff_dvd by (rule dvd_trans [of 4 100]) simp_all
  moreover have "y mod 400 = 0 \<Longrightarrow> y mod 100 = 0"
    unfolding mod_eq_0_iff_dvd by (rule dvd_trans [of 100 400]) simp_all
  ultimately show ?thesis unfolding step month_days_def is_leap_def by (rule year_length)
qed

lemma month_of_yday_correct:
  "month_of_yday ls m0 n = (m, d) \<Longrightarrow> 0 \<le> n \<Longrightarrow> n < sum_list ls \<Longrightarrow>
     m0 \<le> m \<and> m < m0 + int (length ls) \<and> 1 \<le> d \<and> d \<le> ls ! nat (m - m0) \<and>
     n = sum_list (take (nat (m - m0)) ls) + (d - 1)"
proof (induction ls m0 n rule: month_of_yday.induct)
  case (1 m0 n)
  then show ?case by simp
next
  case (2 l ls m0 n)
  show ?case
  proof (cases "n < l")
    case True
    with 2 show ?thesis by auto
  next
    case False
    with 2 have "m0 + 1 \<le> m \<and> m < m0 + 1 + int (length ls) \<and> 1 \<le> d \<and> d \<le> ls ! nat (m - (m0 + 1)) \<and>
        n - l = sum_list (take (nat (m - (m0 + 1))) ls) + (d - 1)"
      by simp
    moreover from this have "nat (m - m0) = Suc (nat (m - (m0 + 1)))" by linarith
    ultimately show ?thesis by simp
  qed
qed

lemma date_of_days_correct:
  assumes "date_of_days n = (y, m, d)"
  shows "days_of_date y m d = n" "1 \<le> m" "m \<le> 12" "1 \<le> d" "d \<le> daysIn m y"
proof -
  have y: "y = year_of_days n" and md: "month_of_yday (month_days y) 1 (n - days_before_year y) = (m, d)"
    using assms by (auto simp: date_of_days_def Let_def split: prod.splits)
  have "0 \<le> n - days_before_year y" "n - days_before_year y < sum_list (month_days y)"
    using year_of_days_correct [of n] days_of_year [of y] unfolding y by - linarith+
  from month_of_yday_correct [OF md this] show "days_of_date y m d = n" "1 \<le> m" "m \<le> 12" "1 \<le> d" "d \<le> daysIn m y"
    by (simp_all add: days_of_date_def daysIn_def month_days_def)
qed

lemma daysIn_bound: "1 \<le> m \<Longrightarrow> m \<le> 12 \<Longrightarrow> daysIn m y \<le> 31"
proof -
  assume "1 \<le> m" "m \<le> 12"
  then have "daysIn m y \<in> set (month_days y)" unfolding daysIn_def by (intro nth_mem) (simp add: month_days_def)
  then show ?thesis by (auto simp: month_days_def split: if_splits)
qed

section \<open>Digits\<close>

lemma digit_char_simps [simp]:
  assumes "d < 10"
  shows "is_digit (digit_char d)" "digit_val (digit_char d) = int d"
proof -
  have "(of_char (digit_char d) :: nat) = 48 + d"
    using assms by (simp add: digit_char_def)
  then show "is_digit (digit_char d)" "digit_val (digit_char d) = int d"
    using assms by (simp_all add: is_digit_def digit_val_def)
qed

lemma fmt_nat_small: "n < 10 \<Longrightarrow> fmt_nat n = [digit_char n]"
  by (subst fmt_nat.simps) simp

lemma fmt_nat_snoc: "0 < m \<Longrightarrow> d < 10 \<Longrightarrow> fmt_nat (10 * m + d) = fmt_nat m @ [digit_char d]"
  by (subst fmt_nat.simps) simp

lemma zero_digit: "CHR ''0'' = digit_char 0"
  by code_simp

lemma split_digit: "\<exists>m d. (n::nat) = 10 * m + d \<and> d < 10 \<and> (\<forall>k. n < 10 * k \<longrightarrow> m < k)"
  by (rule exI [of _ "n div 10"], rule exI [of _ "n mod 10"]) (simp add: less_mult_imp_div_less mult.commute)

lemma replicate_small: "replicate 2 x = [x, x]" "replicate 3 x = [x, x, x]"
  by (simp_all add: eval_nat_numeral)

text \<open>Two digits and four digits of a number in range, and how the parser reads them.\<close>

lemma two_digits:
  assumes "0 \<le> x" "x < 100"
  obtains a b where "a < 10" "b < 10" "x = 10 * int a + int b" "fmt_pad 2 x = [digit_char a, digit_char b]"
proof -
  obtain a b where n: "nat x = 10 * a + b" "b < 10" "nat x < 10 * 10 \<longrightarrow> a < 10" using split_digit [of "nat x"] by blast
  have "pad 2 (fmt_nat (10 * a + b)) = [digit_char a, digit_char b]" if "a < 10"
    using that n(2) by (cases "a = 0") (simp_all add: pad_def fmt_nat_small fmt_nat_snoc zero_digit)
  with n assms show ?thesis by (intro that [of a b]) (auto simp: fmt_pad_def)
qed

lemma getnum_two_digits:
  assumes "0 \<le> x" "x < 100"
  shows "getnum (fmt_pad 2 x @ s) fixed = Some (x, s)"
proof -
  obtain a b where "a < 10" "b < 10" "x = 10 * int a + int b" "fmt_pad 2 x = [digit_char a, digit_char b]"
    using assms by (rule two_digits)
  then show ?thesis by simp
qed

lemma four_digits:
  assumes "0 \<le> y" "y < 10000"
  obtains a b c d where "a < 10" "b < 10" "c < 10" "d < 10"
    "y = 10 * (10 * (10 * int a + int b) + int c) + int d"
    "fmt_pad 4 y = [digit_char a, digit_char b, digit_char c, digit_char d]"
proof -
  obtain m d where d: "nat y = 10 * m + d" "d < 10" "nat y < 10 * 1000 \<longrightarrow> m < 1000" using split_digit [of "nat y"] by blast
  obtain k c where c: "m = 10 * k + c" "c < 10" "m < 10 * 100 \<longrightarrow> k < 100" using split_digit [of m] by blast
  obtain a b where b: "k = 10 * a + b" "b < 10" "k < 10 * 10 \<longrightarrow> a < 10" using split_digit [of k] by blast
  have a: "a < 10" using assms b c d by simp
  note digits = pad_def fmt_nat_small fmt_nat_snoc zero_digit
  have "pad 4 (fmt_nat (10 * (10 * (10 * a + b) + c) + d)) = [digit_char a, digit_char b, digit_char c, digit_char d]"
  proof (cases "a = 0")
    case False
    then have pos: "0 < a" "0 < 10 * a + b" "0 < 10 * (10 * a + b) + c" by simp_all
    have "fmt_nat (10 * (10 * (10 * a + b) + c) + d) = [digit_char a, digit_char b, digit_char c, digit_char d]"
      unfolding fmt_nat_snoc [OF pos(3) d(2)] fmt_nat_snoc [OF pos(2) c(2)] fmt_nat_snoc [OF pos(1) b(2)]
        fmt_nat_small [OF a] by simp
    then show ?thesis unfolding pad_def by simp
  next
    case a0: True
    show ?thesis
    proof (cases "b = 0")
      case False
      then have pos: "0 < b" "0 < 10 * b + c" by simp_all
      have "fmt_nat (10 * (10 * b + c) + d) = [digit_char b, digit_char c, digit_char d]"
        unfolding fmt_nat_snoc [OF pos(2) d(2)] fmt_nat_snoc [OF pos(1) c(2)] fmt_nat_small [OF b(2)] by simp
      then show ?thesis unfolding a0 mult_0_right add_0 pad_def by (simp add: zero_digit)
    next
      case True
      with a0 c d show ?thesis by (cases "c = 0") (simp_all add: digits replicate_small)
    qed
  qed
  with a b c d assms show ?thesis by (intro that [of a b c d]) (auto simp: fmt_pad_def)
qed

lemma get_year_digits:
  assumes "0 \<le> y" "y < 10000"
  shows "get_year v (fmt_pad 4 y @ s) = Inr (y, s)"
proof -
  obtain a b c d where "a < 10" "b < 10" "c < 10" "d < 10"
    "y = 10 * (10 * (10 * int a + int b) + int c) + int d"
    "fmt_pad 4 y = [digit_char a, digit_char b, digit_char c, digit_char d]"
    using assms by (rule four_digits)
  then show ?thesis by (simp add: get_year_def atoi_def)
qed

section \<open>Reading a formatted time\<close>

text \<open>The zones that the text can carry, and the years it has room for.\<close>

definition in_rfc3339_range :: "ztime \<Rightarrow> bool" where
  "in_rfc3339_range z \<longleftrightarrow>
     (\<exists>k. snd z = 60 * k \<and> \<bar>k\<bar> \<le> 1440) \<and>
     (case date_of_days ((fst z div Second + snd z) div 86400 + epoch_days) of (y, m, d) \<Rightarrow> 0 \<le> y \<and> y < 10000)"

lemma zone_text:
  assumes "off = 60 * k" "\<bar>k\<bar> \<le> 1440"
  shows "get_fraction (fmt_zone off) = (0, fmt_zone off)" "get_zone v (fmt_zone off) = Inr (off, '''')"
proof -
  have "get_fraction (fmt_zone off) = (0, fmt_zone off) \<and> get_zone v (fmt_zone off) = Inr (off, '''')"
  proof (cases "k = 0")
    case True
    with assms show ?thesis by (simp add: fmt_zone_def get_fraction_def get_zone_def)
  next
    case False
    define h m where "h = \<bar>k\<bar> div 60" and "m = \<bar>k\<bar> mod 60"
    have hm: "0 \<le> h" "h \<le> 24" "0 \<le> m" "m < 60" "\<bar>k\<bar> = 60 * h + m"
      using assms(2) by (simp_all add: h_def m_def)
    obtain a b where ab: "a < 10" "b < 10" "h = 10 * int a + int b" "fmt_pad 2 h = [digit_char a, digit_char b]"
      by (rule two_digits [of h]) (use hm in simp_all)
    obtain c d where cd: "c < 10" "d < 10" "m = 10 * int c + int d" "fmt_pad 2 m = [digit_char c, digit_char d]"
      by (rule two_digits [of m]) (use hm in simp_all)
    have zone: "sgn off * (\<bar>off\<bar> div 60) = k" using assms(1) by (auto simp: sgn_if abs_mult)
    have shown: "fmt_zone off = (if k < 0 then CHR ''-'' else CHR ''+'') #
        digit_char a # digit_char b # CHR '':'' # digit_char c # digit_char d # []"
      using False assms(1) ab(4) cd(4) unfolding fmt_zone_def Let_def zone h_def m_def by simp
    have off: "off = (if k < 0 then - ((h * 60 + m) * 60) else (h * 60 + m) * 60)"
      using assms(1) hm(5) by (simp add: algebra_simps abs_if split: if_splits)
    have "\<not> 24 < h" "\<not> 60 < m" using hm by simp_all
    with shown off ab cd show ?thesis by (simp add: get_fraction_def get_zone_def)
  qed
  then show "get_fraction (fmt_zone off) = (0, fmt_zone off)" "get_zone v (fmt_zone off) = Inr (off, '''')"
    by simp_all
qed

lemma clock_fields:
  fixes sod :: int
  assumes "0 \<le> sod" "sod < 86400"
  shows "0 \<le> sod div 3600" "sod div 3600 < 24" "0 \<le> sod div 60 mod 60" "sod div 60 mod 60 < 60"
    "0 \<le> sod mod 60" "sod mod 60 < 60" "sod div 3600 * 3600 + sod div 60 mod 60 * 60 + sod mod 60 = sod"
proof -
  have "sod div 3600 = sod div 60 div 60" by (simp add: zdiv_zmult2_eq [symmetric])
  moreover have "sod = 60 * (sod div 60) + sod mod 60" "sod div 60 = 60 * (sod div 60 div 60) + sod div 60 mod 60" by simp_all
  ultimately show "sod div 3600 * 3600 + sod div 60 mod 60 * 60 + sod mod 60 = sod" by linarith
qed (use assms in simp_all)

lemma parse_parts:
  assumes "off = 60 * k" "\<bar>k\<bar> \<le> 1440" and "0 \<le> y" "y < 10000" and "1 \<le> m" "m \<le> 12" "1 \<le> d" "d \<le> daysIn m y"
    and "0 \<le> h" "h < 24" "0 \<le> mi" "mi < 60" "0 \<le> sec" "sec < 60"
  shows "RFC3339_Parse (fmt_pad 4 y @ ''-'' @ fmt_pad 2 m @ ''-'' @ fmt_pad 2 d @ ''T'' @ fmt_pad 2 h @ '':'' @
    fmt_pad 2 mi @ '':'' @ fmt_pad 2 sec @ fmt_zone off) = Inr (time_Date y m d h mi sec 0 - off * Second)"
proof -
  have "d < 100" using daysIn_bound [OF assms(5,6), of y] assms(8) by linarith
  with assms(3-14) show ?thesis
    unfolding RFC3339_Parse_def
    by (simp add: get_year_digits get_field_def getnum_two_digits zone_text [OF assms(1,2)])
qed

lemma parse_format:
  assumes "in_rfc3339_range (t, off)"
  shows "RFC3339_Parse (RFC3339_FormatZ (t, off)) = Inr (t div Second * Second)"
proof -
  define secs where "secs = t div Second + off"
  define n where "n = secs div 86400 + epoch_days"
  define sod where "sod = secs mod 86400"
  obtain y m d where date: "date_of_days n = (y, m, d)" by (cases "date_of_days n")
  obtain k where off: "off = 60 * k" "\<bar>k\<bar> \<le> 1440" and y: "0 \<le> y" "y < 10000"
    using assms date by (auto simp: in_rfc3339_range_def n_def secs_def)
  note md = date_of_days_correct [OF date]
  have sod: "0 \<le> sod" "sod < 86400" by (simp_all add: sod_def)
  note clock = clock_fields [OF sod]
  let ?text = "fmt_pad 4 y @ ''-'' @ fmt_pad 2 m @ ''-'' @ fmt_pad 2 d @ ''T'' @ fmt_pad 2 (sod div 3600) @ '':'' @
    fmt_pad 2 (sod div 60 mod 60) @ '':'' @ fmt_pad 2 (sod mod 60) @ fmt_zone off"
  have shown: "RFC3339_FormatZ (t, off) = ?text"
    using date by (simp add: RFC3339_FormatZ_def Let_def secs_def n_def sod_def)
  have "RFC3339_Parse ?text = Inr (time_Date y m d (sod div 3600) (sod div 60 mod 60) (sod mod 60) 0 - off * Second)"
    by (rule parse_parts [OF off y md(2-5) clock(1-6)])
  also have "time_Date y m d (sod div 3600) (sod div 60 mod 60) (sod mod 60) 0 = secs * Second"
  proof -
    have "(days_of_date y m d - epoch_days) * 86400 + sod div 3600 * 3600 + sod div 60 mod 60 * 60 + sod mod 60 = secs"
    proof -
      have "secs div 86400 * 86400 + sod = secs" by (simp add: sod_def)
      moreover have "days_of_date y m d - epoch_days = secs div 86400" by (simp add: md(1) n_def)
      ultimately show ?thesis using clock(7) by simp
    qed
    then show ?thesis by (simp add: time_Date_def)
  qed
  finally show ?thesis by (simp add: shown secs_def algebra_simps)
qed

end
