(* ===== verification/Schedule_Props.thy ===== *)
theory Schedule_Props
  imports Time_Props
begin

text \<open>
  Autoscaling schedules: when a drift is reported, what the request removes and writes, that the
  environment agrees with the spec once the request has taken effect, and that a schedule survives the
  way to the service and back.
\<close>

section \<open>The stages of the comparison\<close>

definition quiet_diff :: "scheduleDiff \<Rightarrow> bool" where
  "quiet_diff d \<longleftrightarrow> (changes d = [] \<longrightarrow> deletes d = [])"

lemma sd_remove_changes: "quiet_diff d \<Longrightarrow> changes (sd_remove ob c d) \<noteq> []"
  by (auto simp: sd_remove_def quiet_diff_def)

lemma sd_remove_quiet: "quiet_diff d \<Longrightarrow> quiet_diff (sd_remove ob c d)"
  by (auto simp: sd_remove_def quiet_diff_def)

lemma sd_remove_simps [simp]:
  "set (deletes (sd_remove ob c d)) = insert (sch_ID ob) (set (deletes d))"
  "distinct (deletes (sd_remove ob c d)) \<longleftrightarrow> distinct (deletes d)"
  "upserts (sd_remove ob c d) = upserts d"
  by (auto simp: sd_remove_def)

text \<open>The observed schedule of a name: the first one.\<close>

definition by_name :: "AutoscalingSchedule list \<Rightarrow> string \<rightharpoonup> AutoscalingSchedule" where
  "by_name obs = map_of (map (\<lambda>ob. (sch_Name ob, ob)) obs)"

lemma by_name_simps [simp]:
  "by_name [] = Map.empty"
  "by_name (ob # obs) = (by_name obs)(sch_Name ob \<mapsto> ob)"
  by (simp_all add: by_name_def)

lemma by_name_name: "by_name obs n = Some ob \<Longrightarrow> sch_Name ob = n \<and> ob \<in> set obs"
  by (induction obs) (auto split: if_splits)

lemma by_name_None: "by_name obs n = None \<longleftrightarrow> n \<notin> sch_Name ` set obs"
  by (induction obs) auto

lemma by_name_distinct: "distinct (map sch_Name obs) \<Longrightarrow> ob \<in> set obs \<Longrightarrow> by_name obs (sch_Name ob) = Some ob"
  by (induction obs) (auto simp: rev_image_eqI)

lemma map_add_first:
  "n k = None \<Longrightarrow> m(k \<mapsto> v) ++ n = m ++ n(k \<mapsto> v)" "n k \<noteq> None \<Longrightarrow> m(k \<mapsto> v) ++ n = m ++ n"
  by (rule ext, auto simp: map_add_def split: option.splits)+

lemma index_observed_map: "fst (index_observed obs byName d) = by_name obs ++ byName"
  by (induction obs byName d rule: index_observed.induct) (simp_all add: map_add_first del: fun_upd_apply)

lemma index_observed_quiet: "quiet_diff d \<Longrightarrow> quiet_diff (snd (index_observed obs byName d))"
  by (induction obs byName d rule: index_observed.induct) (simp_all add: sd_remove_quiet)

lemma index_observed_upserts: "upserts (snd (index_observed obs byName d)) = upserts d"
  by (induction obs byName d rule: index_observed.induct) (simp_all del: fun_upd_apply)

lemma index_observed_changes:
  "quiet_diff d \<Longrightarrow> changes (snd (index_observed obs byName d)) = [] \<longleftrightarrow> changes d = [] \<and> distinct (map sch_Name obs) \<and>
      (\<forall>ob \<in> set obs. byName (sch_Name ob) = None)"
proof (induction obs byName d rule: index_observed.induct)
  case (2 ob obs byName d)
  show ?case
  proof (cases "byName (sch_Name ob) = None")
    case True
    with 2 show ?thesis by (auto simp del: fun_upd_apply) (auto simp: rev_image_eqI split: if_splits)
  next
    case False
    with 2 show ?thesis by (auto simp: sd_remove_changes sd_remove_quiet)
  qed
qed simp

text \<open>The index keeps the first of each name and deletes the others.\<close>

lemma index_observed_distinct:
  "distinct (deletes d) \<Longrightarrow> distinct (deletes (snd (index_observed obs byName d)))"
  by (induction obs byName d rule: index_observed.induct) (simp_all del: fun_upd_apply)

lemma index_observed_deletes:
  assumes "distinct obs" and "\<forall>ob \<in> set obs. \<forall>n. byName n \<noteq> Some ob"
  shows "set (deletes (snd (index_observed obs byName d))) =
    set (deletes d) \<union> sch_ID ` {ob \<in> set obs. (by_name obs ++ byName) (sch_Name ob) \<noteq> Some ob}"
  using assms
proof (induction obs byName d rule: index_observed.induct)
  case (2 ob obs byName d)
  have new: "\<forall>x \<in> set obs. \<forall>n. byName n \<noteq> Some x" "distinct obs" "ob \<notin> set obs" "\<And>n. byName n \<noteq> Some ob"
    using "2.prems" by auto
  define B where "B = by_name (ob # obs) ++ byName"
  have others: "{x \<in> set (ob # obs). B (sch_Name x) \<noteq> Some x} =
      (if B (sch_Name ob) = Some ob then {} else {ob}) \<union> {x \<in> set obs. B (sch_Name x) \<noteq> Some x}"
    by auto
  have "set (deletes (snd (index_observed (ob # obs) byName d))) =
      set (deletes d) \<union> sch_ID ` {x \<in> set (ob # obs). B (sch_Name x) \<noteq> Some x}"
  proof (cases "byName (sch_Name ob) = None")
    case True
    have "\<forall>x \<in> set obs. \<forall>n. (byName(sch_Name ob \<mapsto> ob)) n \<noteq> Some x" using new by auto
    with 2 True new have "set (deletes (snd (index_observed (ob # obs) byName d))) = set (deletes d) \<union>
        sch_ID ` {x \<in> set obs. B (sch_Name x) \<noteq> Some x}"
      by (simp add: B_def map_add_first del: fun_upd_apply)
    moreover have "B (sch_Name ob) = Some ob" using True by (simp add: B_def map_add_def)
    ultimately show ?thesis unfolding others by (simp del: index_observed.simps)
  next
    case False
    with 2 new have "set (deletes (snd (index_observed (ob # obs) byName d))) = insert (sch_ID ob) (set (deletes d)) \<union>
        sch_ID ` {x \<in> set obs. B (sch_Name x) \<noteq> Some x}"
      by (simp add: B_def map_add_first del: fun_upd_apply)
    moreover have "B (sch_Name ob) \<noteq> Some ob"
      using False new(4) by (auto simp: B_def map_add_def)
    ultimately show ?thesis unfolding others by (simp del: index_observed.simps)
  qed
  then show ?case unfolding B_def .
qed simp

text \<open>One schedule of the spec: whether it is met, and what is upserted for it.\<close>

definition met :: "(string \<rightharpoonup> AutoscalingSchedule) \<Rightarrow> SpecSchedule \<Rightarrow> bool" where
  "met byName s \<longleftrightarrow> (\<exists>ob. byName (sp_Name s) = Some ob \<and>
     normalizeSchedule (scheduleFromSpec s) = normalizeSchedule ob)"

definition upsert_of :: "(string \<rightharpoonup> AutoscalingSchedule) \<Rightarrow> SpecSchedule \<Rightarrow> AutoscalingSchedule" where
  "upsert_of byName s = (scheduleFromSpec s)\<lparr>sch_ID := (case byName (sp_Name s) of None \<Rightarrow> '''' | Some ob \<Rightarrow> sch_ID ob)\<rparr>"

lemma scheduleFromSpec_ID [simp]: "sch_ID (scheduleFromSpec s) = ''''" "sch_Name (scheduleFromSpec s) = sp_Name s"
  by (simp_all add: scheduleFromSpec_def Let_def)

lemma diff_one_effect:
  "upserts (diff_one now byName s d) = upserts d @ (if expired now s \<or> met byName s then [] else [upsert_of byName s])"
  "changes (diff_one now byName s d) = [] \<longleftrightarrow> changes d = [] \<and> (expired now s \<or> met byName s)"
  "deletes (diff_one now byName s d) = deletes d"
  by (auto simp: diff_one_def Let_def met_def upsert_of_def split: option.splits)

definition pending :: "(nat \<Rightarrow> time) \<Rightarrow> nat \<Rightarrow> (string \<rightharpoonup> AutoscalingSchedule) \<Rightarrow> SpecSchedule list \<Rightarrow> SpecSchedule list" where
  "pending clk i byName ss = map snd (filter (\<lambda>(j, s). \<not> expired (clk j) s \<and> \<not> met byName s) (enumerate i ss))"

lemma diff_spec_effect:
  "upserts (diff_spec clk i byName ss d) = upserts d @ map (upsert_of byName) (pending clk i byName ss)"
  "changes (diff_spec clk i byName ss d) = [] \<longleftrightarrow> changes d = [] \<and> pending clk i byName ss = []"
  "deletes (diff_spec clk i byName ss d) = deletes d"
  by (induction clk i byName ss d rule: diff_spec.induct) (auto simp: pending_def diff_one_effect)

lemma remove_unlisted_effect:
  "quiet_diff d \<Longrightarrow> changes (remove_unlisted names obs d) = [] \<longleftrightarrow> changes d = [] \<and> sch_Name ` set obs \<subseteq> names"
  "upserts (remove_unlisted names obs d) = upserts d"
  "distinct (deletes (remove_unlisted names obs d)) \<longleftrightarrow> distinct (deletes d)"
  "set (deletes (remove_unlisted names obs d)) = set (deletes d) \<union> sch_ID ` {ob \<in> set obs. sch_Name ob \<notin> names}"
  by (induction names obs d rule: remove_unlisted.induct) (auto simp: sd_remove_changes sd_remove_quiet)

section \<open>When a drift is reported\<close>

definition observed_list :: "AutoscalingSchedules option \<Rightarrow> AutoscalingSchedule list" where
  "observed_list observed = scs_Schedules (deref empty_AutoscalingSchedules observed)"

definition schedules_agree :: "(nat \<Rightarrow> time) \<Rightarrow> AutoscalingScheduleConfig \<Rightarrow> AutoscalingSchedules option \<Rightarrow> bool" where
  "schedules_agree clk sp observed \<longleftrightarrow>
     meets (asc_Timezone sp) (derefString (scs_Timezone (deref empty_AutoscalingSchedules observed))) \<and>
     distinct (map sch_Name (observed_list observed)) \<and>
     sch_Name ` set (observed_list observed) \<subseteq> sp_Name ` set (asc_Schedules sp) \<and>
     (\<forall>i < length (asc_Schedules sp). \<not> expired (clk i) (asc_Schedules sp ! i) \<longrightarrow>
        (\<exists>ob \<in> set (observed_list observed). sch_Name ob = sp_Name (asc_Schedules sp ! i) \<and>
           normalizeSchedule (scheduleFromSpec (asc_Schedules sp ! i)) = normalizeSchedule ob))"

text \<open>The comparison of a spec as its three stages over the observed schedules.\<close>

definition timezone_diff :: "AutoscalingScheduleConfig \<Rightarrow> AutoscalingSchedules option \<Rightarrow> string list" where
  "timezone_diff sp observed = drift_field id ''scheduleTimezone'' (asc_Timezone sp)
     (derefString (scs_Timezone (deref empty_AutoscalingSchedules observed)))"

lemma diffSchedules_stages:
  "diffSchedules clk (Some sp) observed =
     (let obs = observed_list observed;
          d = \<lparr>upserts = [], deletes = [], changes = timezone_diff sp observed\<rparr>;
          d = snd (index_observed obs Map.empty d)
      in remove_unlisted (sp_Name ` set (asc_Schedules sp)) obs (diff_spec clk 0 (by_name obs) (asc_Schedules sp) d))"
  by (auto simp: diffSchedules_def Let_def observed_list_def timezone_diff_def drift_field_def index_observed_map
      split: option.splits prod.splits) (metis fst_conv index_observed_map map_add_empty snd_conv)+

lemma pending_empty: "pending clk i byName ss = [] \<longleftrightarrow>
    (\<forall>j < length ss. expired (clk (i + j)) (ss ! j) \<or> met byName (ss ! j))"
  by (induction ss arbitrary: i) (auto simp: pending_def nth_Cons less_Suc_eq_0_disj split: nat.splits)

lemma changes_empty:
  "changes (diffSchedules clk (Some sp) observed) = [] \<longleftrightarrow> schedules_agree clk sp observed"
proof -
  let ?obs = "observed_list observed" and ?ss = "asc_Schedules sp"
  let ?d0 = "\<lparr>upserts = [], deletes = [], changes = timezone_diff sp observed\<rparr>"
  let ?d1 = "snd (index_observed ?obs Map.empty ?d0)"
  let ?d2 = "diff_spec clk 0 (by_name ?obs) ?ss ?d1"
  have q0: "quiet_diff ?d0" by (simp add: quiet_diff_def)
  have q1: "quiet_diff ?d1" by (rule index_observed_quiet [OF q0])
  have q2: "quiet_diff ?d2" using q1 by (auto simp: quiet_diff_def diff_spec_effect)
  have "changes (diffSchedules clk (Some sp) observed) = [] \<longleftrightarrow>
      timezone_diff sp observed = [] \<and> distinct (map sch_Name ?obs) \<and> pending clk 0 (by_name ?obs) ?ss = [] \<and>
      sch_Name ` set ?obs \<subseteq> sp_Name ` set ?ss"
    by (auto simp: diffSchedules_stages Let_def remove_unlisted_effect(1) [OF q2] diff_spec_effect(2)
        index_observed_changes [OF q0])
  moreover have "timezone_diff sp observed = [] \<longleftrightarrow>
      meets (asc_Timezone sp) (derefString (scs_Timezone (deref empty_AutoscalingSchedules observed)))"
    by (simp only: timezone_diff_def drift_field_meets)
  moreover have "met (by_name ?obs) s \<longleftrightarrow> (\<exists>ob \<in> set ?obs. sch_Name ob = sp_Name s \<and>
      normalizeSchedule (scheduleFromSpec s) = normalizeSchedule ob)" if "distinct (map sch_Name ?obs)" for s
    using by_name_distinct [OF that] by (auto simp: met_def dest: by_name_name) (metis by_name_distinct that)
  ultimately show ?thesis by (auto simp: schedules_agree_def pending_empty)
qed

interpretation schedules: drift_check "HasScheduleDrift clk" "schedules_agree clk" for clk
proof
  show "HasScheduleDrift clk None obs = (False, [])" for obs
    by (simp add: HasScheduleDrift_def diffSchedules_def Let_def)
  show "fst (HasScheduleDrift clk s obs) \<longleftrightarrow> snd (HasScheduleDrift clk s obs) \<noteq> []" for s obs
    by (simp add: HasScheduleDrift_def Let_def)
  show "snd (HasScheduleDrift clk (Some spec) obs) = [] \<longleftrightarrow> schedules_agree clk spec obs" for spec obs
    by (simp add: HasScheduleDrift_def Let_def changes_empty)
qed

text \<open>
  C14: a schedule drift is reported exactly when there is one. \<open>HasScheduleDrift\<close> reports a drift if
  and only if the spec manages schedules and does not agree with those of the environment: the timezone
  of the spec is set and differs, two observed schedules have the same name, an observed schedule is not
  in the spec, or a schedule of the spec that has not expired has no observed schedule of its name with
  the same normalised settings. When it reports one, it names a first change.
\<close>

theorem schedule_drift_exact:
  "(fst (HasScheduleDrift clk spec observed) \<longleftrightarrow> (\<exists>sp. spec = Some sp \<and> \<not> schedules_agree clk sp observed)) \<and>
   (fst (HasScheduleDrift clk spec observed) \<longleftrightarrow> 0 < length (snd (HasScheduleDrift clk spec observed)))"
  using schedules.drift_iff [of clk spec observed] schedules.flag [of clk spec observed] by simp

section \<open>What the request removes and writes\<close>

definition schedule_request :: "(nat \<Rightarrow> time) \<Rightarrow> AutoscalingScheduleConfig \<Rightarrow> AutoscalingSchedules option \<Rightarrow> scheduleDiff" where
  "schedule_request clk sp observed = diffSchedules clk (Some sp) observed"

lemma request_deletes:
  assumes "distinct (observed_list observed)"
  shows "set (deletes (schedule_request clk sp observed)) = sch_ID ` {ob \<in> set (observed_list observed).
      by_name (observed_list observed) (sch_Name ob) \<noteq> Some ob \<or> sch_Name ob \<notin> sp_Name ` set (asc_Schedules sp)}"
  using index_observed_deletes [OF assms, of Map.empty]
  by (auto simp: schedule_request_def diffSchedules_stages Let_def remove_unlisted_effect(4) diff_spec_effect(3))

lemma request_upserts:
  "upserts (schedule_request clk sp observed) =
     map (upsert_of (by_name (observed_list observed))) (pending clk 0 (by_name (observed_list observed)) (asc_Schedules sp))"
  by (simp add: schedule_request_def diffSchedules_stages Let_def remove_unlisted_effect(2) diff_spec_effect(1)
      index_observed_upserts)

lemma request_deletes_distinct: "distinct (deletes (schedule_request clk sp observed))"
  by (simp add: schedule_request_def diffSchedules_stages Let_def remove_unlisted_effect(3) diff_spec_effect(3)
      index_observed_distinct)

lemma pending_subset: "set (pending clk i byName ss) \<subseteq> {s \<in> set ss. \<not> met byName s}"
  by (auto simp: pending_def in_set_enumerate_eq)

lemma pending_simps [simp]:
  "pending clk i byName [] = []"
  "pending clk i byName (s # ss) =
     (if expired (clk i) s \<or> met byName s then [] else [s]) @ pending clk (Suc i) byName ss"
  by (simp_all add: pending_def)

lemma pending_names_distinct: "distinct (map sp_Name ss) \<Longrightarrow> distinct (map sp_Name (pending clk i byName ss))"
proof (induction ss arbitrary: i)
  case (Cons s ss)
  have "sp_Name s \<notin> sp_Name ` set (pending clk (Suc i) byName ss)"
    using Cons.prems pending_subset [of clk "Suc i" byName ss] by auto
  with Cons show ?case by simp
qed simp

lemma pending_nth: "j < length ss \<Longrightarrow> \<not> expired (clk (i + j)) (ss ! j) \<Longrightarrow> \<not> met byName (ss ! j) \<Longrightarrow>
    ss ! j \<in> set (pending clk i byName ss)"
proof (induction ss arbitrary: i j)
  case (Cons s ss)
  then show ?case by (cases j) auto
qed simp

lemma upsert_of_simps [simp]:
  "sch_Name (upsert_of byName s) = sp_Name s"
  "normalizeSchedule (upsert_of byName s) = normalizeSchedule (scheduleFromSpec s)"
  by (simp_all add: upsert_of_def normalizeSchedule_def Let_def)

text \<open>The schedules of an environment as the service keeps them: with ids, no two the same.\<close>

definition identified :: "AutoscalingSchedule list \<Rightarrow> bool" where
  "identified obs \<longleftrightarrow> distinct (map sch_ID obs) \<and> '''' \<notin> sch_ID ` set obs"

lemma identified_eq: "identified obs \<Longrightarrow> x \<in> set obs \<Longrightarrow> y \<in> set obs \<Longrightarrow> sch_ID x = sch_ID y \<Longrightarrow> x = y"
  by (auto simp: identified_def distinct_map inj_on_def)

lemma identified_distinct: "identified obs \<Longrightarrow> distinct obs"
  by (simp add: identified_def distinct_map)

lemma request_deletes_iff:
  assumes "identified (observed_list observed)" and "ob \<in> set (observed_list observed)"
  shows "sch_ID ob \<in> set (deletes (schedule_request clk sp observed)) \<longleftrightarrow>
    by_name (observed_list observed) (sch_Name ob) \<noteq> Some ob \<or> sch_Name ob \<notin> sp_Name ` set (asc_Schedules sp)"
  unfolding request_deletes [OF identified_distinct [OF assms(1)]]
  using assms(2) identified_eq [OF assms(1)] by blast

lemma upsert_cases:
  assumes "u \<in> set (upserts (schedule_request clk sp observed))"
  obtains s where "s \<in> set (pending clk 0 (by_name (observed_list observed)) (asc_Schedules sp))"
    "u = upsert_of (by_name (observed_list observed)) s" "s \<in> set (asc_Schedules sp)"
    "\<not> met (by_name (observed_list observed)) s"
  using assms pending_subset [of clk 0 "by_name (observed_list observed)" "asc_Schedules sp"]
  by (auto simp: request_upserts)

text \<open>
  C16: the request is consistent. When the observed schedules have ids, no two the same, and no two
  schedules of the spec have the same name, the request deletes exactly the observed schedules that
  repeat the name of an earlier one or that the spec does not name, none twice; and each schedule it
  writes is of the spec and either carries the id of the observed schedule of its name, which is not
  deleted, or carries no id and no schedule of its name was observed.
\<close>

theorem schedule_request_consistent:
  assumes "identified (observed_list observed)"
  shows "distinct (deletes (schedule_request clk sp observed)) \<and>
    set (deletes (schedule_request clk sp observed)) = sch_ID ` {ob \<in> set (observed_list observed).
      by_name (observed_list observed) (sch_Name ob) \<noteq> Some ob \<or> sch_Name ob \<notin> sp_Name ` set (asc_Schedules sp)} \<and>
    (\<forall>u \<in> set (upserts (schedule_request clk sp observed)). sch_Name u \<in> sp_Name ` set (asc_Schedules sp) \<and>
      sch_ID u \<notin> set (deletes (schedule_request clk sp observed)) \<and>
      (case by_name (observed_list observed) (sch_Name u) of
         None \<Rightarrow> sch_ID u = '''' | Some ob \<Rightarrow> sch_ID u = sch_ID ob))"
proof (intro conjI ballI)
  let ?obs = "observed_list observed" and ?d = "schedule_request clk sp observed"
  show "distinct (deletes ?d)" by (rule request_deletes_distinct)
  show deletes: "set (deletes ?d) = sch_ID ` {ob \<in> set ?obs.
      by_name ?obs (sch_Name ob) \<noteq> Some ob \<or> sch_Name ob \<notin> sp_Name ` set (asc_Schedules sp)}"
    by (rule request_deletes [OF identified_distinct [OF assms]])
  fix u assume "u \<in> set (upserts ?d)"
  then obtain s where s: "u = upsert_of (by_name ?obs) s" "s \<in> set (asc_Schedules sp)" by (rule upsert_cases)
  then show "sch_Name u \<in> sp_Name ` set (asc_Schedules sp)" by simp
  show id: "case by_name ?obs (sch_Name u) of None \<Rightarrow> sch_ID u = '''' | Some ob \<Rightarrow> sch_ID u = sch_ID ob"
    unfolding s(1) upsert_of_simps by (simp add: upsert_of_def split: option.split)
  show "sch_ID u \<notin> set (deletes ?d)"
  proof (cases "by_name ?obs (sch_Name u)")
    case None
    with id assms show ?thesis by (auto simp: deletes identified_def)
  next
    case (Some ob)
    then have "ob \<in> set ?obs" "sch_Name ob = sch_Name u" using by_name_name by blast+
    with Some id s request_deletes_iff [OF assms, of ob clk sp] show ?thesis by simp
  qed
qed

section \<open>The environment after the request\<close>

text \<open>
  What the service does with a request, as documented: the schedules with the ids in the request's list of
  deletions are gone, those whose id is sent are replaced, the others stay, and each schedule sent is
  there with its name and settings.
\<close>

definition schedules_took :: "scheduleDiff \<Rightarrow> AutoscalingSchedule list \<Rightarrow> AutoscalingSchedule list \<Rightarrow> bool" where
  "schedules_took d obs obs' \<longleftrightarrow> (\<exists>news.
     list_all2 (\<lambda>u s. sch_Name s = sch_Name u \<and> normalizeSchedule s = normalizeSchedule u) (upserts d) news \<and>
     mset obs' = mset (filter (\<lambda>ob. sch_ID ob \<notin> set (deletes d) \<union> sch_ID ` set (upserts d)) obs) + mset news)"

lemma list_all2_member: "list_all2 P xs ys \<Longrightarrow> x \<in> set xs \<Longrightarrow> \<exists>y \<in> set ys. P x y"
  by (induction rule: list_all2_induct) auto

lemma took_settles:
  assumes ids: "identified (observed_list observed)" and names: "distinct (map sp_Name (asc_Schedules sp))"
    and took: "schedules_took (schedule_request clk sp observed) (observed_list observed) obs'"
    and zone: "took_opt (asc_Timezone sp) zone'" and later: "\<And>i. clk i \<le> clk' i"
  shows "schedules_agree clk' sp (Some \<lparr>scs_Timezone = zone', scs_Schedules = obs', scs_AppliedState = a\<rparr>)"
proof -
  let ?obs = "observed_list observed" and ?d = "schedule_request clk sp observed" and ?ss = "asc_Schedules sp"
  let ?by = "by_name ?obs" and ?P = "pending clk 0 (by_name ?obs) ?ss"
  let ?K = "filter (\<lambda>ob. sch_ID ob \<notin> set (deletes ?d) \<union> sch_ID ` set (upserts ?d)) ?obs"
  obtain news where news: "list_all2 (\<lambda>u s. sch_Name s = sch_Name u \<and> normalizeSchedule s = normalizeSchedule u)
      (upserts ?d) news" and obs': "mset obs' = mset ?K + mset news"
    using took by (auto simp: schedules_took_def)
  have new_names: "map sch_Name news = map sp_Name ?P"
    using news by (simp add: request_upserts list_all2_conv_all_nth list_eq_iff_nth_eq)
  have kept: "?by (sch_Name k) = Some k \<and> sch_Name k \<in> sp_Name ` set ?ss \<and> sch_Name k \<notin> sp_Name ` set ?P"
    if k: "k \<in> set ?K" for k
  proof -
    have first: "?by (sch_Name k) = Some k \<and> sch_Name k \<in> sp_Name ` set ?ss"
      using k request_deletes_iff [OF ids, of k clk sp] by auto
    have "sch_Name k \<noteq> sp_Name s" if "s \<in> set ?P" for s
    proof
      assume "sch_Name k = sp_Name s"
      then have "sch_ID (upsert_of ?by s) = sch_ID k" using first by (simp add: upsert_of_def)
      moreover have "upsert_of ?by s \<in> set (upserts ?d)" using that by (simp add: request_upserts)
      ultimately have "sch_ID k \<in> sch_ID ` set (upserts ?d)" by (metis image_eqI)
      then show False using k by simp
    qed
    with first show ?thesis by auto
  qed
  have "inj_on sch_Name (set ?K)"
  proof (rule inj_onI)
    fix x y assume "x \<in> set ?K" "y \<in> set ?K" and same: "sch_Name x = sch_Name y"
    then have "?by (sch_Name x) = Some x" "?by (sch_Name y) = Some y" using kept by blast+
    then show "x = y" unfolding same by (metis option.inject)
  qed
  then have "distinct (map sch_Name ?K)"
    unfolding distinct_map by (intro conjI distinct_filter identified_distinct [OF ids])
  moreover have "distinct (map sch_Name news)"
    unfolding new_names by (rule pending_names_distinct [OF names])
  moreover have "set (map sch_Name ?K) \<inter> set (map sch_Name news) = {}"
    unfolding new_names using kept by (auto simp del: set_filter)
  ultimately have distinct: "distinct (map sch_Name ?K @ map sch_Name news)"
    unfolding distinct_append by blast
  have perm: "mset (map sch_Name obs') = mset (map sch_Name ?K @ map sch_Name news)" using obs' by simp
  have obs'_set: "set obs' = set ?K \<union> set news" using obs' by (metis set_mset_mset set_mset_union)
  have "distinct (map sch_Name obs')" using mset_eq_imp_distinct_iff [OF perm] distinct by blast
  moreover have "sch_Name ` set obs' \<subseteq> sp_Name ` set ?ss"
  proof -
    have "sch_Name ` set news = sp_Name ` set ?P" using new_names by (metis list.set_map)
    then show ?thesis using kept pending_subset [of clk 0 ?by ?ss] by (auto simp: obs'_set image_Un)
  qed
  moreover have "\<exists>ob \<in> set obs'. sch_Name ob = sp_Name (?ss ! i) \<and>
      normalizeSchedule (scheduleFromSpec (?ss ! i)) = normalizeSchedule ob"
    if i: "i < length ?ss" "\<not> expired (clk' i) (?ss ! i)" for i
  proof (cases "met ?by (?ss ! i)")
    case True
    then obtain ob where ob: "?by (sp_Name (?ss ! i)) = Some ob"
      "normalizeSchedule (scheduleFromSpec (?ss ! i)) = normalizeSchedule ob" by (auto simp: met_def)
    then have mem: "ob \<in> set ?obs" "sch_Name ob = sp_Name (?ss ! i)" using by_name_name by blast+
    then have "sch_ID ob \<notin> set (deletes ?d)"
      using request_deletes_iff [OF ids mem(1), of clk sp] ob(1) i(1) by simp
    moreover have "sch_ID ob \<noteq> sch_ID u" if u: "u \<in> set (upserts ?d)" for u
    proof
      assume eq: "sch_ID ob = sch_ID u"
      obtain s where s: "u = upsert_of ?by s" "s \<in> set ?ss" "\<not> met ?by s" using upsert_cases [OF u] by blast
      have "sch_ID u \<noteq> ''''" using eq ids imageI [OF mem(1), of sch_ID] by (auto simp: identified_def)
      then obtain ob2 where ob2: "?by (sp_Name s) = Some ob2" "sch_ID u = sch_ID ob2"
        by (cases "?by (sp_Name s)") (simp_all add: s(1) upsert_of_def)
      then have "ob2 = ob" "sch_Name ob2 = sp_Name s"
        using by_name_name [OF ob2(1)] identified_eq [OF ids] mem(1) eq by auto
      then have "sp_Name s = sp_Name (?ss ! i)" using mem(2) by simp
      then have "s = ?ss ! i" using names s(2) i(1) by (auto simp: distinct_map inj_on_def)
      with True s(3) show False by simp
    qed
    ultimately have "ob \<in> set ?K" using mem(1) by auto
    with mem(2) ob(2) obs'_set show ?thesis by auto
  next
    case False
    have "\<not> expired (clk i) (?ss ! i)"
      using i(2) later [of i] by (auto simp: expired_def split: if_splits sum.splits)
    then have "?ss ! i \<in> set ?P" using pending_nth [of i ?ss clk 0 ?by] i(1) False by simp
    then have "upsert_of ?by (?ss ! i) \<in> set (upserts ?d)" by (simp add: request_upserts)
    then obtain s where "s \<in> set news" "sch_Name s = sp_Name (?ss ! i)"
      "normalizeSchedule s = normalizeSchedule (scheduleFromSpec (?ss ! i))"
      using list_all2_member [OF news] by fastforce
    with obs'_set show ?thesis by (intro bexI [of _ s]) auto
  qed
  ultimately show ?thesis
    using zone by (simp add: schedules_agree_def observed_list_def took_string)
qed

text \<open>
  C15: the update of the schedules converges. When the observed schedules have ids, no two the same, and
  the schedules of the spec have names, no two the same, then once the service has carried out the
  request that was computed for them, \<open>HasScheduleDrift\<close> reports no drift, then and at any later time.
\<close>

theorem schedule_update_settles:
  assumes "identified (observed_list observed)" and "distinct (map sp_Name (asc_Schedules sp))"
    and "schedules_took (schedule_request clk sp observed) (observed_list observed) obs'"
    and "took_opt (asc_Timezone sp) zone'" and "\<And>i. clk i \<le> clk' i"
  shows "HasScheduleDrift clk' (Some sp) (Some \<lparr>scs_Timezone = zone', scs_Schedules = obs', scs_AppliedState = a\<rparr>) = (False, [])"
  by (rule schedules.settled) (use took_settles [OF assms] in auto)

section \<open>The way to the service and back\<close>

text \<open>
  A time as the service answers it reads back as the instant, so that its canonical text is that of the
  instant, whatever the zone it is answered in.
\<close>

lemma canonical_answer:
  assumes "in_rfc3339_range (t, off)"
  shows "canonicalTime (RFC3339_FormatZ (t, off)) = RFC3339_Format t"
proof -
  have "t div Second * Second div Second = t div Second" by (simp add: Second_def)
  then have "RFC3339_Format (t div Second * Second) = RFC3339_Format t"
    unfolding RFC3339_Format_def RFC3339_FormatZ_def fst_conv by simp
  then show ?thesis unfolding canonicalTime_def parse_format [OF assms] by simp
qed

lemma canonical_parsed: "RFC3339_Parse v = Inr t \<Longrightarrow> canonicalTime v = RFC3339_Format t"
  by (simp add: canonicalTime_def)

text \<open>
  The documented behaviour of the service and of the SDK's union type: an item that was sent is answered
  with the same fields, its id when one was sent, the instants in any zone, and the cadence as the
  discriminator.
\<close>

definition answers_time :: "time \<Rightarrow> ztime \<Rightarrow> bool" where
  "answers_time t z \<longleftrightarrow> fst z = t \<and> in_rfc3339_range z"

lemma answers_time_canonical: "answers_time t z \<Longrightarrow> canonicalTime (RFC3339_FormatZ z) = RFC3339_Format t"
  by (cases z) (simp add: answers_time_def canonical_answer)

definition answers_item :: "sdk_UpsertItem \<Rightarrow> sdk_ScheduleItem \<Rightarrow> bool" where
  "answers_item sent x = (case sent of
     OneTimeItem u \<Rightarrow> xi_Discriminator x = Inr CadenceOneTime \<and>
       (case xi_AsOneTimeAutoscalingSchedule x of
          Inl e \<Rightarrow> False
        | Inr o1 \<Rightarrow> took_opt (uo_Id u) (Some (xo_Id o1)) \<and> xo_Name o1 = uo_Name u \<and> xo_Enabled o1 = uo_Enabled u \<and>
            answers_time (uo_StartAt u) (xo_StartAt o1) \<and> answers_time (uo_EndAt u) (xo_EndAt o1) \<and>
            xo_AutoscalingSettings o1 = uo_AutoscalingSettings u)
   | RecurringItem u \<Rightarrow> xi_Discriminator x = Inr (us_Cadence u) \<and>
       (case xi_AsAutoscalingSchedule x of
          Inl e \<Rightarrow> False
        | Inr r \<Rightarrow> took_opt (us_Id u) (Some (xc_Id r)) \<and> xc_Name r = us_Name u \<and> xc_Enabled r = us_Enabled u \<and>
            xc_Cadence r = us_Cadence u \<and> xc_Weekdays r = us_Weekdays u \<and>
            xc_StartHour r = us_StartHour u \<and> xc_StartMinute r = us_StartMinute u \<and>
            xc_EndHour r = us_EndHour u \<and> xc_EndMinute r = us_EndMinute u \<and>
            xc_AutoscalingSettings r = us_AutoscalingSettings u))"

lemma settings_roundtrip [simp]: "toScheduleAutoscalingSettings (toScheduleSettingsRequest a) = a"
  by (simp add: toScheduleAutoscalingSettings_def toScheduleSettingsRequest_def)

lemma weekdays_normal: "(case Some (deref [] w) of None \<Rightarrow> None | Some ws \<Rightarrow> if ws = [] then None else Some (sort ws)) =
    (case w of None \<Rightarrow> None | Some ws \<Rightarrow> if ws = [] then None else Some (sort ws))"
  by (cases w) simp_all

text \<open>
  C30: a schedule survives the way to the service and back. When \<open>toScheduleUpsert\<close> accepts a schedule and
  the service answers what was sent, \<open>toAutoscalingSchedule\<close> decodes the answer to a schedule of the same
  name, with the id that was sent, whose normalised form is that of the schedule sent.
\<close>

theorem schedule_roundtrip:
  assumes "toScheduleUpsert from s = Inr sent" and "answers_item sent x"
  shows "\<exists>s'. toAutoscalingSchedule x = Inr s' \<and> sch_Name s' = sch_Name s \<and>
    (sch_ID s = '''' \<or> sch_ID s' = sch_ID s) \<and> normalizeSchedule s' = normalizeSchedule s"
proof (cases "sch_Cadence s = CadenceOneTime")
  case True
  obtain t1 t2 where times: "RFC3339_Parse (sch_StartAt s) = Inr t1" "RFC3339_Parse (sch_EndAt s) = Inr t2"
    and sent: "sent = OneTimeItem \<lparr>uo_Id = (if sch_ID s \<noteq> '''' then Some (sch_ID s) else None), uo_Name = sch_Name s,
      uo_Enabled = sch_Enabled s, uo_StartAt = t1, uo_EndAt = t2,
      uo_AutoscalingSettings = toScheduleSettingsRequest (sch_AutoscalingSettings s)\<rparr>"
    using assms(1) True by (auto simp: toScheduleUpsert_def Let_def split: sum.splits option.splits)
  obtain o1 where o1: "xi_AsOneTimeAutoscalingSchedule x = Inr o1" "xi_Discriminator x = Inr CadenceOneTime"
    "xo_Name o1 = sch_Name s" "xo_Enabled o1 = sch_Enabled s"
    "xo_AutoscalingSettings o1 = toScheduleSettingsRequest (sch_AutoscalingSettings s)"
    "took_opt (if sch_ID s \<noteq> '''' then Some (sch_ID s) else None) (Some (xo_Id o1))"
    and z: "answers_time t1 (xo_StartAt o1)" "answers_time t2 (xo_EndAt o1)"
    using assms(2) by (auto simp: sent answers_item_def split: sum.splits)
  have canonical: "canonicalTime (RFC3339_FormatZ (xo_StartAt o1)) = canonicalTime (sch_StartAt s)"
    "canonicalTime (RFC3339_FormatZ (xo_EndAt o1)) = canonicalTime (sch_EndAt s)"
    by (simp_all only: answers_time_canonical [OF z(1)] answers_time_canonical [OF z(2)]
        canonical_parsed [OF times(1)] canonical_parsed [OF times(2)])
  show ?thesis
    using o1 by (auto simp: toAutoscalingSchedule_def normalizeSchedule_def Let_def canonical True took_opt_def split: if_splits)
next
  case False
  have sent: "sent = RecurringItem \<lparr>us_Id = (if sch_ID s \<noteq> '''' then Some (sch_ID s) else None), us_Name = sch_Name s,
      us_Enabled = sch_Enabled s, us_Cadence = sch_Cadence s, us_Weekdays = deref [] (sch_Weekdays s),
      us_StartHour = int32PtrToIntPtr (sch_StartHour s), us_StartMinute = scast (sch_StartMinute s),
      us_EndHour = int32PtrToIntPtr (sch_EndHour s), us_EndMinute = scast (sch_EndMinute s),
      us_AutoscalingSettings = toScheduleSettingsRequest (sch_AutoscalingSettings s)\<rparr>"
    using assms(1) False by (auto simp: toScheduleUpsert_def Let_def split: option.splits)
  obtain r where r: "xi_AsAutoscalingSchedule x = Inr r" "xi_Discriminator x = Inr (sch_Cadence s)"
    "took_opt (if sch_ID s \<noteq> '''' then Some (sch_ID s) else None) (Some (xc_Id r))"
    "xc_Name r = sch_Name s" "xc_Enabled r = sch_Enabled s" "xc_Cadence r = sch_Cadence s"
    "xc_Weekdays r = deref [] (sch_Weekdays s)" "xc_StartHour r = int32PtrToIntPtr (sch_StartHour s)"
    "xc_StartMinute r = scast (sch_StartMinute s)" "xc_EndHour r = int32PtrToIntPtr (sch_EndHour s)"
    "xc_EndMinute r = scast (sch_EndMinute s)"
    "xc_AutoscalingSettings r = toScheduleSettingsRequest (sch_AutoscalingSettings s)"
    using assms(2) by (auto simp: sent answers_item_def split: sum.splits)
  show ?thesis
    using r False by (auto simp: toAutoscalingSchedule_def normalizeSchedule_def Let_def took_opt_def weekdays_normal [simplified]
        split: if_splits)
qed

section \<open>Witnesses\<close>

definition sample_schedule :: "string \<Rightarrow> int32 \<Rightarrow> SpecSchedule" where
  "sample_schedule n replicas = \<lparr>sp_Name = n, sp_Enabled = None, sp_Cadence = ''DAILY'', sp_Weekdays = [],
     sp_StartHour = Some 8, sp_StartMinute = 0, sp_EndHour = Some 18, sp_EndMinute = 30, sp_StartAt = '''', sp_EndAt = '''',
     sp_Autoscaling = \<lparr>sa_MinReplicas = replicas, sa_MaxReplicas = 9, sa_ConcurrencyTarget = None, sa_AutoscalingWindow = None,
       sa_ScaleDownDelay = None, sa_TargetUtilizationPercentage = None, sa_TargetInFlightTokens = None,
       sa_MaxScaleDownRate = None\<rparr>\<rparr>"

definition observed_schedule :: "string \<Rightarrow> SpecSchedule \<Rightarrow> AutoscalingSchedule" where
  "observed_schedule i s = (scheduleFromSpec s)\<lparr>sch_ID := i\<rparr>"

text \<open>The environment keeps one schedule, has another in two copies and a third that is to be removed.\<close>

definition sample_observed :: "AutoscalingSchedule list" where
  "sample_observed = [observed_schedule ''i1'' (sample_schedule ''day'' 2), observed_schedule ''i2'' (sample_schedule ''night'' 1),
     observed_schedule ''i3'' (sample_schedule ''day'' 5), observed_schedule ''i4'' (sample_schedule ''old'' 1)]"

definition sample_config :: AutoscalingScheduleConfig where
  "sample_config = \<lparr>asc_Timezone = Some ''UTC'',
     asc_Schedules = [sample_schedule ''night'' 1, sample_schedule ''day'' 3, sample_schedule ''new'' 4]\<rparr>"

definition sample_schedules :: "AutoscalingSchedules option" where
  "sample_schedules = Some \<lparr>scs_Timezone = None, scs_Schedules = sample_observed, scs_AppliedState = None\<rparr>"

lemma sample_schedules_facts:
  "observed_list sample_schedules = sample_observed" "identified (observed_list sample_schedules)"
  "distinct (map sp_Name (asc_Schedules sample_config))"
  by code_simp+

lemma sample_request:
  "deletes (schedule_request (\<lambda>_. 0) sample_config sample_schedules) = [''i3'', ''i4'']"
  "upserts (schedule_request (\<lambda>_. 0) sample_config sample_schedules) =
     [observed_schedule ''i1'' (sample_schedule ''day'' 3), observed_schedule '''' (sample_schedule ''new'' 4)]"
  by code_simp+

lemma schedule_request_consistent_witness:
  "list_all (\<lambda>u. sch_ID u \<notin> set (deletes (schedule_request (\<lambda>_. 0) sample_config sample_schedules)))
     (upserts (schedule_request (\<lambda>_. 0) sample_config sample_schedules))"
  using schedule_request_consistent [OF sample_schedules_facts(2), of "\<lambda>_. 0" sample_config]
  unfolding list_all_iff by blast

definition sample_settled :: "AutoscalingSchedule list" where
  "sample_settled = [observed_schedule ''i2'' (sample_schedule ''night'' 1),
     observed_schedule ''i1'' (sample_schedule ''day'' 3), observed_schedule ''i5'' (sample_schedule ''new'' 4)]"

lemma sample_took:
  "schedules_took (schedule_request (\<lambda>_. 0) sample_config sample_schedules) (observed_list sample_schedules) sample_settled"
proof -
  let ?news = "[observed_schedule ''i1'' (sample_schedule ''day'' 3), observed_schedule ''i5'' (sample_schedule ''new'' 4)]"
  have "list_all2 (\<lambda>u s. sch_Name s = sch_Name u \<and> normalizeSchedule s = normalizeSchedule u)
      (upserts (schedule_request (\<lambda>_. 0) sample_config sample_schedules)) ?news"
    unfolding sample_request by code_simp
  moreover have "filter (\<lambda>ob. sch_ID ob \<notin> set (deletes (schedule_request (\<lambda>_. 0) sample_config sample_schedules)) \<union>
      sch_ID ` set (upserts (schedule_request (\<lambda>_. 0) sample_config sample_schedules))) (observed_list sample_schedules) =
      [observed_schedule ''i2'' (sample_schedule ''night'' 1)]"
    unfolding sample_request by code_simp
  ultimately show ?thesis
    unfolding schedules_took_def by (intro exI [of _ ?news]) (simp add: sample_settled_def)
qed

lemma schedule_update_settles_witness:
  "HasScheduleDrift (\<lambda>_. 5) (Some sample_config)
     (Some \<lparr>scs_Timezone = Some ''UTC'', scs_Schedules = sample_settled, scs_AppliedState = None\<rparr>) = (False, [])"
  by (rule schedule_update_settles [OF sample_schedules_facts(2,3) sample_took])
    (simp_all add: sample_config_def took_opt_def)

definition sample_one_time :: AutoscalingSchedule where
  "sample_one_time = (observed_schedule ''i7'' (sample_schedule ''launch'' 5))
     \<lparr>sch_Cadence := CadenceOneTime, sch_StartAt := ''2026-03-01T10:00:00+02:00'', sch_EndAt := ''2026-03-01T11:30:00Z''\<rparr>"

text \<open>The service answers the start in UTC and the end in another zone.\<close>

definition sample_item :: sdk_ScheduleItem where
  "sample_item = \<lparr>xi_Discriminator = Inr CadenceOneTime,
     xi_AsOneTimeAutoscalingSchedule = Inr \<lparr>xo_Id = ''i7'', xo_Name = ''launch'', xo_Enabled = True,
       xo_StartAt = (1772352000 * Second, 0), xo_EndAt = (1772364600 * Second, 3600),
       xo_AutoscalingSettings = toScheduleSettingsRequest (sch_AutoscalingSettings sample_one_time)\<rparr>,
     xi_AsAutoscalingSchedule = Inl (ErrorString '''')\<rparr>"

lemma sample_sent:
  "toScheduleUpsert (\<lambda>_. None) sample_one_time = Inr (OneTimeItem \<lparr>uo_Id = Some ''i7'', uo_Name = ''launch'', uo_Enabled = True,
     uo_StartAt = 1772352000 * Second, uo_EndAt = 1772364600 * Second,
     uo_AutoscalingSettings = toScheduleSettingsRequest (sch_AutoscalingSettings sample_one_time)\<rparr>)"
  by code_simp

lemma sample_in_range: "in_rfc3339_range (1772352000 * Second, 0)" "in_rfc3339_range (1772364600 * Second, 3600)"
proof -
  have "case date_of_days ((1772352000 * Second div Second + 0) div 86400 + epoch_days) of (y, m, d) \<Rightarrow> 0 \<le> y \<and> y < 10000"
    "case date_of_days ((1772364600 * Second div Second + 3600) div 86400 + epoch_days) of (y, m, d) \<Rightarrow> 0 \<le> y \<and> y < 10000"
    by code_simp+
  then show "in_rfc3339_range (1772352000 * Second, 0)" "in_rfc3339_range (1772364600 * Second, 3600)"
    unfolding in_rfc3339_range_def fst_conv snd_conv by (intro conjI exI [of _ 0] exI [of _ 60]; simp)+
qed

lemma sample_answer: "\<exists>sent. toScheduleUpsert (\<lambda>_. None) sample_one_time = Inr sent \<and> answers_item sent sample_item"
  unfolding sample_sent
  by (simp add: answers_item_def sample_item_def answers_time_def sample_in_range took_opt_def)

lemma schedule_roundtrip_witness:
  "\<exists>s'. toAutoscalingSchedule sample_item = Inr s' \<and> normalizeSchedule s' = normalizeSchedule sample_one_time"
  using sample_answer schedule_roundtrip by blast

end
