(* ===== verification/Truss_Props.thy ===== *)
theory Truss_Props
  imports Truss_Config "HOL-Library.Multiset"
begin

text \<open>
  Image references, hashes and deployment names, and what a push finds on disk.
\<close>

section \<open>Image references\<close>

lemma index_byte_append: "index_byte (xs @ ys) c =
    (case index_byte xs c of Some i \<Rightarrow> Some i | None \<Rightarrow> map_option ((+) (length xs)) (index_byte ys c))"
proof (induction xs)
  case Nil
  then show ?case by (cases "index_byte ys c") simp_all
next
  case (Cons x xs)
  then show ?case by (cases "index_byte ys c") (auto split: option.splits)
qed

lemma index_byte_None: "index_byte xs c = None \<longleftrightarrow> c \<notin> set xs"
  by (induction xs) auto

lemma last_index_byte_None: "last_index_byte xs c = None \<longleftrightarrow> c \<notin> set xs"
  by (induction xs) (auto split: option.splits)

lemma last_index_byte_append: "last_index_byte (xs @ ys) c =
    (case last_index_byte ys c of Some i \<Rightarrow> Some (length xs + i) | None \<Rightarrow> last_index_byte xs c)"
  by (induction xs) (auto split: option.splits)

text \<open>The two splits of the code: what comes before the digest, and what comes after the last separator.\<close>

lemma cut_digest:
  assumes "CHR 0x40 \<notin> set ref" and "digest = '''' \<or> hd digest = CHR 0x40"
  shows "(case index_byte (ref @ digest) (CHR 0x40) of Some i \<Rightarrow> take i (ref @ digest) | None \<Rightarrow> ref @ digest) = ref"
proof (cases digest)
  case Nil
  with assms show ?thesis by (simp add: index_byte_None [THEN iffD2])
next
  case (Cons d ds)
  with assms show ?thesis by (simp add: index_byte_append index_byte_None [THEN iffD2])
qed

lemma last_segment:
  assumes "CHR ''/'' \<notin> set name" and "path = '''' \<or> last path = CHR ''/''"
  shows "(case last_index_byte (path @ name) (CHR ''/'') of Some i \<Rightarrow> drop (i + 1) (path @ name) | None \<Rightarrow> path @ name) = name"
proof (cases path rule: rev_cases)
  case Nil
  with assms(1) show ?thesis by (simp add: last_index_byte_None [THEN iffD2])
next
  case (snoc p s)
  with assms show ?thesis by (simp add: last_index_byte_append last_index_byte_None [THEN iffD2])
qed

text \<open>A reference: a path of a registry and its folders, a name, a tag or none, a digest or none.\<close>

definition image_ref :: "string \<Rightarrow> string \<Rightarrow> string option \<Rightarrow> string option \<Rightarrow> string" where
  "image_ref path name tag digest = path @ name @
     (case tag of None \<Rightarrow> '''' | Some t \<Rightarrow> CHR '':'' # t) @ (case digest of None \<Rightarrow> '''' | Some d \<Rightarrow> CHR 0x40 # d)"

definition image_name :: "string \<Rightarrow> bool" where
  "image_name s \<longleftrightarrow> s \<noteq> '''' \<and> CHR ''/'' \<notin> set s \<and> CHR '':'' \<notin> set s \<and> CHR 0x40 \<notin> set s"

definition image_path :: "string \<Rightarrow> bool" where
  "image_path p \<longleftrightarrow> (p = '''' \<or> last p = CHR ''/'') \<and> CHR 0x40 \<notin> set p"



text \<open>
  C40: a port is read as a tag. A reference without a tag whose registry has a port is misread: the name
  is the host and the tag is the port with the rest of the path, so that the deployment name has a slash.
\<close>

theorem port_read_as_tag:
  assumes "CHR 0x40 \<notin> set host" and "CHR ''/'' \<notin> set host" and "host \<noteq> ''''"
    and "CHR 0x40 \<notin> set rest" and "CHR '':'' \<notin> set rest"
  shows "parseImage (host @ '':'' @ rest) = (host, rest) \<and>
    DeploymentName h (host @ '':'' @ rest) = ''depl-'' @ host @ ''-'' @ rest @ ''-'' @ h"
proof -
  have "parseImage (host @ '':'' @ rest) = (host, rest)"
    using assms by (simp add: parseImage_def index_byte_append index_byte_None [THEN iffD2] last_index_byte_append
        last_index_byte_None [THEN iffD2])
  with assms(3) show ?thesis by (simp add: DeploymentName_def)
qed

lemma port_read_as_tag_witness:
  "DeploymentName ''0a1b2c3d'' ''localhost:5000/nginx'' = ''depl-localhost-5000/nginx-0a1b2c3d''"
proof -
  have "DeploymentName ''0a1b2c3d'' (''localhost'' @ '':'' @ ''5000/nginx'') = ''depl-'' @ ''localhost'' @ ''-'' @ ''5000/nginx'' @ ''-'' @ ''0a1b2c3d''"
    by (rule conjunct2 [OF port_read_as_tag]) simp_all
  then show ?thesis by simp
qed

section \<open>Hashes and deployment names\<close>

definition lower_hex :: "string \<Rightarrow> bool" where
  "lower_hex s \<longleftrightarrow> list_all (\<lambda>c. c \<in> set ''0123456789abcdef'') s"

lemma hex_char_lower: "n < 16 \<Longrightarrow> hex_char n \<in> set ''0123456789abcdef''"
proof -
  have "list_all (\<lambda>n. hex_char n \<in> set ''0123456789abcdef'') [0..<16]" by code_simp
  moreover assume "n < 16"
  ultimately show ?thesis by (simp add: list_all_iff)
qed

lemma be_bytes_range: "b \<in> set (be_bytes k n) \<Longrightarrow> 0 \<le> b \<and> b < 256"
  by (induction k n rule: be_bytes.induct) auto

lemma Sum256_range: "b \<in> set (Sum256 msg) \<Longrightarrow> 0 \<le> b \<and> b < 256"
  by (auto simp: Sum256_def Let_def dest: be_bytes_range)

lemma hex_text_lower:
  assumes "\<And>b. b \<in> set bs \<Longrightarrow> 0 \<le> b \<and> b < 256"
  shows "lower_hex (hex_text bs)"
  using assms
proof (induction bs)
  case (Cons b bs)
  have "0 \<le> b" "b < 256" using Cons.prems [of b] by simp_all
  then have "nat (b div 16) < 16" "nat (b mod 16) < 16" by (simp_all add: nat_less_iff div_less_iff_less_mult)
  then have "hex_char (nat (b div 16)) \<in> set ''0123456789abcdef''" "hex_char (nat (b mod 16)) \<in> set ''0123456789abcdef''"
    by (blast intro: hex_char_lower)+
  moreover have "lower_hex (hex_text bs)" using Cons.prems by (intro Cons.IH) simp
  ultimately show ?case unfolding lower_hex_def hex_text_def list.map concat.simps list_all_append
    by (simp only: list.pred_inject simp_thms append.simps)
qed (simp add: lower_hex_def hex_text_def)

lemma HashTrussConfig_shape: "length (HashTrussConfig tc script) = 8 \<and> lower_hex (HashTrussConfig tc script)"
  unfolding HashTrussConfig_def Let_def
  by (auto intro!: hex_text_lower dest!: in_set_takeD Sum256_range)

text \<open>The name ends with a dash and the hash.\<close>

lemma DeploymentName_suffix: "\<exists>p. DeploymentName h img = p @ ''-'' @ h"
proof (cases "parseImage img")
  case (Pair name tag)
  have "DeploymentName h img = (if name \<noteq> '''' then ''depl-'' @ name @ ''-'' @ tag else ''depl'') @ ''-'' @ h"
    using Pair by (simp add: DeploymentName_def)
  then show ?thesis by blast
qed

text \<open>
  C29: deployment names tell configurations apart. The hash of a configuration is eight lower-case hex
  digits, so that two configurations get the same deployment name only when their hashes agree and
  the rest of the name, which is the img's part, agrees too.
\<close>

theorem deployment_names_tell_apart:
  assumes "DeploymentName (HashTrussConfig tc script) img = DeploymentName (HashTrussConfig tc' script') img'"
  shows "HashTrussConfig tc script = HashTrussConfig tc' script' \<and>
    length (HashTrussConfig tc script) = 8 \<and> lower_hex (HashTrussConfig tc script) \<and>
    (\<exists>p. \<forall>h. DeploymentName h img = p @ h \<and> DeploymentName h img' = p @ h)"
proof -
  have shape: "\<exists>p. \<forall>h. DeploymentName h im = p @ h" for im
    by (cases "parseImage im") (simp add: DeploymentName_def, metis append.assoc append_Cons append_Nil)
  obtain p p' where p: "\<And>h. DeploymentName h img = p @ h" and p': "\<And>h. DeploymentName h img' = p' @ h"
    using shape by meson
  have "p @ HashTrussConfig tc script = p' @ HashTrussConfig tc' script'" using assms p p' by simp
  moreover have "length (HashTrussConfig tc script) = length (HashTrussConfig tc' script')"
    using HashTrussConfig_shape by metis
  ultimately have "p = p' \<and> HashTrussConfig tc script = HashTrussConfig tc' script'"
    using append_eq_append_conv by blast
  moreover have "\<forall>h. DeploymentName h img = p @ h \<and> DeploymentName h img' = p' @ h" using p p' by blast
  ultimately show ?thesis using HashTrussConfig_shape by blast
qed

definition sample_TrussConfig :: "string \<Rightarrow> TrussConfig" where
  "sample_TrussConfig img = \<lparr>tc_Weights = [], tc_PythonVersion = ''py311'',
     tc_Resources = \<lparr>tr_Accelerator = ''H100'', tr_UseGpu = Some True, tr_CPU = '''', tr_Memory = ''''\<rparr>,
     tc_Secrets = [], tc_EnvironmentVariables = [(''B'', ''2''), (''A'', ''1'')],
     tc_BaseImage = \<lparr>bi_Image = img, bi_DockerAuth = None\<rparr>, tc_DockerServer = None, tc_Runtime = None,
     tc_ModelMetadata = None, tc_SetupScript = Some \<lparr>ss_ConfigMapRef = None, ss_Inline = Some ''echo''\<rparr>\<rparr>"

lemma deployment_names_tell_apart_witness:
  "length (HashTrussConfig (sample_TrussConfig ''vllm:1'') ''echo'') = 8 \<and>
   lower_hex (HashTrussConfig (sample_TrussConfig ''vllm:1'') ''echo'')"
proof -
  have "parseImage ''vllm:1'' = parseImage ''reg/vllm:1''" by code_simp
  then have "DeploymentName h ''vllm:1'' = DeploymentName h ''reg/vllm:1''" for h by (simp only: DeploymentName_def)
  then show ?thesis
    using deployment_names_tell_apart [of "sample_TrussConfig ''vllm:1''" "''echo''" "''vllm:1''"
        "sample_TrussConfig ''vllm:1''" "''echo''" "''reg/vllm:1''"] by simp
qed

section \<open>What a push finds on disk\<close>

text \<open>
  The laws of the file system that the push relies on, for a reading \<open>content w path\<close> of the files:
  a fresh temporary directory is empty, making a directory keeps the files, a file that is written is
  read back and the others stay, and \<open>RemoveAll\<close> removes what is below the directory.
\<close>

definition file_laws :: "'w truss_sys \<Rightarrow> ('w \<Rightarrow> string \<Rightarrow> string option) \<Rightarrow> bool" where
  "file_laws sys content \<longleftrightarrow>
     (\<forall>w dir w'. t_MkdirTemp sys w = (Inr dir, w') \<longrightarrow> (\<forall>p. content w' (dir @ ''/'' @ p) = None)) \<and>
     (\<forall>dir w w'. t_MkdirAll sys dir w = (None, w') \<longrightarrow> content w' = content w) \<and>
     (\<forall>path data w w'. t_WriteFile sys path data w = (None, w') \<longrightarrow> content w' = (content w)(path \<mapsto> data)) \<and>
     (\<forall>dir w p. content (t_RemoveAll sys dir w) (dir @ ''/'' @ p) = None)"

text \<open>The directory of a truss: the configuration, and the setup script when there is one.\<close>

definition truss_dir :: "(string \<Rightarrow> string option) \<Rightarrow> string \<Rightarrow> string \<Rightarrow> string \<Rightarrow> bool" where
  "truss_dir files dir configYAML setupScript \<longleftrightarrow>
     (\<forall>p. files (dir @ ''/'' @ p) =
       (if p = ''config.yaml'' then Some configYAML
        else if p = ''data/setup.sh'' \<and> setupScript \<noteq> '''' then Some setupScript else None))"

lemma path_Join_setup: "path_Join (path_Join dir ''data'') ''setup.sh'' = dir @ ''/'' @ ''data/setup.sh''"
  by (simp add: path_Join_def)

lemma written_directory:
  assumes "file_laws sys content" and "\<forall>p. content w (dir @ ''/'' @ p) = None"
    and "WriteTrussDirectory sys dir yaml script w = (None, w')"
  shows "truss_dir (content w') dir yaml script"
proof -
  note laws = assms(1) [unfolded file_laws_def]
  note cfg = path_Join_def [of dir "''config.yaml''"]
  show ?thesis
    using assms(3) laws assms(2) unfolding WriteTrussDirectory_def Let_def path_Join_setup
    by (fastforce simp: cfg truss_dir_def split: prod.splits option.splits if_splits)
qed


text \<open>A file system in memory: the files by path; the service accepts what has a configuration.\<close>

definition mem_sys :: "(string \<Rightarrow> string option) truss_sys" where
  "mem_sys = \<lparr>t_MkdirTemp = (\<lambda>w. (Inr ''/tmp/t'', (\<lambda>p. if take 7 p = ''/tmp/t/'' then None else w p))),
     t_MkdirAll = (\<lambda>dir w. (None, w)),
     t_WriteFile = (\<lambda>path data w. (None, w(path \<mapsto> data))),
     t_RemoveAll = (\<lambda>dir w p. if take (length dir + 1) p = dir @ ''/'' then None else w p),
     t_Push = (\<lambda>key dir model depl team w.
       ((if w (dir @ ''/config.yaml'') = None then Inl (ErrorString ''no config'') else Inr (''mid'', ''dep'')), w))\<rparr>"

lemma mem_sys_laws: "file_laws mem_sys (\<lambda>w. w)"
  by (auto simp: file_laws_def mem_sys_def)


section \<open>Maps in a configuration\<close>

text \<open>Go maps have no order: the association list of a map may come in any order, with distinct keys.\<close>

lemma j_map_order:
  assumes "mset m = mset m'" and "distinct (map fst m)"
  shows "j_map k m = j_map k m'"
proof -
  have "sort_key fst m = sort_key fst m'"
    using assms by (intro sort_key_inj_key_eq) (auto simp: distinct_map)
  moreover have "m = [] \<longleftrightarrow> m' = []" using assms(1) by (metis mset_zero_iff)
  ultimately show ?thesis by (simp add: j_map_def)
qed

text \<open>
  C31: the order of a map does not matter. Two configurations that differ only in the order in which their
  maps of secrets and of environment variables are enumerated have the same JSON text, hence the same hash
  and the same deployment name: an unchanged configuration is not pushed again.
\<close>

theorem hash_ignores_map_order:
  assumes "mset secrets = mset (tc_Secrets tc)" and "distinct (map fst secrets)"
    and "mset vars = mset (tc_EnvironmentVariables tc)" and "distinct (map fst vars)"
  shows "HashTrussConfig (tc\<lparr>tc_Secrets := secrets, tc_EnvironmentVariables := vars\<rparr>) script = HashTrussConfig tc script \<and>
    DeploymentName (HashTrussConfig (tc\<lparr>tc_Secrets := secrets, tc_EnvironmentVariables := vars\<rparr>) script) img =
    DeploymentName (HashTrussConfig tc script) img"
proof -
  have "json_TrussConfig (tc\<lparr>tc_Secrets := secrets, tc_EnvironmentVariables := vars\<rparr>) = json_TrussConfig tc"
    by (simp add: json_TrussConfig_def j_map_order [OF assms(1,2)] j_map_order [OF assms(3,4)])
  then show ?thesis by (simp add: HashTrussConfig_def)
qed

lemma hash_ignores_map_order_witness:
  "HashTrussConfig ((sample_TrussConfig ''vllm:1'')\<lparr>tc_Secrets := [], tc_EnvironmentVariables := [(''A'', ''1''), (''B'', ''2'')]\<rparr>) ''echo'' =
   HashTrussConfig (sample_TrussConfig ''vllm:1'') ''echo''"
  by (rule hash_ignores_map_order [THEN conjunct1]) (simp_all add: sample_TrussConfig_def)

end
