(* ===== verification/Safety_Push.thy ===== *)
theory Safety_Push
  imports Safety_Lifecycle Truss_Props
begin

text \<open>
  When a push is started: at most once in a pass, for the configuration of the resource that was
  read, only when the deployment is known to be missing, only when no push for it is recorded as
  running, and only after the push was recorded in the status.
\<close>

section \<open>Rules for the remaining actions\<close>

lemma hwp_time_Now:
  "(\<And>t w. Now r (world s) = (t, w) \<Longrightarrow> hwp P (f t) Q (s\<lparr>world := w\<rparr>) h) \<Longrightarrow>
   hwp P (State_Monad.bind (time_Now r) f) Q s h"
  by (rule hwp_bind) (simp add: hwp_def time_Now_def ext_read_def split: prod.splits)

lemma hwp_modify_status:
  "hwp P (f ()) Q (s\<lparr>obj := (obj s)\<lparr>Status := g (Status (obj s))\<rparr>\<rparr>) h \<Longrightarrow>
   hwp P (State_Monad.bind (modify_status g) f) Q s h"
  unfolding modify_status_def by (rule hwp_modify_obj)

lemma hwp_log_effect:
  assumes "P h e" and "hwp P (f ()) Q (s\<lparr>trace := trace s @ [e]\<rparr>) (h @ [e])"
  shows "hwp P (State_Monad.bind (log_effect e) f) Q s h"
proof (rule hwp_bind)
  show "hwp P (log_effect e) (\<lambda>a s' h'. hwp P (f a) Q s' h') s h"
    unfolding hwp_def [of P "log_effect e"] by (intro exI [of _ "[e]"]) (simp add: log_effect_def assms)
qed

lemma hwp_Status_Update:
  assumes "\<And>e. P h (KStatusUpdate (obj s) e)" and "\<And>e s'. hwp P (f e) Q s' (h @ [KStatusUpdate (obj s) e])"
  shows "hwp P (State_Monad.bind (Status_Update r) f) Q s h"
proof (rule hwp_bind)
  obtain e m w where "k_StatusUpdate r (obj s) (world s) = ((e, m), w)"
    by (cases "k_StatusUpdate r (obj s) (world s)") auto
  then show "hwp P (Status_Update r) (\<lambda>e s' h'. hwp P (f e) Q s' h') s h"
    unfolding hwp_def [of P "Status_Update r"]
    by (intro exI [of _ "[KStatusUpdate (obj s) e]"]) (simp add: Status_Update_def assms)
qed

text \<open>An action without effects.\<close>

lemma hwp_silent:
  assumes "stays {} n" and "\<And>a s'. hwp P (f a) Q s' h"
  shows "hwp P (State_Monad.bind n f) Q s h"
  by (rule hwp_frame_bind [OF assms(1)]) (use assms(2) in auto)

section \<open>The evidence for a push\<close>

fun is_push :: "effect \<Rightarrow> bool" where
  "is_push (SpawnPush _) \<longleftrightarrow> True"
| "is_push _ \<longleftrightarrow> False"

text \<open>The script of a configuration, with the read of the config map where it comes from one.\<close>

definition script_read :: "effect list \<Rightarrow> TrussConfig \<Rightarrow> string \<Rightarrow> bool" where
  "script_read h tc script \<longleftrightarrow>
     (case tc_SetupScript tc of
        None \<Rightarrow> script = ''''
      | Some src \<Rightarrow>
          (case ss_ConfigMapRef src of
             Some ref \<Rightarrow> (\<exists>ns. KGetConfigMap (cr_Name ref) ns (Inr (Some script)) \<in> set h)
           | None \<Rightarrow> script = (case ss_Inline src of Some x \<Rightarrow> x | None \<Rightarrow> '''')))"

text \<open>The deployment does not exist in the model, or there is no model and one may be created.\<close>

definition deployment_missing :: "effect list \<Rightarrow> BasetenModel \<Rightarrow> string \<Rightarrow> bool" where
  "deployment_missing h m name \<longleftrightarrow>
     (\<exists>mid st. mid \<noteq> '''' \<and> Api (CFindDeploymentIDByName mid name (Inr ('''', st))) \<in> set h) \<or>
     (ModelID (Status m) = '''' \<and> \<not> recreation_blocked m \<and>
      Api (CFindModelIDByName (spec_ModelName (Spec m)) (spec_Team (Spec m)) (Inr '''')) \<in> set h)"

text \<open>A push for this deployment that is recorded as running has been cleared as stale.\<close>

definition not_in_flight :: "effect list \<Rightarrow> BasetenModel \<Rightarrow> string \<Rightarrow> bool" where
  "not_in_flight h m name \<longleftrightarrow>
     TrussPushStatus (Status m) \<noteq> statusTrussPushing \<or> SourceDeploymentName (Status m) \<noteq> name \<or>
     (\<exists>m' e. KStatusUpdate m' e \<in> set h \<and> TrussPushStatus (Status m') = '''' \<and> TrussPushTime (Status m') = None)"

definition push_recorded :: "effect list \<Rightarrow> string \<Rightarrow> string \<Rightarrow> bool" where
  "push_recorded h name hash \<longleftrightarrow>
     (\<exists>m e. KStatusUpdate m e \<in> set h \<and> TrussPushStatus (Status m) = statusTrussPushing \<and>
       SourceDeploymentName (Status m) = name \<and> TrussConfigHash (Status m) = hash \<and> TrussPushTime (Status m) \<noteq> None)"

definition push_due ::
  "'w BasetenModelReconciler \<Rightarrow> effect list \<Rightarrow> BasetenModel \<Rightarrow> TrussConfig \<Rightarrow> string \<Rightarrow> string \<Rightarrow> bool" where
  "push_due r h m tc script name \<longleftrightarrow>
     spec_TrussConfig (Spec m) = Some tc \<and> script_read h tc script \<and>
     name = DeploymentName (HashTrussConfig tc script) (bi_Image (tc_BaseImage tc)) \<and>
     deployment_missing h m name"

fun push_guard :: "'w BasetenModelReconciler \<Rightarrow> BasetenModel \<Rightarrow> effect list \<Rightarrow> effect \<Rightarrow> bool" where
  "push_guard r m h (SpawnPush job) \<longleftrightarrow>
     \<not> list_ex is_push h \<and>
     (\<exists>tc n. push_due r h m tc (pj_SetupScript job) (pj_DeploymentName job) \<and>
       GenerateConfigYAML (JsonValid r) (YamlMarshal r) tc n = Inr (pj_ConfigYAML job) \<and>
       not_in_flight h m (pj_DeploymentName job) \<and>
       push_recorded h (pj_DeploymentName job) (HashTrussConfig tc (pj_SetupScript job)))"
| "push_guard r m h _ \<longleftrightarrow> True"

lemma kind_spawn_iff: "kind e = EkSpawn \<longleftrightarrow> is_push e"
proof (cases e)
  case (Api c)
  then show ?thesis by (cases c) simp_all
qed simp_all

lemma push_guard_other: "kind e \<noteq> EkSpawn \<Longrightarrow> push_guard r m h e"
  by (cases e) simp_all

lemma no_pushes: "EkSpawn \<notin> K \<Longrightarrow> \<forall>e \<in> set es. kind e \<in> K \<Longrightarrow> \<not> list_ex is_push es"
  by (auto simp: list_ex_iff kind_spawn_iff [symmetric])

text \<open>Evidence stays when the history grows.\<close>

lemma evidence_grows:
  assumes "set h \<subseteq> set h'"
  shows "script_read h tc script \<Longrightarrow> script_read h' tc script"
    and "deployment_missing h m name \<Longrightarrow> deployment_missing h' m name"
    and "not_in_flight h m name \<Longrightarrow> not_in_flight h' m name"
    and "push_recorded h name hash \<Longrightarrow> push_recorded h' name hash"
  using assms unfolding script_read_def deployment_missing_def not_in_flight_def push_recorded_def
  by (auto split: option.splits)

lemma push_due_grows: "set h \<subseteq> set h' \<Longrightarrow> push_due r h m tc script name \<Longrightarrow> push_due r h' m tc script name"
  unfolding push_due_def using evidence_grows by blast

lemma push_free:
  assumes "stays K n" and "EkSpawn \<notin> K"
  shows "hwp (push_guard r m) n (\<lambda>_ _ _. True) s h"
  using assms by (intro hwp_stays [OF assms(1)] push_guard_other) auto

section \<open>The steps before a push\<close>

lemma script_evidence:
  assumes "\<not> list_ex is_push h"
  shows "hwp (push_guard r m) (readSetupScript r tc ns)
    (\<lambda>script s' h'. set h \<subseteq> set h' \<and> \<not> list_ex is_push h' \<and> obj s' = obj s \<and>
      (\<forall>x. script = Inr x \<longrightarrow> script_read h' tc x)) s h"
  unfolding readSetupScript_def using assms
  by (intro hwp_option hwp_ext_call conjI hwp_sum hwp_return)
    (auto simp: script_read_def)

text \<open>The model id: known, found, or missing with leave to create the model.\<close>

lemma model_not_found_answers:
  "answers (\<lambda>(mid, result, err). err = None \<and> result = None \<longrightarrow> mid = '''' \<and> \<not> recreation_blocked m)
     (model_not_found r m)"
  unfolding model_not_found_def Let_def by (intro answers_intro) auto

lemma model_not_found_keeps:
  "run_state (model_not_found r m) s = ((mid, None, None), s') \<Longrightarrow> s' = s"
  by (auto simp: model_not_found_def Let_def split: if_splits prod.splits)

lemma model_id_evidence:
  assumes "\<not> list_ex is_push h"
  shows "hwp (push_guard r m) (resolveModelID r)
    (\<lambda>(mid, result, err) s' h'. set h \<subseteq> set h' \<and> \<not> list_ex is_push h' \<and>
      (err = None \<and> result = None \<longrightarrow> obj s' = obj s \<and> (mid = '''' \<longrightarrow> (\<forall>name. deployment_missing h' (obj s) name)))) s h"
    (is "hwp _ _ ?Q s h")
  unfolding resolveModelID_def api_defs
proof (intro hwp_model hwp_if)
  let ?o = "obj s"
  let ?e = "\<lambda>a. Api (CFindModelIDByName (spec_ModelName (Spec ?o)) (spec_Team (Spec ?o)) a)"
  assume "ModelID (Status ?o) \<noteq> ''''"
  then show "hwp (push_guard r m) (ret (ModelID (Status ?o), None, None)) ?Q s h"
    using assms by (intro hwp_return) simp
next
  let ?o = "obj s"
  let ?e = "\<lambda>a. Api (CFindModelIDByName (spec_ModelName (Spec ?o)) (spec_Team (Spec ?o)) a)"
  assume unknown: "\<not> ModelID (Status ?o) \<noteq> ''''"
  have failed: "hwp (push_guard r m) n ?Q s' (h @ [?e a])"
    if "stays {EkStatus, EkEvent} n" "answers (\<lambda>(mid, result, err). err \<noteq> None) n"
    for n :: "('a rstate, validation) state" and s' a
  proof (rule hwp_frame [OF that(1)])
    show "?Q x s'' ((h @ [?e a]) @ es)"
      if "run_state n s' = (x, s'')" "\<forall>e \<in> set es. kind e \<in> {EkStatus, EkEvent}" for x s'' es
      using answersD [OF \<open>answers _ n\<close> that(1)] no_pushes [OF _ that(2)] assms by (cases x) auto
  qed (auto intro: push_guard_other)
  have missing: "hwp (push_guard r m) (model_not_found r ?o) ?Q s' (h @ [?e (Inr '''')])" if "obj s' = ?o" for s'
  proof (rule hwp_frame [of "\<lambda>e. kind e \<in> {EkStatus, EkEvent}"])
    show "stays {EkStatus, EkEvent} (model_not_found r ?o)"
      unfolding model_not_found_def Let_def by (intro emits_intro stays_intro) auto
    show "?Q x s'' ((h @ [?e (Inr '''')]) @ es)"
      if x: "run_state (model_not_found r ?o) s' = (x, s'')" and es: "\<forall>e \<in> set es. kind e \<in> {EkStatus, EkEvent}" for x s'' es
      using answersD [OF model_not_found_answers x] no_pushes [OF _ es] assms unknown x \<open>obj s' = ?o\<close>
      by (cases x) (auto simp: deployment_missing_def dest: model_not_found_keeps)
  qed (auto intro: push_guard_other)
  show "hwp (push_guard r m) (State_Monad.bind (ext_call (ci_FindModelIDByName (BasetenClient r) (spec_ModelName (Spec ?o)) (spec_Team (Spec ?o))) ?e)
      (\<lambda>res. case res of
        Inl err \<Rightarrow> State_Monad.bind (Eventf EventTypeWarning EventModelNotFound
            (''Failed to lookup model '' @ fmt_q (spec_ModelName (Spec ?o)) @ '': '' @ error_text err))
          (\<lambda>_. State_Monad.bind (logUpdateStatus r (status_update DeploymentStatusFailed
              (''Failed to lookup model '' @ sq (spec_ModelName (Spec ?o)) @ '': '' @ error_text err) ''''))
            (\<lambda>_. ret ('''', Some no_requeue, Some err)))
      | Inr modelID \<Rightarrow> if modelID = '''' then model_not_found r ?o else ret (modelID, None, None))) ?Q s h"
  proof (rule hwp_ext_call, rule conjI, simp, intro hwp_sum hwp_if, goal_cases)
    case (1 a w e)
    show ?case by (intro failed emits_intro stays_intro answers_intro) auto
  next
    case (2 a w mid)
    then show ?case using missing by simp
  next
    case (3 a w mid)
    then show ?case using assms by (intro hwp_return) auto
  qed
qed

text \<open>When the check for an existing deployment lets the pass go on, the deployment is missing.\<close>

lemma existing_evidence:
  assumes "\<not> list_ex is_push h" and "mid \<noteq> ''''"
  shows "hwp (push_guard r m) (truss_existing r mid ap hash name)
    (\<lambda>res s' h'. set h \<subseteq> set h' \<and> \<not> list_ex is_push h' \<and>
      (res = None \<longrightarrow> obj s' = obj s \<and> deployment_missing h' ob name)) s h"
    (is "hwp _ _ ?Q s h")
proof -
  have stop: "hwp (push_guard r m) n ?Q s' h'"
    if "stays {EkStatus, EkEvent} n" "answers (\<lambda>res. res \<noteq> None) n" "set h \<subseteq> set h'" "\<not> list_ex is_push h'"
    for n :: "('a rstate, source_result option) state" and s' h'
  proof (rule hwp_frame [OF that(1)])
    show "?Q x s'' (h' @ es)"
      if "run_state n s' = (x, s'')" "\<forall>e \<in> set es. kind e \<in> {EkStatus, EkEvent}" for x s'' es
      using answersD [OF \<open>answers _ n\<close> that(1)] no_pushes [OF _ that(2)] \<open>set h \<subseteq> set h'\<close> \<open>\<not> list_ex is_push h'\<close> by auto
  qed (auto intro: push_guard_other)
  show ?thesis
    unfolding truss_existing_def api_defs
  proof (intro hwp_model hwp_if hwp_ext_call conjI hwp_sum hwp_prod, goal_cases)
    case 1
    then show ?case using assms by (intro hwp_return) simp
  next
    case (2 a w)
    then show ?case by simp
  next
    case (3 a w e)
    then show ?case using assms by (intro stop emits_intro stays_intro answers_intro) auto
  next
    case (4 a w y i st)
    then show ?case using assms by (intro stop emits_intro stays_intro answers_intro) auto
  next
    case (5 a w y i st)
    then show ?case using assms by (intro hwp_return) (auto simp: deployment_missing_def)
  qed
qed

text \<open>A push recorded for the deployment ends the pass, or it is stale and cleared.\<close>

lemma in_flight_evidence:
  assumes "\<not> list_ex is_push h" and same: "Status (obj s) = Status ob"
  shows "hwp (push_guard r m) (truss_in_flight r mid ap name)
    (\<lambda>res s' h'. set h \<subseteq> set h' \<and> \<not> list_ex is_push h' \<and> (res = None \<longrightarrow> not_in_flight h' ob name)) s h"
    (is "hwp _ _ ?Q s h")
proof -
  have clear: "hwp (push_guard r m) (State_Monad.bind (Eventf EventTypeWarning EventTrussPushFailed msg) (\<lambda>_.
      State_Monad.bind (modify_status (\<lambda>st. st\<lparr>TrussPushStatus := '''', TrussPushTime := None\<rparr>)) (\<lambda>_.
      State_Monad.bind (Status_Update r) (\<lambda>_. ret None)))) ?Q s' h" for msg s'
    unfolding Eventf_def using assms(1)
    by (intro hwp_log_effect hwp_modify_status hwp_Status_Update hwp_return) (auto simp: not_in_flight_def)
  have wait: "hwp (push_guard r m) n ?Q s' h"
    if "stays {EkStatus, EkEvent} n" "answers (\<lambda>res. res \<noteq> None) n" for n :: "('a rstate, source_result option) state" and s'
  proof (rule hwp_frame [OF that(1)])
    show "?Q x s'' (h @ es)"
      if "run_state n s' = (x, s'')" "\<forall>e \<in> set es. kind e \<in> {EkStatus, EkEvent}" for x s'' es
      using answersD [OF \<open>answers _ n\<close> that(1)] no_pushes [OF _ that(2)] assms(1) by auto
  qed (auto intro: push_guard_other)
  have stale: "stays {} (stale_push r t)" for t
    unfolding stale_push_def by (intro emits_intro)
  show ?thesis
    unfolding truss_in_flight_def
  proof (intro hwp_model hwp_if hwp_silent [OF stale] hwp_option, goal_cases)
    case (1 a s')
    show ?case by (intro wait emits_intro stays_intro answers_intro) auto
  next
    case (2 a s' t)
    show ?case by (rule clear)
  next
    case 3
    then show ?case using assms by (intro hwp_return) (auto simp: not_in_flight_def)
  qed
qed

text \<open>The push itself comes after its record.\<close>

lemma launch_guard:
  assumes "\<not> list_ex is_push h" and "push_due r h m tc script name" and "not_in_flight h m name"
    and "GenerateConfigYAML (JsonValid r) (YamlMarshal r) tc n = Inr yaml"
  shows "hwp (push_guard r m) (truss_launch r mid ap (HashTrussConfig tc script) name yaml script) (\<lambda>_ _ _. True) s h"
proof -
  have ready: "push_guard r m h' (SpawnPush job)"
    if "set h \<subseteq> set h'" "\<not> list_ex is_push h'" "push_recorded h' name (HashTrussConfig tc script)"
      "pj_SetupScript job = script" "pj_DeploymentName job = name" "pj_ConfigYAML job = yaml" for job h'
  proof -
    have "push_due r h' m tc script name" using that(1) assms(2) by (rule push_due_grows)
    moreover have "not_in_flight h' m name" using that(1) assms(3) by (rule evidence_grows)
    ultimately show ?thesis using that assms(4) by (simp, blast)
  qed
  have recorded: "push_recorded h' name hash"
    if "KStatusUpdate (x\<lparr>Status := (Status x)\<lparr>TrussConfigHash := hash, SourceDeploymentName := name,
      TrussPushStatus := statusTrussPushing, TrussPushTime := Some t\<rparr>\<rparr>) e \<in> set h'" for h' x hash t e
    unfolding push_recorded_def by (rule exI, rule exI, intro conjI, rule that) simp_all
  show ?thesis
    unfolding truss_launch_def Let_def Eventf_def
    by (intro hwp_time_Now hwp_modify_status hwp_Status_Update hwp_silent [OF stays_slots(1)] hwp_if hwp_model
        hwp_log_effect ready; (rule push_free [of "{EkStatus, EkEvent}"], intro emits_intro stays_intro)?)
      (use assms(1) in \<open>auto intro!: recorded\<close>)
qed

section \<open>The whole pass\<close>

text \<open>A step without a push keeps the history free of pushes.\<close>

lemma push_free_bind:
  assumes "stays K n" and "EkSpawn \<notin> K" and "\<not> list_ex is_push h"
    and "\<And>a s' h'. run_state n s = (a, s') \<Longrightarrow> set h \<subseteq> set h' \<Longrightarrow> \<not> list_ex is_push h' \<Longrightarrow> hwp (push_guard r m) (f a) Q s' h'"
  shows "hwp (push_guard r m) (State_Monad.bind n f) Q s h"
proof (rule hwp_frame_bind [OF assms(1)])
  show "push_guard r m h' e" if "kind e \<in> K" for h' e
    using that assms(2) by (intro push_guard_other) auto
  show "hwp (push_guard r m) (f a) Q s' (h @ es)"
    if "run_state n s = (a, s')" "\<forall>e \<in> set es. kind e \<in> K" for a s' es
    using that assms(3) no_pushes [OF assms(2) that(2)] by (intro assms(4)) auto
qed

lemma status_steps_free:
  "stays {EkStatus, EkEvent} n \<Longrightarrow> hwp (push_guard r m) n (\<lambda>_ _ _. True) s h"
  by (erule push_free) simp

text \<open>From the check for a push in flight on.\<close>

lemma truss_push_guard:
  assumes "\<not> list_ex is_push h" and "Status (obj s) = Status m" and "push_due r h m tc script name"
  shows "hwp (push_guard r m) (truss_push r tc mid ap (HashTrussConfig tc script) name script) (\<lambda>_ _ _. True) s h"
  unfolding truss_push_def
proof (rule hwp_bind, rule hwp_mono [OF in_flight_evidence [OF assms(1,2), of r m mid ap name]], elim conjE,
    intro hwp_option hwp_true_return, rule push_free_bind [OF stays_truss_steps(3) [OF subset_refl]], simp, assumption,
    intro hwp_option hwp_true_return hwp_model hwp_sum, goal_cases)
  case 1
  show ?case by (intro status_steps_free emits_intro stays_intro) auto
next
  case (2 res s1 h1 a s2 h2 yaml)
  then have "set h \<subseteq> set h2" "set h1 \<subseteq> set h2" by auto
  with 2 assms(3) show ?case by (intro launch_guard) (auto intro: evidence_grows push_due_grows)
qed

lemma reconcileTruss_guard:
  assumes "\<not> list_ex is_push h" and "Spec (obj s) = Spec m" and "Status (obj s) = Status m"
    and "spec_TrussConfig (Spec m) = Some tc" and "\<And>name. mid = '''' \<Longrightarrow> deployment_missing h m name"
  shows "hwp (push_guard r m) (reconcileTrussDeployment r tc mid) (\<lambda>_ _ _. True) s h"
  unfolding reconcileTrussDeployment_def Let_def
proof (rule hwp_model, rule hwp_bind, rule hwp_mono [OF script_evidence [OF assms(1)]], elim conjE,
    intro hwp_sum, goal_cases)
  case 1
  show ?case by (intro status_steps_free emits_intro stays_intro) auto
next
  case (2 a s' h' script)
  let ?name = "DeploymentName (HashTrussConfig tc script) (bi_Image (tc_BaseImage tc))"
  have due: "push_due r h'' m tc script ?name" if "set h' \<subseteq> set h''" "deployment_missing h'' m ?name" for h''
    using that assms(4) 2 evidence_grows(1) by (auto simp: push_due_def)
  show ?case
  proof (cases "mid = ''''")
    case True
    then have "deployment_missing h' m ?name" using assms(5) 2 evidence_grows(2) by blast
    with True show ?thesis using 2 assms(3) due by (simp, intro truss_push_guard) auto
  next
    case False
    show ?thesis
      by (rule hwp_bind, simp only: False not_False_eq_True if_True,
          rule hwp_mono [OF existing_evidence [OF 2(2) False, where ob = m]])
        (use 2 assms(3) due in \<open>auto intro!: hwp_option hwp_true_return truss_push_guard\<close>)
  qed
qed

lemma resolve_source_guard:
  assumes "\<not> list_ex is_push h" and "Spec (obj s) = Spec m" and "Status (obj s) = Status m"
    and "\<And>name. mid = '''' \<Longrightarrow> deployment_missing h m name"
  shows "hwp (push_guard r m) (resolveSourceDeployment r mid) (\<lambda>_ _ _. True) s h"
  unfolding resolveSourceDeployment_def
  by (intro hwp_model hwp_option hwp_true_return reconcileTruss_guard assms) (use assms(2) in simp)

lemma environment_push_free:
  "hwp (push_guard r m) (reconcile_environment_state r mid envName env src) (\<lambda>_ _ _. True) s h"
proof (rule push_free)
  show "stays (normal_kinds - {EkSpawn}) (reconcile_environment_state r mid envName env src)"
    unfolding reconcile_environment_state_def normal_kinds_def by (intro emits_intro stays_intro) auto
qed simp

lemma reconcile_model_push_guard:
  assumes "\<not> list_ex is_push h" and "Spec (obj s) = Spec m" and "Status (obj s) = Status m"
  shows "hwp (push_guard r m) (reconcile_model r) (\<lambda>_ _ _. True) s h"
proof -
  have missing: "deployment_missing h' (obj s) name \<longleftrightarrow> deployment_missing h' m name" for h' name
    using assms(2,3) by (simp add: deployment_missing_def recreation_blocked_def)
  have step: "hwp (push_guard r m) (return_step r result err) (\<lambda>_ _ _. True) s' h'" for result err s' h'
    by (rule push_free [OF stays_return_step [OF subset_refl]]) simp
  have environment: "hwp (push_guard r m) (State_Monad.bind (reconcileEnvironment r mid envName)
      (\<lambda>(x, result, err). if err \<noteq> None \<or> result \<noteq> None then return_step r result err
        else case x of None \<Rightarrow> ret (return_result None None)
          | Some env \<Rightarrow> reconcile_environment_state r mid envName env src)) (\<lambda>_ _ _. True) s' h'"
    for mid envName src s' h'
    by (rule hwp_bind, rule hwp_mono [OF push_free [OF stays_reconcileEnvironment [OF subset_refl]]])
      (auto intro!: hwp_if hwp_option hwp_true_return step environment_push_free)
  show ?thesis
    unfolding reconcile_model_def Let_def
  proof (rule hwp_bind, rule hwp_mono [OF model_id_evidence [OF assms(1), of r m s]],
      intro hwp_prod hwp_if hwp_true_return hwp_model, rule hwp_bind, rule hwp_mono, rule resolve_source_guard, goal_cases)
    case (5 a s' h' mid x result err b s'' h'')
    then show ?case by (intro hwp_prod hwp_if hwp_true_return step environment)
  qed (use assms missing in auto)
qed


text \<open>A pass that pushes: the resource has a truss configuration whose deployment does not exist.\<close>

definition sample_truss_Model :: BasetenModel where
  "sample_truss_Model = (sample_Model ModeReconcile '''')
     \<lparr>Spec := (Spec (sample_Model ModeReconcile ''''))\<lparr>spec_TrussConfig := Some (sample_TrussConfig ''vllm:1'')\<rparr>\<rparr>"

definition sample_push_Reconciler :: "time BasetenModelReconciler" where
  "sample_push_Reconciler = sample_Reconciler sample_truss_Model
     (sample_Client (sample_Environment None None) ('''', '''') [])"

lemmas sample_pass_defs = sample_push_Reconciler_def sample_Reconciler_def sample_truss_Model_def sample_Model_def
  sample_Client_def sample_State_def sample_TrussConfig_def zero_BasetenModel_def zero_BasetenModelSpec_def
  zero_BasetenModelStatus_def

lemmas truss_step_defs = reconcile_model_def resolveModelID_def resolveSourceDeployment_def
  reconcileTrussDeployment_def readSetupScript_def truss_existing_def api_defs truss_push_def truss_in_flight_def
  truss_backoff_def GenerateConfigYAML_def truss_launch_def acquire_slot_def statusTrussPushing_def
  statusTrussPushFailed_def statusTrussPushDone_def return_step_def return_result_def invalidateModelID_def IsNotFoundError_def

lemma sample_push_pass:
  "wp (Reconcile sample_push_Reconciler ''m'' ''ns'')
     (\<lambda>_ s'. map kind (trace s') = [EkGet, EkLookup, EkStatus, EkEvent, EkSpawn, EkStatus]) (sample_State zero_BasetenModel)"
proof -
  note [simp] = wp_simps
  show ?thesis
    by (simp add: sample_pass_defs object_step_defs) (simp add: truss_step_defs status_step_defs Let_def)
qed


end
