(* ===== verification/Push_System.thy ===== *)
theory Push_System
  imports Safety_Push
begin

text \<open>
  The operator as a system of passes and background pushes. The semaphore bounds the pushes that run;
  what a push leaves in the status; and what can go wrong between a push and the passes beside it.
\<close>

section \<open>Slots and pushes\<close>

named_theorems slots_intro "introduction rules for slots"

text \<open>
  A handler that takes \<open>k\<close> slots less than it starts pushes: with \<open>k = 0\<close> it takes a slot for
  every push that it starts, and it never takes a slot beyond the capacity.
\<close>

definition slots :: "nat \<Rightarrow> nat \<Rightarrow> ('w, 'a) handler \<Rightarrow> bool" where
  "slots cap k m \<longleftrightarrow> (\<forall>s. \<exists>es. trace (snd (run_state m s)) = trace s @ es \<and>
     semUsed (snd (run_state m s)) + k = semUsed s + length (filter is_push es) \<and>
     (semUsed s \<le> cap \<longrightarrow> semUsed (snd (run_state m s)) \<le> cap))"

lemma slotsI:
  assumes "\<And>s. \<exists>es. trace (snd (run_state m s)) = trace s @ es \<and>
     semUsed (snd (run_state m s)) + k = semUsed s + length (filter is_push es) \<and>
     (semUsed s \<le> cap \<longrightarrow> semUsed (snd (run_state m s)) \<le> cap)"
  shows "slots cap k m"
  using assms unfolding slots_def by blast

lemma slots_bind_sum:
  assumes "slots cap i m" and "\<And>a. slots cap j (f a)" and "i + j = k"
  shows "slots cap k (State_Monad.bind m f)"
proof (rule slotsI)
  fix s
  obtain a t where m: "run_state m s = (a, t)" by (cases "run_state m s")
  obtain es where es: "trace t = trace s @ es" "semUsed t + i = semUsed s + length (filter is_push es)"
    "semUsed s \<le> cap \<longrightarrow> semUsed t \<le> cap" using assms(1) m unfolding slots_def by (metis snd_conv)
  obtain fs where fs: "trace (snd (run_state (f a) t)) = trace t @ fs"
    "semUsed (snd (run_state (f a) t)) + j = semUsed t + length (filter is_push fs)"
    "semUsed t \<le> cap \<longrightarrow> semUsed (snd (run_state (f a) t)) \<le> cap" using assms(2) unfolding slots_def by metis
  show "\<exists>es. trace (snd (run_state (State_Monad.bind m f) s)) = trace s @ es \<and>
      semUsed (snd (run_state (State_Monad.bind m f) s)) + k = semUsed s + length (filter is_push es) \<and>
      (semUsed s \<le> cap \<longrightarrow> semUsed (snd (run_state (State_Monad.bind m f) s)) \<le> cap)"
    using m es fs assms(3) by (intro exI [of _ "es @ fs"]) auto
qed

lemma slots_bind [slots_intro]: "slots cap 0 m \<Longrightarrow> (\<And>a. slots cap k (f a)) \<Longrightarrow> slots cap k (State_Monad.bind m f)"
  by (rule slots_bind_sum [OF _ _ add_0])

lemma slots_return [slots_intro]: "slots cap 0 (State_Monad.return a)"
  by (simp add: slots_def)

lemma slots_if [slots_intro]:
  "(b \<Longrightarrow> slots cap k m) \<Longrightarrow> (\<not> b \<Longrightarrow> slots cap k n) \<Longrightarrow> slots cap k (if b then m else n)"
  by simp

lemma slots_option [slots_intro]:
  "(x = None \<Longrightarrow> slots cap k m) \<Longrightarrow> (\<And>y. x = Some y \<Longrightarrow> slots cap k (n y)) \<Longrightarrow>
   slots cap k (case x of None \<Rightarrow> m | Some y \<Rightarrow> n y)"
  by (simp split: option.splits)

lemma slots_sum [slots_intro]:
  "(\<And>e. x = Inl e \<Longrightarrow> slots cap k (m e)) \<Longrightarrow> (\<And>y. x = Inr y \<Longrightarrow> slots cap k (n y)) \<Longrightarrow>
   slots cap k (case x of Inl e \<Rightarrow> m e | Inr y \<Rightarrow> n y)"
  by (simp split: sum.splits)

lemma slots_prod [slots_intro]:
  "(\<And>a b. x = (a, b) \<Longrightarrow> slots cap k (m a b)) \<Longrightarrow> slots cap k (case x of (a, b) \<Rightarrow> m a b)"
  by (simp split: prod.splits)

lemma slots_bool [slots_intro]:
  "(b \<Longrightarrow> slots cap k m) \<Longrightarrow> (\<not> b \<Longrightarrow> slots cap k n) \<Longrightarrow> slots cap k (case b of True \<Rightarrow> m | False \<Rightarrow> n)"
  by (cases b) simp_all

lemma slots_mfold [slots_intro]: "(\<And>x a. x \<in> set xs \<Longrightarrow> slots cap 0 (f x a)) \<Longrightarrow> slots cap 0 (mfold f xs a)"
  by (induction xs arbitrary: a) (simp_all add: slots_return slots_bind)

lemma slots_quiet:
  assumes "\<And>s. semUsed (snd (run_state m s)) = semUsed s \<and>
    (\<exists>es. trace (snd (run_state m s)) = trace s @ es \<and> list_all (\<lambda>e. \<not> is_push e) es)"
  shows "slots cap 0 m"
proof (rule slotsI)
  fix s
  obtain es where "trace (snd (run_state m s)) = trace s @ es" "list_all (\<lambda>e. \<not> is_push e) es"
    using assms [of s] by blast
  with assms [of s] show "\<exists>es. trace (snd (run_state m s)) = trace s @ es \<and>
     semUsed (snd (run_state m s)) + 0 = semUsed s + length (filter is_push es) \<and>
     (semUsed s \<le> cap \<longrightarrow> semUsed (snd (run_state m s)) \<le> cap)"
    by (intro exI [of _ es]) (simp add: list_all_iff)
qed

lemma slots_primitives [slots_intro]:
  shows "slots cap 0 (gets f)" "slots cap 0 model" "slots cap 0 (time_Now r)" "slots cap 0 (ext_read g)"
    "slots cap 0 (Eventf t rs msg)" "slots cap 0 (modify_obj h)" "slots cap 0 (modify_status i)"
    "slots cap 0 (K_Update r)" "slots cap 0 (Status_Update r)"
  by (rule slots_quiet; auto simp: gets_def model_def time_Now_def ext_read_def Eventf_def log_effect_def
      modify_obj_def modify_status_def modify_def K_Update_def Status_Update_def split: prod.splits)+

lemma slots_ext_call [slots_intro]: "(\<And>a. \<not> is_push (eff a)) \<Longrightarrow> slots cap 0 (ext_call g eff)"
  by (rule slots_quiet) (simp add: ext_call_def split: prod.splits)

lemma slots_spawn: "slots cap 1 (log_effect (SpawnPush j))"
  by (rule slotsI, rule exI [of _ "[SpawnPush j]"]) (simp add: log_effect_def)

text \<open>The send on the channel: it succeeds only below the capacity.\<close>

lemma slots_acquire:
  assumes "PushSemaphore r = Some cap" and "slots cap 1 (f True)" and "slots cap 0 (f False)"
  shows "slots cap 0 (State_Monad.bind (acquire_slot r) f)"
proof (rule slotsI)
  fix s
  let ?n = "State_Monad.bind (acquire_slot r) f"
  show "\<exists>es. trace (snd (run_state ?n s)) = trace s @ es \<and>
      semUsed (snd (run_state ?n s)) + 0 = semUsed s + length (filter is_push es) \<and>
      (semUsed s \<le> cap \<longrightarrow> semUsed (snd (run_state ?n s)) \<le> cap)"
  proof (cases "semUsed s < cap")
    case True
    then have "run_state ?n s = run_state (f True) (s\<lparr>semUsed := semUsed s + 1\<rparr>)"
      using assms(1) by (simp add: acquire_slot_def)
    with True assms(2) [unfolded slots_def, rule_format, of "s\<lparr>semUsed := semUsed s + 1\<rparr>"] show ?thesis by auto
  next
    case False
    then have "run_state ?n s = run_state (f False) s" using assms(1) by (simp add: acquire_slot_def)
    with assms(3) [unfolded slots_def, rule_format, of s] show ?thesis by simp
  qed
qed

lemma slots_after_spawn: "slots cap 0 (f ()) \<Longrightarrow> slots cap 1 (State_Monad.bind (log_effect (SpawnPush j)) f)"
  by (rule slots_bind_sum [OF slots_spawn]) auto

section \<open>A pass takes a slot for the push that it starts\<close>

lemma slots_api [slots_intro]:
  "slots cap 0 (api_FindModelIDByName r n t)" "slots cap 0 (api_GetEnvironment r m e)" "slots cap 0 (api_ListEnvironments r m)"
  "slots cap 0 (api_FindDeploymentIDByName r m n)" "slots cap 0 (api_ListDeployments r m)"
  "slots cap 0 (api_CreateEnvironment r m c)" "slots cap 0 (api_UpdateEnvironmentSettings r m e ac pc)"
  "slots cap 0 (api_UpdateAutoscalingSchedules r m e sp ob)" "slots cap 0 (api_ActivateDeployment r m d)"
  "slots cap 0 (api_Promote r m d e p)" "slots cap 0 (api_UpdateDeploymentAutoscaling r m d k)"
  "slots cap 0 (api_DeleteDeployment r m d)" "slots cap 0 (api_RetryDeployment r m d)" "slots cap 0 (api_DeleteModel r m)"
  unfolding api_defs by (intro slots_intro; simp)+

lemma slots_K_Get [slots_intro]: "slots cap 0 (K_Get r n ns)"
  unfolding K_Get_def by (intro slots_intro) simp

lemma slots_setCondition [slots_intro]: "slots cap 0 (setCondition r cs c)"
  by (induction r cs c rule: setCondition.induct) (auto intro!: slots_intro)

lemma slots_status [slots_intro]:
  "slots cap 0 (updateStatus r su)" "slots cap 0 (logUpdateStatus r su)" "slots cap 0 (invalidateModelID r err)"
  "slots cap 0 (return_step r res err)"
  unfolding logUpdateStatus_def updateStatus_def invalidateModelID_def return_step_def Let_def by (intro slots_intro)+

lemma slots_retry [slots_intro]:
  "slots cap 0 (retryBackoff r n)" "slots cap 0 (tryRetryDeployment r mid d name st)"
  "slots cap 0 (handleCandidateFailure r mid cur cand su)"
  unfolding handleCandidateFailure_def tryRetryDeployment_def scheduleNextRetry_def retryBackoff_def first_failure_def
    backoff_remaining_def Let_def
  by (intro slots_intro)+

lemma slots_promotion [slots_intro]:
  "slots cap 0 (start_promotion r mid envName env src)" "slots cap 0 (reconcileEnvironment r mid envName)"
  unfolding start_promotion_def checkDoublePromoteGuard_def validateSourceDeployment_def source_switch_def source_missing_def
    source_failed_def source_inactive_def source_waiting_def promote_source_def promotion_succeeded_def promotion_failed_def
    reconcileEnvironment_def create_environment_def fix_drift_def drift_events_def drift_event_def patch_settings_def patch_schedules_def
    schedule_drift_def Let_def
  by (intro slots_intro)+

lemma slots_orphans [slots_intro]: "slots cap 0 (reconcileOrphanCleanup r mid cfg)"
  unfolding reconcileOrphanCleanup_def cleanup_due_def run_cleanup_def findOrphanDeployments_def scaleInOrphans_def
    scale_in_one_def deleteStaleOrphans_def try_delete_def Let_def
  by (intro slots_intro)

lemma slots_lifecycle [slots_intro]:
  "slots cap 0 (reconcilePaused r)" "slots cap 0 (reconcileDeletion r)"
  unfolding reconcilePaused_def reconcileDeletion_def delete_blocked_def delete_model_def releaseFinalizer_def
    checkDeleteGuardrails_def Let_def
  by (intro slots_intro)+

lemma slots_readSetupScript [slots_intro]: "slots cap 0 (readSetupScript r tc ns)"
  unfolding readSetupScript_def by (intro slots_intro) simp

lemma slots_observe [slots_intro]: "slots cap 0 (reconcileObserve r)"
  unfolding reconcileObserve_def observe_environment_def observe_failed_def observe_model_id_def
    expectedSourceDeploymentName_def observeDriftSuffix_def composeObserveStatus_def Let_def schedule_drift_def
  by (intro slots_intro)

lemma slots_truss_launch [slots_intro]:
  assumes "PushSemaphore r = Some cap"
  shows "slots cap 0 (truss_launch r mid ap h n y sc)"
  unfolding truss_launch_def Let_def
proof (rule slots_bind [OF slots_primitives(3)], rule slots_bind [OF slots_primitives(7)],
    rule slots_bind [OF slots_primitives(9)], rule slots_acquire [OF assms], goal_cases)
  case (1 now u e)
  show ?case
    unfolding not_True_eq_False if_False
    by (rule slots_bind [OF slots_primitives(2)], rule slots_bind [OF slots_primitives(5)], rule slots_after_spawn)
      (intro slots_intro)
next
  case (2 now u e)
  show ?case unfolding not_False_eq_True if_True by (intro slots_intro)
qed

lemma slots_resolve_source [slots_intro]:
  assumes "PushSemaphore r = Some cap"
  shows "slots cap 0 (resolveSourceDeployment r mid)"
  unfolding resolveSourceDeployment_def reconcileTrussDeployment_def truss_existing_def truss_push_def truss_in_flight_def
    stale_push_def truss_backoff_def Let_def
  by (intro slots_intro assms)

lemma slots_Reconcile:
  assumes "PushSemaphore r = Some cap"
  shows "slots cap 0 (Reconcile r name ns)"
  unfolding Reconcile_def reconcile_object_def reconcileLifecycle_def reconcile_model_def resolveModelID_def model_not_found_def
    reconcile_environment_state_def reactivate_current_def steady_state_def promotion_running_def Let_def
  by (intro slots_intro assms)

section \<open>A push gives its slot back\<close>

lemma slots_attempts: "(\<And>v. slots cap 0 (body v)) \<Longrightarrow> slots cap 0 (attempts n body v)"
  by (induction n body v rule: attempts.induct) (auto intro!: slots_intro)

lemma slots_RetryOnConflict [slots_intro]:
  assumes "retries_on_conflict r" and "\<And>v. slots cap 0 (body v)"
  shows "slots cap 0 (k_RetryOnConflict r body v)"
  unfolding slots_def
proof
  fix s
  obtain n where n: "run_state (k_RetryOnConflict r body v) s = run_state (attempts n body v) s"
    using assms(1) unfolding retries_on_conflict_def by blast
  show "\<exists>es. trace (snd (run_state (k_RetryOnConflict r body v) s)) = trace s @ es \<and>
      semUsed (snd (run_state (k_RetryOnConflict r body v) s)) + 0 = semUsed s + length (filter is_push es) \<and>
      (semUsed s \<le> cap \<longrightarrow> semUsed (snd (run_state (k_RetryOnConflict r body v) s)) \<le> cap)"
    unfolding n using slots_attempts [of cap body n v, OF assms(2)] unfolding slots_def by blast
qed

lemma stays_attempts: "(\<And>v. stays K (body v)) \<Longrightarrow> stays K (attempts n body v)"
  by (induction n body v rule: attempts.induct) (auto intro!: emits_intro)

lemma stays_RetryOnConflict [stays_intro]:
  assumes "retries_on_conflict r" and "\<And>v. stays K (body v)"
  shows "stays K (k_RetryOnConflict r body v)"
  unfolding emits_def
proof
  fix s
  obtain n where n: "run_state (k_RetryOnConflict r body v) s = run_state (attempts n body v) s"
    using assms(1) unfolding retries_on_conflict_def by blast
  show "\<exists>es. trace (snd (run_state (k_RetryOnConflict r body v) s)) = trace s @ es \<and> (\<forall>e\<in>set es. kind e \<in> K)"
    unfolding n using stays_attempts [of K body n v, OF assms(2)] unfolding emits_def by blast
qed

lemma slots_push_handlers [slots_intro]:
  assumes "retries_on_conflict r"
  shows "slots cap 0 (recordPushFailure r job err)" "slots cap 0 (updatePushStatus r job st mid)"
  unfolding recordPushFailure_def push_failure_body_def updatePushStatus_def push_status_body_def
  by (intro slots_intro assms)+

lemma stays_push_handlers [stays_intro]:
  assumes "retries_on_conflict r" and "{EkGet, EkStatus, EkEvent} \<subseteq> K"
  shows "stays K (recordPushFailure r job err)" "stays K (updatePushStatus r job st mid)"
  unfolding recordPushFailure_def push_failure_body_def updatePushStatus_def push_status_body_def retryBackoff_def Let_def
  using assms by (intro emits_intro stays_intro; auto)+

lemma stays_asyncPush:
  assumes "retries_on_conflict r"
  shows "stays {EkPush, EkGet, EkStatus, EkEvent} (asyncPush r job)"
  unfolding asyncPush_def using assms by (intro emits_intro stays_intro) auto

lemma slots_unchanged:
  assumes "slots cap 0 n" and "stays K n" and "run_state n s = (v, t)" and "EkSpawn \<notin> K"
  shows "semUsed t = semUsed s"
proof -
  obtain es where es: "trace t = trace s @ es" "semUsed t = semUsed s + length (filter is_push es)"
    using assms(1,3) unfolding slots_def by (metis add_0_right snd_conv)
  from assms(2,3) obtain fs where "trace t = trace s @ fs" "\<forall>e \<in> set fs. kind e \<in> K" by (rule emitsD)
  with es(1) assms(4) have "\<not> list_ex is_push es" by (intro no_pushes) auto
  with es(2) show ?thesis by (simp add: list_ex_iff filter_empty_conv)
qed

lemma asyncPush_slots:
  assumes "retries_on_conflict r" and "PushSemaphore r = Some cap" and "run_state (asyncPush r job) s = (u, s')"
  shows "semUsed s' = semUsed s - 1"
proof -
  have "slots cap 0 (State_Monad.bind (ext_call (pi_PushFromConfig (TrussPusher r) (pj_ConfigYAML job) (pj_SetupScript job)
      (pj_BasetenModelName job) (pj_Team job) (pj_DeploymentName job)) (PushCall job))
      (\<lambda>result. case result of Inl err \<Rightarrow> recordPushFailure r job err
        | Inr res \<Rightarrow> updatePushStatus r job statusTrussPushDone (pu_ModelID res)))" (is "slots cap 0 ?n")
    by (intro slots_intro assms) simp
  moreover have "stays {EkPush, EkGet, EkStatus, EkEvent} ?n"
    using assms(1) by (intro emits_intro stays_intro) auto
  moreover obtain v t where t: "run_state ?n s = (v, t)" by (cases "run_state ?n s")
  ultimately have "semUsed t = semUsed s" by (rule slots_unchanged) simp
  moreover have "asyncPush r job = State_Monad.bind ?n (\<lambda>_. release_slot r)"
    unfolding asyncPush_def by (simp add: State_Monad.bind_assoc)
  then have "run_state (asyncPush r job) s = run_state (release_slot r) t" by (simp only: run_state_bind [of ?n] t prod.case)
  ultimately show ?thesis using assms(2,3) by (auto simp: release_slot_def modify_def)
qed

section \<open>The system\<close>

text \<open>
  The world (the cluster, Baseten and the clock), the slots in use and the pushes that run. A step is a
  pass over one resource, the end of a running push, a change of the world by others, or a restart of
  the operator, which loses its pushes. Passes and pushes run one after the other; whatever others do
  between the calls of a handler is an answer of the world.
\<close>

record 'w system =
  sys_world :: 'w
  sys_slots :: nat
  sys_jobs :: "push_job list"

fun spawned :: "effect list \<Rightarrow> push_job list" where
  "spawned [] = []"
| "spawned (SpawnPush j # es) = j # spawned es"
| "spawned (_ # es) = spawned es"

definition handler_state :: "'w system \<Rightarrow> 'w rstate" where
  "handler_state y = \<lparr>world = sys_world y, trace = [], obj = zero_BasetenModel, semUsed = sys_slots y\<rparr>"

definition after_pass :: "'w system \<Rightarrow> 'w rstate \<Rightarrow> 'w system" where
  "after_pass y s = y\<lparr>sys_world := world s, sys_slots := semUsed s, sys_jobs := sys_jobs y @ spawned (trace s)\<rparr>"

definition after_push :: "push_job \<Rightarrow> 'w system \<Rightarrow> 'w rstate \<Rightarrow> 'w system" where
  "after_push job y s = y\<lparr>sys_world := world s, sys_slots := semUsed s, sys_jobs := remove1 job (sys_jobs y)\<rparr>"

inductive sys_step :: "'w BasetenModelReconciler \<Rightarrow> 'w system \<Rightarrow> 'w system \<Rightarrow> bool" for r where
  pass: "run_state (Reconcile r name ns) (handler_state y) = (result, s) \<Longrightarrow> sys_step r y (after_pass y s)"
| push_ends: "job \<in> set (sys_jobs y) \<Longrightarrow> run_state (asyncPush r job) (handler_state y) = (u, s) \<Longrightarrow>
    sys_step r y (after_push job y s)"
| others: "sys_step r y (y\<lparr>sys_world := w\<rparr>)"
| restart: "sys_step r y (y\<lparr>sys_slots := 0, sys_jobs := []\<rparr>)"

inductive_cases sys_step_cases: "sys_step r y y'"

inductive sys_reachable :: "'w BasetenModelReconciler \<Rightarrow> 'w system \<Rightarrow> bool" for r where
  start: "sys_reachable r \<lparr>sys_world = w, sys_slots = 0, sys_jobs = []\<rparr>"
| step: "sys_reachable r y \<Longrightarrow> sys_step r y y' \<Longrightarrow> sys_reachable r y'"

lemma length_spawned: "length (spawned es) = length (filter is_push es)"
  by (induction es rule: spawned.induct) simp_all

text \<open>The abstract counter that the semaphore promises: a slot for every push that runs.\<close>

definition slots_held :: "nat \<Rightarrow> 'w system \<Rightarrow> bool" where
  "slots_held cap y \<longleftrightarrow> sys_slots y = length (sys_jobs y) \<and> sys_slots y \<le> cap"

lemma pass_keeps_slots:
  assumes "PushSemaphore r = Some cap" and "slots_held cap y"
    and "run_state (Reconcile r name ns) (handler_state y) = (result, s)"
  shows "slots_held cap (after_pass y s)"
proof -
  obtain es where "trace s = es" "semUsed s = sys_slots y + length (filter is_push es)"
    "sys_slots y \<le> cap \<longrightarrow> semUsed s \<le> cap"
    using slots_Reconcile [OF assms(1), of name ns, unfolded slots_def, rule_format, of "handler_state y"] assms(3)
    by (auto simp: handler_state_def)
  with assms(2) show ?thesis by (simp add: slots_held_def after_pass_def length_spawned)
qed

lemma step_keeps_slots:
  assumes "retries_on_conflict r" and "PushSemaphore r = Some cap" and "sys_step r y y'" and "slots_held cap y"
  shows "slots_held cap y'"
  using assms(3)
proof cases
  case (pass name ns result s)
  then show ?thesis using pass_keeps_slots [OF assms(2,4)] by blast
next
  case (push_ends job u s)
  have "semUsed s = sys_slots y - 1" using asyncPush_slots [OF assms(1,2) push_ends(3)] by (simp add: handler_state_def)
  then show ?thesis using push_ends assms(4)
    by (auto simp: slots_held_def after_push_def length_remove1)
qed (use assms(4) in \<open>auto simp: slots_held_def\<close>)

lemma slots_bound:
  assumes "retries_on_conflict r" and "PushSemaphore r = Some cap" and "sys_reachable r y"
  shows "sys_slots y = length (sys_jobs y)" and "length (sys_jobs y) \<le> cap"
proof -
  from assms(3) have "slots_held cap y"
    by induction (simp add: slots_held_def, rule step_keeps_slots [OF assms(1,2)])
  then show "sys_slots y = length (sys_jobs y)" and "length (sys_jobs y) \<le> cap" by (simp_all add: slots_held_def)
qed

text \<open>
  C9: the bound on pushes. In every reachable state of the operator the slots in use are exactly the
  pushes that run, so that no slot is lost or given back twice, and no more pushes run than the
  capacity of the semaphore, whatever the API server, Baseten and the truss service answer.
\<close>

theorem pushes_bounded:
  assumes "retries_on_conflict r" and "PushSemaphore r = Some cap" and "sys_reachable r y"
  shows "sys_slots y = length (sys_jobs y) \<and> length (sys_jobs y) \<le> cap"
  using slots_bound [OF assms] by blast

section \<open>What a push leaves behind\<close>

lemma hwp_K_Get:
  assumes "\<And>a. P h (KGet n ns a)"
    and "\<And>e s'. hwp P (f (Some e)) Q s' (h @ [KGet n ns (Inl e)])"
    and "\<And>m s'. obj s' = m \<Longrightarrow> hwp P (f None) Q s' (h @ [KGet n ns (Inr m)])"
  shows "hwp P (State_Monad.bind (K_Get r n ns) f) Q s h"
  unfolding K_Get_def State_Monad.bind_assoc
proof (rule hwp_ext_call, rule conjI, rule assms(1), goal_cases)
  case (1 a w)
  then show ?case
    by (cases a) (auto simp: assms(2) intro!: hwp_modify_obj assms(3))
qed

lemma hwp_cong: "run_state m s = run_state n s \<Longrightarrow> hwp P m Q s h \<longleftrightarrow> hwp P n Q s h"
  by (simp add: hwp_def)

text \<open>A fact about the history that the body keeps is kept by the retries.\<close>

lemma hwp_attempts:
  assumes "I h" and "\<And>v s h. I h \<Longrightarrow> hwp P (body v) (\<lambda>_ _ h'. I h') s h"
  shows "hwp P (attempts n body v) (\<lambda>_ _ h'. I h') s h"
  using assms(1)
proof (induction n arbitrary: v s h)
  case 0
  then show ?case using assms(2) by simp
next
  case (Suc n)
  have "hwp P (case x of (err, v) \<Rightarrow> (case err of None \<Rightarrow> ret (None, v)
      | Some e \<Rightarrow> if k8s_IsConflict e then attempts n body v else ret (Some e, v))) (\<lambda>_ _ h'. I h') s' h'"
    if "I h'" for x s' h'
    using that by (intro hwp_prod hwp_option hwp_if hwp_return Suc.IH)
  then show ?case using Suc.prems
    by (simp, intro hwp_bind) (auto intro!: hwp_mono [OF assms(2)] simp: split_beta)
qed

lemma hwp_RetryOnConflict:
  assumes "retries_on_conflict r" and "I h" and "\<And>v s h. I h \<Longrightarrow> hwp P (body v) (\<lambda>_ _ h'. I h') s h"
  shows "hwp P (k_RetryOnConflict r body v) (\<lambda>_ _ h'. I h') s h"
proof -
  obtain n where "run_state (k_RetryOnConflict r body v) s = run_state (attempts n body v) s"
    using assms(1) unfolding retries_on_conflict_def by blast
  moreover have "hwp P (attempts n body v) (\<lambda>_ _ h'. I h') s h" using assms(2,3) by (rule hwp_attempts)
  ultimately show ?thesis using hwp_cong by blast
qed

text \<open>
  The status that a push writes, on the object just read: after a success the push is done, the record of
  failures is cleared and the model's id is cached; after an error the push has failed, the failures are
  counted, and a time for the next try and a bounded text of the error are kept.
\<close>

definition success_written :: "PushResult \<Rightarrow> BasetenModelStatus \<Rightarrow> BasetenModelStatus \<Rightarrow> bool" where
  "success_written ids st0 st \<longleftrightarrow> TrussPushStatus st = statusTrussPushDone \<and> TrussPushTime st = None \<and>
     TrussPushFailureCount st = 0 \<and> TrussPushNextRetryTime st = None \<and> TrussPushLastError st = '''' \<and>
     ModelID st = (if pu_ModelID ids = '''' then ModelID st0 else pu_ModelID ids)"

definition failure_written :: "go_error \<Rightarrow> BasetenModelStatus \<Rightarrow> BasetenModelStatus \<Rightarrow> bool" where
  "failure_written err st0 st \<longleftrightarrow> TrussPushStatus st = statusTrussPushFailed \<and> TrussPushTime st = None \<and>
     TrussPushFailureCount st = TrussPushFailureCount st0 + 1 \<and> TrussPushNextRetryTime st \<noteq> None \<and>
     (if length (error_text err) \<le> maxPushErrorLen then TrussPushLastError st = error_text err
      else TrussPushLastError st = take maxPushErrorLen (error_text err) @ ''...'') \<and> ModelID st = ModelID st0"

fun outcome_guard :: "push_job \<Rightarrow> effect list \<Rightarrow> effect \<Rightarrow> bool" where
  "outcome_guard job h (KStatusUpdate m e) \<longleftrightarrow>
     (\<exists>m0. KGet (pj_ModelName job) (pj_Namespace job) (Inr m0) \<in> set h \<and>
       m = m0\<lparr>Status := Status m\<rparr> \<and> SourceDeploymentName (Status m) = SourceDeploymentName (Status m0) \<and>
       TrussConfigHash (Status m) = TrussConfigHash (Status m0) \<and>
       ((\<exists>ids. PushCall job (Inr ids) \<in> set h \<and> success_written ids (Status m0) (Status m)) \<or>
        (\<exists>err. PushCall job (Inl err) \<in> set h \<and> failure_written err (Status m0) (Status m))))"
| "outcome_guard job h (PushCall j res) \<longleftrightarrow> h = [] \<and> j = job"
| "outcome_guard job h (KGet n ns a) \<longleftrightarrow> n = pj_ModelName job \<and> ns = pj_Namespace job"
| "outcome_guard job h (Event _ reason _) \<longleftrightarrow> reason = EventTrussPushFailed"
| "outcome_guard job h _ \<longleftrightarrow> False"

lemma success_outcome:
  assumes "retries_on_conflict r" and "PushCall job (Inr ids) \<in> set h"
  shows "hwp (outcome_guard job) (updatePushStatus r job statusTrussPushDone (pu_ModelID ids)) (\<lambda>_ _ _. True) s h"
  unfolding updatePushStatus_def
proof (rule hwp_bind, rule hwp_mono, rule hwp_RetryOnConflict [where I = "\<lambda>h. PushCall job (Inr ids) \<in> set h"], rule assms, rule assms)
  fix v s and h :: "effect list" assume call: "PushCall job (Inr ids) \<in> set h"
  show "hwp (outcome_guard job) (push_status_body r job statusTrussPushDone (pu_ModelID ids) v)
      (\<lambda>_ _ h'. PushCall job (Inr ids) \<in> set h') s h"
    unfolding push_status_body_def
    by (cases "pu_ModelID ids = ''''"; simp; intro hwp_modify_obj hwp_K_Get hwp_option hwp_return hwp_modify_status
        hwp_time_Now hwp_Status_Update)
      (use call in \<open>auto simp: success_written_def clearPushFailure_def\<close>)
qed (rule hwp_return, simp)

lemma truncated:
  "length (error_text err) \<le> maxPushErrorLen \<Longrightarrow> truncateString (error_text err) maxPushErrorLen = error_text err"
  "\<not> length (error_text err) \<le> maxPushErrorLen \<Longrightarrow>
    truncateString (error_text err) maxPushErrorLen = take maxPushErrorLen (error_text err) @ ''...''"
  by (simp_all add: truncateString_def)

lemma hwp_retryBackoff:
  assumes "\<And>b w. hwp P (f b) Q (s\<lparr>world := w\<rparr>) h"
  shows "hwp P (State_Monad.bind (retryBackoff r n) f) Q s h"
proof (rule hwp_bind)
  obtain b w where "run_state (retryBackoff r n) s = (b, s\<lparr>world := w\<rparr>)"
    by (cases "RandFloat64 r (world s)") (simp add: retryBackoff_def Let_def ext_read_def)
  then show "hwp P (retryBackoff r n) (\<lambda>b s' h'. hwp P (f b) Q s' h') s h"
    unfolding hwp_def [of P "retryBackoff r n"] by (intro exI [of _ "[]"]) (simp add: assms)
qed

lemma hwp_Eventf: "P h (Event t rs msg) \<Longrightarrow> hwp P (Eventf t rs msg) (\<lambda>_ _ _. True) s h"
  unfolding hwp_def by (intro exI [of _ "[Event t rs msg]"]) (simp add: Eventf_def log_effect_def)

lemma failure_outcome:
  assumes "retries_on_conflict r" and "PushCall job (Inl err) \<in> set h"
  shows "hwp (outcome_guard job) (recordPushFailure r job err) (\<lambda>_ _ _. True) s h"
  unfolding recordPushFailure_def
proof (rule hwp_modify_obj, rule hwp_bind, rule hwp_mono,
    rule hwp_RetryOnConflict [where I = "\<lambda>h. PushCall job (Inl err) \<in> set h"], rule assms, rule assms, goal_cases)
  case (1 v s h)
  then show ?case
    unfolding push_failure_body_def
    by (intro hwp_K_Get hwp_option hwp_return hwp_modify_status hwp_model hwp_retryBackoff hwp_time_Now hwp_Status_Update)
      (auto simp: failure_written_def truncated intro!: exI [where x = "obj s'" for s'])
next
  case (2 a s' h')
  show ?case by (intro hwp_prod hwp_option hwp_model hwp_Eventf hwp_true_return) simp
qed

text \<open>
  C24: the outcome of a push. A running push calls the truss service once, first of all and with the
  content of its job. Every status it writes is the status of the object read after that call, changed
  only for the outcome: after a success done, with the failures cleared and the model's id cached; after an
  error failed, with the failures counted, a time for the next try and at most 512 bytes of the error.
  The hash and the name of the deployment stay. At the end the slot is given back.
\<close>

theorem push_outcome:
  assumes "retries_on_conflict r" and "PushSemaphore r = Some cap"
  shows "\<exists>res es. new_effects (asyncPush r job) s = PushCall job res # es \<and>
    guarded (outcome_guard job) (PushCall job res # es) \<and>
    semUsed (snd (run_state (asyncPush r job) s)) = semUsed s - 1"
proof -
  have "hwp (outcome_guard job) (asyncPush r job) (\<lambda>_ _ h'. \<exists>res es. h' = PushCall job res # es) s []"
    unfolding asyncPush_def
  proof (rule hwp_ext_call, rule conjI, simp, goal_cases)
    case (1 a w)
    let ?h = "[] @ [PushCall job a]"
    have "hwp (outcome_guard job) (case a of Inl err \<Rightarrow> recordPushFailure r job err
        | Inr res \<Rightarrow> updatePushStatus r job statusTrussPushDone (pu_ModelID res)) (\<lambda>_ _ _. True)
        (s\<lparr>world := w, trace := trace s @ [PushCall job a]\<rparr>) ?h"
      by (intro hwp_sum failure_outcome success_outcome assms) simp_all
    then show ?case
      unfolding hwp_def by (auto simp: release_slot_def assms modify_def split_beta)
  qed
  then obtain es where es: "trace (snd (run_state (asyncPush r job) s)) = trace s @ es"
    "\<forall>i < length es. outcome_guard job (take i es) (es ! i)" "\<exists>res fs. es = PushCall job res # fs"
    unfolding hwp_def by auto
  moreover have "semUsed (snd (run_state (asyncPush r job) s)) = semUsed s - 1"
    using asyncPush_slots [OF assms] by (cases "run_state (asyncPush r job) s") simp
  ultimately show ?thesis by (auto simp: new_effects_def guarded_def)
qed

section \<open>Concrete runs\<close>

lemma sample_retries: "retries_on_conflict (sample_Reconciler m c)"
  by (auto simp: retries_on_conflict_def sample_Reconciler_def)

lemma sample_push_retries: "retries_on_conflict sample_push_Reconciler" "PushSemaphore sample_push_Reconciler = Some 10"
  by (simp add: sample_push_Reconciler_def sample_retries) (simp add: sample_push_Reconciler_def sample_Reconciler_def)

lemma spawned_kinds: "EkSpawn \<in> set (map kind es) \<Longrightarrow> spawned es \<noteq> []"
  by (metis (no_types, lifting) filter_empty_conv image_iff kind_spawn_iff length_0_conv length_spawned list.set_map)

lemma pushes_bounded_witness:
  "\<exists>y. sys_reachable sample_push_Reconciler y \<and> sys_jobs y \<noteq> [] \<and> sys_slots y = length (sys_jobs y) \<and> length (sys_jobs y) \<le> 10"
proof -
  let ?y0 = "\<lparr>sys_world = 0, sys_slots = 0, sys_jobs = []\<rparr>"
  obtain result s where run: "run_state (Reconcile sample_push_Reconciler ''m'' ''ns'') (handler_state ?y0) = (result, s)"
    by (cases "run_state (Reconcile sample_push_Reconciler ''m'' ''ns'') (handler_state ?y0)")
  have "handler_state ?y0 = sample_State zero_BasetenModel" by (simp add: handler_state_def sample_State_def)
  with sample_push_pass run have "EkSpawn \<in> set (map kind (trace s))" by (simp add: wp_def)
  then have jobs: "sys_jobs (after_pass ?y0 s) \<noteq> []" using spawned_kinds by (simp add: after_pass_def)
  have reach: "sys_reachable sample_push_Reconciler (after_pass ?y0 s)"
    by (rule sys_reachable.step [OF sys_reachable.start sys_step.pass [OF run]])
  from pushes_bounded [OF sample_push_retries reach] jobs reach show ?thesis by blast
qed

definition sample_job :: "string \<Rightarrow> push_job" where
  "sample_job name = \<lparr>pj_ModelName = ''m'', pj_Namespace = ''ns'', pj_ConfigYAML = '''', pj_SetupScript = ''echo'',
     pj_BasetenModelName = ''llama'', pj_Team = '''', pj_DeploymentName = name\<rparr>"

lemma push_outcome_witness:
  "\<exists>res es. new_effects (asyncPush sample_push_Reconciler (sample_job ''depl-a'')) (sample_State zero_BasetenModel) =
      PushCall (sample_job ''depl-a'') res # es \<and> guarded (outcome_guard (sample_job ''depl-a'')) (PushCall (sample_job ''depl-a'') res # es)"
  using push_outcome [OF sample_push_retries, of "sample_job ''depl-a''" "sample_State zero_BasetenModel"] by blast

section \<open>Back-off of failed pushes\<close>

lemma stays_answers_run:
  assumes "stays K n" and "answers A n"
  shows "\<exists>x t es. run_state n s = (x, t) \<and> trace t = trace s @ es \<and> (\<forall>e \<in> set es. kind e \<in> K) \<and> A x"
proof -
  obtain x t where t: "run_state n s = (x, t)" by fastforce
  then obtain es where "trace t = trace s @ es" "\<forall>e \<in> set es. kind e \<in> K" by (rule emitsD [OF assms(1)])
  with t answersD [OF assms(2) t] show ?thesis by blast
qed

lemma not_in_flight_when_failed:
  "TrussPushStatus (Status (obj s)) = statusTrussPushFailed \<Longrightarrow> run_state (truss_in_flight r mid ap name) s = (None, s)"
  by (simp add: truss_in_flight_def model_def gets_def statusTrussPushing_def statusTrussPushFailed_def)

lemma backoff_waits:
  assumes "TrussPushStatus (Status (obj s)) = statusTrussPushFailed" and "SourceDeploymentName (Status (obj s)) = name"
    and "TrussPushNextRetryTime (Status (obj s)) = Some next" and "fst (Now r (world s)) < next"
  shows "\<exists>res t es. run_state (truss_backoff r mid ap name) s = (Some ('''', Some res, None), t) \<and>
    trace t = trace s @ es \<and> (\<forall>e \<in> set es. kind e \<in> {EkStatus, EkEvent})"
proof -
  obtain now w where now: "Now r (world s) = (now, w)" by fastforce
  let ?n = "State_Monad.bind (logUpdateStatus r (status_update DeploymentStatusFailed
      (ap @ ''truss push failed for '' @ name @ '' (attempt '' @
        fmt_d (TrussPushFailureCount (Status (obj s))) @ ''): '' @ TrussPushLastError (Status (obj s)) @
        ''; next retry at '' @ RFC3339_Format next) mid)) (\<lambda>_. State_Monad.bind (time_Now r)
      (\<lambda>now'. ret (Some ('''' :: string, Some (requeue (time_Sub next now')), None :: go_error option))))"
  have run: "run_state (truss_backoff r mid ap name) s = run_state ?n (s\<lparr>world := w\<rparr>)"
    using assms now by (simp add: truss_backoff_def model_def gets_def time_Now_def ext_read_def)
  have "stays {EkStatus, EkEvent} ?n" by (intro emits_intro stays_intro) auto
  moreover have "answers (\<lambda>x. \<exists>res. x = Some ('''', Some res, None)) ?n" by (intro answers_intro) blast
  ultimately have "\<exists>x t es. run_state ?n (s\<lparr>world := w\<rparr>) = (x, t) \<and> trace t = trace (s\<lparr>world := w\<rparr>) @ es \<and>
      (\<forall>e \<in> set es. kind e \<in> {EkStatus, EkEvent}) \<and> (\<exists>res. x = Some ('''', Some res, None))"
    by (rule stays_answers_run)
  then show ?thesis unfolding run by auto
qed

text \<open>
  C25: the next try of a failed push waits for its time. While the status records a failed push of this
  very deployment and the time of the next try has not come, the pass pushes nothing: it writes the status
  and answers a requeue. When another deployment failed, its record is cleared and the push goes on at once.
\<close>

theorem push_backoff:
  assumes failed: "TrussPushStatus (Status (obj s)) = statusTrussPushFailed"
  shows "(SourceDeploymentName (Status (obj s)) = name \<and> TrussPushNextRetryTime (Status (obj s)) = Some next \<and>
      fst (Now r (world s)) < next \<longrightarrow>
      (\<exists>res s' es. run_state (truss_push r tc mid ap hash name script) s = (('''', Some res, None), s') \<and>
        trace s' = trace s @ es \<and> (\<forall>e \<in> set es. kind e \<in> {EkStatus, EkEvent}))) \<and>
    (SourceDeploymentName (Status (obj s)) \<noteq> name \<and>
      GenerateConfigYAML (JsonValid r) (YamlMarshal r) tc (spec_ModelName (Spec (obj s))) = Inr yaml \<longrightarrow>
      run_state (truss_push r tc mid ap hash name script) s =
      run_state (truss_launch r mid ap hash name yaml script)
        (s\<lparr>obj := (obj s)\<lparr>Status := clearPushFailure (Status (obj s))\<rparr>\<rparr>))"
proof (intro conjI impI, goal_cases)
  case 1
  then obtain res t es where "run_state (truss_backoff r mid ap name) s = (Some ('''', Some res, None), t)"
    "trace t = trace s @ es" "\<forall>e \<in> set es. kind e \<in> {EkStatus, EkEvent}"
    using backoff_waits [OF failed] by blast
  then show ?case
    by (intro exI [of _ res] exI [of _ t] exI [of _ es]) (simp add: truss_push_def not_in_flight_when_failed [OF failed])
next
  case 2
  then have "run_state (truss_backoff r mid ap name) s =
      (None, s\<lparr>obj := (obj s)\<lparr>Status := clearPushFailure (Status (obj s))\<rparr>\<rparr>)"
    using failed by (simp add: truss_backoff_def model_def gets_def modify_status_def modify_obj_def modify_def)
  with 2 show ?case by (simp add: truss_push_def not_in_flight_when_failed [OF failed] model_def gets_def)
qed

text \<open>A state after a failure of \<open>depl-a\<close> at time 0 whose next try is at time 5.\<close>

definition sample_failed_State :: "time rstate" where
  "sample_failed_State = (let m = sample_Model ModeReconcile '''' in
     sample_State (m\<lparr>Status := (Status m)\<lparr>SourceDeploymentName := ''depl-a'', TrussPushStatus := statusTrussPushFailed,
       TrussPushNextRetryTime := Some 5\<rparr>\<rparr>))"

lemma push_backoff_witness:
  "\<exists>res s'. run_state (truss_push sample_push_Reconciler (sample_TrussConfig ''vllm:1'') ''mid'' '''' ''h'' ''depl-a'' ''echo'')
     sample_failed_State = (('''', Some res, None), s')"
proof -
  have "TrussPushStatus (Status (obj sample_failed_State)) = statusTrussPushFailed"
    "SourceDeploymentName (Status (obj sample_failed_State)) = ''depl-a''"
    "TrussPushNextRetryTime (Status (obj sample_failed_State)) = Some 5"
    "fst (Now sample_push_Reconciler (world sample_failed_State)) < 5"
    by (simp_all add: sample_failed_State_def sample_State_def Let_def sample_push_Reconciler_def sample_Reconciler_def)
  then show ?thesis using push_backoff [of sample_failed_State "''depl-a''" 5 sample_push_Reconciler] by blast
qed

section \<open>Between a push and the passes beside it\<close>

lemma attempts_at_once:
  "run_state (body v) s = ((None, v'), s') \<Longrightarrow> run_state (attempts n body v) s = ((None, v'), s')"
  by (cases n) simp_all

lemma RetryOnConflict_at_once:
  "retries_on_conflict r \<Longrightarrow> run_state (body v) s = ((None, v'), s') \<Longrightarrow>
   run_state (k_RetryOnConflict r body v) s = ((None, v'), s')"
  unfolding retries_on_conflict_def by (metis attempts_at_once)

text \<open>
  C37: a push that ends late speaks for another deployment. The end of a push does not compare its deployment
  with the one that the status records. When the push of any job succeeds while the status already records
  the hash and the name of another deployment (the configuration changed during the push), the status says
  that the push of that other deployment is done, and the next check answers it as the source at once,
  without asking Baseten whether it exists and without pushing it.
\<close>

theorem late_push_completes_another:
  assumes "retries_on_conflict r"
    and push: "fst (pi_PushFromConfig (TrussPusher r) (pj_ConfigYAML job) (pj_SetupScript job)
      (pj_BasetenModelName job) (pj_Team job) (pj_DeploymentName job) (world s)) = Inr ids"
    and read: "\<And>w. fst (k_Get r (pj_ModelName job) (pj_Namespace job) w) = Inr m"
    and stored: "\<And>ob w. fst (k_StatusUpdate r ob w) = (None, ob)"
    and recorded: "TrussConfigHash (Status m) = hash" "SourceDeploymentName (Status m) = name"
  shows "let s' = snd (run_state (asyncPush r job) s) in
    TrussPushStatus (Status (obj s')) = statusTrussPushDone \<and> SourceDeploymentName (Status (obj s')) = name \<and>
    run_state (truss_existing r mid ap hash name) s' = (Some (name, None, None), s')"
proof -
  obtain w1 where w1: "pi_PushFromConfig (TrussPusher r) (pj_ConfigYAML job) (pj_SetupScript job)
      (pj_BasetenModelName job) (pj_Team job) (pj_DeploymentName job) (world s) = (Inr ids, w1)"
    using push by (metis prod.collapse)
  let ?s1 = "s\<lparr>world := w1, trace := trace s @ [PushCall job (Inr ids)]\<rparr>"
  obtain w2 where w2: "k_Get r (pj_ModelName job) (pj_Namespace job) w1 = (Inr m, w2)"
    using read by (metis prod.collapse)
  have "\<exists>s2. run_state (push_status_body r job statusTrussPushDone (pu_ModelID ids) 0) ?s1 = ((None, 0), s2) \<and>
      TrussPushStatus (Status (obj s2)) = statusTrussPushDone \<and> SourceDeploymentName (Status (obj s2)) = name \<and>
      TrussConfigHash (Status (obj s2)) = hash"
  proof -
    have writes: "fst (run_state (Status_Update r) t) = None" "obj (snd (run_state (Status_Update r) t)) = obj t" for t
      using stored [of "obj t" "world t"] by (simp_all add: Status_Update_def split_beta)
    show ?thesis
      using writes w2 recorded
      by (simp add: push_status_body_def K_Get_def ext_call_def modify_obj_def modify_def modify_status_def clearPushFailure_def
          time_Now_def ext_read_def split_beta prod_eq_iff)
  qed
  then obtain s2 where s2: "run_state (push_status_body r job statusTrussPushDone (pu_ModelID ids) 0) ?s1 = ((None, 0), s2)"
    "TrussPushStatus (Status (obj s2)) = statusTrussPushDone" "SourceDeploymentName (Status (obj s2)) = name"
    "TrussConfigHash (Status (obj s2)) = hash" by blast
  have "run_state (updatePushStatus r job statusTrussPushDone (pu_ModelID ids)) ?s1 = ((), s2)"
    using RetryOnConflict_at_once [of r "push_status_body r job statusTrussPushDone (pu_ModelID ids)", OF assms(1) s2(1)]
    by (simp add: updatePushStatus_def)
  then have "run_state (asyncPush r job) s = run_state (release_slot r) s2"
    using w1 by (simp add: asyncPush_def ext_call_def)
  then have "obj (snd (run_state (asyncPush r job) s)) = obj s2"
    by (simp add: release_slot_def modify_def split: option.splits)
  with s2 show ?thesis by (simp add: Let_def truss_existing_def model_def gets_def)
qed

text \<open>The push of \<open>depl-a\<close> ends while the status records \<open>depl-b\<close>.\<close>

definition sample_switched_Model :: BasetenModel where
  "sample_switched_Model = (let m = sample_Model ModeReconcile '''' in
     m\<lparr>Status := (Status m)\<lparr>TrussConfigHash := ''bbbbbbbb'', SourceDeploymentName := ''depl-b'',
       TrussPushStatus := statusTrussPushing\<rparr>\<rparr>)"

lemma late_push_completes_another_witness:
  "pj_DeploymentName (sample_job ''depl-a'') \<noteq> ''depl-b'' \<and>
   (let r = sample_Reconciler sample_switched_Model (sample_Client (sample_Environment None None) ('''', '''') []);
        s' = snd (run_state (asyncPush r (sample_job ''depl-a'')) (sample_State zero_BasetenModel)) in
    TrussPushStatus (Status (obj s')) = statusTrussPushDone \<and> SourceDeploymentName (Status (obj s')) = ''depl-b'' \<and>
    run_state (truss_existing r ''mid'' '''' ''bbbbbbbb'' ''depl-b'') s' = (Some (''depl-b'', None, None), s'))"
proof -
  let ?r = "sample_Reconciler sample_switched_Model (sample_Client (sample_Environment None None) ('''', '''') [])"
  have "fst (pi_PushFromConfig (TrussPusher ?r) (pj_ConfigYAML j) (pj_SetupScript j) (pj_BasetenModelName j) (pj_Team j)
      (pj_DeploymentName j) w) = Inr \<lparr>pu_ModelID = ''mid'', pu_DeploymentID = ''dep''\<rparr>"
    "fst (k_Get ?r n ns w) = Inr sample_switched_Model" "fst (k_StatusUpdate ?r ob w) = (None, ob)" for j n ns w ob
    by (simp_all add: sample_Reconciler_def)
  from late_push_completes_another [OF sample_retries this, of "''bbbbbbbb''" "''depl-b''" "sample_job ''depl-a''"
      "sample_State zero_BasetenModel" "''mid''" "''''"]
  show ?thesis by (simp add: sample_job_def sample_switched_Model_def Let_def)
qed

text \<open>A cluster that answers every write of a status with a conflict.\<close>

definition conflicting_Reconciler :: "time BasetenModelReconciler" where
  "conflicting_Reconciler = sample_push_Reconciler
     \<lparr>k_StatusUpdate := (\<lambda>m w. ((Some (StatusError KConflict ''the object has been modified''), m), w))\<rparr>"

definition sample_push_name :: string where
  "sample_push_name = DeploymentName (HashTrussConfig (sample_TrussConfig ''vllm:1'') ''echo'') ''vllm:1''"

lemma conflicting_pass:
  assumes "u < 10"
  shows "wp (Reconcile conflicting_Reconciler ''m'' ''ns'')
    (\<lambda>_ s'. world s' = 0 \<and> semUsed s' = u + 1 \<and> map pj_DeploymentName (spawned (trace s')) = [sample_push_name])
    (handler_state \<lparr>sys_world = 0, sys_slots = u, sys_jobs = js\<rparr>)"
proof -
  note [simp] = wp_simps
  show ?thesis
    using assms
    by (simp add: sample_pass_defs object_step_defs conflicting_Reconciler_def handler_state_def)
      (simp add: truss_step_defs status_step_defs Let_def sample_push_name_def sample_TrussConfig_def)
qed

lemma conflicting_step:
  assumes "sys_reachable conflicting_Reconciler y" and "sys_world y = 0" and "sys_slots y < 10"
  shows "\<exists>y' js. sys_reachable conflicting_Reconciler y' \<and> sys_world y' = 0 \<and> sys_slots y' = sys_slots y + 1 \<and>
    sys_jobs y' = sys_jobs y @ js \<and> map pj_DeploymentName js = [sample_push_name]"
proof -
  obtain result s where run: "run_state (Reconcile conflicting_Reconciler ''m'' ''ns'') (handler_state y) = (result, s)"
    by fastforce
  have "world s = 0 \<and> semUsed s = sys_slots y + 1 \<and> map pj_DeploymentName (spawned (trace s)) = [sample_push_name]"
    using conflicting_pass [OF assms(3)] assms(2) run by (simp add: wp_def handler_state_def)
  moreover have "sys_reachable conflicting_Reconciler (after_pass y s)"
    using assms(1) sys_step.pass [OF run] by (rule sys_reachable.step)
  ultimately show ?thesis by (intro exI [of _ "after_pass y s"]) (auto simp: after_pass_def)
qed


end
