(* ===== verification/Operator_Main.thy ===== *)
theory Operator_Main
  imports Push_System Baseten_Client
begin

text \<open>
  The start of the operator: \<open>main\<close> of \<open>cmd/main.go\<close> with its flags and server options, \<open>NewClient\<close>, \<open>NewPusher\<close> and
  \<open>SetupWithManager\<close>. Flag parsing, the manager of controller-runtime, its servers and the SDK's client are
  parameters: \<open>main\<close> is a function of the parsed flags and of the environment variables.
\<close>

section \<open>The Baseten client\<close>

definition apiKeyEnvVar :: string where "apiKeyEnvVar = ''BASETEN_API_KEY''"
definition defaultBaseURL :: string where "defaultBaseURL = ''https://api.baseten.co''"
definition defaultTimeout :: duration where "defaultTimeout = 30 * Second"

text \<open>The fields of the SDK's client, of its HTTP client and of the transport.\<close>

record sdk_config =
  cc_BaseURL :: string
  cc_Timeout :: duration
  cc_MaxIdleConns :: nat
  cc_MaxIdleConnsPerHost :: nat
  cc_IdleConnTimeout :: duration
  cc_Headers :: "(string \<times> string list) list"

definition NewClient :: "(string \<Rightarrow> string) \<Rightarrow> go_error + sdk_config" where
  "NewClient Getenv =
     (let apiKey = Getenv apiKeyEnvVar in
      if apiKey = '''' then Inl (ErrorString (apiKeyEnvVar @ '' environment variable not set''))
      else
        (let baseURL = Getenv ''BASETEN_API_BASE_URL'';
             baseURL = (if baseURL = '''' then defaultBaseURL else baseURL)
         in Inr \<lparr>cc_BaseURL = baseURL, cc_Timeout = defaultTimeout, cc_MaxIdleConns = 100,
              cc_MaxIdleConnsPerHost = 20, cc_IdleConnTimeout = 90 * Second,
              cc_Headers = [(''Authorization'', [''Api-Key '' @ apiKey])]\<rparr>))"

definition NewPusher :: "'w truss_sys \<Rightarrow> string \<Rightarrow> 'w PusherInterface" where
  "NewPusher sys apiKey = \<lparr>pi_PushFromConfig = PushFromConfig sys apiKey\<rparr>"

section \<open>Flags and server options\<close>

record flags =
  metrics_bind_address :: string
  health_probe_bind_address :: string
  leader_elect :: bool
  metrics_secure :: bool
  webhook_cert_path :: string
  webhook_cert_name :: string
  webhook_cert_key :: string
  metrics_cert_path :: string
  metrics_cert_name :: string
  metrics_cert_key :: string
  enable_http2 :: bool

text \<open>The values of the flags when the command line sets none.\<close>

definition default_flags :: flags where
  "default_flags = \<lparr>metrics_bind_address = ''0'', health_probe_bind_address = '':8081'', leader_elect = False,
     metrics_secure = True, webhook_cert_path = '''', webhook_cert_name = ''tls.crt'', webhook_cert_key = ''tls.key'',
     metrics_cert_path = '''', metrics_cert_name = ''tls.crt'', metrics_cert_key = ''tls.key'', enable_http2 = False\<rparr>"

text \<open>Of a \<open>tls.Config\<close> the list of protocols; an option is a function on it.\<close>

record tls_config =
  NextProtos :: "string list"

type_synonym tls_opt = "tls_config \<Rightarrow> tls_config"

definition disableHTTP2 :: tls_opt where
  "disableHTTP2 c = c\<lparr>NextProtos := [''http/1.1'']\<rparr>"

definition tls_opts :: "flags \<Rightarrow> tls_opt list" where
  "tls_opts fl = (let tlsOpts = [] in if \<not> enable_http2 fl then tlsOpts @ [disableHTTP2] else tlsOpts)"

text \<open>\<open>webhook.Options\<close> and \<open>metricsserver.Options\<close>; \<open>FilterProvider\<close> says whether the authentication filter is set.\<close>

record server_options =
  BindAddress :: string
  SecureServing :: bool
  TLSOpts :: "tls_opt list"
  FilterProvider :: bool
  CertDir :: string
  CertName :: string
  KeyName :: string

definition webhook_options :: "flags \<Rightarrow> server_options" where
  "webhook_options fl =
     (let opts = \<lparr>BindAddress = '''', SecureServing = False, TLSOpts = tls_opts fl, FilterProvider = False,
            CertDir = '''', CertName = '''', KeyName = ''''\<rparr>
      in if 0 < length (webhook_cert_path fl)
         then opts\<lparr>CertDir := webhook_cert_path fl, CertName := webhook_cert_name fl, KeyName := webhook_cert_key fl\<rparr>
         else opts)"

definition metrics_options :: "flags \<Rightarrow> server_options" where
  "metrics_options fl =
     (let opts = \<lparr>BindAddress = metrics_bind_address fl, SecureServing = metrics_secure fl, TLSOpts = tls_opts fl,
            FilterProvider = False, CertDir = '''', CertName = '''', KeyName = ''''\<rparr>;
          opts = (if metrics_secure fl then opts\<lparr>FilterProvider := True\<rparr> else opts)
      in if 0 < length (metrics_cert_path fl)
         then opts\<lparr>CertDir := metrics_cert_path fl, CertName := metrics_cert_name fl, KeyName := metrics_cert_key fl\<rparr>
         else opts)"

record manager_options =
  mo_Metrics :: server_options
  mo_WebhookServer :: server_options
  mo_HealthProbeBindAddress :: string
  mo_LeaderElection :: bool
  mo_LeaderElectionID :: string

definition manager_options :: "flags \<Rightarrow> manager_options" where
  "manager_options fl = \<lparr>mo_Metrics = metrics_options fl, mo_WebhookServer = webhook_options fl,
     mo_HealthProbeBindAddress = health_probe_bind_address fl, mo_LeaderElection = leader_elect fl,
     mo_LeaderElectionID = ''020848ba.baseten.com''\<rparr>"

section \<open>Start\<close>

text \<open>
  What the start takes from controller-runtime and the SDKs. \<open>p_NewManager\<close> answers an error or a reconciler with
  the fields that come from the manager and the libraries; \<open>p_Sdk\<close> is the SDK's client for a configuration;
  \<open>p_Complete\<close> registers the controller with a number of workers.
\<close>

record 'w platform =
  p_NewManager :: "manager_options \<Rightarrow> 'w \<Rightarrow> (go_error + 'w BasetenModelReconciler) \<times> 'w"
  p_Sdk :: "sdk_config \<Rightarrow> 'w sdk"
  p_Truss :: "'w truss_sys"
  p_Complete :: "int \<Rightarrow> 'w BasetenModelReconciler \<Rightarrow> 'w \<Rightarrow> go_error option \<times> 'w"
  p_AddHealthzCheck :: "'w \<Rightarrow> go_error option \<times> 'w"
  p_AddReadyzCheck :: "'w \<Rightarrow> go_error option \<times> 'w"
  p_Start :: "'w BasetenModelReconciler \<Rightarrow> 'w \<Rightarrow> go_error option \<times> 'w"

definition SetupWithManager :: "'w platform \<Rightarrow> 'w BasetenModelReconciler \<Rightarrow> 'w \<Rightarrow> go_error option \<times> 'w" where
  "SetupWithManager p r w =
     (let maxConcurrent = MaxConcurrentReconciles r;
          maxConcurrent = (if maxConcurrent \<le> 0 then 1 else maxConcurrent)
      in p_Complete p maxConcurrent r w)"

text \<open>The reconciler that \<open>main\<close> registers.\<close>

definition operator_reconciler ::
  "'w platform \<Rightarrow> (string \<Rightarrow> string) \<Rightarrow> sdk_config \<Rightarrow> 'w BasetenModelReconciler \<Rightarrow> 'w BasetenModelReconciler" where
  "operator_reconciler p Getenv cfg mgr =
     mgr\<lparr>BasetenClient := Client (p_Sdk p cfg),
         TrussPusher := NewPusher (p_Truss p) (Getenv ''BASETEN_API_KEY''),
         MaxConcurrentReconciles := 5,
         PushSemaphore := Some 10\<rparr>"

text \<open>
  \<open>main\<close> answers the exit code and the reconciler that ran, if the manager was started. \<open>os.Exit(1)\<close> ends it.
\<close>

definition operator_main ::
  "'w platform \<Rightarrow> flags \<Rightarrow> (string \<Rightarrow> string) \<Rightarrow> 'w \<Rightarrow> (nat \<times> 'w BasetenModelReconciler option) \<times> 'w" where
  "operator_main p fl Getenv w =
     (case p_NewManager p (manager_options fl) w of
        (Inl err, w) \<Rightarrow> ((1, None), w)
      | (Inr mgr, w) \<Rightarrow>
          (case NewClient Getenv of
             Inl err \<Rightarrow> ((1, None), w)
           | Inr cfg \<Rightarrow>
               (let r = operator_reconciler p Getenv cfg mgr in
                case SetupWithManager p r w of
                  (Some err, w) \<Rightarrow> ((1, None), w)
                | (None, w) \<Rightarrow>
                    (case p_AddHealthzCheck p w of
                       (Some err, w) \<Rightarrow> ((1, None), w)
                     | (None, w) \<Rightarrow>
                         (case p_AddReadyzCheck p w of
                            (Some err, w) \<Rightarrow> ((1, None), w)
                          | (None, w) \<Rightarrow>
                              (case p_Start p r w of
                                 (Some err, w) \<Rightarrow> ((1, Some r), w)
                               | (None, w) \<Rightarrow> ((0, Some r), w)))))))"

section \<open>The deployed operator\<close>

lemma operator_main_started:
  assumes "operator_main p fl Getenv w = ((code, Some r), w')"
  obtains mgr cfg where "NewClient Getenv = Inr cfg" and "r = operator_reconciler p Getenv cfg mgr"
    and "fst (p_NewManager p (manager_options fl) w) = Inr mgr"
  using assms by (auto simp: operator_main_def Let_def split: prod.splits sum.splits option.splits)

lemma NewClient_key:
  "NewClient Getenv = Inr cfg \<Longrightarrow> Getenv ''BASETEN_API_KEY'' \<noteq> '''' \<and>
     cc_Headers cfg = [(''Authorization'', [''Api-Key '' @ Getenv ''BASETEN_API_KEY''])]"
  by (auto simp: NewClient_def apiKeyEnvVar_def Let_def split: if_splits)

text \<open>
  C36: the operator as it is deployed. It starts only with an API key; its Baseten client and its pusher use that
  same key; no server speaks HTTP/2 unless the flag asks for it; the controller is registered with five workers;
  and in every state that its passes and pushes reach, at most ten pushes run.
\<close>

theorem deployed_operator:
  assumes "operator_main p fl Getenv w = ((code, Some r), w')" and "retries_on_conflict r"
  shows "Getenv ''BASETEN_API_KEY'' \<noteq> '''' \<and>
    (\<exists>cfg. BasetenClient r = Client (p_Sdk p cfg) \<and>
       cc_Headers cfg = [(''Authorization'', [''Api-Key '' @ Getenv ''BASETEN_API_KEY''])]) \<and>
    TrussPusher r = NewPusher (p_Truss p) (Getenv ''BASETEN_API_KEY'') \<and>
    (\<not> enable_http2 fl \<longrightarrow> (\<forall>c. NextProtos (fold (\<lambda>opt. opt) (TLSOpts (metrics_options fl)) c) = [''http/1.1''] \<and>
       NextProtos (fold (\<lambda>opt. opt) (TLSOpts (webhook_options fl)) c) = [''http/1.1''])) \<and>
    (\<forall>v. SetupWithManager p r v = p_Complete p 5 r v) \<and>
    (\<forall>y. sys_reachable r y \<longrightarrow> length (sys_jobs y) \<le> 10)"
proof -
  obtain mgr cfg where cfg: "NewClient Getenv = Inr cfg" and r: "r = operator_reconciler p Getenv cfg mgr"
    using operator_main_started [OF assms(1)] by blast
  have "PushSemaphore r = Some 10" by (simp add: r operator_reconciler_def)
  then have "\<forall>y. sys_reachable r y \<longrightarrow> length (sys_jobs y) \<le> 10" using slots_bound assms(2) by blast
  moreover have "NextProtos (fold (\<lambda>opt. opt) (TLSOpts (metrics_options fl)) c) = [''http/1.1''] \<and>
      NextProtos (fold (\<lambda>opt. opt) (TLSOpts (webhook_options fl)) c) = [''http/1.1'']" if "\<not> enable_http2 fl" for c
    using that by (simp add: metrics_options_def webhook_options_def tls_opts_def disableHTTP2_def Let_def)
  ultimately show ?thesis
    using NewClient_key [OF cfg] by (auto simp: r operator_reconciler_def SetupWithManager_def)
qed

text \<open>A platform on which everything starts; the service and the disk are down.\<close>

definition down :: "time \<Rightarrow> (go_error + 'a) \<times> time" where
  "down w = (Inl (ErrorString ''down''), w)"

definition down_sdk :: "time sdk" where
  "down_sdk = \<lparr>x_GetModels = down, x_GetTeams = (\<lambda>t. down), x_GetTeamsModels = (\<lambda>t n. down),
     x_DeleteModels = (\<lambda>m w. (None, w)), x_GetModelsDeployments = (\<lambda>m. down),
     x_PostModelsDeploymentsActivate = (\<lambda>m d w. (None, w)), x_GetModelsEnvironmentsEnvName = (\<lambda>m e. down),
     x_GetModelsEnvironments = (\<lambda>m. down), x_PostModelsEnvironments = (\<lambda>m c w. (None, w)),
     x_PatchModelsEnvironments = (\<lambda>m e u w. (None, w)), x_PostModelsEnvironmentsPromote = (\<lambda>m e q. down),
     x_PatchModelsDeploymentsAutoscalingSettings = (\<lambda>m d u w. (None, w)), x_DeleteModelsDeployments = (\<lambda>m d w. (None, w)),
     x_PostModelsDeploymentsRetry = (\<lambda>m d. down), x_FromUpsert = (\<lambda>u. None), x_Now = (\<lambda>w. (w, w))\<rparr>"

definition down_truss :: "time truss_sys" where
  "down_truss = \<lparr>t_MkdirTemp = down, t_MkdirAll = (\<lambda>d w. (None, w)), t_WriteFile = (\<lambda>f x w. (None, w)),
     t_RemoveAll = (\<lambda>d w. w), t_Push = (\<lambda>k d m n t. down)\<rparr>"

definition sample_platform :: "time platform" where
  "sample_platform = \<lparr>p_NewManager = (\<lambda>opts w. (Inr sample_push_Reconciler, w)), p_Sdk = (\<lambda>cfg. down_sdk),
     p_Truss = down_truss, p_Complete = (\<lambda>n r w. (None, w)), p_AddHealthzCheck = (\<lambda>w. (None, w)),
     p_AddReadyzCheck = (\<lambda>w. (None, w)), p_Start = (\<lambda>r w. (None, w))\<rparr>"

definition start_env :: "string \<Rightarrow> string" where
  "start_env name = (if name = ''BASETEN_API_KEY'' then ''k3y'' else '''')"

lemma deployed_operator_witness:
  "\<exists>r. operator_main sample_platform default_flags start_env 0 = ((0, Some r), 0) \<and>
     TrussPusher r = NewPusher down_truss ''k3y'' \<and> BasetenClient r = Client down_sdk"
proof -
  let ?cfg = "\<lparr>cc_BaseURL = defaultBaseURL, cc_Timeout = defaultTimeout, cc_MaxIdleConns = 100,
      cc_MaxIdleConnsPerHost = 20, cc_IdleConnTimeout = 90 * Second, cc_Headers = [(''Authorization'', [''Api-Key k3y''])]\<rparr>"
  let ?r = "operator_reconciler sample_platform start_env ?cfg sample_push_Reconciler"
  have run: "operator_main sample_platform default_flags start_env 0 = ((0, Some ?r), 0)"
    by (simp add: operator_main_def sample_platform_def NewClient_def start_env_def apiKeyEnvVar_def SetupWithManager_def Let_def)
  moreover have "retries_on_conflict ?r"
    by (auto simp: retries_on_conflict_def operator_reconciler_def sample_push_Reconciler_def sample_Reconciler_def)
  ultimately show ?thesis
    using deployed_operator [OF run] by (intro exI [of _ ?r]) (simp add: sample_platform_def start_env_def)
qed

end
