(* ===== verification/Crd_Schema.thy ===== *)
theory Crd_Schema
  imports Crd_Types
begin

text \<open>
  The schema of the resource: the \<open>kubebuilder\<close> markers of \<open>api/v1alpha1/basetenmodel_types.go\<close>, which the API
  server enforces, as executable checks of the decoded structs, one check for each struct that has markers. A
  field whose marker sets a default is filled in before the checks. A string field with \<open>omitempty\<close>
  is the empty string when it is absent, so that \<open>has(self.f)\<close> of a field that may not be empty is \<open>f \<noteq> ''''\<close>.
  What the decoded struct cannot show is not checked: whether an empty \<open>sourceDeploymentName\<close> was present, and
  nothing about free-form fields.
\<close>

section \<open>Bounds, enumerations and patterns\<close>

definition at_least :: "int \<Rightarrow> 'a::len word \<Rightarrow> bool" where
  "at_least lo n \<longleftrightarrow> lo \<le> sint n"

definition between :: "int \<Rightarrow> int \<Rightarrow> 'a::len word \<Rightarrow> bool" where
  "between lo hi n \<longleftrightarrow> lo \<le> sint n \<and> sint n \<le> hi"

text \<open>A marker on an optional field speaks of the value when it is present.\<close>

definition if_set :: "('a \<Rightarrow> bool) \<Rightarrow> 'a option \<Rightarrow> bool" where
  "if_set P v = (case v of None \<Rightarrow> True | Some x \<Rightarrow> P x)"

lemma if_set_simps [simp]: "if_set P None" "if_set P (Some x) \<longleftrightarrow> P x"
  by (simp_all add: if_set_def)

lemma if_set_mono: "if_set P v \<Longrightarrow> (\<And>x. P x \<Longrightarrow> Q x) \<Longrightarrow> if_set Q v"
  by (cases v) simp_all

definition lower_alnum :: "char \<Rightarrow> bool" where
  "lower_alnum c \<longleftrightarrow> (CHR ''a'' \<le> c \<and> c \<le> CHR ''z'') \<or> (CHR ''0'' \<le> c \<and> c \<le> CHR ''9'')"

text \<open>\<open>^[a-z0-9]([a-z0-9-]*[a-z0-9])?$\<close>\<close>

definition env_name_pattern :: "string \<Rightarrow> bool" where
  "env_name_pattern s \<longleftrightarrow> s \<noteq> '''' \<and> lower_alnum (hd s) \<and> lower_alnum (last s) \<and>
     list_all (\<lambda>c. lower_alnum c \<or> c = CHR ''-'') s"

text \<open>\<open>^/[^/].*\<close>\<close>

fun mount_pattern :: "string \<Rightarrow> bool" where
  "mount_pattern (a # b # _) \<longleftrightarrow> a = CHR ''/'' \<and> b \<noteq> CHR ''/''"
| "mount_pattern _ \<longleftrightarrow> False"

section \<open>The truss configuration\<close>

definition valid_TrussWeightAuth :: "TrussWeightAuth \<Rightarrow> bool" where
  "valid_TrussWeightAuth a \<longleftrightarrow> wa_AuthMethod a = ''CUSTOM_SECRET'' \<and> wa_AuthSecretName a \<noteq> ''''"

definition valid_TrussWeightSource :: "TrussWeightSource \<Rightarrow> bool" where
  "valid_TrussWeightSource w \<longleftrightarrow> ws_Source w \<noteq> '''' \<and> mount_pattern (ws_MountLocation w) \<and>
     if_set valid_TrussWeightAuth (ws_Auth w)"

definition valid_TrussResources :: "TrussResources \<Rightarrow> bool" where
  "valid_TrussResources t \<longleftrightarrow> (tr_Accelerator t \<noteq> '''' \<or> tr_CPU t \<noteq> '''') \<and>
     (tr_UseGpu t = Some True \<longrightarrow> tr_Accelerator t \<noteq> '''')"

definition valid_TrussConfig :: "TrussConfig \<Rightarrow> bool" where
  "valid_TrussConfig tc \<longleftrightarrow> list_all valid_TrussWeightSource (tc_Weights tc) \<and>
     distinct (map ws_MountLocation (tc_Weights tc)) \<and> valid_TrussResources (tc_Resources tc)"

section \<open>Cleanup, autoscaling and promotion\<close>

definition valid_OrphanDeploymentCleanupConfig :: "OrphanDeploymentCleanupConfig \<Rightarrow> bool" where
  "valid_OrphanDeploymentCleanupConfig c \<longleftrightarrow> if_set (at_least 1) (oc_DeleteAfterDays c) \<and>
     if_set (at_least 0) (oc_MinToKeep c) \<and> if_set (at_least 10) (oc_IntervalMinutes c)"

definition valid_ScheduleAutoscalingConfig :: "ScheduleAutoscalingConfig \<Rightarrow> bool" where
  "valid_ScheduleAutoscalingConfig a \<longleftrightarrow> at_least 0 (sa_MinReplicas a) \<and> at_least 1 (sa_MaxReplicas a) \<and>
     if_set (at_least 1) (sa_ConcurrencyTarget a) \<and> if_set (at_least 0) (sa_AutoscalingWindow a) \<and>
     if_set (at_least 0) (sa_ScaleDownDelay a) \<and> if_set (between 1 100) (sa_TargetUtilizationPercentage a) \<and>
     if_set (at_least 1) (sa_TargetInFlightTokens a) \<and> if_set (between 1 50) (sa_MaxScaleDownRate a)"

definition valid_AutoscalingConfig :: "AutoscalingConfig \<Rightarrow> bool" where
  "valid_AutoscalingConfig a \<longleftrightarrow> if_set (at_least 0) (ac_MinReplicas a) \<and> if_set (at_least 1) (ac_MaxReplicas a) \<and>
     if_set (at_least 1) (ac_ConcurrencyTarget a) \<and> if_set (at_least 0) (ac_AutoscalingWindow a) \<and>
     if_set (at_least 0) (ac_ScaleDownDelay a) \<and> if_set (between 1 100) (ac_TargetUtilizationPercentage a) \<and>
     if_set (between 1 50) (ac_MaxScaleDownRate a)"

definition valid_RollingDeployConfig :: "RollingDeployConfig \<Rightarrow> bool" where
  "valid_RollingDeployConfig c \<longleftrightarrow> if_set (\<lambda>s. s = ''REPLICA'') (rd_Strategy c) \<and>
     if_set (between 0 100) (rd_MaxSurgePercent c) \<and> if_set (between 0 100) (rd_MaxUnavailablePercent c) \<and>
     if_set (at_least 0) (rd_StabilizationTimeSeconds c)"

definition valid_PromotionSettingsConfig :: "PromotionSettingsConfig \<Rightarrow> bool" where
  "valid_PromotionSettingsConfig p \<longleftrightarrow>
     if_set (\<lambda>s. s \<in> set [''KEEP'', ''SCALE_TO_ZERO'', ''DEACTIVATE'']) (pc_PromotionCleanupStrategy p) \<and>
     if_set (at_least 0) (pc_RampUpDurationSeconds p) \<and> if_set valid_RollingDeployConfig (pc_RollingDeployConfig p)"

section \<open>Schedules\<close>

definition valid_Weekday :: "string \<Rightarrow> bool" where
  "valid_Weekday d \<longleftrightarrow> d \<in> set [''SUNDAY'', ''MONDAY'', ''TUESDAY'', ''WEDNESDAY'', ''THURSDAY'', ''FRIDAY'', ''SATURDAY'']"

text \<open>The format \<open>date-time\<close> is a check of the API server, the parameter \<open>date_time\<close>.\<close>

definition valid_SpecSchedule :: "(string \<Rightarrow> bool) \<Rightarrow> SpecSchedule \<Rightarrow> bool" where
  "valid_SpecSchedule date_time s \<longleftrightarrow> sp_Name s \<noteq> '''' \<and>
     sp_Cadence s \<in> set [''DAILY'', ''HOURLY'', ''ONE_TIME''] \<and>
     list_all valid_Weekday (sp_Weekdays s) \<and> distinct (sp_Weekdays s) \<and>
     if_set (between 0 23) (sp_StartHour s) \<and> between 0 59 (sp_StartMinute s) \<and>
     if_set (between 0 23) (sp_EndHour s) \<and> between 0 59 (sp_EndMinute s) \<and>
     (sp_StartAt s = '''' \<or> date_time (sp_StartAt s)) \<and> (sp_EndAt s = '''' \<or> date_time (sp_EndAt s)) \<and>
     valid_ScheduleAutoscalingConfig (sp_Autoscaling s) \<and>
     (sp_Cadence s = ''ONE_TIME'' \<or> sp_Weekdays s \<noteq> []) \<and>
     (sp_Cadence s \<noteq> ''ONE_TIME'' \<or> (sp_StartAt s \<noteq> '''' \<and> sp_EndAt s \<noteq> '''')) \<and>
     (sp_Cadence s = ''ONE_TIME'' \<or> (sp_StartAt s = '''' \<and> sp_EndAt s = '''')) \<and>
     (sp_Cadence s \<noteq> ''DAILY'' \<or> (sp_StartHour s \<noteq> None \<and> sp_EndHour s \<noteq> None)) \<and>
     (sp_Cadence s = ''DAILY'' \<or> (sp_StartHour s = None \<and> sp_EndHour s = None))"

definition valid_AutoscalingScheduleConfig :: "(string \<Rightarrow> bool) \<Rightarrow> AutoscalingScheduleConfig \<Rightarrow> bool" where
  "valid_AutoscalingScheduleConfig date_time c \<longleftrightarrow> if_set (\<lambda>tz. tz \<noteq> '''') (asc_Timezone c) \<and>
     length (asc_Schedules c) \<le> 10 \<and> distinct (map sp_Name (asc_Schedules c)) \<and>
     list_all (valid_SpecSchedule date_time) (asc_Schedules c)"

section \<open>The resource\<close>

definition valid_EnvironmentConfig :: "(string \<Rightarrow> bool) \<Rightarrow> EnvironmentConfig \<Rightarrow> bool" where
  "valid_EnvironmentConfig date_time e \<longleftrightarrow> env_name_pattern (ec_Name e) \<and>
     if_set valid_AutoscalingConfig (ec_Autoscaling e) \<and>
     if_set valid_PromotionSettingsConfig (ec_PromotionSettings e) \<and>
     if_set (valid_AutoscalingScheduleConfig date_time) (ec_AutoscalingSchedule e)"

definition valid_DeletionPolicy :: "DeletionPolicy \<Rightarrow> bool" where
  "valid_DeletionPolicy p \<longleftrightarrow>
     p \<in> set [DeletionPolicyRetain, DeletionPolicyDelete, DeletionPolicyDeleteWithGuardrails]"

definition valid_ReconcileMode :: "ReconcileMode \<Rightarrow> bool" where
  "valid_ReconcileMode md \<longleftrightarrow> md \<in> set [ModeReconcile, ModeObserve, ModePause]"

definition valid_BasetenModelSpec :: "(string \<Rightarrow> bool) \<Rightarrow> BasetenModelSpec \<Rightarrow> bool" where
  "valid_BasetenModelSpec date_time sp \<longleftrightarrow> spec_ModelName sp \<noteq> '''' \<and>
     \<not> (spec_SourceDeploymentName sp \<noteq> '''' \<and> spec_TrussConfig sp \<noteq> None) \<and>
     if_set valid_TrussConfig (spec_TrussConfig sp) \<and> valid_EnvironmentConfig date_time (spec_Environment sp) \<and>
     if_set valid_OrphanDeploymentCleanupConfig (spec_OrphanDeploymentCleanup sp) \<and>
     valid_ReconcileMode (spec_Mode sp) \<and> valid_DeletionPolicy (spec_DeletionPolicy sp)"

text \<open>The rule on updates: a team stays once it is set.\<close>

definition valid_update :: "BasetenModelSpec \<Rightarrow> BasetenModelSpec \<Rightarrow> bool" where
  "valid_update old new \<longleftrightarrow> spec_Team old = '''' \<or> spec_Team new = spec_Team old"

lemmas schema_defs = at_least_def between_def if_set_def valid_TrussWeightAuth_def valid_TrussWeightSource_def
  valid_TrussResources_def valid_TrussConfig_def valid_OrphanDeploymentCleanupConfig_def
  valid_ScheduleAutoscalingConfig_def valid_AutoscalingConfig_def valid_RollingDeployConfig_def
  valid_PromotionSettingsConfig_def valid_Weekday_def valid_SpecSchedule_def valid_AutoscalingScheduleConfig_def
  valid_EnvironmentConfig_def valid_DeletionPolicy_def valid_ReconcileMode_def valid_BasetenModelSpec_def

end
