(* ===== verification/Request_Props.thy ===== *)
theory Request_Props
  imports Schedule_Props Crd_Schema Recon_Base
begin

text \<open>
  What the requests to Baseten carry when the resource is valid: the ranges of the schema
  (\<open>Crd_Schema\<close>) hold for the bodies that the client builds, after the conversions to the SDK's types.
\<close>

section \<open>The bodies\<close>

definition range_AutoscalingSettings :: "sdk_UpdateAutoscalingSettings \<Rightarrow> bool" where
  "range_AutoscalingSettings u \<longleftrightarrow> if_set (at_least 0) (ua_MinReplica u) \<and> if_set (at_least 1) (ua_MaxReplica u) \<and>
     if_set (at_least 1) (ua_ConcurrencyTarget u) \<and> if_set (at_least 0) (ua_AutoscalingWindow u) \<and>
     if_set (at_least 0) (ua_ScaleDownDelay u) \<and> if_set (between 1 100) (ua_TargetUtilizationPercentage u) \<and>
     if_set (between 1 50) (ua_MaxScaleDownRate u)"

definition range_RollingDeployConfig :: "sdk_UpdateRollingDeployConfig \<Rightarrow> bool" where
  "range_RollingDeployConfig u \<longleftrightarrow> if_set (\<lambda>s. s = ''REPLICA'') (ur_RollingDeployStrategy u) \<and>
     if_set (between 0 100) (ur_MaxSurgePercent u) \<and> if_set (between 0 100) (ur_MaxUnavailablePercent u) \<and>
     if_set (at_least 0) (ur_StabilizationTimeSeconds u)"

definition range_PromotionSettings :: "sdk_UpdatePromotionSettings \<Rightarrow> bool" where
  "range_PromotionSettings u \<longleftrightarrow>
     if_set (\<lambda>s. s \<in> set [''KEEP'', ''SCALE_TO_ZERO'', ''DEACTIVATE'']) (up_PromotionCleanupStrategy u) \<and>
     if_set (at_least 0) (up_RampUpDurationSeconds u) \<and> if_set range_RollingDeployConfig (up_RollingDeployConfig u)"

definition range_ScheduleSettings :: "sdk_ScheduleSettings \<Rightarrow> bool" where
  "range_ScheduleSettings x \<longleftrightarrow> at_least 0 (xs_MinReplica x) \<and> at_least 1 (xs_MaxReplica x) \<and>
     if_set (at_least 1) (xs_ConcurrencyTarget x) \<and> if_set (at_least 0) (xs_AutoscalingWindow x) \<and>
     if_set (at_least 0) (xs_ScaleDownDelay x) \<and> if_set (between 1 100) (xs_TargetUtilizationPercentage x) \<and>
     if_set (at_least 1) (xs_TargetInFlightTokens x) \<and> if_set (between 1 50) (xs_MaxScaleDownRate x)"

text \<open>A recurring schedule has weekdays, and hours exactly when it is daily.\<close>

fun range_UpsertItem :: "sdk_UpsertItem \<Rightarrow> bool" where
  "range_UpsertItem (OneTimeItem u) \<longleftrightarrow> uo_Name u \<noteq> '''' \<and> range_ScheduleSettings (uo_AutoscalingSettings u)"
| "range_UpsertItem (RecurringItem u) \<longleftrightarrow> us_Name u \<noteq> '''' \<and> us_Cadence u \<in> set [''DAILY'', ''HOURLY''] \<and>
     us_Weekdays u \<noteq> [] \<and> distinct (us_Weekdays u) \<and> list_all valid_Weekday (us_Weekdays u) \<and>
     (us_Cadence u = ''DAILY'' \<longleftrightarrow> us_StartHour u \<noteq> None) \<and> (us_Cadence u = ''DAILY'' \<longleftrightarrow> us_EndHour u \<noteq> None) \<and>
     if_set (between 0 23) (us_StartHour u) \<and> between 0 59 (us_StartMinute u) \<and>
     if_set (between 0 23) (us_EndHour u) \<and> between 0 59 (us_EndMinute u) \<and>
     range_ScheduleSettings (us_AutoscalingSettings u)"

fun item_name :: "sdk_UpsertItem \<Rightarrow> string" where
  "item_name (OneTimeItem u) = uo_Name u"
| "item_name (RecurringItem u) = us_Name u"

definition range_ScheduleSettingsRequest :: "sdk_UpdateScheduleSettings \<Rightarrow> bool" where
  "range_ScheduleSettingsRequest b \<longleftrightarrow> if_set (\<lambda>tz. tz \<noteq> '''') (uz_Timezone b) \<and>
     if_set (\<lambda>items. length items \<le> 10 \<and> distinct (map item_name items) \<and> list_all range_UpsertItem items) (uz_Schedules b)"

section \<open>The conversions\<close>

lemma sint_widened [simp]: "sint (scast (v :: int32) :: goint) = sint v"
  by (rule sint_up_scast) (simp add: is_up)

lemma widened_range [simp]:
  "at_least lo (scast (v :: int32) :: goint) \<longleftrightarrow> at_least lo v"
  "between lo hi (scast (v :: int32) :: goint) \<longleftrightarrow> between lo hi v"
  by (simp_all add: at_least_def between_def)

lemma pointer_range [simp]:
  "if_set (at_least lo) (int32PtrToIntPtr v) \<longleftrightarrow> if_set (at_least lo) v"
  "if_set (between lo hi) (int32PtrToIntPtr v) \<longleftrightarrow> if_set (between lo hi) v"
  "int32PtrToIntPtr v = None \<longleftrightarrow> v = None"
  by (cases v; simp add: int32PtrToIntPtr_def)+

lemma autoscaling_in_range:
  "if_set valid_AutoscalingConfig c \<Longrightarrow> if_set range_AutoscalingSettings (toUpdateAutoscalingSettings c)"
  by (cases c) (auto simp: toUpdateAutoscalingSettings_def valid_AutoscalingConfig_def range_AutoscalingSettings_def)

lemma rolling_in_range:
  "if_set valid_RollingDeployConfig c \<Longrightarrow> if_set range_RollingDeployConfig (toUpdateRollingDeployConfig c)"
  by (cases c) (auto simp: toUpdateRollingDeployConfig_def valid_RollingDeployConfig_def range_RollingDeployConfig_def)

lemma promotion_in_range:
  "if_set valid_PromotionSettingsConfig c \<Longrightarrow> if_set range_PromotionSettings (toUpdatePromotionSettings c)"
  by (cases c) (auto simp: toUpdatePromotionSettings_def valid_PromotionSettingsConfig_def range_PromotionSettings_def
      Let_def rolling_in_range)

lemma schedule_settings_in_range:
  "valid_ScheduleAutoscalingConfig (sp_Autoscaling s) \<Longrightarrow>
   range_ScheduleSettings (toScheduleSettingsRequest (sch_AutoscalingSettings (scheduleFromSpec s)))"
  by (simp add: valid_ScheduleAutoscalingConfig_def range_ScheduleSettings_def toScheduleSettingsRequest_def
      scheduleFromSpec_def Let_def)

lemma upsert_in_range:
  assumes "valid_SpecSchedule date_time s" and "toScheduleUpsert from (upsert_of byName s) = Inr item"
  shows "range_UpsertItem item \<and> item_name item = sp_Name s"
proof -
  have fields: "sch_AutoscalingSettings (upsert_of byName s) = sch_AutoscalingSettings (scheduleFromSpec s)"
      "sch_Cadence (upsert_of byName s) = sp_Cadence s" "sch_Weekdays (upsert_of byName s) = Some (sp_Weekdays s)"
      "sch_StartHour (upsert_of byName s) = sp_StartHour s" "sch_EndHour (upsert_of byName s) = sp_EndHour s"
      "sch_StartMinute (upsert_of byName s) = sp_StartMinute s" "sch_EndMinute (upsert_of byName s) = sp_EndMinute s"
    by (simp_all add: upsert_of_def scheduleFromSpec_def Let_def)
  note valid = assms(1) [unfolded valid_SpecSchedule_def]
  have settings: "range_ScheduleSettings (toScheduleSettingsRequest (sch_AutoscalingSettings (upsert_of byName s)))"
    using valid by (simp add: fields(1) schedule_settings_in_range)
  show ?thesis
  proof (cases "sp_Cadence s = ''ONE_TIME''")
    case True
    with assms(2) settings valid show ?thesis
      by (auto simp: toScheduleUpsert_def Let_def fields CadenceOneTime_def split: sum.splits option.splits)
  next
    case False
    then obtain u where "item = RecurringItem u" and "us_Name u = sp_Name s" "us_Cadence u = sp_Cadence s"
        "us_Weekdays u = sp_Weekdays s" "us_StartHour u = int32PtrToIntPtr (sp_StartHour s)"
        "us_EndHour u = int32PtrToIntPtr (sp_EndHour s)" "us_StartMinute u = scast (sp_StartMinute s)"
        "us_EndMinute u = scast (sp_EndMinute s)"
        "us_AutoscalingSettings u = toScheduleSettingsRequest (sch_AutoscalingSettings (upsert_of byName s))"
      using assms(2) by (auto simp: toScheduleUpsert_def Let_def fields CadenceOneTime_def split: option.splits)
    with valid settings False show ?thesis by auto
  qed
qed

lemma upserts_in_range:
  assumes "list_all (valid_SpecSchedule date_time) ss"
    and "toScheduleUpserts from (map (upsert_of byName) ss) = Inr items"
  shows "list_all range_UpsertItem items \<and> map item_name items = map sp_Name ss"
  using assms
proof (induction ss arbitrary: items)
  case (Cons s ss)
  then obtain item rest where "toScheduleUpsert from (upsert_of byName s) = Inr item"
      "toScheduleUpserts from (map (upsert_of byName) ss) = Inr rest" "items = item # rest"
    by (auto simp: sbind_def split: sum.splits)
  with Cons upsert_in_range [of date_time s "from" byName item] show ?case by simp
qed simp

lemma schedules_in_range:
  assumes "if_set (valid_AutoscalingScheduleConfig date_time) spec"
    and "toUpdateAutoscalingScheduleSettings from clk spec observed = Inr (Some body)"
  shows "range_ScheduleSettingsRequest body"
proof (cases spec)
  case None
  with assms(2) show ?thesis by (simp add: toUpdateAutoscalingScheduleSettings_def diffSchedules_def Let_def)
next
  case (Some sp)
  let ?by = "by_name (observed_list observed)"
  let ?ss = "pending clk 0 ?by (asc_Schedules sp)"
  have valid: "if_set (\<lambda>tz. tz \<noteq> '''') (asc_Timezone sp)" "length (asc_Schedules sp) \<le> 10"
      "distinct (map sp_Name (asc_Schedules sp))" "list_all (valid_SpecSchedule date_time) (asc_Schedules sp)"
    using assms(1) by (simp_all add: Some valid_AutoscalingScheduleConfig_def)
  have ss: "list_all (valid_SpecSchedule date_time) ?ss" "distinct (map sp_Name ?ss)" "length ?ss \<le> 10"
    using valid pending_subset [of clk 0 ?by "asc_Schedules sp"] pending_names_distinct [OF valid(3)]
    by (auto simp: list_all_iff pending_def length_filter_le [THEN le_trans])
  have ups: "upserts (diffSchedules clk (Some sp) observed) = map (upsert_of ?by) ?ss"
    using request_upserts [of clk sp observed] by (simp add: schedule_request_def)
  have "if_set (\<lambda>items. toScheduleUpserts from (map (upsert_of ?by) ?ss) = Inr items) (uz_Schedules body) \<and>
      uz_Timezone body = asc_Timezone sp"
    using assms(2) by (auto simp: toUpdateAutoscalingScheduleSettings_def Let_def ups Some sbind_def split: if_splits sum.splits)
  moreover have "length items \<le> 10 \<and> distinct (map item_name items) \<and> list_all range_UpsertItem items"
    if "toScheduleUpserts from (map (upsert_of ?by) ?ss) = Inr items" for items
  proof -
    have "length items = length ?ss" using upserts_in_range [OF ss(1) that] by (metis length_map)
    with upserts_in_range [OF ss(1) that] ss(2,3) show ?thesis by simp
  qed
  ultimately show ?thesis
    using valid(1) by (auto simp: range_ScheduleSettingsRequest_def elim: if_set_mono)
qed

end
