(* ===== verification/Panic_Props.thy ===== *)
theory Panic_Props
  imports Object_Props Request_Props
begin

text \<open>
  A resource that the schema accepts is handled without a panic, and every request with settings that a pass
  sends to Baseten is within the ranges of the schema. The panics of the model are the values \<open>PanicError\<close>:
  a negative \<open>minToKeep\<close> in \<open>deleteStaleOrphans\<close>, a nil result or a nil deployment in \<open>Reconcile\<close>, a drift
  without changes in \<open>reconcileEnvironment\<close>.
\<close>

section \<open>Errors and panics\<close>

fun is_panic :: "go_error \<Rightarrow> bool" where
  "is_panic (PanicError msg) = True"
| "is_panic _ = False"

definition panics :: "go_error option \<Rightarrow> bool" where
  "panics err \<longleftrightarrow> (case err of None \<Rightarrow> False | Some e \<Rightarrow> is_panic e)"

lemma panics_simps [simp]: "\<not> panics None" "panics (Some e) \<longleftrightarrow> is_panic e"
  by (simp_all add: panics_def)

text \<open>A call that returns: what it answers may be an error, but it does not panic.\<close>

definition returns_value :: "('w \<Rightarrow> (go_error + 'a) \<times> 'w) \<Rightarrow> bool" where
  "returns_value f \<longleftrightarrow> (\<forall>w e. fst (f w) = Inl e \<longrightarrow> \<not> is_panic e)"

definition returns_error :: "('w \<Rightarrow> go_error option \<times> 'w) \<Rightarrow> bool" where
  "returns_error f \<longleftrightarrow> (\<forall>w. \<not> panics (fst (f w)))"

text \<open>The calls of the client whose errors \<open>Reconcile\<close> returns. A promotion without an error answers a deployment.\<close>

definition client_returns :: "'w ClientInterface \<Rightarrow> bool" where
  "client_returns c \<longleftrightarrow> (\<forall>n t. returns_value (ci_FindModelIDByName c n t)) \<and>
     (\<forall>m e. returns_value (ci_GetEnvironment c m e)) \<and>
     (\<forall>m e w env. fst (ci_GetEnvironment c m e w) = Inr env \<longrightarrow> \<not> panics (env_ScheduleDecodeErr env)) \<and>
     (\<forall>m x. returns_error (ci_CreateEnvironment c m x)) \<and>
     (\<forall>m e a p. returns_error (ci_UpdateEnvironmentSettings c m e a p)) \<and>
     (\<forall>m e sp ob. returns_error (ci_UpdateAutoscalingSchedules c m e sp ob)) \<and>
     (\<forall>m n. returns_value (ci_FindDeploymentIDByName c m n)) \<and>
     (\<forall>m d e p. returns_value (ci_Promote c m d e p) \<and> (\<forall>w. fst (ci_Promote c m d e p w) \<noteq> Inr None))"

definition libraries_return :: "'w BasetenModelReconciler \<Rightarrow> bool" where
  "libraries_return r \<longleftrightarrow> client_returns (BasetenClient r) \<and> (\<forall>n ns. returns_value (k_Get r n ns)) \<and>
     (\<forall>ob w. \<not> panics (fst (fst (k_Update r ob w))) \<and> \<not> panics (fst (fst (k_StatusUpdate r ob w)))) \<and>
     (\<forall>t e. YamlMarshal r t = Inl e \<longrightarrow> \<not> is_panic e)"

section \<open>Answers without a panic\<close>

definition calm :: "'a \<times> go_error option \<Rightarrow> bool" where
  "calm res \<longleftrightarrow> \<not> panics (snd res)"

text \<open>The answer of a step: an error comes with a result, so that the result can be dereferenced.\<close>

definition calm_step :: "'a \<times> Result option \<times> go_error option \<Rightarrow> bool" where
  "calm_step res \<longleftrightarrow> (case res of (x, result, err) \<Rightarrow> \<not> panics err \<and> (err \<noteq> None \<longrightarrow> result \<noteq> None))"

lemma calm_simps [simp]:
  "calm (res, err) \<longleftrightarrow> \<not> panics err"
  "calm_step (x, result, err) \<longleftrightarrow> \<not> panics err \<and> (err \<noteq> None \<longrightarrow> result \<noteq> None)"
  by (simp_all add: calm_def calm_step_def)

abbreviation calm_value :: "go_error + 'a \<Rightarrow> bool" where
  "calm_value res \<equiv> \<forall>e. res = Inl e \<longrightarrow> \<not> is_panic e"

named_theorems calm_intro "handlers that answer without a panic"

lemma calm_calls:
  assumes "libraries_return r"
  shows "answers calm_value (api_FindModelIDByName r n t)" "answers calm_value (api_FindDeploymentIDByName r m n)"
    "answers (\<lambda>res. calm_value res \<and> (\<forall>env. res = Inr env \<longrightarrow> \<not> panics (env_ScheduleDecodeErr env)))
       (api_GetEnvironment r m e)"
    "answers (\<lambda>res. calm_value res \<and> res \<noteq> Inr None) (api_Promote r m d e p)"
    "answers (\<lambda>err. \<not> panics err) (api_CreateEnvironment r m x)"
    "answers (\<lambda>err. \<not> panics err) (api_UpdateEnvironmentSettings r m e ac pc)"
    "answers (\<lambda>err. \<not> panics err) (api_UpdateAutoscalingSchedules r m e sp ob)"
    "answers (\<lambda>err. \<not> panics err) (K_Update r)" "answers (\<lambda>err. \<not> panics err) (Status_Update r)"
    "answers (\<lambda>err. \<not> panics err) (K_Get r n ns)"
  using assms
  by (auto simp: libraries_return_def client_returns_def returns_value_def returns_error_def answers_def api_defs
      ext_call_def K_Update_def Status_Update_def K_Get_def modify_obj_def modify_def split: prod.splits sum.splits)
    (metis fst_conv)+

text \<open>A drift that is reported has a change, so that the event on it finds one.\<close>

lemma drift_has_changes:
  "fst (HasAutoscalingDrift spec env) \<Longrightarrow> snd (HasAutoscalingDrift spec env) \<noteq> []"
  "fst (HasPromotionSettingsDrift pspec penv) \<Longrightarrow> snd (HasPromotionSettingsDrift pspec penv) \<noteq> []"
  "fst (HasScheduleDrift clk sspec observed) \<Longrightarrow> snd (HasScheduleDrift clk sspec observed) \<noteq> []"
  by (auto simp: HasAutoscalingDrift_def HasPromotionSettingsDrift_def HasScheduleDrift_def Let_def
      split: option.splits)

lemma baseline_has_changes:
  "fst (baselineAutoscalingDrift m env) \<Longrightarrow> snd (baselineAutoscalingDrift m env) \<noteq> []"
  by (auto simp: baselineAutoscalingDrift_def dest: drift_has_changes split: if_splits)

text \<open>The handlers, bottom up along the calls.\<close>

lemma calm_updateStatus:
  assumes "libraries_return r"
  shows "answers (\<lambda>err. \<not> panics err) (updateStatus r su)"
  unfolding updateStatus_def Let_def
  by (intro answers_bind answers_if answers_return calm_calls [OF assms]) simp_all

lemma calm_resolveModelID:
  assumes "libraries_return r"
  shows "answers calm_step (resolveModelID r)"
  unfolding resolveModelID_def model_not_found_def Let_def
  by (intro answers_intro answers_bind_with [OF calm_calls(1) [OF assms]]) auto

lemma calm_truss:
  assumes "libraries_return r"
  shows "answers (\<lambda>x. \<forall>y. x = Some y \<longrightarrow> calm_step y) (truss_existing r mid ap h n)"
    "answers (\<lambda>x. \<forall>y. x = Some y \<longrightarrow> calm_step y) (truss_in_flight r mid ap n)"
    "answers (\<lambda>x. \<forall>y. x = Some y \<longrightarrow> calm_step y) (truss_backoff r mid ap n)"
    "answers calm_step (truss_launch r mid ap h n y sc)"
    "answers calm_value (readSetupScript r tc ns)"
  unfolding truss_existing_def truss_in_flight_def truss_backoff_def truss_launch_def readSetupScript_def
  by (intro answers_intro answers_bind_with [OF calm_calls(2) [OF assms]]; simp)+

lemma calm_resolveSourceDeployment:
  assumes "libraries_return r"
  shows "answers calm_step (resolveSourceDeployment r mid)"
proof -
  have existing: "answers (\<lambda>x. \<forall>y. x = Some y \<longrightarrow> calm_step y)
      (if mid \<noteq> '''' then truss_existing r mid ap h n else ret None)" for ap h n
    by (intro answers_if calm_truss(1) assms answers_return) simp
  have yaml: "GenerateConfigYAML (JsonValid r) (YamlMarshal r) tc n = Inl e \<Longrightarrow> \<not> is_panic e" for tc n e
    using assms by (auto simp: libraries_return_def GenerateConfigYAML_def)
  show ?thesis
    unfolding resolveSourceDeployment_def reconcileTrussDeployment_def truss_push_def Let_def
    by (intro answers_intro answers_bind_with [OF calm_truss(5) [OF assms]] answers_bind_with [OF existing]
        answers_bind_with [OF calm_truss(2) [OF assms]] answers_bind_with [OF calm_truss(3) [OF assms]]
        calm_truss(4) assms) (auto dest: yaml)
qed

text \<open>\<open>reconcileEnvironment\<close> answers an environment when it answers neither a result nor an error.\<close>

definition calm_environment :: "Environment option \<times> Result option \<times> go_error option \<Rightarrow> bool" where
  "calm_environment res \<longleftrightarrow> calm_step res \<and> (case res of (env, result, err) \<Rightarrow> env = None \<longrightarrow> result \<noteq> None)"

lemma calm_environment_simps [simp]:
  "calm_environment (env, result, err) \<longleftrightarrow>
     \<not> panics err \<and> (err \<noteq> None \<longrightarrow> result \<noteq> None) \<and> (env = None \<longrightarrow> result \<noteq> None)"
  by (auto simp: calm_environment_def)

lemma calm_drift_events:
  assumes "fst a \<longrightarrow> snd a \<noteq> []" and "fst p \<longrightarrow> snd p \<noteq> []" and "fst sch \<longrightarrow> snd sch \<noteq> []"
  shows "answers (\<lambda>panic. panic = None) (drift_events a p sch)"
proof -
  have event: "answers (\<lambda>panic. panic = None) (drift_event reason what d)" if "fst d \<longrightarrow> snd d \<noteq> []" for reason what d
    unfolding drift_event_def using that by (intro answers_intro) auto
  show ?thesis
    unfolding drift_events_def
    by (rule answers_bind_with [OF event [OF assms(1)]]; simp,
        rule answers_bind_with [OF event [OF assms(2)]]; simp add: event assms(3))
qed

lemma calm_fix_drift:
  assumes "libraries_return r" and "fst a \<longrightarrow> snd a \<noteq> []" and "fst p \<longrightarrow> snd p \<noteq> []" and "fst sch \<longrightarrow> snd sch \<noteq> []"
  shows "answers calm_environment (fix_drift r mid envName env a p sch)"
proof -
  have patch: "answers (\<lambda>err. \<not> panics err) (patch_settings r mid envName msg x y)"
    "answers (\<lambda>err. \<not> panics err) (patch_schedules r mid envName msg x env)" for msg x y
    unfolding patch_settings_def patch_schedules_def Let_def
    by (intro answers_intro answers_bind_with [OF calm_calls(6) [OF assms(1)]]
        answers_bind_with [OF calm_calls(7) [OF assms(1)]]; simp)+
  show ?thesis
    unfolding fix_drift_def Let_def
    by (intro answers_intro answers_bind_with [OF patch(1)] answers_bind_with [OF patch(2)]
        answers_bind_with [OF calm_drift_events [OF assms(2-4)]]) auto
qed

lemma calm_reconcileEnvironment:
  assumes "libraries_return r"
  shows "answers calm_environment (reconcileEnvironment r mid envName)"
proof -
  have create: "answers calm_environment (create_environment r mid envName)"
    unfolding create_environment_def
    by (intro answers_intro answers_bind_with [OF calm_calls(5) [OF assms]]) auto
  have schedule: "answers (\<lambda>d. fst d \<longrightarrow> snd d \<noteq> []) (schedule_drift r spec ob)" for spec ob
    unfolding schedule_drift_def by (intro answers_intro) (auto dest: drift_has_changes)
  show ?thesis
    unfolding reconcileEnvironment_def Let_def
    by (rule answers_bind_with [OF calm_calls(3) [OF assms]],
        intro answers_intro create answers_bind_with [OF schedule] calm_fix_drift [OF assms])
      (auto dest: drift_has_changes baseline_has_changes)
qed

lemma calm_lifecycle:
  assumes "libraries_return r"
  shows "answers (\<lambda>(handled, result, err). \<not> panics err) (reconcileLifecycle r)"
proof -
  have ignored: "\<not> panics (IgnoreNotFound err)" if "\<not> panics err" for err
    using that by (auto simp: IgnoreNotFound_def split: option.splits)
  have release: "answers calm (releaseFinalizer r)"
    unfolding releaseFinalizer_def
    by (rule answers_bind, rule answers_bind_with [OF calm_calls(8) [OF assms]]) (intro answers_return, simp add: ignored)
  have deletion: "answers calm (reconcileDeletion r)"
    unfolding reconcileDeletion_def delete_blocked_def delete_model_def Let_def
    by (intro answers_intro release) auto
  show ?thesis
    unfolding reconcileLifecycle_def
    by (intro answers_intro answers_bind_with [OF deletion] answers_bind_with [OF calm_calls(8) [OF assms]]) auto
qed

lemma calm_reconcileObserve:
  assumes "libraries_return r"
  shows "answers calm (reconcileObserve r)"
  unfolding reconcileObserve_def observe_failed_def observe_environment_def Let_def
  by (intro answers_intro answers_bind_with [OF calm_calls(3) [OF assms]]
      answers_bind_with [OF calm_updateStatus [OF assms]]) auto

lemma calm_return_step: "calm_step (x, result, err) \<Longrightarrow> err \<noteq> None \<or> result \<noteq> None \<Longrightarrow> answers calm (return_step r result err)"
  unfolding return_step_def return_result_def by (intro answers_intro) (auto split: option.splits)

lemma calm_tryRetry: "answers (\<lambda>(result, again). again \<longrightarrow> result \<noteq> None) (tryRetryDeployment r mid d n st)"
  unfolding tryRetryDeployment_def Let_def by (intro answers_intro) auto

lemma calm_validate:
  assumes "libraries_return r"
  shows "answers calm_step (validateSourceDeployment r mid src cur)"
  unfolding validateSourceDeployment_def source_missing_def source_switch_def source_failed_def
    source_inactive_def source_waiting_def Let_def
  by (rule answers_bind_with [OF calm_calls(2) [OF assms]], intro answers_intro answers_bind_with [OF calm_tryRetry]) auto

lemma calm_promote_source:
  assumes "libraries_return r"
  shows "answers calm (promote_source r env mid envName sid src)"
  unfolding promote_source_def promotion_failed_def promotion_succeeded_def
  by (rule answers_bind, rule answers_bind, rule answers_bind_with [OF calm_calls(4) [OF assms]],
      intro answers_intro answers_bind_with [OF calm_updateStatus [OF assms]] calm_return_step) auto

lemma calm_start_promotion:
  assumes "libraries_return r"
  shows "answers calm (start_promotion r mid envName env src)"
  unfolding start_promotion_def
  by (intro answers_intro answers_bind_with [OF calm_validate [OF assms]] calm_return_step calm_promote_source assms)
    auto

lemma calm_candidate:
  "answers calm (handleCandidateFailure r mid cur cand su)" "answers calm (promotion_running r mid env cand)"
  "answers calm (reactivate_current r mid envName cur')"
proof -
  show failure: "answers calm (handleCandidateFailure r mid cur cand su)" for cur su
    unfolding handleCandidateFailure_def Let_def by (intro answers_intro) auto
  show "answers calm (promotion_running r mid env cand)"
    unfolding promotion_running_def Let_def by (intro answers_intro failure) auto
  show "answers calm (reactivate_current r mid envName cur')"
    unfolding reactivate_current_def by (intro answers_intro) auto
qed

section \<open>Handlers under an invariant of the object\<close>

text \<open>
  From an object that satisfies \<open>I\<close> a handler emits effects that satisfy \<open>P\<close>, answers \<open>A\<close> and keeps \<open>I\<close>.
\<close>

definition sound ::
  "(BasetenModel \<Rightarrow> bool) \<Rightarrow> (effect \<Rightarrow> bool) \<Rightarrow> ('a \<Rightarrow> bool) \<Rightarrow> ('w, 'a) handler \<Rightarrow> bool" where
  "sound I P A m \<longleftrightarrow> (\<forall>s. I (obj s) \<longrightarrow> (\<exists>es. trace (snd (run_state m s)) = trace s @ es \<and> list_all P es) \<and>
     A (fst (run_state m s)) \<and> I (obj (snd (run_state m s))))"

lemma soundI:
  assumes "keeps I m" and "answers A m" and "emits P m"
  shows "sound I P A m"
  using assms by (auto simp: sound_def keeps_def answers_def emits_def hwp_def list_all_iff)

lemma sound_return: "A a \<Longrightarrow> sound I P A (State_Monad.return a)"
  by (simp add: sound_def)

lemma sound_bind:
  fixes m :: "('w, 'a) handler"
  assumes "sound I P B m" and "\<And>a. B a \<Longrightarrow> sound I P A (f a)"
  shows "sound I P A (State_Monad.bind m f)"
  unfolding sound_def
proof (intro allI impI)
  fix s :: "'w rstate" assume s: "I (obj s)"
  obtain a s1 where m: "run_state m s = (a, s1)" by (cases "run_state m s")
  obtain b s2 where f: "run_state (f a) s1 = (b, s2)" by (cases "run_state (f a) s1")
  obtain es1 where 1: "trace s1 = trace s @ es1" "list_all P es1" "B a" "I (obj s1)"
    using assms(1) s m unfolding sound_def by (metis fst_conv snd_conv)
  obtain es2 where "trace s2 = trace s1 @ es2" "list_all P es2" "A b" "I (obj s2)"
    using assms(2) [OF 1(3)] 1(4) f unfolding sound_def by (metis fst_conv snd_conv)
  with 1 m f show "(\<exists>es. trace (snd (run_state (State_Monad.bind m f) s)) = trace s @ es \<and> list_all P es) \<and>
      A (fst (run_state (State_Monad.bind m f) s)) \<and> I (obj (snd (run_state (State_Monad.bind m f) s)))"
    by (intro conjI exI [of _ "es1 @ es2"]) simp_all
qed

lemma sound_model: "(\<And>m. I m \<Longrightarrow> sound I P A (f m)) \<Longrightarrow> sound I P A (State_Monad.bind model f)"
  by (rule sound_bind [where B = I]) (simp_all add: sound_def model_def gets_def)

lemma sound_if:
  "(b \<Longrightarrow> sound I P A m) \<Longrightarrow> (\<not> b \<Longrightarrow> sound I P A n) \<Longrightarrow> sound I P A (if b then m else n)"
  by simp

lemma sound_option:
  "(x = None \<Longrightarrow> sound I P A m) \<Longrightarrow> (\<And>y. x = Some y \<Longrightarrow> sound I P A (n y)) \<Longrightarrow>
   sound I P A (case x of None \<Rightarrow> m | Some y \<Rightarrow> n y)"
  by (simp split: option.splits)

lemma sound_sum:
  "(\<And>e. x = Inl e \<Longrightarrow> sound I P A (m e)) \<Longrightarrow> (\<And>y. x = Inr y \<Longrightarrow> sound I P A (n y)) \<Longrightarrow>
   sound I P A (case x of Inl e \<Rightarrow> m e | Inr y \<Rightarrow> n y)"
  by (simp split: sum.splits)

lemma sound_prod:
  "(\<And>a b. x = (a, b) \<Longrightarrow> sound I P A (m a b)) \<Longrightarrow> sound I P A (case x of (a, b) \<Rightarrow> m a b)"
  by (simp split: prod.splits)

lemma sound_mono: "sound I P A m \<Longrightarrow> (\<And>a. A a \<Longrightarrow> B a) \<Longrightarrow> sound I P B m"
  unfolding sound_def by blast

lemma sound_with_answers: "sound I P A m \<Longrightarrow> answers B m \<Longrightarrow> sound I P (\<lambda>a. A a \<and> B a) m"
  by (simp add: sound_def answers_def)

lemma sound_emits: "keeps I m \<Longrightarrow> emits P m \<Longrightarrow> sound I P (\<lambda>_. True) m"
  by (intro soundI) (simp_all add: answers_def)

lemmas sound_cases = sound_if sound_option sound_sum sound_prod

section \<open>Requests in range\<close>

text \<open>
  The bodies of the requests with settings, for whatever the SDK's constructors and the clock answer, and the
  name of the environment in the path. Other effects carry no settings.
\<close>

fun request_in_range :: "effect \<Rightarrow> bool" where
  "request_in_range (Api (CCreateEnvironment m c a)) \<longleftrightarrow> env_name_pattern (ec_Name c) \<and>
     if_set range_AutoscalingSettings (toUpdateAutoscalingSettings (ec_Autoscaling c)) \<and>
     if_set range_PromotionSettings (toUpdatePromotionSettings (ec_PromotionSettings c))"
| "request_in_range (Api (CUpdateEnvironmentSettings m e ac pc a)) \<longleftrightarrow> env_name_pattern e \<and>
     if_set range_AutoscalingSettings (toUpdateAutoscalingSettings ac) \<and>
     if_set range_PromotionSettings (toUpdatePromotionSettings pc)"
| "request_in_range (Api (CUpdateAutoscalingSchedules m e sp ob a)) \<longleftrightarrow> env_name_pattern e \<and>
     (\<forall>from clk body. toUpdateAutoscalingScheduleSettings from clk sp ob = Inr (Some body) \<longrightarrow>
        range_ScheduleSettingsRequest body)"
| "request_in_range (Api (CPromote m d e p a)) \<longleftrightarrow> env_name_pattern e"
| "request_in_range _ \<longleftrightarrow> True"

lemma request_other: "kind e \<notin> {EkEnvironment, EkPromote} \<Longrightarrow> request_in_range e"
  by (cases e rule: request_in_range.cases) simp_all

lemma emits_other: "stays K m \<Longrightarrow> EkEnvironment \<notin> K \<Longrightarrow> EkPromote \<notin> K \<Longrightarrow> emits request_in_range m"
  by (erule emits_mono) (auto intro: request_other)

section \<open>A pass over a valid resource\<close>

text \<open>The object as the pass has it, when the API server stores what is written.\<close>

abbreviation as_read :: "'w BasetenModelReconciler \<Rightarrow> BasetenModel \<Rightarrow> BasetenModel \<Rightarrow> bool" where
  "as_read r m0 \<equiv> (\<lambda>m. server_stores r \<longrightarrow> object_kept m0 m)"

lemma as_read_spec: "server_stores r \<Longrightarrow> as_read r m0 m \<Longrightarrow> Spec m = Spec m0"
  by (simp add: object_kept_def)

lemma valid_environment:
  assumes "valid_BasetenModelSpec date_time sp"
  shows "env_name_pattern (ec_Name (spec_Environment sp))"
    "if_set valid_AutoscalingConfig (ec_Autoscaling (spec_Environment sp))"
    "if_set valid_PromotionSettingsConfig (ec_PromotionSettings (spec_Environment sp))"
    "if_set (valid_AutoscalingScheduleConfig date_time) (ec_AutoscalingSchedule (spec_Environment sp))"
    "if_set valid_OrphanDeploymentCleanupConfig (spec_OrphanDeploymentCleanup sp)"
  using assms by (simp_all add: valid_BasetenModelSpec_def valid_EnvironmentConfig_def)

named_theorems sound_intro "introduction rules for sound"

declare sound_cases [sound_intro]

lemma sound_step [sound_intro]:
  "sound I P (\<lambda>_. True) m \<Longrightarrow> (\<And>a. sound I P A (f a)) \<Longrightarrow> sound I P A (State_Monad.bind m f)"
  by (rule sound_bind)

text \<open>A handler that keeps the object and stays within kinds of effects without settings.\<close>

lemma sound_stays:
  assumes "keeps I m" and "answers A m" and "stays K m" and "EkEnvironment \<notin> K" and "EkPromote \<notin> K"
  shows "sound I request_in_range A m"
  by (rule soundI [OF assms(1,2) emits_other [OF assms(3-5)]])

lemma sound_basic [sound_intro]:
  "sound (as_read r m0) request_in_range (\<lambda>_. True) (Eventf t rs msg)"
  "sound (as_read r m0) request_in_range (\<lambda>_. True) (logUpdateStatus r su)"
  by (intro sound_stays [where K = "{EkStatus, EkEvent}"] keeps_primitives kept.keeps_logUpdateStatus stays_basic;
      simp add: answers_def)+

lemma sound_call:
  assumes "answers A (ext_call g eff)" and "\<And>a. written (eff a) = None" and "\<And>a. request_in_range (eff a)"
  shows "sound I request_in_range A (ext_call g eff)"
  by (intro soundI assms keeps_ext_call emits_ext_call)

text \<open>The writes to the environment.\<close>

lemma sound_create_environment:
  assumes "server_stores r" and "valid_BasetenModelSpec date_time (Spec m0)"
  shows "sound (as_read r m0) request_in_range (\<lambda>_. True) (create_environment r mid envName)"
  unfolding create_environment_def
proof (rule sound_model, goal_cases)
  case (1 m)
  note valid = valid_environment [OF assms(2)]
  have "sound (as_read r m0) request_in_range (\<lambda>_. True) (api_CreateEnvironment r mid (spec_Environment (Spec m)))"
    unfolding api_CreateEnvironment_def as_read_spec [OF assms(1) 1]
    by (rule sound_call) (simp_all add: answers_def valid autoscaling_in_range promotion_in_range)
  then show ?case by (intro sound_intro sound_return TrueI)
qed

lemma sound_patch:
  assumes "server_stores r" and "valid_BasetenModelSpec date_time (Spec m0)" and "env_name_pattern envName"
  shows "sound (as_read r m0) request_in_range (\<lambda>_. True) (patch_settings r mid envName msg a p)"
    "sound (as_read r m0) request_in_range (\<lambda>_. True) (patch_schedules r mid envName msg b env)"
proof -
  note valid = valid_environment [OF assms(2)]
  show "sound (as_read r m0) request_in_range (\<lambda>_. True) (patch_settings r mid envName msg a p)"
    unfolding patch_settings_def Let_def
  proof (rule sound_if, rule sound_model, goal_cases)
    case (1 m)
    have "sound (as_read r m0) request_in_range (\<lambda>_. True) (api_UpdateEnvironmentSettings r mid envName
        (if a then ec_Autoscaling (spec_Environment (Spec m)) else None)
        (if p then ec_PromotionSettings (spec_Environment (Spec m)) else None))"
      unfolding api_UpdateEnvironmentSettings_def as_read_spec [OF assms(1) 1(2)]
      by (rule sound_call) (simp_all add: answers_def valid assms(3) autoscaling_in_range promotion_in_range)
    then show ?case by (intro sound_intro sound_return TrueI)
  qed (rule sound_return, rule TrueI)
  show "sound (as_read r m0) request_in_range (\<lambda>_. True) (patch_schedules r mid envName msg b env)"
    unfolding patch_schedules_def
  proof (rule sound_if, rule sound_model, goal_cases)
    case (1 m)
    have "sound (as_read r m0) request_in_range (\<lambda>_. True) (api_UpdateAutoscalingSchedules r mid envName
        (ec_AutoscalingSchedule (spec_Environment (Spec m))) (env_AutoscalingSchedules env))"
      unfolding api_UpdateAutoscalingSchedules_def as_read_spec [OF assms(1) 1(2)]
      by (rule sound_call) (auto simp: answers_def assms(3) intro: schedules_in_range [OF valid(4)])
    then show ?case by (intro sound_intro sound_return TrueI)
  qed (rule sound_return, rule TrueI)
qed

lemma sound_reconcileEnvironment:
  assumes "libraries_return r" and "server_stores r" and "valid_BasetenModelSpec date_time (Spec m0)"
    and "env_name_pattern envName"
  shows "sound (as_read r m0) request_in_range calm_environment (reconcileEnvironment r mid envName)"
proof -
  have quiet: "sound (as_read r m0) request_in_range (\<lambda>_. True) (drift_events a p b)"
    "sound (as_read r m0) request_in_range (\<lambda>_. True) (schedule_drift r sp ob)"
    "sound (as_read r m0) request_in_range (\<lambda>_. True) (api_GetEnvironment r mid envName)"
    "sound (as_read r m0) request_in_range (\<lambda>_. True) model" for a p b sp ob
    unfolding drift_events_def drift_event_def
    by (intro sound_stays [where K = "{EkStatus, EkEvent, EkLookup}"] keeps_intro kept.keeps_schedule_drift
        emits_intro stays_intro; simp add: answers_def)+
  have "sound (as_read r m0) request_in_range (\<lambda>_. True) (reconcileEnvironment r mid envName)"
    unfolding reconcileEnvironment_def fix_drift_def Let_def
    by (intro sound_intro sound_return TrueI quiet sound_create_environment [OF assms(2,3)]
        sound_patch [OF assms(2-4)])
  from sound_with_answers [OF this calm_reconcileEnvironment [OF assms(1)]] show ?thesis by (rule sound_mono) simp
qed

text \<open>The cleanup does not panic when the minimum is not negative.\<close>

lemma cleanup_calm:
  assumes "valid_OrphanDeploymentCleanupConfig cleanup"
  shows "answers (\<lambda>panic. panic = None) (reconcileOrphanCleanup r mid cleanup)"
proof -
  have deleted: "answers (\<lambda>res. \<exists>d. res = Inr d) (deleteStaleOrphans r mid orphans cleanup)" for orphans
    using assms unfolding deleteStaleOrphans_def Let_def
    by (intro answers_intro)
      (auto simp: valid_OrphanDeploymentCleanupConfig_def at_least_def split: option.splits intro!: answers_intro)
  have chosen: "answers (\<lambda>res. \<exists>d. res = Inr d)
      (if b then deleteStaleOrphans r mid orphans cleanup else ret (Inr (0, [])))" for b orphans
    by (intro answers_if deleted answers_return) simp
  show ?thesis
    unfolding reconcileOrphanCleanup_def run_cleanup_def Let_def
    by (intro answers_option answers_if answers_return answers_sum answers_bind_with [OF chosen] answers_bind answers_prod)
      auto
qed

lemma sound_steady_state:
  assumes "libraries_return r" and "server_stores r" and "valid_BasetenModelSpec date_time (Spec m0)"
  shows "sound (as_read r m0) request_in_range calm (steady_state r mid envName env cur)"
proof -
  have status: "sound (as_read r m0) request_in_range (\<lambda>err. \<not> panics err) (updateStatus r su)" for su
    by (intro sound_stays [where K = "{EkStatus, EkEvent}"] kept.keeps_updateStatus calm_updateStatus assms(1) stays_basic; simp)
  have cleanup: "sound (as_read r m0) request_in_range (\<lambda>p. p = None) (reconcileOrphanCleanup r mid cfg)"
    if "valid_OrphanDeploymentCleanupConfig cfg" for cfg
    by (intro sound_stays [where K = "{EkStatus, EkEvent, EkLookup, EkScaleIn, EkDeleteDeployment}"]
        kept.keeps_reconcileOrphanCleanup cleanup_calm [OF that] stays_reconcileOrphanCleanup; simp)
  show ?thesis
    unfolding steady_state_def Let_def
  proof (rule sound_model, rule sound_step, goal_cases)
    case (1 m)
    show ?case by (intro sound_intro sound_return TrueI)
  next
    case (2 m u)
    show ?case
    proof (rule sound_bind [OF status], rule sound_option, goal_cases)
      case (1 err)
      show ?case
      proof (rule sound_model, goal_cases)
        case (1 m)
        then have spec: "Spec m = Spec m0" by (rule as_read_spec [OF assms(2)])
        have "sound (as_read r m0) request_in_range (\<lambda>p. p = None)
            (case spec_OrphanDeploymentCleanup (Spec m) of None \<Rightarrow> ret None
              | Some cfg \<Rightarrow> reconcileOrphanCleanup r mid cfg)"
          using valid_environment(5) [OF assms(3)] unfolding spec
          by (intro sound_option sound_return cleanup) (simp_all add: if_set_def)
        then show ?case
          by (rule sound_bind) (simp add: sound_return)
      qed
    next
      case (2 err e)
      then show ?case by (simp add: sound_return)
    qed
  qed
qed

lemma sound_start_promotion:
  assumes "libraries_return r" and "env_name_pattern envName"
  shows "sound (as_read r m0) request_in_range calm (start_promotion r mid envName env src)"
proof (rule soundI)
  have promote: "emits request_in_range (promote_source r e mid envName sid n)" for e sid n
    unfolding promote_source_def api_Promote_def
    by (intro emits_bind emits_model emits_ext_call emits_sum emits_option emits_return
        emits_other [OF stays_basic(4) [of "{EkStatus, EkEvent}"]]
        emits_other [OF stays_promotion_outcome(1) [of "{EkStatus, EkEvent}"]]
        emits_other [OF stays_promotion_outcome(2) [of "{EkStatus, EkEvent}"]]) (simp_all add: assms(2))
  show "emits request_in_range (start_promotion r mid envName env src)"
    unfolding start_promotion_def
    by (intro emits_bind emits_option emits_prod emits_if emits_return promote
        emits_other [OF stays_checkDoublePromoteGuard [OF subset_refl]]
        emits_other [OF stays_validateSourceDeployment [OF subset_refl]]
        emits_other [OF stays_return_step [OF subset_refl]]) simp_all
qed (rule kept.keeps_start_promotion, rule calm_start_promotion [OF assms(1)])

lemma sound_environment_state:
  assumes "libraries_return r" and "server_stores r" and "valid_BasetenModelSpec date_time (Spec m0)"
    and "env_name_pattern envName"
  shows "sound (as_read r m0) request_in_range calm (reconcile_environment_state r mid envName env src)"
proof -
  have reactivate: "sound (as_read r m0) request_in_range calm (reactivate_current r mid envName cur)" for cur
    by (intro sound_stays [where K = "{EkStatus, EkEvent, EkActivate}"] kept.keeps_reactivate_current calm_candidate
        stays_current; simp)
  have running: "sound (as_read r m0) request_in_range calm (promotion_running r mid env cand)" for cand
    by (intro sound_stays [where K = "{EkStatus, EkEvent, EkLookup, EkRetry}"] kept.keeps_promotion_running
        calm_candidate stays_current; simp)
  show ?thesis
    unfolding reconcile_environment_state_def
    by (intro sound_cases reactivate running sound_steady_state [OF assms(1-3)] sound_start_promotion [OF assms(1,4)])
qed

lemma sound_reconcile_model:
  assumes "libraries_return r" and "server_stores r" and "valid_BasetenModelSpec date_time (Spec m0)"
  shows "sound (as_read r m0) request_in_range calm (reconcile_model r)"
proof -
  have resolve: "sound (as_read r m0) request_in_range calm_step (resolveModelID r)"
    by (intro sound_stays [where K = "{EkStatus, EkEvent, EkLookup}"] kept.keeps_resolveModelID
        calm_resolveModelID assms(1) stays_resolveModelID; simp)
  have source: "sound (as_read r m0) request_in_range calm_step (resolveSourceDeployment r mid)" for mid
    by (intro sound_stays [where K = "{EkStatus, EkEvent, EkGet, EkLookup, EkSpawn}"] kept.keeps_resolveSourceDeployment
        calm_resolveSourceDeployment assms(1) stays_resolveSourceDeployment; simp)
  have "sound (as_read r m0) request_in_range calm (return_step r result err)"
    if "calm_step (x, result, err)" "err \<noteq> None \<or> result \<noteq> None" for x :: 'x and result err
    by (intro sound_stays [where K = "{EkStatus, EkEvent}"] kept.keeps_return_step calm_return_step [OF that]
        stays_return_step; simp)
  note returned = this
  show ?thesis
    unfolding reconcile_model_def Let_def
  proof (rule sound_bind [OF resolve], rule sound_prod, rule sound_prod, rule sound_if, goal_cases)
    case (1 x mid y result err)
    then show ?case by (auto intro!: sound_return simp: return_result_def split: option.splits)
  next
    case (2 x mid y result err)
    show ?case
    proof (rule sound_model, rule sound_bind [OF source], rule sound_prod, rule sound_prod, rule sound_if, goal_cases)
      case (1 m a src b res e)
      then show ?case using returned [of src res e] by simp
    next
      case (2 m a src b res e)
      have name: "env_name_pattern (ec_Name (spec_Environment (Spec m)))"
        using valid_environment(1) [OF assms(3)] as_read_spec [OF assms(2) 2(1)] by simp
      show ?case
      proof (rule sound_if, rule sound_return, simp, rule sound_bind [OF sound_reconcileEnvironment [OF assms name]],
          rule sound_prod, rule sound_prod, rule sound_if, goal_cases)
        case (1 c env d res' e')
        then show ?case using returned [of env res' e'] by simp
      next
        case (2 c env d res' e')
        then show ?case by (auto intro!: sound_environment_state [OF assms name])
      qed
    qed
  qed
qed

lemma sound_reconcile_object:
  assumes "libraries_return r" and "server_stores r" and "valid_BasetenModelSpec date_time (Spec m0)"
  shows "sound (as_read r m0) request_in_range calm (reconcile_object r)"
proof -
  have "stays {EkStatus, EkEvent, EkObject, EkLookup, EkDeleteModel} (reconcileLifecycle r)"
    unfolding reconcileLifecycle_def by (intro emits_intro stays_intro) auto
  then have lifecycle: "sound (as_read r m0) request_in_range (\<lambda>(handled, result, err). \<not> panics err) (reconcileLifecycle r)"
    by (rule sound_stays [OF kept.keeps_reconcileLifecycle calm_lifecycle [OF assms(1)]]) simp_all
  have observe: "sound (as_read r m0) request_in_range calm (reconcileObserve r)"
    by (intro sound_stays [where K = "{EkStatus, EkEvent, EkGet, EkLookup}"] kept.keeps_reconcileObserve
        calm_reconcileObserve assms(1) stays_reconcileObserve; simp)
  show ?thesis
    unfolding reconcile_object_def
    by (rule sound_bind [OF lifecycle], intro sound_cases sound_return sound_model observe sound_reconcile_model [OF assms])
      simp
qed

text \<open>
  C10: a valid resource is handled without a panic, and Baseten is sent settings in range only. Let the object
  that a pass reads satisfy the markers of the schema, let the API server store what is written, and let the
  libraries answer their calls (with errors, if they like, but without panics of their own). Then the pass does
  not panic: no slice is out of bounds, no nil result is dereferenced, no event lacks its first change. And
  every request with settings that it sends has, after the conversions of the client, all numbers within the
  bounds of the schema, schedules with distinct names, weekdays and the hours that their cadence needs, and an
  environment whose name has the pattern of the schema.
\<close>

theorem valid_resource_handled:
  assumes "libraries_return r" and "server_stores r" and "fst (k_Get r name ns (world s)) = Inr m"
    and "valid_BasetenModelSpec date_time (Spec m)"
  shows "\<not> panics (snd (fst (run_state (Reconcile r name ns) s))) \<and>
    list_all request_in_range (new_effects (Reconcile r name ns) s)"
proof -
  obtain w where w: "k_Get r name ns (world s) = (Inr m, w)"
    using assms(3) by (cases "k_Get r name ns (world s)") simp
  let ?s = "s\<lparr>world := w, trace := trace s @ [KGet name ns (Inr m)], obj := m\<rparr>"
  have run: "run_state (Reconcile r name ns) s = run_state (reconcile_object r) ?s"
    using w by (simp add: Reconcile_def K_Get_def ext_call_def modify_obj_def modify_def)
  have "object_kept m m" by (simp add: object_kept_def)
  then have "(\<exists>es. trace (snd (run_state (reconcile_object r) ?s)) = trace ?s @ es \<and> list_all request_in_range es) \<and>
      calm (fst (run_state (reconcile_object r) ?s))"
    using sound_reconcile_object [OF assms(1,2,4), unfolded sound_def, THEN spec, of ?s] by simp
  then show ?thesis
    by (auto simp: run new_effects_def calm_def)
qed

section \<open>A witness\<close>

text \<open>A valid resource with settings that differ and a cleanup.\<close>

definition tidy_Model :: "int32 \<Rightarrow> BasetenModel" where
  "tidy_Model keep = (let m = sample_Model ModeReconcile DeletionPolicyRetain in
     m\<lparr>Spec := (Spec m)\<lparr>spec_OrphanDeploymentCleanup := Some \<lparr>oc_ScaleToZero = None, oc_Delete = Some True,
       oc_DeleteAfterDays = Some 30, oc_MinToKeep = Some keep, oc_IntervalMinutes = Some 60\<rparr>\<rparr>\<rparr>)"

definition tidy_Reconciler :: "int32 \<Rightarrow> time BasetenModelReconciler" where
  "tidy_Reconciler keep = sample_Reconciler (tidy_Model keep)
     (sample_Client (sample_Environment (Some (sample_Deployment ''d2'' ''v2'' DeploymentStatusActive)) None)
       (''d2'', DeploymentStatusActive) [])"

definition tidy_answer :: "int32 \<Rightarrow> Result \<times> go_error option" where
  "tidy_answer keep = fst (run_state (Reconcile (tidy_Reconciler keep) ''m'' ''ns'') (sample_State zero_BasetenModel))"

text \<open>What the schema excludes: a negative minimum to keep is a slice out of bounds.\<close>

lemma negative_minimum_panics: "panics (snd (tidy_answer (- 1)))"
  by code_simp

lemma valid_resource_handled_witness: "\<not> panics (snd (tidy_answer 0))"
proof -
  have "libraries_return (tidy_Reconciler 0)"
    by (simp add: libraries_return_def client_returns_def returns_value_def returns_error_def tidy_Reconciler_def
        sample_Reconciler_def sample_Client_def sample_Environment_def)
  moreover have "server_stores (tidy_Reconciler 0)" by (simp add: tidy_Reconciler_def sample_stores)
  moreover have "fst (k_Get (tidy_Reconciler 0) ''m'' ''ns'' (world (sample_State zero_BasetenModel))) = Inr (tidy_Model 0)"
    by (simp add: tidy_Reconciler_def sample_Reconciler_def)
  moreover have "valid_BasetenModelSpec (\<lambda>_. True) (Spec (tidy_Model 0))" by code_simp
  ultimately show ?thesis
    using valid_resource_handled [of "tidy_Reconciler 0" "''m''" "''ns''" "sample_State zero_BasetenModel" "tidy_Model 0"]
    by (simp add: tidy_answer_def)
qed

end
