(* ===== verification/Client_Props.thy ===== *)
theory Client_Props
  imports Rollout Operator_Main Panic_Props
begin

text \<open>
  The client of the repository behind the reconciler. The theorems about passes rest on contracts of the
  interface \<open>ClientInterface\<close>; here the methods of \<open>Client\<close> over the SDK are shown to meet them when the calls
  of the SDK behave, so that the theorems hold for the operator that \<open>main\<close> builds.
\<close>

section \<open>Conversions\<close>

lemma api_value_simps [simp]:
  "fst (api_value f x) = Inr b \<longleftrightarrow> (\<exists>a. fst x = Inr a \<and> b = f a)" "snd (api_value f x) = snd x"
  "fst (api_value f x) = Inl e \<longleftrightarrow> (\<exists>e'. fst x = Inl e' \<and> e = the (toAPIError (Some e')))"
  by (auto simp: api_value_def split: prod.splits sum.splits)

lemma api_error_simps [simp]: "fst (api_error x) = toAPIError (fst x)" "snd (api_error x) = snd x"
  by (simp_all add: api_error_def split: prod.splits)

lemma toDeployment_name: "map_option dep_Name (toDeployment d) = map_option xd_Name d"
  by (cases d) (simp_all add: toDeployment_def)

text \<open>The body of the request with which \<open>Promote\<close> calls the SDK.\<close>

definition promote_request :: "string \<Rightarrow> PromotionSettingsConfig option \<Rightarrow> sdk_PromoteRequest" where
  "promote_request d p = \<lparr>pr_DeploymentId = d,
     pr_ScaleDownPreviousDeployment = Some (case p of None \<Rightarrow> True | Some p \<Rightarrow> deref True (pc_ScaleDownPreviousDeployment p)),
     pr_PreserveEnvInstanceType = Some (case p of None \<Rightarrow> True | Some p \<Rightarrow> deref True (pc_PreserveInstanceType p))\<rparr>"

lemma Client_Promote:
  "ci_Promote (Client x) mid d e p w =
     api_value toDeployment (x_PostModelsEnvironmentsPromote x mid e (promote_request d p) w)"
  "pr_DeploymentId (promote_request d p) = d"
  by (simp_all add: Client_def Promote_def promote_request_def Let_def)

section \<open>The client answers without a panic\<close>

definition sdk_returns :: "'w sdk \<Rightarrow> bool" where
  "sdk_returns x \<longleftrightarrow> returns_value (x_GetModels x) \<and> (\<forall>t. returns_value (x_GetTeams x t)) \<and>
     (\<forall>t n. returns_value (x_GetTeamsModels x t n)) \<and> (\<forall>m. returns_value (x_GetModelsDeployments x m)) \<and>
     (\<forall>m e. returns_value (x_GetModelsEnvironmentsEnvName x m e)) \<and>
     (\<forall>m c. returns_error (x_PostModelsEnvironments x m c)) \<and>
     (\<forall>m e u. returns_error (x_PatchModelsEnvironments x m e u)) \<and>
     (\<forall>m e q. returns_value (x_PostModelsEnvironmentsPromote x m e q) \<and>
        (\<forall>w. fst (x_PostModelsEnvironmentsPromote x m e q w) \<noteq> Inr None)) \<and>
     (\<forall>u. \<not> panics (x_FromUpsert x u))"

lemma toAPIError_calm [simp]:
  "is_panic (the (toAPIError (Some e))) \<longleftrightarrow> is_panic e" "panics (toAPIError err) \<longleftrightarrow> panics err"
  by (cases e; auto simp: toAPIError_def panics_def split: option.splits elim: is_panic.elims)+

lemma value_returns: "returns_value g \<Longrightarrow> returns_value (\<lambda>w. api_value h (g w))"
  by (auto simp: returns_value_def)

lemma error_returns: "returns_error g \<Longrightarrow> returns_error (\<lambda>w. api_error (g w))"
  by (auto simp: returns_error_def)

lemma FindModelIDByName_returns: "sdk_returns x \<Longrightarrow> returns_value (FindModelIDByName x n t)"
  by (auto simp: returns_value_def sdk_returns_def FindModelIDByName_def findTeamID_def Let_def
      split: prod.splits sum.splits option.splits) (metis fst_conv)+

lemma schedules_return:
  "toUpdateAutoscalingScheduleSettings from clk sp ob = Inl e \<Longrightarrow> \<not> is_panic e"
proof -
  have "toScheduleUpserts from ss = Inl e \<Longrightarrow> \<not> is_panic e" for ss
    by (induction ss) (auto simp: sbind_def split: sum.splits)
  then show "toUpdateAutoscalingScheduleSettings from clk sp ob = Inl e \<Longrightarrow> \<not> is_panic e"
    by (auto simp: toUpdateAutoscalingScheduleSettings_def Let_def sbind_def split: if_splits sum.splits)
qed

lemma UpdateAutoscalingSchedules_returns: "sdk_returns x \<Longrightarrow> returns_error (UpdateAutoscalingSchedules x m e sp ob)"
  by (auto simp: returns_error_def sdk_returns_def UpdateAutoscalingSchedules_def schedules_return
      split: prod.splits sum.splits option.splits)

lemma decode_error_calm: "\<not> panics (env_ScheduleDecodeErr (toEnvironment e))"
proof -
  have "toAutoscalingScheduleList items = Inl err \<Longrightarrow> \<not> is_panic err" for items err
    by (induction items) (auto simp: sbind_def split: sum.splits)
  then show ?thesis
    by (auto simp: toEnvironment_def toAutoscalingSchedules_def Let_def sbind_def split: option.splits sum.splits)
qed

lemma Client_returns:
  assumes "sdk_returns x"
  shows "client_returns (Client x)"
proof -
  note sdk = assms [unfolded sdk_returns_def]
  have "returns_value (GetEnvironment x m e)" "returns_error (CreateEnvironment x m c)"
    "returns_error (UpdateEnvironmentSettings x m e ac pc)" "returns_value (FindDeploymentIDByName x m n)"
    "returns_value (Promote x m d e p)" for m e c ac pc n d p
    using sdk unfolding GetEnvironment_def CreateEnvironment_def UpdateEnvironmentSettings_def
      FindDeploymentIDByName_def Promote_def Let_def
    by (blast intro: value_returns error_returns)+
  moreover have "fst (Promote x m d e p w) \<noteq> Inr None" for m d e p w
    using sdk by (auto simp: Promote_def Let_def toDeployment_def split: option.splits)
  moreover have "\<not> panics (env_ScheduleDecodeErr env)" if "fst (GetEnvironment x m e w) = Inr env" for m e w env
    using that by (auto simp: GetEnvironment_def decode_error_calm)
  ultimately show ?thesis
    using FindModelIDByName_returns [OF assms] UpdateAutoscalingSchedules_returns [OF assms]
    by (simp add: client_returns_def Client_def)
qed

section \<open>The service behind the SDK\<close>

text \<open>The environment as the SDK answers it.\<close>

definition sdk_view :: "sdk_Environment \<Rightarrow> view" where
  "sdk_view e = (map_option xd_Name (xe_CurrentDeployment e), map_option xd_Name (xe_CandidateDeployment e))"

text \<open>
  What the service does to the environment \<open>envName\<close> of the model \<open>mid\<close>, seen through \<open>V\<close>: a promotion that is
  answered with a deployment makes it the candidate, a deployment of the name of the source when it is the one
  that the list has under that name; no other call moves the environment, and reads tell the truth.
\<close>

definition sdk_service :: "'w sdk \<Rightarrow> ('w \<Rightarrow> view) \<Rightarrow> string \<Rightarrow> string \<Rightarrow> string \<Rightarrow> bool" where
  "sdk_service x V mid envName src \<longleftrightarrow>
     (\<forall>q w. case x_PostModelsEnvironmentsPromote x mid envName q w of
        (Inr (Some d), w') \<Rightarrow> V w' = (fst (V w), Some (xd_Name d)) \<and>
          (\<forall>w0 ds. fst (x_GetModelsDeployments x mid w0) = Inr ds \<longrightarrow> fst (find_deployment ds src) = pr_DeploymentId q \<longrightarrow>
             pr_DeploymentId q \<noteq> '''' \<longrightarrow> DeploymentNameMatchesPrefix (xd_Name d) src)
      | (_, w') \<Rightarrow> V w' = V w) \<and>
     (\<forall>w e w'. x_GetModelsEnvironmentsEnvName x mid envName w = (Inr e, w') \<longrightarrow> V w = sdk_view e) \<and>
     (\<forall>m e. preserves V (x_GetModelsEnvironmentsEnvName x m e)) \<and> (\<forall>m. preserves V (x_GetModelsEnvironments x m)) \<and>
     (\<forall>m c. preserves V (x_PostModelsEnvironments x m c)) \<and> (\<forall>m e u. preserves V (x_PatchModelsEnvironments x m e u)) \<and>
     (\<forall>m. preserves V (x_GetModelsDeployments x m)) \<and> (\<forall>m d. preserves V (x_PostModelsDeploymentsActivate x m d)) \<and>
     (\<forall>m d u. preserves V (x_PatchModelsDeploymentsAutoscalingSettings x m d u)) \<and>
     (\<forall>m d. preserves V (x_DeleteModelsDeployments x m d)) \<and> (\<forall>m d. preserves V (x_PostModelsDeploymentsRetry x m d)) \<and>
     preserves V (x_Now x)"

text \<open>Kubernetes, the clock and the random source do not move it, and the object read is the managed one.\<close>

definition kubernetes_apart ::
  "'w BasetenModelReconciler \<Rightarrow> ('w \<Rightarrow> view) \<Rightarrow> string \<Rightarrow> string \<Rightarrow> string \<Rightarrow> string \<Rightarrow> string \<Rightarrow> bool" where
  "kubernetes_apart r V name ns mid envName src \<longleftrightarrow>
     preserves V (Now r) \<and> preserves V (RandFloat64 r) \<and> (\<forall>n ns. preserves V (k_Get r n ns)) \<and>
     (\<forall>ob. preserves V (k_Update r ob)) \<and> (\<forall>ob. preserves V (k_StatusUpdate r ob)) \<and>
     (\<forall>w m w'. k_Get r name ns w = (Inr m, w') \<longrightarrow> managed mid envName src m)"

text \<open>The calls succeed, and the list of deployments has the source, able to serve.\<close>

definition sdk_succeeds ::
  "'w sdk \<Rightarrow> 'w BasetenModelReconciler \<Rightarrow> string \<Rightarrow> string \<Rightarrow> string \<Rightarrow> string \<Rightarrow> string \<Rightarrow> bool" where
  "sdk_succeeds x r name ns mid envName src \<longleftrightarrow>
     (\<forall>w. \<exists>m w'. k_Get r name ns w = (Inr m, w') \<and> \<not> snd (u_AddFinalizer r (bm_Finalizers m) FinalizerName) \<and>
        (\<forall>w. \<exists>e w'. x_GetModelsEnvironmentsEnvName x mid envName w = (Inr e, w') \<and> no_drift m (toEnvironment e))) \<and>
     (\<forall>w. \<exists>ds w'. x_GetModelsDeployments x mid w = (Inr ds, w') \<and> fst (find_deployment ds src) \<noteq> '''' \<and>
        healthy (snd (find_deployment ds src))) \<and>
     (\<forall>q w. \<exists>d w'. x_PostModelsEnvironmentsPromote x mid envName q w = (Inr (Some d), w'))"

section \<open>The client keeps the contract of the rollout\<close>

lemma env_view_toEnvironment: "env_view (toEnvironment e) = sdk_view e"
  by (simp add: env_view_def sdk_view_def toEnvironment_def toDeployment_name Let_def)

lemma preserves_value: "preserves V g \<Longrightarrow> preserves V (\<lambda>w. api_value h (g w))"
  and preserves_error: "preserves V g' \<Longrightarrow> preserves V (\<lambda>w. api_error (g' w))"
  by (simp_all add: preserves_def)

lemma preserves_schedules:
  assumes "preserves V (x_Now x)" and "\<And>m e u. preserves V (x_PatchModelsEnvironments x m e u)"
  shows "preserves V (UpdateAutoscalingSchedules x m e sp ob)"
proof -
  have "V (snd (read_clock (x_Now x) n w)) = V w" for n w
    using preserves_read_clock [OF assms(1)] by (simp add: preserves_def)
  then show ?thesis
    using assms(2) unfolding preserves_def UpdateAutoscalingSchedules_def
    by (auto split: prod.splits sum.splits option.splits) (metis snd_conv)+
qed

lemma Client_preserves:
  assumes "sdk_service x V mid envName src" and "kubernetes_apart r V name ns mid envName src"
    and "BasetenClient r = Client x"
  shows "others_preserve r V"
proof -
  note sdk = assms(1) [unfolded sdk_service_def] and k8s = assms(2) [unfolded kubernetes_apart_def]
  have "preserves V (GetEnvironment x m e)" "preserves V (ListEnvironments x m)" "preserves V (CreateEnvironment x m c)"
    "preserves V (UpdateEnvironmentSettings x m e a p)" "preserves V (UpdateAutoscalingSchedules x m e sp ob)"
    "preserves V (FindDeploymentIDByName x m n)" "preserves V (ActivateDeployment x m d)" "preserves V (ListDeployments x m)"
    "preserves V (UpdateDeploymentAutoscaling x m d k)" "preserves V (DeleteDeployment x m d)"
    "preserves V (RetryDeployment x m d)" for m e c a p sp ob n d k
    using sdk unfolding GetEnvironment_def ListEnvironments_def CreateEnvironment_def UpdateEnvironmentSettings_def
      FindDeploymentIDByName_def ActivateDeployment_def ListDeployments_def UpdateDeploymentAutoscaling_def
      DeleteDeployment_def RetryDeployment_def
    by (intro preserves_value preserves_error preserves_schedules; simp)+
  with k8s show ?thesis by (simp add: others_preserve_def assms(3) Client_def)
qed

lemma Client_promotion_moves:
  assumes "sdk_service x V mid envName src" and "BasetenClient r = Client x"
  shows "promotion_moves r V mid envName src"
  unfolding promotion_moves_def
proof (intro allI)
  fix d p w
  let ?q = "promote_request d p"
  obtain res w' where res: "x_PostModelsEnvironmentsPromote x mid envName ?q w = (res, w')"
    by (cases "x_PostModelsEnvironmentsPromote x mid envName ?q w")
  have promote: "ci_Promote (BasetenClient r) mid d envName p w = api_value toDeployment (res, w')"
    by (simp add: assms(2) Client_Promote res)
  have find: "fst (ci_FindDeploymentIDByName (BasetenClient r) mid src w0) = Inr (i, st) \<longleftrightarrow>
      (\<exists>ds. fst (x_GetModelsDeployments x mid w0) = Inr ds \<and> find_deployment ds src = (i, st))" for w0 i st
    by (auto simp: assms(2) Client_def FindDeploymentIDByName_def)
  have "case x_PostModelsEnvironmentsPromote x mid envName ?q w of
      (Inr (Some dep), w') \<Rightarrow> V w' = (fst (V w), Some (xd_Name dep)) \<and>
        (\<forall>w0 ds. fst (x_GetModelsDeployments x mid w0) = Inr ds \<longrightarrow> fst (find_deployment ds src) = pr_DeploymentId ?q \<longrightarrow>
           pr_DeploymentId ?q \<noteq> '''' \<longrightarrow> DeploymentNameMatchesPrefix (xd_Name dep) src)
    | (_, w') \<Rightarrow> V w' = V w"
    by (rule conjunct1 [OF assms(1) [unfolded sdk_service_def], THEN spec [of _ ?q], THEN spec [of _ w]])
  then show "case ci_Promote (BasetenClient r) mid d envName p w of
      (Inr (Some dep), w') \<Rightarrow> V w' = (fst (V w), Some (dep_Name dep)) \<and>
        (\<forall>w0 st. fst (ci_FindDeploymentIDByName (BasetenClient r) mid src w0) = Inr (d, st) \<longrightarrow> d \<noteq> '''' \<longrightarrow>
           DeploymentNameMatchesPrefix (dep_Name dep) src)
    | (_, w') \<Rightarrow> V w' = V w"
    unfolding promote find res
    by (auto simp: api_value_def toDeployment_def Client_Promote(2) split: sum.splits option.splits)
qed

lemma Client_rollout_service:
  assumes "sdk_service x V mid envName src" and "kubernetes_apart r V name ns mid envName src"
    and "BasetenClient r = Client x"
    and "\<And>w. V (finish w) = (case V w of (cur, None) \<Rightarrow> (cur, None) | (cur, Some c) \<Rightarrow> (Some c, None))"
  shows "rollout_service r V finish name ns mid envName src"
proof -
  have "reads_truthful r V mid envName"
    using assms(1) by (auto simp: reads_truthful_def sdk_service_def assms(3) Client_def GetEnvironment_def api_value_def
        env_view_toEnvironment split: prod.splits sum.splits)
  with Client_preserves [OF assms(1-3)] Client_promotion_moves [OF assms(1,3)] assms(2,4) show ?thesis
    by (simp add: rollout_service_def kubernetes_apart_def)
qed

lemma Client_all_succeed:
  assumes "sdk_succeeds x r name ns mid envName src" and "BasetenClient r = Client x"
  shows "all_succeed r name ns mid envName src"
proof -
  have "\<exists>env w'. ci_GetEnvironment (BasetenClient r) mid envName w = (Inr env, w') \<and> no_drift m env"
    if "\<exists>e w'. x_GetModelsEnvironmentsEnvName x mid envName w = (Inr e, w') \<and> no_drift m (toEnvironment e)" for m w
    using that by (auto simp: assms(2) Client_def GetEnvironment_def api_value_def)
  moreover have "\<exists>d st w'. ci_FindDeploymentIDByName (BasetenClient r) mid src w = (Inr (d, st), w') \<and> d \<noteq> '''' \<and> healthy st"
    if "\<exists>ds w'. x_GetModelsDeployments x mid w = (Inr ds, w') \<and> fst (find_deployment ds src) \<noteq> '''' \<and>
        healthy (snd (find_deployment ds src))" for w
    using that by (auto simp: assms(2) Client_def FindDeploymentIDByName_def api_value_def) (metis prod.collapse)
  moreover have "\<exists>dep w'. ci_Promote (BasetenClient r) mid d envName p w = (Inr (Some dep), w')"
    if "\<And>q. \<exists>d w'. x_PostModelsEnvironmentsPromote x mid envName q w = (Inr (Some d), w')" for d p w
  proof -
    from that [of "promote_request d p"]
    obtain y w' where "x_PostModelsEnvironmentsPromote x mid envName (promote_request d p) w = (Inr (Some y), w')"
      by blast
    then show ?thesis by (simp add: assms(2) Client_Promote api_value_def toDeployment_def)
  qed
  ultimately show ?thesis
    using assms(1) unfolding sdk_succeeds_def all_succeed_def by meson
qed

section \<open>The deployed operator rolls out\<close>

lemma operator_client: "BasetenClient (operator_reconciler p Getenv cfg mgr) = Client (p_Sdk p cfg)"
  by (simp add: operator_reconciler_def)

text \<open>
  C6: the operator that \<open>main\<close> starts, with the client of this repository over the SDK, rolls out a source. The
  hypotheses are about what is outside of the repository only: the service behind the SDK moves the environment
  only by promotions, reads tell the truth, Kubernetes answers the managed object. Whatever calls fail, the
  source is promoted exactly once if the passes and completions take the environment to where it is being or
  has been promoted, and not at all otherwise; if the calls of the SDK succeed, a completion, a pass and a
  completion in this order end with the source as the current deployment.
\<close>

theorem operator_rollout:
  assumes "operator_main p fl Getenv w0 = ((code, Some r), w1)" and "NewClient Getenv = Inr cfg"
    and "sdk_service (p_Sdk p cfg) V mid envName src" and "kubernetes_apart r V name ns mid envName src"
    and "\<forall>w. V (finish w) = (case V w of (cur, None) \<Rightarrow> (cur, None) | (cur, Some c) \<Rightarrow> (Some c, None))"
    and "undisturbed src (V w)" and "rollout r finish name ns evs w = (w', es)"
  shows "phase src (V w') \<le> phase src (V w) \<and>
    promotions es = (if 2 \<le> phase src (V w) \<and> phase src (V w') < 2 then 1 else 0) \<and>
    (sdk_succeeds (p_Sdk p cfg) r name ns mid envName src \<and> subseq [Finish, Pass, Finish] evs \<longrightarrow>
      name_matches (fst (V w')) src)"
proof -
  have client: "BasetenClient r = Client (p_Sdk p cfg)"
    using operator_main_started [OF assms(1)] assms(2) by (metis operator_client sum.inject(2))
  note service = Client_rollout_service [OF assms(3,4) client assms(5) [rule_format]]
  from rollout_outcome [OF service assms(6,7)] Client_all_succeed [OF _ client] show ?thesis by blast
qed

section \<open>A witness\<close>

text \<open>A service whose world is the view itself, behind the SDK.\<close>

definition view_deployment :: "string \<Rightarrow> sdk_Deployment" where
  "view_deployment n = \<lparr>xd_Id = n, xd_Name = n, xd_Status = DeploymentStatusActive, xd_ActiveReplicaCount = 1,
     xd_CreatedAt = (0, 0), xd_IsProduction = False, xd_IsDevelopment = False, xd_Environment = None,
     xd_AutoscalingSettings = None\<rparr>"

definition view_sdk_environment :: "view \<Rightarrow> sdk_Environment" where
  "view_sdk_environment v = \<lparr>xe_Name = ''production'', xe_CurrentDeployment = map_option view_deployment (fst v),
     xe_CandidateDeployment = map_option view_deployment (snd v),
     xe_AutoscalingSettings = \<lparr>xa_MinReplica = 0, xa_MaxReplica = 1, xa_ConcurrencyTarget = 1,
       xa_AutoscalingWindow = None, xa_ScaleDownDelay = None, xa_TargetUtilizationPercentage = None, xa_MaxScaleDownRate = None\<rparr>,
     xe_PromotionSettings = \<lparr>xp_RedeployOnPromotion = None, xp_RollingDeploy = None, xp_PromotionCleanupStrategy = None,
       xp_RampUpWhilePromoting = None, xp_RampUpDurationSeconds = None, xp_RollingDeployConfig = None\<rparr>,
     xe_AutoscalingSchedules = None\<rparr>"

definition view_sdk :: "view sdk" where
  "view_sdk = \<lparr>x_GetModels = (\<lambda>w. (Inr [], w)), x_GetTeams = (\<lambda>t w. (Inr [], w)), x_GetTeamsModels = (\<lambda>t n w. (Inr [], w)),
     x_DeleteModels = (\<lambda>m w. (None, w)), x_GetModelsDeployments = (\<lambda>m w. (Inr [view_deployment ''v2''], w)),
     x_PostModelsDeploymentsActivate = (\<lambda>m d w. (None, w)),
     x_GetModelsEnvironmentsEnvName = (\<lambda>m e w. (Inr (view_sdk_environment w), w)),
     x_GetModelsEnvironments = (\<lambda>m w. (Inr [view_sdk_environment w], w)), x_PostModelsEnvironments = (\<lambda>m c w. (None, w)),
     x_PatchModelsEnvironments = (\<lambda>m e u w. (None, w)),
     x_PostModelsEnvironmentsPromote = (\<lambda>m e q w. (Inr (Some (view_deployment (pr_DeploymentId q))), (fst w, Some (pr_DeploymentId q)))),
     x_PatchModelsDeploymentsAutoscalingSettings = (\<lambda>m d u w. (None, w)), x_DeleteModelsDeployments = (\<lambda>m d w. (None, w)),
     x_PostModelsDeploymentsRetry = (\<lambda>m d w. (Inl (ErrorString ''no''), w)), x_FromUpsert = (\<lambda>u. None), x_Now = (\<lambda>w. (0, w))\<rparr>"

definition view_platform :: "view platform" where
  "view_platform = \<lparr>p_NewManager = (\<lambda>opts w. (Inr view_Reconciler, w)), p_Sdk = (\<lambda>cfg. view_sdk),
     p_Truss = \<lparr>t_MkdirTemp = (\<lambda>w. (Inr ''tmp'', w)), t_MkdirAll = (\<lambda>d w. (None, w)), t_WriteFile = (\<lambda>f x w. (None, w)),
       t_RemoveAll = (\<lambda>d w. w), t_Push = (\<lambda>k d m n t w. (Inl (ErrorString ''no''), w))\<rparr>,
     p_Complete = (\<lambda>n r w. (None, w)), p_AddHealthzCheck = (\<lambda>w. (None, w)), p_AddReadyzCheck = (\<lambda>w. (None, w)),
     p_Start = (\<lambda>r w. (None, w))\<rparr>"

lemma view_sdk_service: "sdk_service view_sdk id mid envName ''v2''"
proof -
  have "DeploymentNameMatchesPrefix ''v2'' ''v2''" by code_simp
  then show ?thesis
    by (simp add: sdk_service_def view_sdk_def preserves_def view_sdk_environment_def sdk_view_def view_deployment_def
        option.map_comp comp_def option.map_ident) metis
qed

lemma operator_rollout_witness:
  "\<exists>r. operator_main view_platform default_flags start_env (None, None) = ((0, Some r), (None, None)) \<and>
     name_matches (fst (fst (rollout r complete ''m'' ''ns'' [Pass, Finish, Pass, Finish, Pass] (Some ''v1'', Some ''v0'')))) ''v2'' \<and>
     promotions (snd (rollout r complete ''m'' ''ns'' [Pass, Finish, Pass, Finish, Pass] (Some ''v1'', Some ''v0''))) = 1"
proof -
  let ?cfg = "\<lparr>cc_BaseURL = defaultBaseURL, cc_Timeout = defaultTimeout, cc_MaxIdleConns = 100,
      cc_MaxIdleConnsPerHost = 20, cc_IdleConnTimeout = 90 * Second, cc_Headers = [(''Authorization'', [''Api-Key k3y''])]\<rparr>"
  let ?r = "operator_reconciler view_platform start_env ?cfg view_Reconciler"
  let ?run = "rollout ?r complete ''m'' ''ns'' [Pass, Finish, Pass, Finish, Pass] (Some ''v1'', Some ''v0'')"
  have key: "NewClient start_env = Inr ?cfg"
    by (simp add: NewClient_def start_env_def apiKeyEnvVar_def Let_def)
  have main: "operator_main view_platform default_flags start_env (None, None) = ((0, Some ?r), (None, None))"
    by (simp add: operator_main_def key view_platform_def SetupWithManager_def Let_def)
  have k8s: "kubernetes_apart ?r id ''m'' ''ns'' ''mid'' ''production'' ''v2''"
    by (simp add: kubernetes_apart_def operator_reconciler_def view_Reconciler_def preserves_def managed_def
        sample_Model_def zero_defs deletion_requested_def effectiveMode_def)
  have sdk: "sdk_service (p_Sdk view_platform ?cfg) id ''mid'' ''production'' ''v2''"
    by (simp add: view_platform_def view_sdk_service)
  have finish: "\<forall>w. id (complete w) = (case id w of (cur, None) \<Rightarrow> (cur, None) | (cur, Some c) \<Rightarrow> (Some c, None))"
    by (simp add: complete_def)
  have start: "undisturbed ''v2'' (id (Some ''v1'', Some ''v0''))" by code_simp
  have ok: "sdk_succeeds (p_Sdk view_platform ?cfg) ?r ''m'' ''ns'' ''mid'' ''production'' ''v2''"
    by (simp add: sdk_succeeds_def view_platform_def view_sdk_def operator_reconciler_def view_Reconciler_def
        sample_Model_def zero_defs view_deployment_def healthy_def no_drift_def baselineAutoscalingDrift_def
        HasAutoscalingDrift_def HasPromotionSettingsDrift_def HasScheduleDrift_def diffSchedules_def
        view_sdk_environment_def toEnvironment_def toAutoscalingSchedules_def Let_def)
  note facts = conjunct2 [OF operator_rollout [OF main key sdk k8s finish start prod.collapse [symmetric],
    of "[Pass, Finish, Pass, Finish, Pass]"]]
  have source: "name_matches (fst (fst ?run)) ''v2''" using conjunct2 [OF facts] ok by simp
  have "phase ''v2'' (Some ''v1'', Some ''v0'') = 3" by code_simp
  moreover have "phase ''v2'' (fst ?run) = 0" using source by (cases "fst ?run") simp
  ultimately show ?thesis using source conjunct1 [OF facts] main by (intro exI [of _ ?r]) simp
qed

end
