(* ===== verification/Spec2Isabelle.thy ===== *)
theory Spec2Isabelle
  imports Safety_Promotion Safety_Orphans Object_Props Condition_Props Rollout Settings_Props Schedule_Props
    Client_Props
begin

text \<open>
  The baseten-operator is a Kubernetes controller that keeps models on the Baseten service in the state
  that \<open>BasetenModel\<close> resources declare: it creates an environment and corrects its settings and
  schedules, pushes a new deployment when the truss configuration changes, promotes the source deployment
  into the environment, retries failed deployments, cleans up orphan deployments, and deletes the model
  with the resource when the deletion policy says so.

  How the parts interact. The work queue calls \<open>Reconcile\<close> for a resource
  (\<open>internal/controller/basetenmodel_controller.go\<close>). A pass reads the object, runs the lifecycle prelude
  (deletion, pause, finalizer), then either observes (mode Observe) or resolves the model's id, resolves the
  source deployment (which may start a push in the background), reconciles the environment, and compares
  the environment's deployments with the source: steady state and cleanup, a running promotion, or a new
  promotion after two guards. Each step may write the status and end the pass. The background push
  (\<open>asyncPush\<close>) holds a slot of a semaphore, calls the truss service and writes its outcome into the status,
  retrying on conflicts. The controller reaches Baseten through \<open>internal/baseten\<close> and the truss
  service through \<open>internal/truss\<close>.

  The style of the model. A handler is a state transformer (\<open>HOL-Library.State_Monad\<close>) over \<open>rstate\<close>: an opaque
  \<open>world\<close>, the object in memory \<open>obj\<close>, the slots in use \<open>semUsed\<close>, and a \<open>trace\<close> of effects, which records each
  call of Baseten and Kubernetes with its answer, each event and each push that is started. All that is
  outside the repository is a field of the record \<open>BasetenModelReconciler\<close> (or \<open>sdk\<close>, \<open>truss_sys\<close>): a function of its
  arguments and the world. A property that needs more of it than that has it as a named hypothesis
  (\<open>retries_on_conflict\<close>, \<open>server_stores\<close>, \<open>statuses_valid\<close>, \<open>rollout_service\<close>, \<open>sdk_service\<close>, \<open>libraries_return\<close>, \<open>file_laws\<close>) with a
  concrete instance in its witness. Words of 32 and 64 bits are kept where the code has \<open>int32\<close> and \<open>int64\<close>;
  durations are integers whose saturation (\<open>time_Sub\<close>) and ranges are written out. A panic of the code is the error
  \<open>PanicError\<close>, which ends the pass.

  The theories and the code.

  \<^item> \<open>Op_Prelude\<close>: text of Go (\<open>fmt\<close>, \<open>strings\<close>), the \<open>wp\<close> rules of the state monad, shared lemmas.
  \<^item> \<open>Go_Error\<close>, \<open>Go_Time\<close>: error chains, \<open>IsNotFoundError\<close>, \<open>toAPIError\<close>; calendar, RFC 3339 text.
  \<^item> \<open>Crd_Types\<close>, \<open>Crd_Schema\<close>: \<open>api/v1alpha1/basetenmodel_types.go\<close>, its structs and the checks of its validation
    markers; \<open>Baseten_Types\<close>: the structs of \<open>internal/baseten\<close>.
  \<^item> \<open>Baseten_Drift\<close>, \<open>Schedules\<close>, \<open>Baseten_Client\<close>: \<open>internal/baseten/client.go\<close> and \<open>schedules.go\<close>: drift of
    settings, diff and decoding of schedules, the methods of \<open>Client\<close>.
  \<^item> \<open>Sha256\<close>, \<open>Truss_Config\<close>: \<open>internal/truss/config.go\<close> and \<open>pusher.go\<close>: \<open>config.yaml\<close>, the hash of a
    configuration, deployment names, the push through a temporary directory.
  \<^item> \<open>Recon_Base\<close>: state, effects and primitive actions of the reconciler. \<open>Recon_Status\<close>: conditions and
    \<open>updateStatus\<close>. \<open>Recon_Retry\<close>: back-off and retries. \<open>Recon_Orphans\<close>: cleanup. \<open>Recon_Lifecycle\<close>: modes,
    finalizer, deletion. \<open>Recon_Truss\<close>: source deployment and pushes. \<open>Recon_Environment\<close>: environment and
    drift. \<open>Recon_Observe\<close>: the read-only pass. \<open>Recon_Promote\<close>: promotion. \<open>Recon_Main\<close>: \<open>Reconcile\<close>.
  \<^item> \<open>Operator_Main\<close>: \<open>cmd/main.go\<close> from the parsed flags on, \<open>NewClient\<close>, \<open>NewPusher\<close>, \<open>SetupWithManager\<close>.

  The logics. \<open>emits\<close> and \<open>stays\<close> bound the kinds of effects of a handler (\<open>Recon_Base\<close>, \<open>Recon_Effects\<close>),
  \<open>answers\<close> speaks of its results, \<open>sound\<close> of both with a property of the object (\<open>Panic_Props\<close>), \<open>hwp\<close> of each effect with the effects before it (\<open>Recon_Logic\<close>), \<open>keeps\<close> of the
  object in memory (\<open>Object_Logic\<close>), \<open>slots\<close> of the semaphore (\<open>Push_System\<close>), \<open>moves\<close> and \<open>unmoved\<close> of what is
  seen of Baseten (\<open>Rollout\<close>). Each has an introduction rule per construct, so that a handler's lemma is one
  \<open>intro\<close> over its body. The locale \<open>effect_class\<close> is the contract under which the status helpers are proved,
  \<open>object_invariant\<close> the contract under which every handler keeps an invariant of the object, \<open>drift_check\<close> the
  contract of a comparison and its update; all are interpreted on the model's definitions.

  What the properties show.

  \<^item> \<open>Safety_Lifecycle\<close>, \<open>Safety_Promotion\<close>, \<open>Safety_Orphans\<close>, \<open>Safety_Push\<close>: in every pass, whatever the
    answers, each deletion, promotion, scale-in and push comes after the answers that justify it.
  \<^item> \<open>Retry_Props\<close>: bounds and deadline of retries, and that a pass schedules the next one.
  \<^item> \<open>Status_Props\<close>, \<open>Object_Props\<close>, \<open>Condition_Props\<close>: what a status write contains, when it is left out, what
    a pass may change in the object, and that its conditions satisfy the schema of the resource (but for the
    length of a message, which the code does not limit).
  \<^item> \<open>Steady_Props\<close>: over a resource that has what it asks for, one pass settles the status and the next only
    reads. \<open>Rollout\<close>: passes and completed promotions in any order; a variant of three phases shows that a
    rollout ends and promotes once.
  \<^item> \<open>Settings_Props\<close>, \<open>Schedule_Props\<close> (with \<open>Time_Props\<close>): drift is reported exactly for a difference, and an
    update that took effect leaves none.
  \<^item> \<open>Request_Props\<close>, \<open>Panic_Props\<close>: a resource that the schema accepts is handled without a panic, and the settings
    sent to Baseten are in range after the conversions of the client.
  \<^item> \<open>Truss_Props\<close>: image references, hashes and names, and the files that a push sends.
  \<^item> \<open>Push_System\<close>: the operator as a step relation of passes, pushes, outside changes and restarts; the
    bound on pushes by rule induction; the outcome of a push; and two ways in which a push and a pass
    can disagree. \<open>Operator_Main\<close>: what holds of the operator as \<open>main\<close> builds it.
  \<^item> \<open>Client_Props\<close>: the methods of \<open>Client\<close> meet the contracts under which the passes are proved when the SDK
    behaves, so that the theorem on rollouts holds of the operator from \<open>main\<close> down to the SDK.

  Bounds and fuel. \<open>backoff_loop\<close> ends by the measure \<open>n - i\<close>; \<open>excess\<close> by its argument. The number of retries of
  \<open>attempts\<close> is not fixed: the contract of \<open>retry.RetryOnConflict\<close> gives some number for each state, and the
  properties hold for all. SHA-256 has the rounds of the standard; the padded length is a multiple of 64 bytes,
  so \<open>length m div 64\<close> blocks are all of it. A rollout is structural in its list of events; its variant \<open>phase\<close> is
  at most 3, and three events in the order that \<open>needed\<close> gives are enough.

  Granularity. A pass and a push each run as one step of \<open>sys_step\<close>. What others do to the cluster between
  two calls of a handler is an answer of the world; handlers that interleave call by call in the use of the
  semaphore are not modelled.

  Not modelled: the parsing of the command line and the logger (\<open>cmd/main.go\<close>), generated deep copies and the
  registration of the API group, the test doubles, log lines, the text of YAML, and the markers of
  the resource that do not validate the spec (printer columns, names). Whether the server's format
  \<open>date-time\<close> accepts a text is a parameter of the schema.
\<close>

end
